(* ===== verification/Prelude.thy ===== *)
theory Prelude
  imports Main "HOL-Library.AList" "HOL-Library.Word" "HOL-Library.Char_ord"
    "HOL-Library.List_Lexorder"
begin

text \<open>
  What every component shares: bytes, Go's \<open>time.Time\<close> and \<open>time.Duration\<close>, Go maps, and the
  two generic interfaces of the development, a finite map and a machine with an invariant.

  A Go map is an association list with distinct keys. Its order stands for the order in which
  the next \<open>range\<close> over it runs, which Go leaves open: the theorems hold for every
  list, so for every iteration order.
\<close>

unbundle bit_operations_syntax

type_synonym byte = "8 word"
type_synonym bytes = "8 word list"

named_theorems gomap "equations and preservation rules of the Go-map operations"
named_theorems compute "equations that evaluate concrete text and bytes by simp"
named_theorems clock "comparisons of instants and durations"

section \<open>Time\<close>

text \<open>
  An instant is the number of nanoseconds since Go's zero \<open>Time\<close>, so the zero value is 0 and
  \<open>t.IsZero()\<close> is \<open>t = 0\<close>. \<open>t.Sub(u)\<close> saturates at the bounds of the 64-bit \<open>Duration\<close>.
\<close>

type_synonym time = int
type_synonym duration = int

definition second :: duration where "second = 1000000000"
definition minute :: duration where "minute = 60 * second"
definition hour :: duration where "hour = 60 * minute"

definition max_duration :: duration where "max_duration = 2 ^ 63 - 1"
definition min_duration :: duration where "min_duration = - (2 ^ 63)"

definition time_sub :: "time \<Rightarrow> time \<Rightarrow> duration" where
  "time_sub t u = max min_duration (min max_duration (t - u))"

lemmas duration_defs = second_def minute_def hour_def max_duration_def min_duration_def

lemma time_sub_less [clock]:
  "min_duration < d \<Longrightarrow> d \<le> max_duration \<Longrightarrow> time_sub t u < d \<longleftrightarrow> t - u < d"
  by (auto simp: time_sub_def)

lemma time_sub_greater [clock]:
  "min_duration \<le> d \<Longrightarrow> d < max_duration \<Longrightarrow> d < time_sub t u \<longleftrightarrow> d < t - u"
  by (auto simp: time_sub_def)

section \<open>Go maps\<close>

type_synonym ('k, 'v) gomap = "('k \<times> 'v) list"

abbreviation gm_get :: "('k, 'v) gomap \<Rightarrow> 'k \<Rightarrow> 'v option" where
  "gm_get \<equiv> map_of"

abbreviation gm_put :: "'k \<Rightarrow> 'v \<Rightarrow> ('k, 'v) gomap \<Rightarrow> ('k, 'v) gomap" where
  "gm_put \<equiv> AList.update"

abbreviation gm_del :: "'k \<Rightarrow> ('k, 'v) gomap \<Rightarrow> ('k, 'v) gomap" where
  "gm_del \<equiv> AList.delete"

abbreviation gm_ok :: "('k, 'v) gomap \<Rightarrow> bool" where
  "gm_ok m \<equiv> distinct (map fst m)"

lemma gm_get_put [gomap]: "gm_get (gm_put k v m) k' = (if k' = k then Some v else gm_get m k')"
  by (simp add: update_conv)

lemma gm_get_del [gomap]: "gm_get (gm_del k m) k' = (if k' = k then None else gm_get m k')"
  by (simp add: delete_conv)

lemma gm_ok_put [gomap]: "gm_ok m \<Longrightarrow> gm_ok (gm_put k v m)"
  by (rule distinct_update)

lemma gm_ok_del [gomap]: "gm_ok m \<Longrightarrow> gm_ok (gm_del k m)"
  by (rule distinct_delete)

lemma gm_ok_filter [gomap]: "gm_ok m \<Longrightarrow> gm_ok (filter P m)"
  by (induction m) auto

lemma gm_get_filter [gomap]:
  "gm_ok m \<Longrightarrow> gm_get (filter P m) k = (case gm_get m k of None \<Rightarrow> None
     | Some v \<Rightarrow> if P (k, v) then Some v else None)"
proof (induction m)
  case Nil
  show ?case by simp
next
  case (Cons p m)
  obtain a b where p: "p = (a, b)" by (cases p)
  have "gm_get (filter P m) a = None" if "a \<notin> fst ` set m"
    using that by (auto simp: map_of_eq_None_iff)
  with Cons show ?case by (auto simp: p split: option.splits)
qed

lemma gm_entry [gomap]: "gm_ok m \<Longrightarrow> (k, v) \<in> set m \<longleftrightarrow> gm_get m k = Some v"
  by (simp add: map_of_eq_Some_iff)

lemma gm_put_subset: "set (gm_put k v m) \<subseteq> insert (k, v) (set m)"
  by (induction m) auto

subsection \<open>The interface of a finite map\<close>

text \<open>
  The laws the components rely on, for any implementation of Go's map: a lookup sees the last
  write, deletion removes one key only, and \<open>range\<close> visits exactly the entries. The lemmas
  about searching, about values pairwise distinct under an observation, and about bulk
  insertion are proved once from these laws.
\<close>

locale finite_map =
  fixes get :: "'m \<Rightarrow> 'k \<Rightarrow> 'v option"
    and put :: "'k \<Rightarrow> 'v \<Rightarrow> 'm \<Rightarrow> 'm"
    and del :: "'k \<Rightarrow> 'm \<Rightarrow> 'm"
    and entries :: "'m \<Rightarrow> ('k \<times> 'v) list"
    and ok :: "'m \<Rightarrow> bool"
  assumes get_put: "get (put k v m) k' = (if k' = k then Some v else get m k')"
    and get_del: "get (del k m) k' = (if k' = k then None else get m k')"
    and ok_put: "ok m \<Longrightarrow> ok (put k v m)"
    and ok_del: "ok m \<Longrightarrow> ok (del k m)"
    and entry: "ok m \<Longrightarrow> (k, v) \<in> set (entries m) \<longleftrightarrow> get m k = Some v"
begin

lemma find_sound:
  "ok m \<Longrightarrow> find P (entries m) = Some (k, v) \<Longrightarrow> get m k = Some v \<and> P (k, v)"
  by (auto simp: find_Some_iff entry [symmetric])

lemma find_complete:
  "ok m \<Longrightarrow> find P (entries m) = None \<longleftrightarrow> (\<forall>k v. get m k = Some v \<longrightarrow> \<not> P (k, v))"
  by (auto simp: find_None_iff entry [symmetric])

lemma put_injective_values:
  assumes "\<And>a b x y. get m a = Some x \<Longrightarrow> get m b = Some y \<Longrightarrow> f x = f y \<Longrightarrow> a = b"
    and "\<And>a x. get m a = Some x \<Longrightarrow> a \<noteq> k \<Longrightarrow> f x \<noteq> f v"
  shows "get (put k v m) a = Some x \<Longrightarrow> get (put k v m) b = Some y \<Longrightarrow> f x = f y \<Longrightarrow> a = b"
  using assms by (auto simp: get_put split: if_splits) metis

lemma fold_put_other:
  "k \<notin> fst ` set kvs \<Longrightarrow> get (fold (\<lambda>(k, v). put k v) kvs m) k = get m k"
  by (induction kvs arbitrary: m) (auto simp: get_put)

lemma fold_put_last:
  "k \<notin> fst ` set post \<Longrightarrow>
   get (fold (\<lambda>(k, v). put k v) (pre @ (k, v) # post) m) k = Some v"
  by (simp add: fold_put_other get_put)

lemma fold_put_source:
  "get (fold (\<lambda>(k, v). put k v) kvs m) k = Some v \<Longrightarrow> (k, v) \<in> set kvs \<or> get m k = Some v"
  by (induction kvs arbitrary: m) (fastforce simp: get_put split: if_splits)+

lemma ok_fold_put: "ok m \<Longrightarrow> ok (fold (\<lambda>(k, v). put k v) kvs m)"
  by (induction kvs arbitrary: m) (auto intro: ok_put)

end

interpretation gm: finite_map map_of AList.update AList.delete "\<lambda>m. m" "\<lambda>m. distinct (map fst m)"
  by unfold_locales
    (rule gm_get_put gm_get_del | erule gm_ok_put gm_ok_del gm_entry)+

section \<open>Machines\<close>

text \<open>
  A component with state is a step function over events; \<open>en\<close> says which events can happen in
  a state (for example that a random token is fresh). \<open>reach\<close> are the states such a machine
  can be in.
\<close>

inductive reach :: "('e \<Rightarrow> 's \<Rightarrow> 's) \<Rightarrow> ('e \<Rightarrow> 's \<Rightarrow> bool) \<Rightarrow> 's \<Rightarrow> 's \<Rightarrow> bool"
  for step en s0 where
  start: "reach step en s0 s0"
| next_step: "reach step en s0 s \<Longrightarrow> en e s \<Longrightarrow> reach step en s0 (step e s)"

locale invariant_machine =
  fixes init :: "'s \<Rightarrow> bool"
    and step :: "'e \<Rightarrow> 's \<Rightarrow> 's"
    and en :: "'e \<Rightarrow> 's \<Rightarrow> bool"
    and inv :: "'s \<Rightarrow> bool"
  assumes inv_init: "init s \<Longrightarrow> inv s"
    and inv_step: "inv s \<Longrightarrow> en e s \<Longrightarrow> inv (step e s)"
begin

lemma reach_inv: "reach step en s0 s \<Longrightarrow> init s0 \<Longrightarrow> inv s"
  by (induction rule: reach.induct) (auto intro: inv_init inv_step)

end

section \<open>Generic lemmas\<close>

lemma unat_bound: "unat (w :: 'a::len word) < 2 ^ LENGTH('a)"
  by (rule unsigned_less)

lemma find_append_None: "find P xs = None \<Longrightarrow> find P (xs @ ys) = find P ys"
  by (induction xs) auto

lemma find_in_set: "find P xs = Some x \<Longrightarrow> x \<in> set xs \<and> P x"
  by (induction xs) (auto split: if_splits)

lemma distinct_map_eq:
  "distinct (map f xs) \<Longrightarrow> x \<in> set xs \<Longrightarrow> y \<in> set xs \<Longrightarrow> f x = f y \<Longrightarrow> x = y"
  by (simp add: distinct_map inj_on_def)

text \<open>Writing through the pointer a search loop stopped at: the first match is replaced.\<close>

fun update_first :: "('a \<Rightarrow> bool) \<Rightarrow> ('a \<Rightarrow> 'a) \<Rightarrow> 'a list \<Rightarrow> 'a list" where
  "update_first P f [] = []"
| "update_first P f (x # xs) = (if P x then f x # xs else x # update_first P f xs)"

lemma update_first_none: "find P xs = None \<Longrightarrow> update_first P f xs = xs"
  by (induction xs) (auto split: if_splits)

lemma update_first_map: "(\<And>x. g (f x) = g x) \<Longrightarrow> map g (update_first P f xs) = map g xs"
  by (induction xs) auto

lemma set_update_first: "set (update_first P f xs) \<subseteq> set xs \<union> f ` set xs"
  by (induction xs) auto

lemma update_first_found:
  "find P xs = Some x \<Longrightarrow> \<exists>ys zs. xs = ys @ x # zs \<and> P x \<and> (\<forall>y \<in> set ys. \<not> P y) \<and>
     update_first P f xs = ys @ f x # zs"
proof (induction xs)
  case (Cons y xs)
  show ?case
  proof (cases "P y")
    case True
    with Cons.prems have "y # xs = [] @ x # xs \<and> P x \<and> update_first P f (y # xs) = [] @ f x # xs"
      by simp
    then show ?thesis by (metis empty_iff list.set(1))
  next
    case False
    with Cons obtain ys zs where "xs = ys @ x # zs" "P x" "\<forall>y \<in> set ys. \<not> P y"
      "update_first P f xs = ys @ f x # zs" by auto
    with False have "y # xs = (y # ys) @ x # zs \<and> P x \<and> (\<forall>u \<in> set (y # ys). \<not> P u) \<and>
        update_first P f (y # xs) = (y # ys) @ f x # zs" by simp
    then show ?thesis by blast
  qed
qed simp

end
