(* ===== verification/Filesys.thy ===== *)
theory Filesys
  imports Prelude
begin

text \<open>
  Persisting a state file atomically: \<open>Store.saveLocked\<close> of \<open>internal/control/store.go\<close>. Each
  system call of the sequence can fail (\<open>fault\<close>), and the process can stop between any two of
  them (\<open>save_states\<close> lists the file systems it passes through). A file's content is \<open>None\<close>
  while it is being written. The temporary file has a name of its own, which
  \<open>os.CreateTemp\<close> guarantees.
\<close>

datatype fname = Target string | Temp string

record 'c diskfile =
  f_content :: "'c option"
  f_mode :: nat

type_synonym 'c fs = "(fname, 'c diskfile) gomap"

datatype fault = FMarshal | FMkdir | FTemp | FWrite | FChmod | FClose | FRename

definition private_mode :: nat where "private_mode = 384"  \<comment> \<open>octal 600\<close>

definition save_file :: "string \<Rightarrow> string \<Rightarrow> 'c \<Rightarrow> fault option \<Rightarrow> 'c fs \<Rightarrow> 'c fs \<times> bool" where
  "save_file path tmp c flt fs =
     (if flt \<in> {Some FMarshal, Some FMkdir, Some FTemp} then (fs, False)
      else let fs1 = gm_put (Temp tmp) \<lparr>f_content = None, f_mode = private_mode\<rparr> fs in
      if flt = Some FWrite then (gm_del (Temp tmp) fs1, False)
      else let new = \<lparr>f_content = Some c, f_mode = private_mode\<rparr>;
               fs2 = gm_put (Temp tmp) new fs1 in
      if flt \<in> {Some FChmod, Some FClose, Some FRename} then (gm_del (Temp tmp) fs2, False)
      else (gm_put (Target path) new (gm_del (Temp tmp) fs2), True))"

text \<open>The file systems a save passes through, in order, when nothing fails.\<close>

definition save_states :: "string \<Rightarrow> string \<Rightarrow> 'c \<Rightarrow> 'c fs \<Rightarrow> 'c fs list" where
  "save_states path tmp c fs =
     (let fs1 = gm_put (Temp tmp) \<lparr>f_content = None, f_mode = private_mode\<rparr> fs;
          new = \<lparr>f_content = Some c, f_mode = private_mode\<rparr>;
          fs2 = gm_put (Temp tmp) new fs1
      in [fs, fs1, fs2, gm_put (Target path) new (gm_del (Temp tmp) fs2)])"

definition load_file :: "string \<Rightarrow> 'c fs \<Rightarrow> 'c diskfile option" where
  "load_file path fs = gm_get fs (Target path)"

text \<open>
  The contract its callers rely on: a save that reports success is what the next load sees, a
  save that reports a failure changed nothing a load can see.
\<close>

locale atomic_file =
  fixes save :: "'c \<Rightarrow> 'f \<Rightarrow> 's \<Rightarrow> 's \<times> bool"
    and load :: "'s \<Rightarrow> 'd option"
    and whole :: "'c \<Rightarrow> 'd"
  assumes save_done: "save c f s = (s', True) \<Longrightarrow> load s' = Some (whole c)"
    and save_failed: "save c f s = (s', False) \<Longrightarrow> load s' = load s"
begin

lemma save_old_or_new: "load (fst (save c f s)) \<in> {load s, Some (whole c)}"
proof (cases "save c f s")
  case (Pair s' ok)
  then show ?thesis by (cases ok) (auto dest: save_done save_failed)
qed

lemma save_reports: "snd (save c f s) \<longrightarrow> load (fst (save c f s)) = Some (whole c)"
  by (cases "save c f s") (auto dest: save_done)

text \<open>After any sequence of saves the file holds the last one that reported success.\<close>

lemma saves_last:
  "load (fold (\<lambda>(c, f) s. fst (save c f s)) cfs s) = load s \<or>
   (\<exists>c \<in> fst ` set cfs. load (fold (\<lambda>(c, f) s. fst (save c f s)) cfs s) = Some (whole c))"
proof (induction cfs arbitrary: s)
  case (Cons cf cfs)
  obtain c f where "cf = (c, f)" by (cases cf)
  with Cons.IH [of "fst (save c f s)"] save_old_or_new [of c f s] show ?case by auto
qed simp

end

lemma load_save_ok: "save_file path tmp c flt fs = (fs', True) \<Longrightarrow>
    load_file path fs' = Some \<lparr>f_content = Some c, f_mode = private_mode\<rparr>"
  by (auto simp: save_file_def load_file_def gm_get_put Let_def split: if_splits)

lemma load_save_failed: "save_file path tmp c flt fs = (fs', False) \<Longrightarrow>
    load_file path fs' = load_file path fs"
  by (auto simp: save_file_def load_file_def gm_get_put gm_get_del Let_def split: if_splits)

interpretation saver: atomic_file "save_file path tmp" "load_file path"
  "\<lambda>c. \<lparr>f_content = Some c, f_mode = private_mode\<rparr>"
  for path tmp
  by unfold_locales (fact load_save_ok, fact load_save_failed)

lemma save_file_ok_iff: "snd (save_file path tmp c flt fs) \<longleftrightarrow> flt = None"
  by (cases flt; cases "the flt") (auto simp: save_file_def Let_def)

lemma save_no_temp_left:
  "gm_get fs (Temp tmp) = None \<Longrightarrow> gm_get (fst (save_file path tmp c flt fs)) (Temp tmp) = None"
  by (auto simp: save_file_def gm_get_put gm_get_del Let_def)

lemma save_states_old_or_new:
  "s \<in> set (save_states path tmp c fs) \<Longrightarrow>
   load_file path s = load_file path fs \<or>
   load_file path s = Some \<lparr>f_content = Some c, f_mode = private_mode\<rparr>"
  by (auto simp: save_states_def load_file_def gm_get_put gm_get_del Let_def)

lemma save_states_last:
  "fst (save_file path tmp c None fs) = last (save_states path tmp c fs)"
  by (simp add: save_file_def save_states_def Let_def)

end
