(* ===== verification/Go_Strings.thy ===== *)
theory Go_Strings
  imports Prelude
begin

text \<open>
  Go strings as byte strings (a \<open>char\<close> is a byte), with the functions of package \<open>strings\<close>,
  \<open>strconv\<close> and \<open>encoding/hex\<close> the program calls, and the JSON-independent text helpers.
  \<open>strings.ToLower\<close> maps ASCII by itself and leaves non-ASCII text to Go's Unicode tables, which
  are the parameter \<open>ul\<close>.
\<close>

section \<open>Searching and cutting\<close>

definition has_prefix :: "string \<Rightarrow> string \<Rightarrow> bool" where
  "has_prefix p s \<longleftrightarrow> take (length p) s = p"

definition has_suffix :: "string \<Rightarrow> string \<Rightarrow> bool" where
  "has_suffix p s \<longleftrightarrow> length p \<le> length s \<and> drop (length s - length p) s = p"

definition trim_prefix :: "string \<Rightarrow> string \<Rightarrow> string" where
  "trim_prefix p s = (if has_prefix p s then drop (length p) s else s)"

lemma has_prefix_append [simp]: "has_prefix p (p @ s)"
  by (simp add: has_prefix_def)

lemma trim_prefix_append [simp]: "trim_prefix p (p @ s) = s"
  by (simp add: trim_prefix_def)

lemma has_prefix_iff: "has_prefix p s \<longleftrightarrow> (\<exists>t. s = p @ t)"
  by (metis append_eq_conv_conj append_take_drop_id has_prefix_def)

lemma has_suffix_iff: "has_suffix p s \<longleftrightarrow> (\<exists>t. s = t @ p)"
proof
  assume "has_suffix p s"
  then have "s = take (length s - length p) s @ p"
    by (metis append_take_drop_id has_suffix_def)
  then show "\<exists>t. s = t @ p" by blast
qed (auto simp: has_suffix_def)

text \<open>\<open>strings.Split\<close> on one byte; the cut at the first and at the last separator.\<close>

fun split_on :: "char \<Rightarrow> string \<Rightarrow> string list" where
  "split_on c [] = [[]]"
| "split_on c (x # xs) =
     (if x = c then [] # split_on c xs
      else case split_on c xs of [] \<Rightarrow> [[x]] | y # ys \<Rightarrow> (x # y) # ys)"

lemma split_on_none: "c \<notin> set s \<Longrightarrow> split_on c s = [s]"
  by (induction s) auto

lemma split_on_append: "c \<notin> set s \<Longrightarrow> split_on c (s @ c # t) = s # split_on c t"
  by (induction s) auto

fun cut_at :: "char \<Rightarrow> string \<Rightarrow> (string \<times> string) option" where
  "cut_at c [] = None"
| "cut_at c (x # xs) =
     (if x = c then Some ([], xs) else map_option (\<lambda>(a, b). (x # a, b)) (cut_at c xs))"

lemma cut_at_append: "c \<notin> set s \<Longrightarrow> cut_at c (s @ c # t) = Some (s, t)"
  by (induction s) auto

lemma cut_at_None: "cut_at c s = None \<longleftrightarrow> c \<notin> set s"
  by (induction s) auto

definition cut_last :: "char \<Rightarrow> string \<Rightarrow> (string \<times> string) option" where
  "cut_last c s = map_option (\<lambda>(a, b). (rev b, rev a)) (cut_at c (rev s))"

lemma cut_last_append: "c \<notin> set t \<Longrightarrow> cut_last c (s @ c # t) = Some (s, t)"
  by (simp add: cut_last_def cut_at_append)

section \<open>Case and space\<close>

definition is_ascii :: "char \<Rightarrow> bool" where
  "is_ascii c \<longleftrightarrow> (of_char c :: nat) < 128"

definition lower_char :: "char \<Rightarrow> char" where
  "lower_char c =
     (if 65 \<le> (of_char c :: nat) \<and> (of_char c :: nat) \<le> 90 then char_of ((of_char c :: nat) + 32) else c)"

definition to_lower :: "(string \<Rightarrow> string) \<Rightarrow> string \<Rightarrow> string" where
  "to_lower ul s = (if list_all is_ascii s then map lower_char s else ul s)"

lemma lower_char_idem [simp]: "lower_char (lower_char c) = lower_char c"
  by (simp add: lower_char_def)

lemma is_ascii_lower_char [simp]: "is_ascii (lower_char c) = is_ascii c"
  by (simp add: is_ascii_def lower_char_def)

lemma of_lower_char: "(of_char (lower_char c) :: nat) =
    (if 65 \<le> (of_char c :: nat) \<and> (of_char c :: nat) \<le> 90 then of_char c + 32 else of_char c)"
  by (simp add: lower_char_def)

lemma to_lower_ascii: "list_all is_ascii s \<Longrightarrow> to_lower ul s = map lower_char s"
  by (simp add: to_lower_def)

lemma to_lower_idem: "list_all is_ascii s \<Longrightarrow> to_lower ul (to_lower ul s) = to_lower ul s"
  by (simp add: to_lower_def list_all_iff)

text \<open>
  \<open>strings.TrimSpace\<close>: the UTF-8 encodings of the runes of Unicode's White\_Space, stripped at
  both ends.
\<close>

definition space_runes :: "string list" where
  "space_runes = map (map char_of)
     [[9], [10], [11], [12], [13], [32 :: nat], [0xC2, 0x85], [0xC2, 0xA0], [0xE1, 0x9A, 0x80],
      [0xE2, 0x80, 0x80], [0xE2, 0x80, 0x81], [0xE2, 0x80, 0x82], [0xE2, 0x80, 0x83],
      [0xE2, 0x80, 0x84], [0xE2, 0x80, 0x85], [0xE2, 0x80, 0x86], [0xE2, 0x80, 0x87],
      [0xE2, 0x80, 0x88], [0xE2, 0x80, 0x89], [0xE2, 0x80, 0x8A], [0xE2, 0x80, 0xA8],
      [0xE2, 0x80, 0xA9], [0xE2, 0x80, 0xAF], [0xE2, 0x81, 0x9F], [0xE3, 0x80, 0x80]]"

definition leading_space :: "string list \<Rightarrow> string \<Rightarrow> nat" where
  "leading_space rs s = (case find (\<lambda>r. has_prefix r s) rs of None \<Rightarrow> 0 | Some r \<Rightarrow> length r)"

function trim_left_by :: "string list \<Rightarrow> string \<Rightarrow> string" where
  "trim_left_by rs s =
     (if s = [] \<or> leading_space rs s = 0 then s else trim_left_by rs (drop (leading_space rs s) s))"
  by pat_completeness auto
termination
  by (relation "measure (\<lambda>(rs, s). length s)") auto

declare trim_left_by.simps [simp del]

definition trim_space :: "string \<Rightarrow> string" where
  "trim_space s =
     rev (trim_left_by (map rev space_runes) (rev (trim_left_by space_runes s)))"

definition is_plain :: "char \<Rightarrow> bool" where
  "is_plain c \<longleftrightarrow> 33 \<le> (of_char c :: nat) \<and> (of_char c :: nat) < 127"

text \<open>
  No white-space rune starts or ends with a printable ASCII byte, so printable text at the
  two ends is kept.
\<close>

lemma leading_space_plain:
  assumes "is_plain c" and "\<forall>r \<in> set rs. r \<noteq> [] \<and> \<not> is_plain (hd r)"
  shows "leading_space rs (c # s) = 0"
proof -
  have "\<not> has_prefix r (c # s)" if "r \<in> set rs" for r
    using assms that by (cases r) (auto simp: has_prefix_def)
  then have "find (\<lambda>r. has_prefix r (c # s)) rs = None"
    by (auto simp: find_None_iff)
  then show ?thesis by (simp add: leading_space_def)
qed

lemma space_runes_not_plain:
  "\<forall>r \<in> set space_runes. r \<noteq> [] \<and> \<not> is_plain (hd r)"
  "\<forall>r \<in> set (map rev space_runes). r \<noteq> [] \<and> \<not> is_plain (hd r)"
  by (simp_all add: space_runes_def is_plain_def)

lemma trim_left_by_plain:
  assumes "\<forall>r \<in> set rs. r \<noteq> [] \<and> \<not> is_plain (hd r)" and "s = [] \<or> is_plain (hd s)"
  shows "trim_left_by rs s = s"
proof (cases s)
  case Nil
  then show ?thesis by (simp add: trim_left_by.simps)
next
  case (Cons c t)
  with assms have "leading_space rs s = 0" by (simp add: leading_space_plain)
  then show ?thesis by (simp add: trim_left_by.simps)
qed

lemma trim_space_plain:
  assumes "s = [] \<or> (is_plain (hd s) \<and> is_plain (last s))"
  shows "trim_space s = s"
proof -
  have "trim_left_by space_runes s = s"
    using assms by (intro trim_left_by_plain space_runes_not_plain) auto
  moreover have "trim_left_by (map rev space_runes) (rev s) = rev s"
    using assms by (intro trim_left_by_plain space_runes_not_plain) (auto simp: hd_rev)
  ultimately show ?thesis by (simp add: trim_space_def)
qed

section \<open>Numbers\<close>

definition digit_char :: "nat \<Rightarrow> char" where
  "digit_char n = char_of (48 + n)"

definition digit_val :: "char \<Rightarrow> nat" where
  "digit_val c = of_char c - 48"

definition is_digit :: "char \<Rightarrow> bool" where
  "is_digit c \<longleftrightarrow> 48 \<le> (of_char c :: nat) \<and> (of_char c :: nat) \<le> 57"

lemma digit_char [simp]: "n < 10 \<Longrightarrow> is_digit (digit_char n)" "n < 10 \<Longrightarrow> digit_val (digit_char n) = n"
  by (simp_all add: is_digit_def digit_char_def digit_val_def)

lemma digit_chars [compute]:
  "digit_char 0 = CHR ''0''" "digit_char (Suc 0) = CHR ''1''" "digit_char 2 = CHR ''2''"
  "digit_char 3 = CHR ''3''" "digit_char 4 = CHR ''4''" "digit_char 5 = CHR ''5''"
  "digit_char 6 = CHR ''6''" "digit_char 7 = CHR ''7''" "digit_char 8 = CHR ''8''"
  "digit_char 9 = CHR ''9''"
  by code_simp+

lemma is_digit_plain: "is_digit c \<Longrightarrow> is_plain c"
  by (simp add: is_digit_def is_plain_def)

fun show_nat :: "nat \<Rightarrow> string" where
  "show_nat n = (if n < 10 then [digit_char n] else show_nat (n div 10) @ [digit_char (n mod 10)])"

declare show_nat.simps [simp del]

definition dec_value :: "string \<Rightarrow> nat" where
  "dec_value s = foldl (\<lambda>v c. 10 * v + digit_val c) 0 s"

lemma dec_value_snoc [simp]: "dec_value (s @ [c]) = 10 * dec_value s + digit_val c"
  by (simp add: dec_value_def)

lemma dec_value_show_nat [simp]: "dec_value (show_nat n) = n"
proof (induction n rule: show_nat.induct)
  case (1 n)
  show ?case
  proof (cases "n < 10")
    case True
    then show ?thesis by (simp add: show_nat.simps [of n] dec_value_def)
  next
    case False
    with 1 show ?thesis by (simp add: show_nat.simps [of n])
  qed
qed

lemma show_nat_nonempty [simp]: "show_nat n \<noteq> []"
  by (subst show_nat.simps) simp

lemma show_nat_digits: "\<forall>c \<in> set (show_nat n). is_digit c"
proof (induction n rule: show_nat.induct)
  case (1 n)
  then show ?case by (cases "n < 10") (auto simp: show_nat.simps [of n])
qed

lemma hd_show_nat: "0 < n \<Longrightarrow> hd (show_nat n) \<noteq> digit_char 0"
proof (induction n rule: show_nat.induct)
  case (1 n)
  show ?case
  proof (cases "n < 10")
    case True
    with "1.prems" show ?thesis
      by (metis digit_char(2) less_numeral_extra(3) list.sel(1) show_nat.simps zero_less_numeral)
  next
    case False
    with 1 show ?thesis by (simp add: show_nat.simps [of n])
  qed
qed

lemma length_show_nat: "length (show_nat n) = 1 \<longleftrightarrow> n < 10"
proof (cases "n < 10")
  case False
  have "length (show_nat (n div 10)) \<noteq> 0" by simp
  with False show ?thesis by (simp add: show_nat.simps [of n])
qed (simp add: show_nat.simps)

text \<open>A decimal without sign or leading zero, bounded by \<open>m\<close>: an octet, a prefix length, a port.\<close>

definition parse_dec :: "nat \<Rightarrow> string \<Rightarrow> nat option" where
  "parse_dec m s =
     (if s \<noteq> [] \<and> list_all is_digit s \<and> (length s = 1 \<or> hd s \<noteq> CHR ''0'') \<and> dec_value s \<le> m
      then Some (dec_value s) else None)"

lemma parse_dec_show_nat: "n \<le> m \<Longrightarrow> parse_dec m (show_nat n) = Some n"
proof -
  assume "n \<le> m"
  moreover have "length (show_nat n) = 1 \<or> hd (show_nat n) \<noteq> CHR ''0''"
  proof (cases "n < 10")
    case False
    then have "hd (show_nat n) \<noteq> digit_char 0" by (intro hd_show_nat) simp
    then show ?thesis by (simp add: digit_chars)
  qed (use length_show_nat in blast)
  ultimately show ?thesis
    using show_nat_digits by (auto simp: parse_dec_def list_all_iff)
qed

lemma parse_dec_bound: "parse_dec m s = Some n \<Longrightarrow> n \<le> m"
  by (auto simp: parse_dec_def split: if_splits)

section \<open>Hexadecimal\<close>

definition hex_char :: "nat \<Rightarrow> char" where
  "hex_char n = char_of (if n < 10 then 48 + n else 87 + n)"

definition hex_val :: "char \<Rightarrow> nat option" where
  "hex_val c =
     (let n = of_char c in
      if 48 \<le> n \<and> n \<le> 57 then Some (n - 48)
      else if 97 \<le> n \<and> n \<le> 102 then Some (n - 87)
      else if 65 \<le> n \<and> n \<le> 70 then Some (n - 55) else None)"

lemma hex_val_char [simp]: "n < 16 \<Longrightarrow> hex_val (hex_char n) = Some n"
  by (simp add: hex_val_def hex_char_def)

lemma hex_chars [compute]:
  "hex_char 0 = CHR ''0''" "hex_char (Suc 0) = CHR ''1''" "hex_char 2 = CHR ''2''"
  "hex_char 3 = CHR ''3''" "hex_char 4 = CHR ''4''" "hex_char 5 = CHR ''5''"
  "hex_char 6 = CHR ''6''" "hex_char 7 = CHR ''7''" "hex_char 8 = CHR ''8''"
  "hex_char 9 = CHR ''9''" "hex_char 10 = CHR ''a''" "hex_char 11 = CHR ''b''"
  "hex_char 12 = CHR ''c''" "hex_char 13 = CHR ''d''" "hex_char 14 = CHR ''e''"
  "hex_char 15 = CHR ''f''"
  by code_simp+

definition hex_encode :: "bytes \<Rightarrow> string" where
  "hex_encode bs = concat (map (\<lambda>b. [hex_char (unat b div 16), hex_char (unat b mod 16)]) bs)"

fun hex_decode :: "string \<Rightarrow> bytes option" where
  "hex_decode [] = Some []"
| "hex_decode [_] = None"
| "hex_decode (a # b # s) =
     (case (hex_val a, hex_val b, hex_decode s) of
        (Some x, Some y, Some bs) \<Rightarrow> Some (word_of_nat (16 * x + y) # bs)
      | _ \<Rightarrow> None)"

lemma hex_decode_encode [simp]: "hex_decode (hex_encode bs) = Some bs"
proof (induction bs)
  case Nil
  show ?case by (simp add: hex_encode_def)
next
  case (Cons b bs)
  have "unat b div 16 < 16" using unat_bound [of b] by simp
  moreover have "16 * (unat b div 16) + unat b mod 16 = unat b" by simp
  ultimately show ?case using Cons by (simp add: hex_encode_def)
qed

lemma length_hex_encode [simp]: "length (hex_encode bs) = 2 * length bs"
  by (induction bs) (simp_all add: hex_encode_def)

lemmas string_compute [compute] = show_nat.simps parse_dec_def dec_value_def is_digit_def digit_val_def
  hex_val_def hex_encode_def has_prefix_def has_suffix_def trim_prefix_def cut_last_def

lemma hex_encode_inj: "hex_encode a = hex_encode b \<longleftrightarrow> a = b"
  by (metis hex_decode_encode option.inject)

end
