(* ===== verification/Netip.thy ===== *)
theory Netip
  imports Go_Strings "HOL-Library.Product_Lexorder"
begin

text \<open>
  The parts of Go's \<open>net/netip\<close> and \<open>net\<close> the program uses: addresses with their textual forms,
  prefixes, address and port pairs. An IPv6 address carries its zone. \<open>netip.Addr{}\<close> is \<open>None\<close>.
\<close>

section \<open>Addresses\<close>

datatype addr = V4 "32 word" | V6 "128 word" string

fun addr_len :: "addr \<Rightarrow> nat" where
  "addr_len (V4 w) = 32"
| "addr_len (V6 w z) = 128"

fun addr_num :: "addr \<Rightarrow> nat" where
  "addr_num (V4 w) = unat w"
| "addr_num (V6 w z) = unat w"

fun addr_zone :: "addr \<Rightarrow> string" where
  "addr_zone (V4 w) = []"
| "addr_zone (V6 w z) = z"

fun is4 :: "addr \<Rightarrow> bool" where
  "is4 (V4 w) = True"
| "is4 (V6 w z) = False"

text \<open>\<open>Addr.Compare\<close>: by family, then by value, then by zone.\<close>

definition addr_key :: "addr \<Rightarrow> nat \<times> nat \<times> string" where
  "addr_key a = (addr_len a, addr_num a, addr_zone a)"

lemma addr_key_inj: "addr_key a = addr_key b \<Longrightarrow> a = b"
  by (cases a; cases b) (auto simp: addr_key_def intro: unsigned_word_eqI)

instantiation addr :: linorder
begin

definition less_eq_addr :: "addr \<Rightarrow> addr \<Rightarrow> bool" where
  "less_eq_addr a b \<longleftrightarrow> addr_key a \<le> addr_key b"

definition less_addr :: "addr \<Rightarrow> addr \<Rightarrow> bool" where
  "less_addr a b \<longleftrightarrow> addr_key a < addr_key b"

instance
  by standard (auto simp: less_eq_addr_def less_addr_def intro: addr_key_inj)

end

lemma less_addr_num:
  "addr_len a = addr_len b \<Longrightarrow> addr_zone a = addr_zone b \<Longrightarrow> a < b \<longleftrightarrow> addr_num a < addr_num b"
  by (simp add: less_addr_def addr_key_def less_prod_def)

lemma addr_eqI:
  "addr_len a = addr_len b \<Longrightarrow> addr_zone a = addr_zone b \<Longrightarrow> addr_num a = addr_num b \<Longrightarrow> a = b"
  by (rule addr_key_inj) (simp add: addr_key_def)

lemma addr_num_bound: "addr_num a < 2 ^ addr_len a"
proof (cases a)
  case (V4 w)
  with unat_bound [of w] show ?thesis by simp
next
  case (V6 w z)
  with unat_bound [of w] show ?thesis by simp
qed

text \<open>\<open>Addr.Next\<close>: the zero address after the last one.\<close>

fun addr_next :: "addr \<Rightarrow> addr option" where
  "addr_next (V4 w) = (if w = - 1 then None else Some (V4 (w + 1)))"
| "addr_next (V6 w z) = (if w = - 1 then None else Some (V6 (w + 1) z))"

lemma unat_succ: "w \<noteq> - 1 \<Longrightarrow> unat (w + 1 :: 'a::len word) = unat w + 1"
  by (metis Suc_eq_plus1 add.commute unatSuc add_eq_0_iff)

lemma addr_next_num:
  "addr_next a = Some b \<Longrightarrow>
   addr_num b = addr_num a + 1 \<and> addr_len b = addr_len a \<and> addr_zone b = addr_zone a"
  by (cases a) (auto simp: unat_succ split: if_splits)

lemma addr_next_None: "addr_next a = None \<Longrightarrow> addr_num a + 1 = 2 ^ addr_len a"
  by (cases a) (auto simp: unsigned_minus_1_eq_mask mask_eq_exp_minus_1 split: if_splits)

text \<open>\<open>Addr.Unmap\<close>: an IPv4-mapped IPv6 address as IPv4.\<close>

fun unmap :: "addr \<Rightarrow> addr" where
  "unmap (V4 w) = V4 w"
| "unmap (V6 w z) = (if drop_bit 32 w = 0xFFFF then V4 (ucast w) else V6 w z)"

section \<open>Text of addresses\<close>

definition v4_of_octets :: "nat \<Rightarrow> nat \<Rightarrow> nat \<Rightarrow> nat \<Rightarrow> 32 word" where
  "v4_of_octets a b c d = word_of_nat (16777216 * a + 65536 * b + 256 * c + d)"

definition parse_v4 :: "string \<Rightarrow> 32 word option" where
  "parse_v4 s =
     (case split_on CHR ''.'' s of
        [a, b, c, d] \<Rightarrow>
          (case (parse_dec 255 a, parse_dec 255 b, parse_dec 255 c, parse_dec 255 d) of
             (Some w, Some x, Some y, Some z) \<Rightarrow> Some (v4_of_octets w x y z)
           | _ \<Rightarrow> None)
      | _ \<Rightarrow> None)"

definition show_v4 :: "32 word \<Rightarrow> string" where
  "show_v4 w =
     (let n = unat w in
      show_nat (n div 16777216) @ ''.'' @ show_nat (n div 65536 mod 256) @ ''.'' @
      show_nat (n div 256 mod 256) @ ''.'' @ show_nat (n mod 256))"

lemma show_nat_no: "\<not> is_digit c \<Longrightarrow> c \<notin> set (show_nat n)"
  using show_nat_digits by blast

lemma not_digit [simp]:
  "\<not> is_digit CHR ''.''" "\<not> is_digit CHR ''/''" "\<not> is_digit CHR '':''" "\<not> is_digit CHR ''%''"
  by (simp_all add: is_digit_def)

lemma octets_of_word: "v4_of_octets (unat w div 16777216) (unat w div 65536 mod 256)
    (unat w div 256 mod 256) (unat w mod 256) = (w :: 32 word)"
proof -
  have "16777216 * (n div 16777216) + 65536 * (n div 65536 mod 256) + 256 * (n div 256 mod 256)
      + n mod 256 = n" for n :: nat
  proof -
    have "n div 65536 = n div 256 div 256" "n div 16777216 = n div 256 div 256 div 256"
      by (simp_all add: div_mult2_eq [symmetric])
    moreover have "k = 256 * (k div 256) + k mod 256" for k :: nat by simp
    from this [of n] this [of "n div 256"] this [of "n div 256 div 256"] have
      "16777216 * (n div 256 div 256 div 256) + 65536 * (n div 256 div 256 mod 256)
       + 256 * (n div 256 mod 256) + n mod 256 = n" by linarith
    ultimately show ?thesis by simp
  qed
  then show ?thesis by (simp add: v4_of_octets_def)
qed

lemma parse_show_v4 [simp]: "parse_v4 (show_v4 w) = Some w"
proof -
  define n where "n = unat w"
  have "n < 4294967296" using unat_bound [of w] by (simp add: n_def)
  then have "n div 16777216 \<le> 255" "n div 65536 mod 256 \<le> 255" "n div 256 mod 256 \<le> 255" "n mod 256 \<le> 255"
    by auto
  moreover have "split_on CHR ''.'' (show_v4 w) =
      [show_nat (n div 16777216), show_nat (n div 65536 mod 256), show_nat (n div 256 mod 256),
       show_nat (n mod 256)]"
    by (simp add: show_v4_def n_def [symmetric] Let_def split_on_append split_on_none show_nat_no)
  ultimately show ?thesis
    using octets_of_word [of w] by (simp add: parse_v4_def parse_dec_show_nat n_def)
qed

lemma show_v4_inj: "show_v4 a = show_v4 b \<longleftrightarrow> a = b"
  by (metis option.inject parse_show_v4)

lemma show_v4_chars: "c \<in> set (show_v4 w) \<Longrightarrow> is_digit c \<or> c = CHR ''.''"
  using show_nat_digits by (auto simp: show_v4_def Let_def)

subsection \<open>IPv6\<close>

definition groups_of :: "128 word \<Rightarrow> nat list" where
  "groups_of w = map (\<lambda>i. unat w div 2 ^ (16 * (7 - i)) mod 65536) [0..<8]"

definition v6_of_groups :: "nat list \<Rightarrow> 128 word" where
  "v6_of_groups gs = word_of_nat (foldl (\<lambda>v g. 65536 * v + g) 0 gs)"

definition hex_value :: "string \<Rightarrow> nat" where
  "hex_value s = foldl (\<lambda>v c. 16 * v + (case hex_val c of None \<Rightarrow> 0 | Some d \<Rightarrow> d)) 0 s"

fun show_hex :: "nat \<Rightarrow> string" where
  "show_hex n = (if n < 16 then [hex_char n] else show_hex (n div 16) @ [hex_char (n mod 16)])"

declare show_hex.simps [simp del]

text \<open>
  The loop of \<open>parseIPv6\<close>: groups so far, position of the ellipsis, remaining text.
\<close>

function v6_loop :: "nat list \<Rightarrow> nat option \<Rightarrow> string \<Rightarrow> (nat list \<times> nat option \<times> string) option" where
  "v6_loop gs el s =
     (if 8 \<le> length gs then Some (gs, el, s) else
      let ds = takeWhile (\<lambda>c. hex_val c \<noteq> None) s; rest = drop (length ds) s in
      if ds = [] \<or> 4 < length ds then None
      else if rest \<noteq> [] \<and> hd rest = CHR ''.'' then
        (if (el = None \<and> length gs \<noteq> 6) \<or> 8 < length gs + 2 then None
         else map_option (\<lambda>w. (gs @ [unat w div 65536, unat w mod 65536], el, [])) (parse_v4 s))
      else let gs' = gs @ [hex_value ds] in
      if rest = [] then Some (gs', el, [])
      else if hd rest \<noteq> CHR '':'' \<or> length rest = 1 then None
      else let s1 = tl rest in
      if hd s1 = CHR '':'' then
        (if el \<noteq> None then None
         else if tl s1 = [] then Some (gs', Some (length gs'), [])
         else v6_loop gs' (Some (length gs')) (tl s1))
      else v6_loop gs' el s1)"
  by pat_completeness auto
termination
  by (relation "measure (\<lambda>(gs, el, s). 8 - length gs)") (auto simp: Let_def)

declare v6_loop.simps [simp del]

definition parse_v6 :: "string \<Rightarrow> addr option" where
  "parse_v6 str =
     (let (s, zone) = (case cut_at CHR ''%'' str of None \<Rightarrow> (str, None) | Some (a, z) \<Rightarrow> (a, Some z));
          z = (case zone of None \<Rightarrow> [] | Some z \<Rightarrow> z);
          lead = has_prefix ''::'' s;
          s' = (if lead then drop 2 s else s) in
      if zone = Some [] then None
      else if lead \<and> s' = [] then Some (V6 0 z)
      else case v6_loop [] (if lead then Some 0 else None) s' of
        None \<Rightarrow> None
      | Some (gs, el, rest) \<Rightarrow>
          if rest \<noteq> [] then None
          else if length gs < 8 then
            (case el of None \<Rightarrow> None
             | Some e \<Rightarrow> Some (V6 (v6_of_groups (take e gs @ replicate (8 - length gs) 0 @ drop e gs)) z))
          else if el \<noteq> None then None else Some (V6 (v6_of_groups gs) z))"

fun join :: "string \<Rightarrow> string list \<Rightarrow> string" where
  "join sep [] = []"
| "join sep [s] = s"
| "join sep (s # t # ts) = s @ sep @ join sep (t # ts)"

text \<open>The first longest run of at least two zero groups, as start and length.\<close>

definition zero_run :: "nat list \<Rightarrow> nat \<times> nat" where
  "zero_run gs =
     fold (\<lambda>i (st, n). let l = length (takeWhile (\<lambda>g. g = 0) (drop i gs)) in
                        if 2 \<le> l \<and> n < l then (i, l) else (st, n)) [0..<8] (8, 0)"

definition show_v6 :: "128 word \<Rightarrow> string" where
  "show_v6 w =
     (if drop_bit 32 w = 0xFFFF then ''::ffff:'' @ show_v4 (ucast w)
      else let gs = groups_of w; (st, n) = zero_run gs in
        if n = 0 then join '':'' (map show_hex gs)
        else join '':'' (map show_hex (take st gs)) @ ''::'' @
             join '':'' (map show_hex (drop (st + n) gs)))"

fun show_addr :: "addr \<Rightarrow> string" where
  "show_addr (V4 w) = show_v4 w"
| "show_addr (V6 w z) = show_v6 w @ (if z = [] then [] else ''%'' @ z)"

text \<open>\<open>ParseAddr\<close>: the first of the three bytes decides the family.\<close>

definition parse_addr :: "string \<Rightarrow> addr option" where
  "parse_addr s =
     (case find (\<lambda>c. c \<in> {CHR ''.'', CHR '':'', CHR ''%''}) s of
        Some c \<Rightarrow> (if c = CHR ''.'' then map_option V4 (parse_v4 s)
                   else if c = CHR '':'' then parse_v6 s else None)
      | None \<Rightarrow> None)"

lemma find_digit_prefix:
  assumes "\<forall>c \<in> set s. is_digit c"
  shows "find (\<lambda>c. c \<in> {CHR ''.'', CHR '':'', CHR ''%''}) (s @ t) =
         find (\<lambda>c. c \<in> {CHR ''.'', CHR '':'', CHR ''%''}) t"
proof -
  have "find (\<lambda>c. c \<in> {CHR ''.'', CHR '':'', CHR ''%''}) s = None"
    using assms not_digit by (fastforce simp: find_None_iff)
  then show ?thesis by (rule find_append_None)
qed

lemma parse_addr_show_v4 [simp]: "parse_addr (show_v4 w) = Some (V4 w)"
proof -
  have "find (\<lambda>c. c \<in> {CHR ''.'', CHR '':'', CHR ''%''}) (show_v4 w) = Some CHR ''.''"
    by (simp only: show_v4_def Let_def find_digit_prefix [OF show_nat_digits]) simp
  then show ?thesis by (simp add: parse_addr_def)
qed

text \<open>\<open>net.ParseIP\<close>: no zone, and the IPv4-mapped form is the IPv4 address.\<close>

definition net_parse_ip :: "string \<Rightarrow> addr option" where
  "net_parse_ip s =
     (case parse_addr s of
        None \<Rightarrow> None
      | Some a \<Rightarrow> if addr_zone a \<noteq> [] then None else Some (unmap a))"

section \<open>Prefixes\<close>

datatype prefix = Prefix (p_addr: addr) (p_bits: nat)

definition parse_prefix :: "string \<Rightarrow> prefix option" where
  "parse_prefix s =
     (case cut_last CHR ''/'' s of
        None \<Rightarrow> None
      | Some (ip, bits) \<Rightarrow>
          (case parse_addr ip of
             None \<Rightarrow> None
           | Some a \<Rightarrow> if addr_zone a \<noteq> [] then None
                       else map_option (Prefix a) (parse_dec (addr_len a) bits)))"

text \<open>
  \<open>net.ParseCIDR\<close> cuts at the first slash and reads the mask length with \<open>dtoi\<close>, which
  accepts leading zeros, unlike \<open>netip.ParsePrefix\<close>.
\<close>

definition dtoi :: "string \<Rightarrow> nat option" where
  "dtoi s = (if s \<noteq> [] \<and> list_all is_digit s \<and> dec_value s < 0xFFFFFF then Some (dec_value s) else None)"

definition parse_cidr :: "string \<Rightarrow> prefix option" where
  "parse_cidr s =
     (case cut_at CHR ''/'' s of
        None \<Rightarrow> None
      | Some (ip, bits) \<Rightarrow>
          (case parse_addr ip of
             None \<Rightarrow> None
           | Some a \<Rightarrow> if addr_zone a \<noteq> [] then None
                       else (case dtoi bits of
                               None \<Rightarrow> None
                             | Some n \<Rightarrow> if addr_len a < n then None else Some (Prefix a n))))"

definition keep_bits :: "nat \<Rightarrow> 'a::len word \<Rightarrow> 'a word" where
  "keep_bits n w = w AND NOT (mask (LENGTH('a) - n))"

fun masked :: "prefix \<Rightarrow> prefix" where
  "masked (Prefix (V4 w) n) = Prefix (V4 (keep_bits n w)) n"
| "masked (Prefix (V6 w z) n) = Prefix (V6 (keep_bits n w) []) n"

definition show_prefix :: "prefix \<Rightarrow> string" where
  "show_prefix p = show_addr (p_addr p) @ ''/'' @ show_nat (p_bits p)"

definition same_bits :: "nat \<Rightarrow> 'a::len word \<Rightarrow> 'a word \<Rightarrow> bool" where
  "same_bits n a b \<longleftrightarrow> drop_bit (LENGTH('a) - n) (a XOR b) = 0"

fun contains :: "prefix \<Rightarrow> addr \<Rightarrow> bool" where
  "contains (Prefix (V4 p) n) (V4 a) = (n \<le> 32 \<and> same_bits n a p)"
| "contains (Prefix (V6 p z) n) (V6 a z') = (n \<le> 128 \<and> z' = [] \<and> same_bits n a p)"
| "contains _ _ = False"

text \<open>Containment, masking and \<open>Next\<close> on the values of the addresses.\<close>

lemma word_xor_eq_0: "x XOR y = 0 \<longleftrightarrow> x = y" for x y :: "'a::len word"
  by (auto simp: bit_eq_iff bit_xor_iff)

lemma same_bits_div:
  "same_bits n a b \<longleftrightarrow> unat a div 2 ^ (LENGTH('a) - n) = unat b div 2 ^ (LENGTH('a) - n)"
  for a b :: "'a::len word"
proof -
  let ?k = "LENGTH('a) - n"
  have "same_bits n a b \<longleftrightarrow> drop_bit ?k a = drop_bit ?k b"
    by (simp only: same_bits_def drop_bit_xor word_xor_eq_0)
  also have "\<dots> \<longleftrightarrow> unat (drop_bit ?k a) = unat (drop_bit ?k b)"
    by (auto intro: unsigned_word_eqI)
  also have "\<dots> \<longleftrightarrow> drop_bit ?k (unat a) = drop_bit ?k (unat b)"
    by (simp only: unat_drop_bit_eq)
  finally show ?thesis by (simp only: drop_bit_eq_div)
qed

lemma unat_keep_bits:
  "unat (keep_bits n w) = unat w div 2 ^ (LENGTH('a) - n) * 2 ^ (LENGTH('a) - n)"
  for w :: "'a::len word"
proof -
  let ?k = "LENGTH('a) - n"
  have "keep_bits n w = push_bit ?k (drop_bit ?k w)"
    by (rule bit_word_eqI) (auto simp: keep_bits_def bit_simps)
  moreover have "unat w div 2 ^ ?k * 2 ^ ?k < 2 ^ LENGTH('a)"
    by (rule le_less_trans [OF _ unat_bound [of w]]) simp
  moreover have "unat (push_bit ?k (drop_bit ?k w)) =
      take_bit LENGTH('a) (unat w div 2 ^ ?k * 2 ^ ?k)"
    by (subst unsigned_push_bit_eq, subst unat_drop_bit_eq)
      (simp only: push_bit_eq_mult drop_bit_eq_div)
  ultimately show ?thesis by (simp only: take_bit_nat_eq_self)
qed

lemma keep_bits_nat:
  "keep_bits n w = word_of_nat (unat w div 2 ^ (LENGTH('a) - n) * 2 ^ (LENGTH('a) - n))"
  for w :: "'a::len word"
  by (simp flip: unat_keep_bits)

lemmas netip_compute [compute] = show_v4_def show_v6_def groups_of_def zero_run_def show_hex.simps
  upt_rec parse_addr_def parse_v4_def parse_v6_def v6_loop.simps v4_of_octets_def hex_value_def
  v6_of_groups_def parse_prefix_def keep_bits_nat show_prefix_def parse_cidr_def dtoi_def
  same_bits_div net_parse_ip_def

lemma contains_iff:
  "contains p a \<longleftrightarrow> addr_len a = addr_len (p_addr p) \<and> p_bits p \<le> addr_len a \<and> addr_zone a = [] \<and>
     addr_num a div 2 ^ (addr_len a - p_bits p) = addr_num (p_addr p) div 2 ^ (addr_len a - p_bits p)"
  by (cases "(p, a)" rule: contains.cases) (auto simp: same_bits_div)

lemma masked_props:
  "p_bits (masked p) = p_bits p" "addr_len (p_addr (masked p)) = addr_len (p_addr p)"
  "addr_zone (p_addr (masked p)) = []" "is4 (p_addr (masked p)) = is4 (p_addr p)"
  "addr_num (p_addr (masked p)) =
     addr_num (p_addr p) div 2 ^ (addr_len (p_addr p) - p_bits p) * 2 ^ (addr_len (p_addr p) - p_bits p)"
  by (cases p rule: masked.cases; simp add: unat_keep_bits)+

lemma masked_idem [simp]: "masked (masked p) = masked p"
proof -
  have "p_addr (masked (masked p)) = p_addr (masked p)"
    by (rule addr_eqI) (simp_all add: masked_props)
  moreover have "p_bits (masked (masked p)) = p_bits (masked p)" by (simp add: masked_props)
  ultimately show ?thesis by (rule prefix.expand [OF conjI])
qed

lemma parse_show_prefix_v4:
  "n \<le> 32 \<Longrightarrow> parse_prefix (show_prefix (Prefix (V4 w) n)) = Some (Prefix (V4 w) n)"
  by (simp add: parse_prefix_def show_prefix_def cut_last_append show_nat_no parse_dec_show_nat)

lemma parse_prefix_bits: "parse_prefix s = Some p \<Longrightarrow> p_bits p \<le> addr_len (p_addr p)"
  by (auto simp: parse_prefix_def dest!: parse_dec_bound split: option.splits if_splits)

lemma parse_prefix_zone: "parse_prefix s = Some p \<Longrightarrow> addr_zone (p_addr p) = []"
  by (auto simp: parse_prefix_def split: option.splits if_splits)

section \<open>Address and port\<close>

type_synonym addrport = "addr \<times> 16 word"

definition show_addrport :: "addrport \<Rightarrow> string" where
  "show_addrport ap =
     (case ap of (a, p) \<Rightarrow>
        (if is4 a then show_addr a else ''['' @ show_addr a @ '']'') @ '':'' @ show_nat (unat p))"

definition parse_addrport :: "string \<Rightarrow> addrport option" where
  "parse_addrport s =
     (case cut_last CHR '':'' s of
        None \<Rightarrow> None
      | Some (ip, port) \<Rightarrow>
          if ip = [] \<or> port = [] then None
          else let br = (hd ip = CHR ''[''); ip' = (if br then tl (butlast ip) else ip) in
            if br \<and> (length ip < 2 \<or> last ip \<noteq> CHR '']'') then None
            else if \<not> list_all is_digit port \<or> 65535 < dec_value port then None
            else (case parse_addr ip' of
                    None \<Rightarrow> None
                  | Some a \<Rightarrow> if br = is4 a then None else Some (a, word_of_nat (dec_value port))))"

declare show_addrport_def [compute] parse_addrport_def [compute]

lemma hd_show_v4: "hd (show_v4 w) \<noteq> CHR ''[''" "show_v4 w \<noteq> []"
proof -
  have "is_digit (hd (show_v4 w))"
    using show_nat_digits [of "unat w div 16777216"] by (simp add: show_v4_def Let_def)
  then show "hd (show_v4 w) \<noteq> CHR ''[''" by (auto simp: is_digit_def)
  show "show_v4 w \<noteq> []" by (simp add: show_v4_def Let_def)
qed

lemma parse_show_addrport_v4: "parse_addrport (show_addrport (V4 w, p)) = Some (V4 w, p)"
proof -
  have "unat p \<le> 65535" using unat_bound [of p] by simp
  moreover have "list_all is_digit (show_nat (unat p))" by (simp add: list_all_iff show_nat_digits)
  moreover have "cut_last CHR '':'' (show_addrport (V4 w, p)) = Some (show_v4 w, show_nat (unat p))"
    by (simp add: show_addrport_def cut_last_append show_nat_no)
  ultimately show ?thesis
    by (simp add: parse_addrport_def Let_def hd_show_v4)
qed

end
