(* ===== verification/Store_Types.thy ===== *)
theory Store_Types
  imports Filesys Netip
begin

text \<open>
  The persistent data of the coordination server: \<open>Device\<close>, \<open>AuthKey\<close> and \<open>stateFile\<close> of
  \<open>internal/control/store.go\<close>, \<open>User\<close>, \<open>Invite\<close> and \<open>WebSession\<close> of \<open>users.go\<close>, the policy
  of \<open>acl.go\<close>, and the errors of the package. JSON decoding gives back what was encoded, so the
  content of the state file is the \<open>state_file\<close> itself.
\<close>

section \<open>Records\<close>

record device =
  d_id :: string
  d_hostname :: string
  d_owner :: string
  d_public_key :: string
  d_token :: string
  d_token_issued :: time
  d_prev_token :: string
  d_prev_until :: time
  d_ip :: string
  d_endpoint :: string
  d_endpoints :: "string list"
  d_advertised :: "string list"
  d_approved :: "string list"
  d_created :: time
  d_last_seen :: time

record auth_key =
  k_key :: string
  k_owner :: string
  k_reusable :: bool
  k_used :: bool
  k_created :: time
  k_expires :: time

record user =
  u_id :: string
  u_email :: string
  u_hash :: string
  u_created :: time

record invite =
  i_code :: string
  i_used :: bool
  i_created :: time
  i_expires :: time

record web_session =
  s_user :: string
  s_expires :: time

record acl_rule =
  r_src :: "string list"
  r_dst :: "string list"

record acl_policy =
  p_rules :: "acl_rule list"

record state_file =
  sf_admin_key :: string
  sf_cidr :: string
  sf_auth_keys :: "auth_key list"
  sf_devices :: "(string, device) gomap"
  sf_acl :: "acl_policy option"
  sf_users :: "(string, user) gomap"
  sf_invites :: "invite list"
  sf_sessions :: "(string, web_session) gomap"

text \<open>\<open>Store\<close>: the state in memory and the disk it is persisted on.\<close>

record store =
  st_path :: string
  st_fs :: "state_file fs"
  st_s :: state_file

section \<open>Errors and the environment\<close>

datatype store_err =
    ErrInvalidAuthKey | ErrIPExhausted | ErrBadCIDR string | ErrCorrupt | ErrRead | ErrSave
  | ErrUnknownDevice | ErrNoMatch string | ErrNotPrefix | ErrNotIPv4 | ErrRoute string
  | ErrInvalidInvite | ErrEmailTaken | ErrBadCredentials | ErrWeakPassword | ErrDeviceNotOwned
  | ErrBadEmail | ErrHash | ErrRule nat

type_synonym 'a result = "store_err + 'a"

text \<open>
  What an operation gets from outside: the clock, the random bytes of its identifiers and of its
  keys, the outcome of its save and the random part of the temporary file's name. One reading of
  the clock stands for the readings within one critical section.
\<close>

record env =
  e_now :: time
  e_rnd_id :: bytes
  e_rnd_key :: bytes
  e_fault :: "fault option"
  e_tmp :: string

text \<open>A zero \<open>ExpiresAt\<close> never expires.\<close>

definition unexpired :: "time \<Rightarrow> time \<Rightarrow> bool" where
  "unexpired now expires \<longleftrightarrow> expires = 0 \<or> now < expires"

section \<open>Saving\<close>

definition save_locked :: "env \<Rightarrow> store \<Rightarrow> store \<times> bool" where
  "save_locked e st =
     (let (fs', ok) = save_file (st_path st) (e_tmp e) (st_s st) (e_fault e) (st_fs st)
      in (st\<lparr>st_fs := fs'\<rparr>, ok))"

text \<open>The common end of the mutating operations: save, then return the value or the error.\<close>

definition saved :: "env \<Rightarrow> store \<Rightarrow> 'a \<Rightarrow> store \<times> 'a result" where
  "saved e st a = (let (st', ok) = save_locked e st in (st', if ok then Inr a else Inl ErrSave))"

definition on_disk :: "store \<Rightarrow> state_file option" where
  "on_disk st = (case load_file (st_path st) (st_fs st) of None \<Rightarrow> None | Some f \<Rightarrow> f_content f)"

lemma save_locked_state [simp]:
  "st_s (fst (save_locked e st)) = st_s st" "st_path (fst (save_locked e st)) = st_path st"
  by (simp_all add: save_locked_def split_beta)

lemma save_locked_ok: "snd (save_locked e st) \<longleftrightarrow> e_fault e = None"
  by (simp add: save_locked_def split_beta save_file_ok_iff)

lemma save_locked_disk:
  "on_disk (fst (save_locked e st)) = (if e_fault e = None then Some (st_s st) else on_disk st)"
proof (cases "save_file (st_path st) (e_tmp e) (st_s st) (e_fault e) (st_fs st)")
  case (Pair fs' ok)
  then have "ok \<longleftrightarrow> e_fault e = None"
    using save_file_ok_iff [of "st_path st" "e_tmp e" "st_s st" "e_fault e" "st_fs st"] by simp
  moreover have "load_file (st_path st) fs' = (if ok then
      Some \<lparr>f_content = Some (st_s st), f_mode = private_mode\<rparr> else load_file (st_path st) (st_fs st))"
    using Pair saver.save_done saver.save_failed by (cases ok) auto
  ultimately show ?thesis using Pair by (simp add: save_locked_def on_disk_def)
qed

lemma saved_state [simp]:
  "st_s (fst (saved e st a)) = st_s st" "st_path (fst (saved e st a)) = st_path st"
  by (simp_all add: saved_def split_beta)

lemma saved_result:
  "snd (saved e st a) = (if e_fault e = None then Inr a else Inl ErrSave)"
  by (simp add: saved_def split_beta save_locked_ok)

lemma saved_disk:
  "on_disk (fst (saved e st a)) = (if e_fault e = None then Some (st_s st) else on_disk st)"
  by (simp add: saved_def split_beta save_locked_disk)

lemmas saved_facts = saved_state saved_result saved_disk

end
