(* ===== verification/Acl.thy ===== *)
theory Acl
  imports Store_Types
begin

text \<open>
  The access policy of \<open>internal/control/acl.go\<close>. A policy is a pointer (\<open>None\<close> for \<open>nil\<close>): absent
  or without rules it allows everything, otherwise it allows what some rule names.
\<close>

definition match_any :: "string list \<Rightarrow> device \<Rightarrow> bool" where
  "match_any entries d \<longleftrightarrow>
     list_ex (\<lambda>e. e = ''*'' \<or> e = d_hostname d \<or> e = d_ip d) entries"

definition acl_allows :: "acl_policy option \<Rightarrow> device \<Rightarrow> device \<Rightarrow> bool" where
  "acl_allows p src dst =
     (case p of
        None \<Rightarrow> True
      | Some pol \<Rightarrow>
          p_rules pol = [] \<or>
          list_ex (\<lambda>r. match_any (r_src r) src \<and> match_any (r_dst r) dst) (p_rules pol))"

definition acl_visible :: "acl_policy option \<Rightarrow> device \<Rightarrow> device \<Rightarrow> bool" where
  "acl_visible p a b \<longleftrightarrow> acl_allows p a b \<or> acl_allows p b a"

text \<open>\<open>Validate\<close> reports the index of the first rule with an empty side.\<close>

fun validate_from :: "nat \<Rightarrow> acl_rule list \<Rightarrow> unit result" where
  "validate_from i [] = Inr ()"
| "validate_from i (r # rs) =
     (if r_src r = [] \<or> r_dst r = [] then Inl (ErrRule i) else validate_from (Suc i) rs)"

definition acl_validate :: "acl_policy \<Rightarrow> unit result" where
  "acl_validate p = validate_from 0 (p_rules p)"

text \<open>\<open>clone\<close> copies every slice, so the copy shares nothing; as a value it is the same policy.\<close>

definition acl_clone :: "acl_policy option \<Rightarrow> acl_policy option" where
  "acl_clone p =
     map_option (\<lambda>pol. \<lparr>p_rules = map (\<lambda>r. \<lparr>r_src = r_src r, r_dst = r_dst r\<rparr>) (p_rules pol)\<rparr>) p"

lemma acl_clone_id [simp]: "acl_clone p = p"
proof -
  have "(\<lambda>r :: acl_rule. \<lparr>r_src = r_src r, r_dst = r_dst r\<rparr>) = (\<lambda>r. r)" by auto
  then show ?thesis by (cases p) (simp_all add: acl_clone_def)
qed

lemma acl_visible_sym: "acl_visible p a b \<longleftrightarrow> acl_visible p b a"
  by (auto simp: acl_visible_def)

lemma acl_allows_empty [simp]: "acl_allows None a b" "acl_allows (Some \<lparr>p_rules = []\<rparr>) a b"
  by (simp_all add: acl_allows_def)

lemma validate_from_ok:
  "validate_from i rs = Inr () \<longleftrightarrow> (\<forall>r \<in> set rs. r_src r \<noteq> [] \<and> r_dst r \<noteq> [])"
  by (induction rs arbitrary: i) auto

lemma validate_from_err:
  "validate_from i rs = Inl (ErrRule k) \<Longrightarrow>
   i \<le> k \<and> k < i + length rs \<and> (r_src (rs ! (k - i)) = [] \<or> r_dst (rs ! (k - i)) = []) \<and>
   (\<forall>j < k - i. r_src (rs ! j) \<noteq> [] \<and> r_dst (rs ! j) \<noteq> [])"
proof (induction rs arbitrary: i)
  case (Cons r rs)
  show ?case
  proof (cases "r_src r = [] \<or> r_dst r = []")
    case True
    with Cons.prems show ?thesis by auto
  next
    case False
    then have err: "validate_from (Suc i) rs = Inl (ErrRule k)" using Cons.prems by simp
    from Cons.IH [OF err] have "Suc i \<le> k \<and> k < Suc i + length rs \<and>
        (r_src (rs ! (k - Suc i)) = [] \<or> r_dst (rs ! (k - Suc i)) = []) \<and>
        (\<forall>j < k - Suc i. r_src (rs ! j) \<noteq> [] \<and> r_dst (rs ! j) \<noteq> [])" .
    moreover from this have "k - i = Suc (k - Suc i)"
      by (simp add: Suc_diff_Suc Suc_le_lessD)
    ultimately show ?thesis using False by (auto simp: nth_Cons split: nat.splits)
  qed
qed simp

text \<open>A policy without wildcard depends only on the names and the addresses of the machines.\<close>

lemma match_any_iff:
  "match_any es d \<longleftrightarrow> ''*'' \<in> set es \<or> d_hostname d \<in> set es \<or> d_ip d \<in> set es"
  by (auto simp: match_any_def list_ex_iff)

lemma acl_default_deny:
  "p_rules pol \<noteq> [] \<Longrightarrow>
   acl_allows (Some pol) a b \<longleftrightarrow>
     (\<exists>r \<in> set (p_rules pol). match_any (r_src r) a \<and> match_any (r_dst r) b)"
  by (auto simp: acl_allows_def list_ex_iff)

end
