(* ===== verification/Store.thy ===== *)
theory Store
  imports Acl
begin

text \<open>
  The operations of \<open>internal/control/store.go\<close>, each the whole of one critical section: opening
  the state, enrolment keys, registration, address allocation, tokens and their rotation, the
  heartbeat, routes, the device list, the policy and revocation. The lemmas below are about each
  operation; the invariants and the reachable states are in \<open>Store_Inv\<close>.
\<close>

section \<open>Opening\<close>

definition default_cidr :: string where "default_cidr = ''100.64.0.0/24''"
definition online_threshold :: duration where "online_threshold = 35 * second"
definition token_rotate_after :: duration where "token_rotate_after = 24 * hour"
definition token_grace :: duration where "token_grace = hour"

definition empty_state :: state_file where
  "empty_state = \<lparr>sf_admin_key = [], sf_cidr = [], sf_auth_keys = [], sf_devices = [], sf_acl = None,
     sf_users = [], sf_invites = [], sf_sessions = []\<rparr>"

text \<open>
  \<open>readable\<close> is false when the file exists and cannot be read. A file that is not whole does not
  decode.
\<close>

definition open_store_cidr ::
  "env \<Rightarrow> bool \<Rightarrow> string \<Rightarrow> string \<Rightarrow> state_file fs \<Rightarrow> (store \<times> bool) result" where
  "open_store_cidr e readable path cidr fs =
     (if parse_cidr cidr = None then Inl (ErrBadCIDR cidr)
      else case (case load_file path fs of
                   None \<Rightarrow> Inr empty_state
                 | Some f \<Rightarrow> if \<not> readable then Inl ErrRead
                             else (case f_content f of None \<Rightarrow> Inl ErrCorrupt | Some s \<Rightarrow> Inr s)) of
        Inl err \<Rightarrow> Inl err
      | Inr s \<Rightarrow>
          let created = (sf_admin_key s = []);
              s1 = (if created then s\<lparr>sf_admin_key := ''omadmin-'' @ hex_encode (e_rnd_key e)\<rparr> else s);
              s2 = (if sf_cidr s1 = [] then s1\<lparr>sf_cidr := cidr\<rparr> else s1);
              st = \<lparr>st_path = path, st_fs = fs, st_s = s2\<rparr>
          in if created then
               (let (st', ok) = save_locked e st in if ok then Inr (st', True) else Inl ErrSave)
             else Inr (st, False))"

definition open_store :: "env \<Rightarrow> bool \<Rightarrow> string \<Rightarrow> state_file fs \<Rightarrow> (store \<times> bool) result" where
  "open_store e readable path fs = open_store_cidr e readable path default_cidr fs"

definition store_cidr :: "store \<Rightarrow> string" where "store_cidr st = sf_cidr (st_s st)"
definition store_admin_key :: "store \<Rightarrow> string" where "store_admin_key st = sf_admin_key (st_s st)"

abbreviation upd :: "(state_file \<Rightarrow> state_file) \<Rightarrow> store \<Rightarrow> store" where
  "upd f st \<equiv> st\<lparr>st_s := f (st_s st)\<rparr>"

abbreviation st_devices :: "store \<Rightarrow> (string, device) gomap" where
  "st_devices st \<equiv> sf_devices (st_s st)"

section \<open>Enrolment keys\<close>

definition create_auth_key_for ::
  "env \<Rightarrow> string \<Rightarrow> bool \<Rightarrow> duration \<Rightarrow> store \<Rightarrow> store \<times> auth_key result" where
  "create_auth_key_for e owner reusable ttl st =
     (let k = \<lparr>k_key = ''omkey-'' @ hex_encode (e_rnd_key e), k_owner = owner, k_reusable = reusable,
               k_used = False, k_created = e_now e,
               k_expires = (if 0 < ttl then e_now e + ttl else 0)\<rparr>
      in saved e (upd (sf_auth_keys_update (\<lambda>ks. ks @ [k])) st) k)"

definition create_auth_key ::
  "env \<Rightarrow> bool \<Rightarrow> duration \<Rightarrow> store \<Rightarrow> store \<times> auth_key result" where
  "create_auth_key e reusable ttl st = create_auth_key_for e [] reusable ttl st"

definition auth_keys :: "store \<Rightarrow> auth_key list" where
  "auth_keys st = sf_auth_keys (st_s st)"

section \<open>Address allocation\<close>

definition contains_next :: "prefix \<Rightarrow> addr \<Rightarrow> bool" where
  "contains_next p a = (case addr_next a of None \<Rightarrow> False | Some b \<Rightarrow> contains p b)"

text \<open>
  The loop of \<open>allocateIPLocked\<close>: it stops at the first free address and gives up at the
  first address whose successor leaves the prefix. The zero address is in no prefix.
\<close>

function alloc_loop :: "prefix \<Rightarrow> string set \<Rightarrow> addr option \<Rightarrow> addr option" where
  "alloc_loop p used None = None"
| "alloc_loop p used (Some a) =
     (if contains p a \<and> contains_next p a then
        (if show_addr a \<notin> used then Some a else alloc_loop p used (addr_next a))
      else None)"
  by pat_completeness auto
termination
proof (relation "measure (\<lambda>(p, used, a). case a of None \<Rightarrow> 0 | Some a \<Rightarrow> Suc (2 ^ addr_len a - addr_num a))")
  fix p used a
  assume "contains p a \<and> contains_next p a" "\<not> show_addr a \<notin> used"
  then obtain b where b: "addr_next a = Some b" by (auto simp: contains_next_def split: option.splits)
  with addr_next_num [OF b] addr_num_bound [of a]
  show "((p, used, addr_next a), p, used, Some a)
     \<in> measure (\<lambda>(p, used, a). case a of None \<Rightarrow> 0 | Some a \<Rightarrow> Suc (2 ^ addr_len a - addr_num a))"
    by auto
qed simp

declare alloc_loop.simps(2) [simp del]

definition used_ips :: "(string, device) gomap \<Rightarrow> string set" where
  "used_ips ds = (\<lambda>(k, d). d_ip d) ` set ds"

definition allocate_ip :: "state_file \<Rightarrow> string result" where
  "allocate_ip s =
     (case parse_prefix (sf_cidr s) of
        None \<Rightarrow> Inl (ErrBadCIDR (sf_cidr s))
      | Some p \<Rightarrow>
          (case alloc_loop (masked p) (used_ips (sf_devices s)) (addr_next (p_addr (masked p))) of
             None \<Rightarrow> Inl ErrIPExhausted
           | Some a \<Rightarrow> Inr (show_addr a)))"

section \<open>Registration\<close>

definition create_device ::
  "env \<Rightarrow> string \<Rightarrow> string \<Rightarrow> string \<Rightarrow> store \<Rightarrow> (store \<times> device) result" where
  "create_device e hostname public_key owner st =
     (case allocate_ip (st_s st) of
        Inl err \<Rightarrow> Inl err
      | Inr ip \<Rightarrow>
          let d = \<lparr>d_id = hex_encode (e_rnd_id e), d_hostname = hostname, d_owner = owner,
                   d_public_key = public_key, d_token = ''omtok-'' @ hex_encode (e_rnd_key e),
                   d_token_issued = e_now e, d_prev_token = [], d_prev_until = 0, d_ip = ip,
                   d_endpoint = [], d_endpoints = [], d_advertised = [], d_approved = [],
                   d_created = e_now e, d_last_seen = 0\<rparr>
          in Inr (upd (sf_devices_update (gm_put public_key d)) st, d))"

definition key_usable :: "time \<Rightarrow> string \<Rightarrow> auth_key \<Rightarrow> bool" where
  "key_usable now key k \<longleftrightarrow>
     k_key k = key \<and> (k_reusable k \<or> \<not> k_used k) \<and> unexpired now (k_expires k)"

definition set_device :: "string \<Rightarrow> device \<Rightarrow> store \<Rightarrow> store" where
  "set_device public_key d st = upd (sf_devices_update (gm_put public_key d)) st"

definition register_device ::
  "env \<Rightarrow> string \<Rightarrow> string \<Rightarrow> string \<Rightarrow> store \<Rightarrow> store \<times> device result" where
  "register_device e key hostname public_key st =
     (case gm_get (st_devices st) public_key of
        Some d \<Rightarrow>
          if hostname \<noteq> [] \<and> d_hostname d \<noteq> hostname then
            (let d' = d\<lparr>d_hostname := hostname\<rparr> in saved e (set_device public_key d' st) d')
          else (st, Inr d)
      | None \<Rightarrow>
          (case find (key_usable (e_now e) key) (sf_auth_keys (st_s st)) of
             None \<Rightarrow> (st, Inl ErrInvalidAuthKey)
           | Some k \<Rightarrow>
               (case create_device e hostname public_key (k_owner k) st of
                  Inl err \<Rightarrow> (st, Inl err)
                | Inr (st1, d) \<Rightarrow>
                    saved e (upd (sf_auth_keys_update
                      (update_first (key_usable (e_now e) key) (k_used_update (\<lambda>_. True)))) st1) d)))"

definition register_device_sso ::
  "env \<Rightarrow> string \<Rightarrow> string \<Rightarrow> string \<Rightarrow> store \<Rightarrow> store \<times> device result" where
  "register_device_sso e hostname public_key owner st =
     (case gm_get (st_devices st) public_key of
        Some d \<Rightarrow>
          let d1 = (if hostname \<noteq> [] \<and> d_hostname d \<noteq> hostname then d\<lparr>d_hostname := hostname\<rparr> else d);
              d2 = (if owner \<noteq> [] \<and> d_owner d \<noteq> owner then d1\<lparr>d_owner := owner\<rparr> else d1);
              changed = ((hostname \<noteq> [] \<and> d_hostname d \<noteq> hostname) \<or> (owner \<noteq> [] \<and> d_owner d \<noteq> owner))
          in if changed then saved e (set_device public_key d2 st) d2 else (st, Inr d)
      | None \<Rightarrow>
          (case create_device e hostname public_key owner st of
             Inl err \<Rightarrow> (st, Inl err)
           | Inr (st1, d) \<Rightarrow> saved e st1 d))"

section \<open>Machine tokens\<close>

definition token_matches :: "time \<Rightarrow> string \<Rightarrow> device \<Rightarrow> bool" where
  "token_matches now token d \<longleftrightarrow>
     d_token d = token \<or> (d_prev_token d = token \<and> now < d_prev_until d)"

definition device_by_token :: "time \<Rightarrow> string \<Rightarrow> store \<Rightarrow> device option" where
  "device_by_token now token st =
     (if token = [] then None
      else map_option snd (find (\<lambda>(pub, d). token_matches now token d) (st_devices st)))"

definition rotate_token_if_due :: "env \<Rightarrow> string \<Rightarrow> store \<Rightarrow> store \<times> string result" where
  "rotate_token_if_due e public_key st =
     (case gm_get (st_devices st) public_key of
        None \<Rightarrow> (st, Inl ErrUnknownDevice)
      | Some d \<Rightarrow>
          if time_sub (e_now e) (d_token_issued d) < token_rotate_after then (st, Inr [])
          else
            (let d' = d\<lparr>d_prev_token := d_token d, d_prev_until := e_now e + token_grace,
                       d_token := ''omtok-'' @ hex_encode (e_rnd_key e), d_token_issued := e_now e\<rparr>
             in saved e (set_device public_key d' st) (d_token d')))"

section \<open>Heartbeat and routes\<close>

definition normalize_cidr :: "string \<Rightarrow> string result" where
  "normalize_cidr s =
     (case parse_prefix (trim_space s) of
        None \<Rightarrow> Inl ErrNotPrefix
      | Some p \<Rightarrow> if is4 (p_addr p) then Inr (show_prefix (masked p)) else Inl ErrNotIPv4)"

fun valid_routes :: "string list \<Rightarrow> string list" where
  "valid_routes [] = []"
| "valid_routes (r # rs) =
     (case normalize_cidr r of Inr c \<Rightarrow> c # valid_routes rs | Inl _ \<Rightarrow> valid_routes rs)"

text \<open>\<open>None\<close> is a nil slice: the field keeps its value.\<close>

definition touch_device ::
  "env \<Rightarrow> string \<Rightarrow> string \<Rightarrow> string list option \<Rightarrow> string list option \<Rightarrow> store \<Rightarrow> store \<times> unit result" where
  "touch_device e public_key endpoint reported advertised st =
     (case gm_get (st_devices st) public_key of
        None \<Rightarrow> (st, Inl ErrUnknownDevice)
      | Some d \<Rightarrow>
          let d1 = d\<lparr>d_last_seen := e_now e\<rparr>;
              d2 = (if endpoint \<noteq> [] then d1\<lparr>d_endpoint := endpoint\<rparr> else d1);
              d3 = (case reported of None \<Rightarrow> d2 | Some eps \<Rightarrow> d2\<lparr>d_endpoints := eps\<rparr>);
              d4 = (case advertised of None \<Rightarrow> d3 | Some rs \<Rightarrow> d3\<lparr>d_advertised := valid_routes rs\<rparr>)
          in saved e (set_device public_key d4 st) ())"

fun normalize_all :: "string list \<Rightarrow> string list result" where
  "normalize_all [] = Inr []"
| "normalize_all (r # rs) =
     (case normalize_cidr r of
        Inl _ \<Rightarrow> Inl (ErrRoute r)
      | Inr c \<Rightarrow> (case normalize_all rs of Inl err \<Rightarrow> Inl err | Inr cs \<Rightarrow> Inr (c # cs)))"

definition is_target :: "string \<Rightarrow> device \<Rightarrow> bool" where
  "is_target target d \<longleftrightarrow> d_ip d = target \<or> d_hostname d = target \<or> d_id d = target"

definition set_approved_routes :: "env \<Rightarrow> string \<Rightarrow> string list \<Rightarrow> store \<Rightarrow> store \<times> device result" where
  "set_approved_routes e target routes st =
     (case normalize_all routes of
        Inl err \<Rightarrow> (st, Inl err)
      | Inr cs \<Rightarrow>
          (case find (\<lambda>(pub, d). is_target target d) (st_devices st) of
             None \<Rightarrow> (st, Inl (ErrNoMatch target))
           | Some (pub, d) \<Rightarrow>
               (let d' = d\<lparr>d_approved := cs\<rparr> in saved e (set_device pub d' st) d')))"

definition active_routes :: "device \<Rightarrow> string list" where
  "active_routes d =
     (if d_advertised d = [] \<or> d_approved d = [] then []
      else filter (\<lambda>r. r \<in> set (d_approved d)) (d_advertised d))"

section \<open>Listing, policy, revocation\<close>

definition devices :: "store \<Rightarrow> device list" where
  "devices st = sort_key d_ip (map snd (st_devices st))"

definition store_acl :: "store \<Rightarrow> acl_policy option" where
  "store_acl st = acl_clone (sf_acl (st_s st))"

definition set_acl :: "env \<Rightarrow> acl_policy option \<Rightarrow> store \<Rightarrow> store \<times> unit result" where
  "set_acl e p st = saved e (upd (sf_acl_update (\<lambda>_. acl_clone p)) st) ()"

definition remove_device :: "env \<Rightarrow> string \<Rightarrow> store \<Rightarrow> store \<times> device result" where
  "remove_device e target st =
     (case find (\<lambda>(pub, d). is_target target d) (st_devices st) of
        None \<Rightarrow> (st, Inl (ErrNoMatch target))
      | Some (pub, d) \<Rightarrow> saved e (upd (sf_devices_update (gm_del pub)) st) d)"

end
