(* ===== verification/Users.thy ===== *)
theory Users
  imports Store
begin

text \<open>
  Accounts, invitations and web sessions, \<open>internal/control/users.go\<close>. bcrypt is not in the
  repository: \<open>gen\<close> (hash of a password, or failure) and \<open>cmp\<close> (does a password match a
  hash) are parameters, as are the Unicode tables \<open>ul\<close> of \<open>strings.ToLower\<close>.
\<close>

definition session_ttl :: duration where "session_ttl = 7 * 24 * hour"

definition normalize_email :: "(string \<Rightarrow> string) \<Rightarrow> string \<Rightarrow> string" where
  "normalize_email ul email = to_lower ul (trim_space email)"

section \<open>Invitations\<close>

definition create_invite :: "env \<Rightarrow> duration \<Rightarrow> store \<Rightarrow> store \<times> invite result" where
  "create_invite e ttl st =
     (let inv = \<lparr>i_code = ''ominv-'' @ hex_encode (e_rnd_key e), i_used = False,
                 i_created = e_now e, i_expires = (if 0 < ttl then e_now e + ttl else 0)\<rparr>
      in saved e (upd (sf_invites_update (\<lambda>is. is @ [inv])) st) inv)"

definition invites :: "store \<Rightarrow> invite list" where
  "invites st = sf_invites (st_s st)"

definition invite_usable :: "time \<Rightarrow> string \<Rightarrow> invite \<Rightarrow> bool" where
  "invite_usable now code i \<longleftrightarrow> i_code i = code \<and> \<not> i_used i \<and> unexpired now (i_expires i)"

section \<open>Accounts\<close>

definition register_user ::
  "(string \<Rightarrow> string) \<Rightarrow> (string \<Rightarrow> string option) \<Rightarrow> env \<Rightarrow> string \<Rightarrow> string \<Rightarrow> string \<Rightarrow> bool \<Rightarrow>
   store \<Rightarrow> store \<times> user result" where
  "register_user ul gen e email0 password code require_invite st =
     (let email = normalize_email ul email0 in
      if email = [] \<or> CHR ''@'' \<notin> set email then (st, Inl ErrBadEmail)
      else if length password < 8 then (st, Inl ErrWeakPassword)
      else case gen password of
        None \<Rightarrow> (st, Inl ErrHash)
      | Some hash \<Rightarrow>
          if gm_get (sf_users (st_s st)) email \<noteq> None then (st, Inl ErrEmailTaken)
          else if require_invite \<and> find (invite_usable (e_now e) code) (sf_invites (st_s st)) = None
          then (st, Inl ErrInvalidInvite)
          else
            let u = \<lparr>u_id = hex_encode (e_rnd_id e), u_email = email, u_hash = hash,
                     u_created = e_now e\<rparr>;
                st1 = (if require_invite
                       then upd (sf_invites_update
                         (update_first (invite_usable (e_now e) code) (i_used_update (\<lambda>_. True)))) st
                       else st)
            in saved e (upd (sf_users_update (gm_put email u)) st1) u)"

text \<open>The hash compared when the account does not exist, so that the time does not tell.\<close>

definition dummy_hash :: string where
  "dummy_hash = ''$2a$10$'' @ replicate 52 CHR ''0''"

definition authenticate ::
  "(string \<Rightarrow> string) \<Rightarrow> (string \<Rightarrow> string \<Rightarrow> bool) \<Rightarrow> string \<Rightarrow> string \<Rightarrow> store \<Rightarrow> user result" where
  "authenticate ul cmp email password st =
     (let u = gm_get (sf_users (st_s st)) (normalize_email ul email);
          hash0 = (case u of None \<Rightarrow> [] | Some v \<Rightarrow> u_hash v);
          hash = (if hash0 = [] then dummy_hash else hash0)
      in if cmp hash password then (case u of None \<Rightarrow> Inl ErrBadCredentials | Some v \<Rightarrow> Inr v)
         else Inl ErrBadCredentials)"

section \<open>Sessions\<close>

definition session_live :: "time \<Rightarrow> web_session \<Rightarrow> bool" where
  "session_live now s \<longleftrightarrow> now \<le> s_expires s"

definition create_session :: "env \<Rightarrow> string \<Rightarrow> store \<Rightarrow> store \<times> string result" where
  "create_session e user_id st =
     (let token = ''omsess-'' @ hex_encode (e_rnd_key e);
          session = \<lparr>s_user = user_id, s_expires = e_now e + session_ttl\<rparr>
      in saved e (upd (sf_sessions_update
           (\<lambda>m. gm_put token session (filter (\<lambda>(t, s). session_live (e_now e) s) m))) st) token)"

definition session_user :: "time \<Rightarrow> string \<Rightarrow> store \<Rightarrow> user option" where
  "session_user now token st =
     (if token = [] then None
      else case gm_get (sf_sessions (st_s st)) token of
        None \<Rightarrow> None
      | Some s \<Rightarrow>
          if session_live now s
          then map_option snd (find (\<lambda>(email, u). u_id u = s_user s) (sf_users (st_s st)))
          else None)"

definition delete_session :: "env \<Rightarrow> string \<Rightarrow> store \<Rightarrow> store" where
  "delete_session e token st = fst (save_locked e (upd (sf_sessions_update (gm_del token)) st))"

section \<open>A user's machines\<close>

definition remove_owned_device ::
  "env \<Rightarrow> string \<Rightarrow> string \<Rightarrow> store \<Rightarrow> store \<times> device result" where
  "remove_owned_device e owner target st =
     (case find (\<lambda>(pub, d). d_owner d = owner \<and> is_target target d) (st_devices st) of
        None \<Rightarrow> (st, Inl ErrDeviceNotOwned)
      | Some (pub, d) \<Rightarrow> saved e (upd (sf_devices_update (gm_del pub)) st) d)"

section \<open>Lemmas\<close>

text \<open>
  What a successful registration did: the account is new, its invitation (when required) was live
  and is consumed, no other account or invitation changed.
\<close>

lemma register_user_ok:
  assumes "register_user ul gen e email pw code req st = (st', Inr u)"
  shows "u_email u = normalize_email ul email" "CHR ''@'' \<in> set (u_email u)" "8 \<le> length pw"
    "gm_get (sf_users (st_s st)) (u_email u) = None"
    "sf_users (st_s st') = gm_put (u_email u) u (sf_users (st_s st))"
    "gen pw = Some (u_hash u)"
    "on_disk st' = Some (st_s st')"
    "req \<Longrightarrow> \<exists>i pre post. sf_invites (st_s st) = pre @ i # post \<and>
        invite_usable (e_now e) code i \<and>
        sf_invites (st_s st') = pre @ i\<lparr>i_used := True\<rparr> # post"
    "\<not> req \<Longrightarrow> sf_invites (st_s st') = sf_invites (st_s st)"
proof -
  have live: "e_fault e = None"
    using assms by (cases "e_fault e")
      (auto simp: register_user_def Let_def saved_facts split: if_splits option.splits prod.splits
        dest!: arg_cong [of _ _ snd])
  let ?u = "\<lparr>u_id = hex_encode (e_rnd_id e), u_email = normalize_email ul email, u_hash = the (gen pw),
     u_created = e_now e\<rparr>"
  let ?st = "if req then upd (sf_invites_update
      (update_first (invite_usable (e_now e) code) (i_used_update (\<lambda>_. True)))) st else st"
  have "register_user ul gen e email pw code req st =
      saved e (upd (sf_users_update (gm_put (normalize_email ul email) ?u)) ?st) ?u \<and>
      normalize_email ul email \<noteq> [] \<and> CHR ''@'' \<in> set (normalize_email ul email) \<and> 8 \<le> length pw \<and>
      gen pw = Some (the (gen pw)) \<and> gm_get (sf_users (st_s st)) (normalize_email ul email) = None \<and>
      (req \<longrightarrow> find (invite_usable (e_now e) code) (sf_invites (st_s st)) \<noteq> None)"
    using assms by (simp add: register_user_def Let_def split: if_splits option.splits)
  then have r: "(st', Inr u) = saved e (upd (sf_users_update (gm_put (normalize_email ul email) ?u)) ?st) ?u"
    and rest: "CHR ''@'' \<in> set (normalize_email ul email)" "8 \<le> length pw" "gen pw = Some (the (gen pw))"
      "gm_get (sf_users (st_s st)) (normalize_email ul email) = None"
      "req \<longrightarrow> find (invite_usable (e_now e) code) (sf_invites (st_s st)) \<noteq> None"
    using assms by auto
  have u: "u = ?u" using arg_cong [OF r, of snd] live by (simp add: saved_result)
  have s: "st_s st' = st_s (upd (sf_users_update (gm_put (normalize_email ul email) ?u)) ?st)"
    using arg_cong [OF r, of "\<lambda>x. st_s (fst x)"] by simp
  show "on_disk st' = Some (st_s st')"
    using arg_cong [OF r, of "\<lambda>x. on_disk (fst x)"] live s by (simp add: saved_disk)
  show "u_email u = normalize_email ul email" "gen pw = Some (u_hash u)" using u rest by simp_all
  show "CHR ''@'' \<in> set (u_email u)" "8 \<le> length pw" "gm_get (sf_users (st_s st)) (u_email u) = None"
    using u rest by simp_all
  show "sf_users (st_s st') = gm_put (u_email u) u (sf_users (st_s st))" using s u by simp
  show "sf_invites (st_s st') = sf_invites (st_s st)" if "\<not> req" using s that by simp
  show "\<exists>i pre post. sf_invites (st_s st) = pre @ i # post \<and> invite_usable (e_now e) code i \<and>
      sf_invites (st_s st') = pre @ i\<lparr>i_used := True\<rparr> # post" if req
  proof -
    from rest that obtain i where i: "find (invite_usable (e_now e) code) (sf_invites (st_s st)) = Some i"
      by auto
    from update_first_found [OF i, of "i_used_update (\<lambda>_. True)"] s that show ?thesis by auto
  qed
qed

lemma register_user_err: "snd (register_user ul gen e email pw code req st) = Inl err \<Longrightarrow> err \<noteq> ErrSave \<Longrightarrow>
   fst (register_user ul gen e email pw code req st) = st"
  by (auto simp: register_user_def Let_def saved_result split: if_splits option.splits)

text \<open>A used or expired invitation opens nothing.\<close>

lemma register_user_needs_invite:
  assumes "\<forall>i \<in> set (sf_invites (st_s st)). i_code i = code \<longrightarrow> i_used i \<or> \<not> unexpired (e_now e) (i_expires i)"
  shows "fst (register_user ul gen e email pw code True st) = st"
    "\<exists>err. snd (register_user ul gen e email pw code True st) = Inl err"
proof -
  have "find (invite_usable (e_now e) code) (sf_invites (st_s st)) = None"
    using assms by (auto simp: find_None_iff invite_usable_def)
  then show "fst (register_user ul gen e email pw code True st) = st"
    "\<exists>err. snd (register_user ul gen e email pw code True st) = Inl err"
    by (simp_all add: register_user_def Let_def split: option.splits)
qed

lemma authenticate_ok:
  "authenticate ul cmp email pw st = Inr u \<Longrightarrow>
   gm_get (sf_users (st_s st)) (normalize_email ul email) = Some u \<and>
   cmp (if u_hash u = [] then dummy_hash else u_hash u) pw"
  by (auto simp: authenticate_def Let_def split: if_splits option.splits)

lemma authenticate_error: "authenticate ul cmp email pw st = Inl err \<Longrightarrow> err = ErrBadCredentials"
  by (auto simp: authenticate_def Let_def split: if_splits option.splits)

lemma session_user_sound:
  assumes "gm_ok (sf_users (st_s st))" "session_user now token st = Some u"
  shows "\<exists>s. gm_get (sf_sessions (st_s st)) token = Some s \<and> now \<le> s_expires s \<and> u_id u = s_user s \<and>
     (\<exists>email. gm_get (sf_users (st_s st)) email = Some u)"
proof -
  from assms(2) obtain s e where s: "gm_get (sf_sessions (st_s st)) token = Some s" "now \<le> s_expires s"
    "find (\<lambda>(email, u). u_id u = s_user s) (sf_users (st_s st)) = Some (e, u)"
    by (auto simp: session_user_def session_live_def split: if_splits option.splits)
  with gm.find_sound [OF assms(1) s(3)] show ?thesis by auto
qed

lemma create_session_sessions:
  assumes "gm_ok (sf_sessions (st_s st))"
  shows "gm_get (sf_sessions (st_s (fst (create_session e uid st)))) t =
    (if t = ''omsess-'' @ hex_encode (e_rnd_key e) then Some \<lparr>s_user = uid, s_expires = e_now e + session_ttl\<rparr>
     else case gm_get (sf_sessions (st_s st)) t of None \<Rightarrow> None
       | Some s \<Rightarrow> if session_live (e_now e) s then Some s else None)"
  using assms by (simp add: create_session_def Let_def gm_get_put gm_get_filter split: option.splits)

lemma delete_session_facts [simp]:
  "st_s (delete_session e token st) = (st_s st)\<lparr>sf_sessions := gm_del token (sf_sessions (st_s st))\<rparr>"
  by (simp add: delete_session_def)


end
