(* ===== verification/Store_Facts.thy ===== *)
theory Store_Facts
  imports Store
begin

text \<open>
  Lemmas about single operations of the store: the allocator finds the least free host address,
  canonical routes, the distributed routes, tokens and their rotation.
\<close>

section \<open>The allocator\<close>

text \<open>A host address of a masked prefix: neither the network address nor the last address.\<close>

definition host_addr :: "prefix \<Rightarrow> addr \<Rightarrow> bool" where
  "host_addr p a \<longleftrightarrow> contains p a \<and> p_addr p < a \<and> contains_next p a"

lemma contains_convex:
  assumes "contains p a" "contains p c" "addr_len b = addr_len a" "addr_zone b = []"
    and "addr_num a \<le> addr_num b" "addr_num b \<le> addr_num c"
  shows "contains p b"
proof -
  let ?k = "2 ^ (addr_len a - p_bits p)"
  have "addr_num a div ?k \<le> addr_num b div ?k" "addr_num b div ?k \<le> addr_num c div ?k"
    using assms(5,6) by (simp_all add: div_le_mono)
  moreover have "addr_num a div ?k = addr_num (p_addr p) div ?k"
    using assms(1) unfolding contains_iff by metis
  moreover have "addr_num c div ?k = addr_num (p_addr p) div ?k"
    using assms(1,2) unfolding contains_iff by metis
  ultimately have "addr_num b div ?k = addr_num (p_addr p) div ?k" by linarith
  with assms(1,3,4) show ?thesis by (simp add: contains_iff)
qed

lemma contains_base: "p_bits p \<le> addr_len (p_addr p) \<Longrightarrow> contains (masked p) (p_addr (masked p))"
  by (simp add: contains_iff masked_props)

lemma contains_nextD:
  assumes "contains_next p a"
  obtains b where "addr_next a = Some b" "contains p b" "addr_num b = addr_num a + 1"
    "addr_len b = addr_len a" "addr_zone b = addr_zone a"
  using assms addr_next_num by (auto simp: contains_next_def split: option.splits)

lemma alloc_loop_sound:
  "alloc_loop p used (Some a0) = Some a \<Longrightarrow>
   contains p a \<and> contains_next p a \<and> show_addr a \<notin> used \<and> addr_num a0 \<le> addr_num a"
proof (induction p used "Some a0" arbitrary: a0 rule: alloc_loop.induct)
  case (2 p used a0)
  show ?case
  proof (cases "contains p a0 \<and> contains_next p a0 \<and> show_addr a0 \<in> used")
    case True
    then obtain b where b: "addr_next a0 = Some b" "addr_num b = addr_num a0 + 1"
      by (auto elim: contains_nextD)
    with True 2 show ?thesis by (auto simp: alloc_loop.simps(2) [of p used a0])
  next
    case False
    with "2.prems" show ?thesis by (auto simp: alloc_loop.simps(2) [of p used a0] split: if_splits)
  qed
qed

lemma alloc_loop_least:
  assumes "alloc_loop p used (Some a0) = r" "contains p base" "addr_num base \<le> addr_num a0"
    and "addr_len a0 = addr_len base" "addr_zone a0 = []"
    and "contains p b" "contains_next p b" "addr_num a0 \<le> addr_num b"
    and "case r of None \<Rightarrow> True | Some a \<Rightarrow> addr_num b < addr_num a"
  shows "show_addr b \<in> used"
  using assms
proof (induction p used "Some a0" arbitrary: a0 rule: alloc_loop.induct)
  case (2 p used a0)
  have zone: "addr_zone b = []" "addr_len b = addr_len base"
    using "2.prems" by (auto simp: contains_iff)
  show ?case
  proof (cases "addr_num b = addr_num a0")
    case True
    with zone "2.prems" have "b = a0" by (intro addr_eqI) simp_all
    with "2.prems" show ?thesis
      by (auto simp: alloc_loop.simps(2) [of p used a0] split: if_splits)
  next
    case False
    with "2.prems" have less: "addr_num a0 < addr_num b" by simp
    then obtain c where c: "addr_next a0 = Some c"
      using addr_next_None [of a0] addr_num_bound [of b] zone "2.prems"(4) by (cases "addr_next a0") auto
    have "contains p a0" "contains p c"
      using "2.prems" less addr_next_num [OF c]
      by (auto intro: contains_convex [of p base b])
    then have loop: "contains p a0 \<and> contains_next p a0" using c by (simp add: contains_next_def)
    show ?thesis
    proof (cases "show_addr a0 \<notin> used")
      case True
      with loop less "2.prems" show ?thesis by (auto simp: alloc_loop.simps(2) [of p used a0])
    next
      case False
      with loop less c "2.prems" addr_next_num [OF c] show ?thesis
        by (intro "2.hyps" [of c]) (auto simp: alloc_loop.simps(2) [of p used a0])
    qed
  qed
qed

lemma alloc_first_none: "addr_next (p_addr p) = None \<Longrightarrow> \<not> host_addr p b"
proof
  assume none: "addr_next (p_addr p) = None" and "host_addr p b"
  then have "addr_len b = addr_len (p_addr p)" "p_addr p < b" "addr_zone b = []"
    by (auto simp: host_addr_def contains_iff)
  moreover have "addr_zone (p_addr p) = [] \<or> addr_zone (p_addr p) \<noteq> []" by simp
  moreover have "addr_num b < 2 ^ addr_len b" by (rule addr_num_bound)
  ultimately show False
    using addr_next_None [OF none] by (auto simp: less_addr_def addr_key_def less_prod_def)
qed

text \<open>The allocator over the whole prefix: the least free host address, or none is free.\<close>

lemma alloc_spec:
  assumes "p = masked q" "p_bits q \<le> addr_len (p_addr q)"
  shows "case alloc_loop p used (addr_next (p_addr p)) of
           None \<Rightarrow> \<forall>b. host_addr p b \<longrightarrow> show_addr b \<in> used
         | Some a \<Rightarrow> host_addr p a \<and> show_addr a \<notin> used \<and>
                     (\<forall>b. host_addr p b \<longrightarrow> show_addr b \<notin> used \<longrightarrow> a \<le> b)"
proof (cases "addr_next (p_addr p)")
  case None
  then show ?thesis using alloc_first_none by auto
next
  case (Some a0)
  let ?r = "alloc_loop p used (Some a0)"
  have base: "contains p (p_addr p)" using assms contains_base by simp
  have zone: "addr_zone (p_addr p) = []" using assms by (simp add: masked_props)
  note a0 = addr_next_num [OF Some]
  have num: "addr_num (p_addr p) < addr_num b" "addr_len b = addr_len (p_addr p)" "addr_zone b = []"
    if "host_addr p b" for b
    using that zone by (auto simp: host_addr_def contains_iff less_addr_num)
  have used: "show_addr b \<in> used" if "host_addr p b" "case ?r of None \<Rightarrow> True | Some a \<Rightarrow> addr_num b < addr_num a" for b
    using num [OF that(1)] that a0 zone base
    by (intro alloc_loop_least [of p used a0 ?r "p_addr p" b]) (auto simp: host_addr_def)
  show ?thesis
  proof (cases ?r)
    case None
    with used Some show ?thesis by auto
  next
    case r: (Some a)
    note s = alloc_loop_sound [OF r]
    then have "addr_len a = addr_len (p_addr p)" "addr_zone a = []" by (auto simp: contains_iff)
    with s a0 zone have "host_addr p a" by (simp add: host_addr_def less_addr_num)
    moreover have "a \<le> b" if "host_addr p b" "show_addr b \<notin> used" for b
    proof (rule ccontr)
      assume "\<not> a \<le> b"
      then have "addr_num b < addr_num a"
        using num [OF that(1)] num [OF \<open>host_addr p a\<close>] by (simp add: not_le less_addr_num)
      with used that r show False by auto
    qed
    ultimately show ?thesis using r s Some by auto
  qed
qed

text \<open>For IPv4 a host address lies strictly between the first and the last of its prefix.\<close>

lemma host_addr_v4:
  assumes "p = masked (Prefix (V4 w) n)" "n \<le> 32"
  shows "host_addr p a \<longleftrightarrow> is4 a \<and> addr_num (p_addr p) < addr_num a \<and>
    addr_num a + 1 < addr_num (p_addr p) + 2 ^ (32 - n)"
proof -
  let ?k = "2 ^ (32 - n) :: nat" and ?b = "addr_num (p_addr p)"
  have b: "?b = ?b div ?k * ?k" "p_bits p = n" "addr_len (p_addr p) = 32" "addr_zone (p_addr p) = []"
    using assms by (simp_all add: masked_props del: masked.simps)
  have top: "?b + ?k \<le> 2 ^ 32"
  proof -
    have k: "(2 ^ 32 :: nat) = 2 ^ n * ?k" using assms(2) by (simp add: power_add [symmetric])
    have "?b div ?k * ?k < 2 ^ n * ?k" using addr_num_bound [of "p_addr p"] b(1,3) k by metis
    then have "?b div ?k < 2 ^ n" by simp
    then have "(?b div ?k + 1) * ?k \<le> 2 ^ n * ?k" by (intro mult_le_mono1) simp
    with b(1) k show ?thesis by (simp add: add.commute)
  qed
  have in_iff: "m div ?k = ?b div ?k \<longleftrightarrow> ?b \<le> m \<and> m < ?b + ?k" for m
  proof
    assume "m div ?k = ?b div ?k"
    then show "?b \<le> m \<and> m < ?b + ?k"
      using b(1) dividend_less_div_times [of ?k m] div_times_less_eq_dividend [of m ?k] by simp
  next
    assume "?b \<le> m \<and> m < ?b + ?k"
    then show "m div ?k = ?b div ?k"
      using b(1) by (intro div_nat_eqI) (simp_all add: mult.commute)
  qed
  have c: "contains p (V4 y) \<longleftrightarrow> ?b \<le> unat y \<and> unat y < ?b + ?k" for y
    using in_iff [of "unat y"] b(2,3) assms(2) by (simp add: contains_iff)
  show ?thesis
  proof (cases a)
    case (V4 x)
    have less: "p_addr p < V4 x \<longleftrightarrow> ?b < unat x"
      using b(3,4) by (simp add: less_addr_num)
    show ?thesis
    proof (cases "x = - 1")
      case True
      then have "unat x + 1 = 2 ^ 32" by (simp add: unsigned_minus_1_eq_mask mask_eq_exp_minus_1)
      with top show ?thesis by (simp add: V4 True host_addr_def contains_next_def)
    next
      case False
      with V4 show ?thesis
        by (simp add: host_addr_def contains_next_def c less unat_succ) linarith
    qed
  next
    case (V6 x z)
    with b(3) show ?thesis by (simp add: host_addr_def contains_iff)
  qed
qed

section \<open>Canonical routes\<close>

definition canonical_route :: "string \<Rightarrow> bool" where
  "canonical_route r \<longleftrightarrow> normalize_cidr r = Inr r"

lemma normalize_cidr_form:
  assumes "normalize_cidr s = Inr c"
  obtains w n where "n \<le> 32" "parse_prefix (trim_space s) = Some (Prefix (V4 w) n)"
    "c = show_prefix (masked (Prefix (V4 w) n))"
proof -
  from assms obtain p where p: "parse_prefix (trim_space s) = Some p" "is4 (p_addr p)" "c = show_prefix (masked p)"
    by (auto simp: normalize_cidr_def split: option.splits if_splits)
  then obtain w where w: "p_addr p = V4 w" by (cases "p_addr p") auto
  have "p = Prefix (V4 w) (p_bits p)" by (cases p) (use w in simp)
  moreover have "p_bits p \<le> 32" using parse_prefix_bits [OF p(1)] w by simp
  ultimately show thesis using p that by metis
qed

lemma show_prefix_plain:
  "show_prefix (Prefix (V4 w) n) \<noteq> []" "is_plain (hd (show_prefix (Prefix (V4 w) n)))"
  "is_plain (last (show_prefix (Prefix (V4 w) n)))"
proof -
  have "hd (show_v4 w) \<in> set (show_v4 w)" using hd_show_v4(2) by (rule hd_in_set)
  then have "is_plain (hd (show_v4 w))"
    using show_v4_chars [of "hd (show_v4 w)" w] is_digit_plain by (auto simp: is_plain_def)
  moreover have "show_nat n \<noteq> []" using length_show_nat [of n] by auto
  then have "is_plain (last (show_nat n))"
    using show_nat_digits [of n] by (auto simp: list_all_iff intro!: is_digit_plain)
  ultimately show "show_prefix (Prefix (V4 w) n) \<noteq> []" "is_plain (hd (show_prefix (Prefix (V4 w) n)))"
    "is_plain (last (show_prefix (Prefix (V4 w) n)))"
    using hd_show_v4(2) [of w] \<open>show_nat n \<noteq> []\<close> by (simp_all add: show_prefix_def)
qed

lemma normalize_show:
  assumes "n \<le> 32" shows "normalize_cidr (show_prefix (Prefix (V4 w) n)) = Inr (show_prefix (masked (Prefix (V4 w) n)))"
proof -
  have "trim_space (show_prefix (Prefix (V4 w) n)) = show_prefix (Prefix (V4 w) n)"
    using show_prefix_plain by (intro trim_space_plain) simp
  with assms show ?thesis
    by (simp add: normalize_cidr_def parse_show_prefix_v4 del: masked.simps)
qed

lemma masked_v4: obtains v where "masked (Prefix (V4 w) n) = Prefix (V4 v) n"
  by simp

lemma normalize_canonical: "normalize_cidr s = Inr c \<Longrightarrow> canonical_route c"
proof (elim normalize_cidr_form)
  fix w n assume n: "n \<le> 32" and c: "c = show_prefix (masked (Prefix (V4 w) n))"
  obtain v where v: "masked (Prefix (V4 w) n) = Prefix (V4 v) n" by (rule masked_v4)
  with masked_idem [of "Prefix (V4 w) n"] have "masked (Prefix (V4 v) n) = Prefix (V4 v) n" by simp
  with normalize_show [OF n, of v] c v show "canonical_route c" by (simp add: canonical_route_def)
qed

lemma show_prefix_v4_inj:
  assumes "n \<le> 32" "m \<le> 32"
  shows "show_prefix (Prefix (V4 a) n) = show_prefix (Prefix (V4 b) m) \<longleftrightarrow> a = b \<and> n = m"
proof
  assume "show_prefix (Prefix (V4 a) n) = show_prefix (Prefix (V4 b) m)"
  then have "parse_prefix (show_prefix (Prefix (V4 a) n)) = parse_prefix (show_prefix (Prefix (V4 b) m))"
    by (rule arg_cong)
  then show "a = b \<and> n = m" using assms by (simp add: parse_show_prefix_v4)
qed simp

text \<open>Two spellings have the same canonical text exactly when they denote the same network.\<close>

lemma normalize_eq_iff:
  assumes "normalize_cidr s = Inr c" "normalize_cidr t = Inr d"
  shows "c = d \<longleftrightarrow> map_option masked (parse_prefix (trim_space s)) = map_option masked (parse_prefix (trim_space t))"
proof -
  obtain w n where s: "n \<le> 32" "parse_prefix (trim_space s) = Some (Prefix (V4 w) n)"
    "c = show_prefix (masked (Prefix (V4 w) n))" using assms(1) by (rule normalize_cidr_form)
  obtain v m where t: "m \<le> 32" "parse_prefix (trim_space t) = Some (Prefix (V4 v) m)"
    "d = show_prefix (masked (Prefix (V4 v) m))" using assms(2) by (rule normalize_cidr_form)
  obtain w' v' where wv: "masked (Prefix (V4 w) n) = Prefix (V4 w') n" "masked (Prefix (V4 v) m) = Prefix (V4 v') m"
    by simp
  have "c = d \<longleftrightarrow> Some (Prefix (V4 w') n) = Some (Prefix (V4 v') m)"
    using s(3) t(3) show_prefix_v4_inj [OF s(1) t(1), of w' v'] unfolding wv by simp
  then show ?thesis using s t wv by (simp del: masked.simps)
qed

lemma valid_routes_canonical: "r \<in> set (valid_routes rs) \<Longrightarrow> canonical_route r"
  by (induction rs) (auto simp: normalize_canonical split: sum.splits)

lemma set_valid_routes: "set (valid_routes rs) = {c. \<exists>r \<in> set rs. normalize_cidr r = Inr c}"
  by (induction rs) (auto split: sum.splits)

lemma valid_routes_idem: "valid_routes (valid_routes rs) = valid_routes rs"
proof -
  have "valid_routes cs = cs" if "\<forall>c \<in> set cs. canonical_route c" for cs
    using that by (induction cs) (auto simp: canonical_route_def)
  then show ?thesis using valid_routes_canonical by blast
qed

lemma normalize_all_ok:
  "normalize_all rs = Inr cs \<longleftrightarrow> list_all2 (\<lambda>r c. normalize_cidr r = Inr c) rs cs"
proof (induction rs arbitrary: cs)
  case (Cons r rs)
  show ?case
  proof (cases "normalize_cidr r")
    case (Inr c)
    with Cons.IH show ?thesis by (cases "normalize_all rs") (auto simp: list_all2_Cons1)
  qed (simp add: list_all2_Cons1)
qed auto

lemma normalize_all_err:
  "normalize_all rs = Inl err \<Longrightarrow> \<exists>pre r post. rs = pre @ r # post \<and> err = ErrRoute r \<and>
     (\<exists>e. normalize_cidr r = Inl e) \<and> (\<forall>x \<in> set pre. \<exists>c. normalize_cidr x = Inr c)"
proof (induction rs)
  case (Cons r rs)
  show ?case
  proof (cases "normalize_cidr r")
    case (Inl e)
    with Cons.prems have "r # rs = [] @ r # rs \<and> err = ErrRoute r \<and> (\<exists>e. normalize_cidr r = Inl e)" by simp
    then show ?thesis by (metis empty_iff list.set(1))
  next
    case (Inr c)
    with Cons.prems have "normalize_all rs = Inl err" by (auto split: sum.splits)
    from Cons.IH [OF this] obtain pre x post where "rs = pre @ x # post" "err = ErrRoute x"
      "\<exists>e. normalize_cidr x = Inl e" "\<forall>y \<in> set pre. \<exists>c. normalize_cidr y = Inr c" by blast
    with Inr have "r # rs = (r # pre) @ x # post \<and> err = ErrRoute x \<and> (\<exists>e. normalize_cidr x = Inl e) \<and>
        (\<forall>y \<in> set (r # pre). \<exists>c. normalize_cidr y = Inr c)" by simp
    then show ?thesis by blast
  qed
qed simp

lemma normalize_all_canonical: "normalize_all rs = Inr cs \<Longrightarrow> c \<in> set cs \<Longrightarrow> canonical_route c"
  by (auto simp: normalize_all_ok list_all2_conv_all_nth in_set_conv_nth intro: normalize_canonical)

lemma set_active_routes: "set (active_routes d) = set (d_advertised d) \<inter> set (d_approved d)"
  by (auto simp: active_routes_def)

lemma active_routes_filter:
  "active_routes d = filter (\<lambda>r. r \<in> set (d_approved d)) (d_advertised d)"
  by (auto simp: active_routes_def)

section \<open>Machine tokens\<close>

text \<open>The tokens a device answers to, ever and at an instant.\<close>

definition tokens :: "device \<Rightarrow> string set" where
  "tokens d = {d_token d, d_prev_token d} - {[]}"

lemma token_matches_tokens: "token_matches now token d \<Longrightarrow> token \<noteq> [] \<Longrightarrow> token \<in> tokens d"
  by (auto simp: token_matches_def tokens_def)

definition tokens_apart :: "(string, device) gomap \<Rightarrow> bool" where
  "tokens_apart m \<longleftrightarrow> (\<forall>a b x y. gm_get m a = Some x \<longrightarrow> gm_get m b = Some y \<longrightarrow>
     tokens x \<inter> tokens y \<noteq> {} \<longrightarrow> a = b)"

lemma device_by_token_iff:
  assumes "gm_ok (st_devices st)" "tokens_apart (st_devices st)"
  shows "device_by_token now token st = Some d \<longleftrightarrow>
    token \<noteq> [] \<and> token_matches now token d \<and> (\<exists>pub. gm_get (st_devices st) pub = Some d)"
proof
  assume "device_by_token now token st = Some d"
  then obtain pub where "token \<noteq> []" "find (\<lambda>(pub, d). token_matches now token d) (st_devices st) = Some (pub, d)"
    by (auto simp: device_by_token_def split: if_splits)
  with gm.find_sound [OF assms(1) this(2)]
  show "token \<noteq> [] \<and> token_matches now token d \<and> (\<exists>pub. gm_get (st_devices st) pub = Some d)" by auto
next
  assume r: "token \<noteq> [] \<and> token_matches now token d \<and> (\<exists>pub. gm_get (st_devices st) pub = Some d)"
  then obtain pub where d: "gm_get (st_devices st) pub = Some d" by blast
  then have "find (\<lambda>(pub, d). token_matches now token d) (st_devices st) \<noteq> None"
    using r gm.find_complete [OF assms(1), of "\<lambda>(pub, d). token_matches now token d"] by auto
  then obtain q x where q: "find (\<lambda>(pub, d). token_matches now token d) (st_devices st) = Some (q, x)" by auto
  from gm.find_sound [OF assms(1) q] have x: "gm_get (st_devices st) q = Some x" "token_matches now token x" by auto
  with r have "token \<in> tokens x \<inter> tokens d" by (blast intro: token_matches_tokens)
  then have "tokens x \<inter> tokens d \<noteq> {}" by blast
  with assms(2) x(1) d have "q = pub" unfolding tokens_apart_def by blast
  with x d q r show "device_by_token now token st = Some d" by (simp add: device_by_token_def)
qed

lemma rotate_not_due:
  "gm_get (st_devices st) pub = Some d \<Longrightarrow> e_now e - d_token_issued d < token_rotate_after \<Longrightarrow>
   rotate_token_if_due e pub st = (st, Inr [])"
  by (simp add: rotate_token_if_due_def time_sub_less token_rotate_after_def duration_defs)

lemma rotate_due:
  "gm_get (st_devices st) pub = Some d \<Longrightarrow> token_rotate_after \<le> e_now e - d_token_issued d \<Longrightarrow>
   gm_get (st_devices (fst (rotate_token_if_due e pub st))) pub =
     Some (d\<lparr>d_prev_token := d_token d, d_prev_until := e_now e + token_grace,
             d_token := ''omtok-'' @ hex_encode (e_rnd_key e), d_token_issued := e_now e\<rparr>)"
proof -
  assume "gm_get (st_devices st) pub = Some d" and "token_rotate_after \<le> e_now e - d_token_issued d"
  moreover from this have "\<not> time_sub (e_now e) (d_token_issued d) < token_rotate_after"
    by (simp add: time_sub_less token_rotate_after_def duration_defs)
  ultimately show ?thesis
    by (simp add: rotate_token_if_due_def set_device_def Let_def gm_get_put del: token_rotate_after_def)
qed

end
