(* ===== verification/Store_Machine.thy ===== *)
theory Store_Machine
  imports Users Store_Facts
begin

text \<open>
  The store as a machine. Every exported method that changes the state is one call; between calls
  a map may be iterated in another order, and the process may stop at any point of a save and
  start again from the file. \<open>good_state\<close> is the invariant of the state, \<open>store_inv\<close> that of the
  state in memory and of the one on disk.
\<close>

section \<open>Calls\<close>

datatype store_op =
    OpAuthKey string bool duration
  | OpRegister string string string
  | OpRegisterSSO string string string
  | OpRotate string
  | OpTouch string string "string list option" "string list option"
  | OpApprove string "string list"
  | OpAcl "acl_policy option"
  | OpRemove string
  | OpInvite duration
  | OpUser string string string bool
  | OpSession string
  | OpLogout string
  | OpRemoveOwned string string

definition acked :: "store \<times> 'a result \<Rightarrow> store \<times> bool" where
  "acked r = (fst r, case snd r of Inl _ \<Rightarrow> False | Inr _ \<Rightarrow> True)"

fun run_op ::
  "(string \<Rightarrow> string) \<Rightarrow> (string \<Rightarrow> string option) \<Rightarrow> env \<Rightarrow> store_op \<Rightarrow> store \<Rightarrow> store \<times> bool" where
  "run_op ul gen e (OpAuthKey owner reusable ttl) st = acked (create_auth_key_for e owner reusable ttl st)"
| "run_op ul gen e (OpRegister key host pub) st = acked (register_device e key host pub st)"
| "run_op ul gen e (OpRegisterSSO host pub owner) st = acked (register_device_sso e host pub owner st)"
| "run_op ul gen e (OpRotate pub) st = acked (rotate_token_if_due e pub st)"
| "run_op ul gen e (OpTouch pub ep eps rs) st = acked (touch_device e pub ep eps rs st)"
| "run_op ul gen e (OpApprove target rs) st = acked (set_approved_routes e target rs st)"
| "run_op ul gen e (OpAcl p) st = acked (set_acl e p st)"
| "run_op ul gen e (OpRemove target) st = acked (remove_device e target st)"
| "run_op ul gen e (OpInvite ttl) st = acked (create_invite e ttl st)"
| "run_op ul gen e (OpUser email pw code req) st = acked (register_user ul gen e email pw code req st)"
| "run_op ul gen e (OpSession uid) st = acked (create_session e uid st)"
| "run_op ul gen e (OpLogout token) st = (delete_session e token st, True)"
| "run_op ul gen e (OpRemoveOwned owner target) st = acked (remove_owned_device e owner target st)"

section \<open>Steps\<close>

datatype store_event =
    Call env store_op
  | Iterate "(string, device) gomap" "(string, user) gomap" "(string, web_session) gomap"
  | Restart env string
  | Crash env store_op nat env string

text \<open>The disk when the process stops at point \<open>n\<close> of the save of a call.\<close>

definition crashed :: "(string \<Rightarrow> string) \<Rightarrow> (string \<Rightarrow> string option) \<Rightarrow> env \<Rightarrow> store_op \<Rightarrow> nat \<Rightarrow> store \<Rightarrow> state_file fs" where
  "crashed ul gen e op n st =
     (let st' = fst (run_op ul gen (e\<lparr>e_fault := None\<rparr>) op st) in
      if st_fs st' = st_fs st then st_fs st
      else save_states (st_path st) (e_tmp e) (st_s st') (st_fs st) ! n)"

fun store_step :: "(string \<Rightarrow> string) \<Rightarrow> (string \<Rightarrow> string option) \<Rightarrow> store_event \<Rightarrow> store \<Rightarrow> store" where
  "store_step ul gen (Call e op) st = fst (run_op ul gen e op st)"
| "store_step ul gen (Iterate ds us ss) st =
     upd (\<lambda>s. s\<lparr>sf_devices := ds, sf_users := us, sf_sessions := ss\<rparr>) st"
| "store_step ul gen (Restart e cidr) st =
     (case open_store_cidr e True (st_path st) cidr (st_fs st) of Inl _ \<Rightarrow> st | Inr (st', c) \<Rightarrow> st')"
| "store_step ul gen (Crash e op n e' cidr) st =
     (case open_store_cidr e' True (st_path st) cidr (crashed ul gen e op n st) of
        Inl _ \<Rightarrow> st | Inr (st', c) \<Rightarrow> st')"

text \<open>The random bytes of a call are not those of a token or an account that exists.\<close>

definition fresh :: "env \<Rightarrow> state_file \<Rightarrow> bool" where
  "fresh e s \<longleftrightarrow>
     (\<forall>(pub, d) \<in> set (sf_devices s). ''omtok-'' @ hex_encode (e_rnd_key e) \<notin> tokens d) \<and>
     (\<forall>(email, u) \<in> set (sf_users s). u_id u \<noteq> hex_encode (e_rnd_id e))"

definition same_map :: "('k, 'v) gomap \<Rightarrow> ('k, 'v) gomap \<Rightarrow> bool" where
  "same_map m m' \<longleftrightarrow> gm_ok m' \<and> set m' = set m"

fun store_en :: "(string \<Rightarrow> string) \<Rightarrow> (string \<Rightarrow> string option) \<Rightarrow> store_event \<Rightarrow> store \<Rightarrow> bool" where
  "store_en ul gen (Call e op) st \<longleftrightarrow> fresh e (st_s st)"
| "store_en ul gen (Iterate ds us ss) st \<longleftrightarrow>
     same_map (sf_devices (st_s st)) ds \<and> same_map (sf_users (st_s st)) us \<and>
     same_map (sf_sessions (st_s st)) ss"
| "store_en ul gen (Restart e cidr) st \<longleftrightarrow> True"
| "store_en ul gen (Crash e op n e' cidr) st \<longleftrightarrow> fresh e (st_s st) \<and> n < 4 \<and>
     (\<exists>r. open_store_cidr e' True (st_path st) cidr (crashed ul gen e op n st) = Inr r)"

definition first_boot :: "store \<Rightarrow> bool" where
  "first_boot st \<longleftrightarrow> (\<exists>e readable path cidr fs. load_file path fs = None \<and>
     open_store_cidr e readable path cidr fs = Inr (st, True))"

abbreviation store_reach :: "(string \<Rightarrow> string) \<Rightarrow> (string \<Rightarrow> string option) \<Rightarrow> store \<Rightarrow> store \<Rightarrow> bool" where
  "store_reach ul gen \<equiv> reach (store_step ul gen) (store_en ul gen)"

section \<open>The invariant of the machines\<close>

definition device_ok :: "string \<Rightarrow> string \<Rightarrow> device \<Rightarrow> bool" where
  "device_ok cidr pub d \<longleftrightarrow>
     d_public_key d = pub \<and>
     (case parse_prefix cidr of None \<Rightarrow> False
      | Some p \<Rightarrow> \<exists>a. host_addr (masked p) a \<and> d_ip d = show_addr a) \<and>
     (\<forall>r \<in> set (d_advertised d) \<union> set (d_approved d). canonical_route r) \<and>
     d_token d \<noteq> []"

definition ips_apart :: "(string, device) gomap \<Rightarrow> bool" where
  "ips_apart m \<longleftrightarrow> (\<forall>a b x y. gm_get m a = Some x \<longrightarrow> gm_get m b = Some y \<longrightarrow> d_ip x = d_ip y \<longrightarrow> a = b)"

definition devs_ok :: "string \<Rightarrow> (string, device) gomap \<Rightarrow> bool" where
  "devs_ok cidr m \<longleftrightarrow> gm_ok m \<and> (\<forall>pub d. gm_get m pub = Some d \<longrightarrow> device_ok cidr pub d) \<and>
     ips_apart m \<and> tokens_apart m"

lemma devs_okD:
  assumes "devs_ok cidr m"
  shows "gm_ok m" "gm_get m pub = Some d \<Longrightarrow> device_ok cidr pub d"
    "gm_get m a = Some x \<Longrightarrow> gm_get m b = Some y \<Longrightarrow> d_ip x = d_ip y \<Longrightarrow> a = b"
    "gm_get m a = Some x \<Longrightarrow> gm_get m b = Some y \<Longrightarrow> t \<in> tokens x \<Longrightarrow> t \<in> tokens y \<Longrightarrow> a = b"
    "tokens_apart m"
  using assms unfolding devs_ok_def ips_apart_def tokens_apart_def by blast+

text \<open>Four ways a call changes the devices: it rewrites one, adds one, removes one, or not.\<close>

lemma devs_ok_put:
  assumes ok: "devs_ok cidr m" and d: "device_ok cidr pub d"
    and ip: "\<And>a x. gm_get m a = Some x \<Longrightarrow> a \<noteq> pub \<Longrightarrow> d_ip x \<noteq> d_ip d"
    and tok: "\<And>a x. gm_get m a = Some x \<Longrightarrow> a \<noteq> pub \<Longrightarrow> tokens x \<inter> tokens d = {}"
  shows "devs_ok cidr (gm_put pub d m)"
proof -
  have "ips_apart (gm_put pub d m)"
    unfolding ips_apart_def using devs_okD(3) [OF ok] ip
    by (intro allI impI) (rule gm.put_injective_values [of m d_ip pub d]; blast)
  moreover have "tokens_apart (gm_put pub d m)"
    unfolding tokens_apart_def
  proof (intro allI impI)
    fix a b x y
    assume *: "gm_get (gm_put pub d m) a = Some x" "gm_get (gm_put pub d m) b = Some y" "tokens x \<inter> tokens y \<noteq> {}"
    show "a = b"
    proof (cases "a = pub \<or> b = pub")
      case True
      with * tok [of a x] tok [of b y] show ?thesis
        by (auto simp: gm_get_put Int_commute split: if_splits)
    next
      case False
      with * devs_okD(5) [OF ok] show ?thesis
        by (auto simp: gm_get_put tokens_apart_def split: if_splits)
    qed
  qed
  ultimately show ?thesis
    using devs_okD(1,2) [OF ok] d by (auto simp: devs_ok_def gm_get_put gm_ok_put)
qed

lemma devs_ok_rewrite:
  assumes "devs_ok cidr m" "gm_get m pub = Some d" "device_ok cidr pub d'"
    "d_ip d' = d_ip d" "tokens d' \<subseteq> tokens d \<union> T" "\<And>a x. gm_get m a = Some x \<Longrightarrow> tokens x \<inter> T = {}"
  shows "devs_ok cidr (gm_put pub d' m)"
proof (rule devs_ok_put [OF assms(1,3)])
  fix a x
  assume x: "gm_get m a = Some x" and a: "a \<noteq> pub"
  then show "d_ip x \<noteq> d_ip d'" using devs_okD(3) [OF assms(1) x assms(2)] assms(4) by metis
  have "tokens x \<inter> tokens d = {}" using devs_okD(4) [OF assms(1) x assms(2)] a by blast
  with assms(5) assms(6) [OF x] show "tokens x \<inter> tokens d' = {}" by blast
qed

lemma devs_ok_del: "devs_ok cidr m \<Longrightarrow> devs_ok cidr (gm_del pub m)"
  by (auto simp: devs_ok_def ips_apart_def tokens_apart_def gm_get_del gm_ok_del split: if_splits)

lemma same_map_get: "gm_ok m \<Longrightarrow> same_map m m' \<Longrightarrow> gm_get m' = gm_get m"
  by (simp add: same_map_def map_of_inject_set)

lemma devs_ok_same: "devs_ok cidr m \<Longrightarrow> same_map m m' \<Longrightarrow> devs_ok cidr m'"
  using same_map_get [of m m'] by (simp add: devs_ok_def ips_apart_def tokens_apart_def same_map_def)

section \<open>The invariant of the state\<close>

definition users_ok :: "(string, user) gomap \<Rightarrow> bool" where
  "users_ok m \<longleftrightarrow> gm_ok m \<and> (\<forall>email u. gm_get m email = Some u \<longrightarrow> u_email u = email \<and> CHR ''@'' \<in> set email) \<and>
     (\<forall>a b x y. gm_get m a = Some x \<longrightarrow> gm_get m b = Some y \<longrightarrow> u_id x = u_id y \<longrightarrow> a = b)"

definition good_state :: "state_file \<Rightarrow> bool" where
  "good_state s \<longleftrightarrow> devs_ok (sf_cidr s) (sf_devices s) \<and> users_ok (sf_users s) \<and>
     gm_ok (sf_sessions s) \<and> sf_admin_key s \<noteq> [] \<and> sf_cidr s \<noteq> []"

definition store_inv :: "store \<Rightarrow> bool" where
  "store_inv st \<longleftrightarrow> good_state (st_s st) \<and>
     (\<exists>s. on_disk st = Some s \<and> good_state s)"

lemma device_ok_keeps:
  "device_ok cidr pub d \<Longrightarrow> d_public_key d' = d_public_key d \<Longrightarrow> d_ip d' = d_ip d \<Longrightarrow> d_token d' \<noteq> [] \<Longrightarrow>
   (\<And>r. r \<in> set (d_advertised d') \<union> set (d_approved d') \<Longrightarrow>
      r \<in> set (d_advertised d) \<union> set (d_approved d) \<or> canonical_route r) \<Longrightarrow> device_ok cidr pub d'"
  unfolding device_ok_def by (simp split: option.splits) blast

text \<open>A rewrite that leaves key, address and tokens alone, and writes canonical routes only.\<close>

lemma devs_ok_touch:
  assumes "devs_ok cidr m" "gm_get m pub = Some d" "d_public_key d' = d_public_key d" "d_ip d' = d_ip d"
    "d_token d' = d_token d" "d_prev_token d' = d_prev_token d"
    "\<And>r. r \<in> set (d_advertised d') \<union> set (d_approved d') \<Longrightarrow>
       r \<in> set (d_advertised d) \<union> set (d_approved d) \<or> canonical_route r"
  shows "devs_ok cidr (gm_put pub d' m)"
proof (rule devs_ok_rewrite [OF assms(1,2), of d' "{}"])
  have "device_ok cidr pub d" using assms(1,2) by (rule devs_okD)
  with assms(3,4,5,7) show "device_ok cidr pub d'"
    by (intro device_ok_keeps [of cidr pub d d']) (auto simp: device_ok_def)
qed (use assms in \<open>auto simp: tokens_def\<close>)

lemma allocate_ip_ok:
  assumes "allocate_ip s = Inr ip"
  obtains p a where "parse_prefix (sf_cidr s) = Some p" "host_addr (masked p) a" "ip = show_addr a"
    "ip \<notin> used_ips (sf_devices s)"
    "\<And>b. host_addr (masked p) b \<Longrightarrow> show_addr b \<notin> used_ips (sf_devices s) \<Longrightarrow> a \<le> b"
proof -
  from assms obtain p a where p: "parse_prefix (sf_cidr s) = Some p" and ip: "ip = show_addr a"
    and a: "alloc_loop (masked p) (used_ips (sf_devices s)) (addr_next (p_addr (masked p))) = Some a"
    by (auto simp: allocate_ip_def split: option.splits)
  then have "host_addr (masked p) a \<and> show_addr a \<notin> used_ips (sf_devices s) \<and>
      (\<forall>b. host_addr (masked p) b \<longrightarrow> show_addr b \<notin> used_ips (sf_devices s) \<longrightarrow> a \<le> b)"
    using alloc_spec [OF refl parse_prefix_bits [OF p], of "used_ips (sf_devices s)"] by simp
  with p ip show thesis by (intro that) blast+
qed

lemma allocate_ip_full:
  assumes "allocate_ip s = Inl ErrIPExhausted" "parse_prefix (sf_cidr s) = Some p" "host_addr (masked p) b"
  shows "show_addr b \<in> used_ips (sf_devices s)"
  using assms alloc_spec [OF refl parse_prefix_bits [OF assms(2)], of "used_ips (sf_devices s)"]
  by (auto simp: allocate_ip_def split: option.splits)

lemma create_device_form:
  assumes "create_device e host pub owner st = Inr (st1, d)"
  shows "st1 = set_device pub d st" "allocate_ip (st_s st) = Inr (d_ip d)"
    "d_public_key d = pub" "d_token d = ''omtok-'' @ hex_encode (e_rnd_key e)" "d_prev_token d = []"
    "d_advertised d = []" "d_approved d = []" "d_owner d = owner" "d_hostname d = host"
    "d_token_issued d = e_now e" "d_id d = hex_encode (e_rnd_id e)"
  using assms by (auto simp: create_device_def set_device_def Let_def split: sum.splits)

lemma create_device_ok:
  assumes "create_device e host pub owner st = Inr (st1, d)" "devs_ok (sf_cidr (st_s st)) (st_devices st)"
    "fresh e (st_s st)"
  shows "devs_ok (sf_cidr (st_s st)) (st_devices st1)"
proof -
  note c = create_device_form [OF assms(1)]
  obtain p a where ip: "parse_prefix (sf_cidr (st_s st)) = Some p" "host_addr (masked p) a" "d_ip d = show_addr a"
    "d_ip d \<notin> used_ips (st_devices st)" using c(2) by (rule allocate_ip_ok)
  have "devs_ok (sf_cidr (st_s st)) (gm_put pub d (st_devices st))"
  proof (rule devs_ok_put [OF assms(2)])
    show "device_ok (sf_cidr (st_s st)) pub d" using ip c by (auto simp: device_ok_def)
    fix a x assume x: "gm_get (st_devices st) a = Some x"
    then have "(a, x) \<in> set (st_devices st)" by (rule map_of_SomeD)
    with ip(4) show "d_ip x \<noteq> d_ip d" by (force simp: used_ips_def)
    from \<open>(a, x) \<in> set (st_devices st)\<close> assms(3) c(4,5) show "tokens x \<inter> tokens d = {}"
      by (auto simp: fresh_def tokens_def)
  qed
  with c(1) show ?thesis by (simp add: set_device_def)
qed

section \<open>Every call keeps it\<close>

lemma good_devices:
  "good_state s \<Longrightarrow> devs_ok (sf_cidr s) (f (sf_devices s)) \<Longrightarrow> good_state (sf_devices_update f s)"
  by (simp add: good_state_def)

lemma good_devs: "good_state s \<Longrightarrow> devs_ok (sf_cidr s) (sf_devices s)"
  by (simp add: good_state_def)

lemma good_touch:
  assumes "good_state (st_s st)" "gm_get (st_devices st) pub = Some d" "d_public_key d' = d_public_key d"
    "d_ip d' = d_ip d" "d_token d' = d_token d" "d_prev_token d' = d_prev_token d"
    "\<And>r. r \<in> set (d_advertised d') \<union> set (d_approved d') \<Longrightarrow>
       r \<in> set (d_advertised d) \<union> set (d_approved d) \<or> canonical_route r"
  shows "good_state (st_s (set_device pub d' st))"
  using good_devices [of _ "gm_put pub d'", OF assms(1) devs_ok_touch [OF good_devs [OF assms(1)] assms(2-7)]]
  by (simp add: set_device_def)

lemma good_remove: "good_state (st_s st) \<Longrightarrow> good_state (st_s (upd (sf_devices_update (gm_del pub)) st))"
  using good_devices [of _ "gm_del pub"] devs_ok_del [OF good_devs] by simp

lemma register_device_good:
  assumes "good_state (st_s st)" "fresh e (st_s st)"
  shows "good_state (st_s (fst (register_device e key host pub st)))"
proof (cases "gm_get (st_devices st) pub")
  case (Some d)
  have "good_state (st_s (set_device pub (d\<lparr>d_hostname := host\<rparr>) st))"
    by (rule good_touch [OF assms(1) Some]) auto
  with Some assms(1) show ?thesis by (simp add: register_device_def Let_def)
next
  case None
  show ?thesis
  proof (cases "find (key_usable (e_now e) key) (sf_auth_keys (st_s st))")
    case (Some k)
    show ?thesis
    proof (cases "create_device e host pub (k_owner k) st")
      case (Inr r)
      then obtain st1 d where c: "create_device e host pub (k_owner k) st = Inr (st1, d)" by (cases r) auto
      from create_device_ok [OF c good_devs [OF assms(1)] assms(2)] create_device_form(1) [OF c] assms(1)
      show ?thesis using None Some c by (simp add: register_device_def good_state_def set_device_def)
    qed (use None Some assms(1) in \<open>simp add: register_device_def\<close>)
  qed (use None assms(1) in \<open>simp add: register_device_def\<close>)
qed

lemma register_device_sso_good:
  assumes "good_state (st_s st)" "fresh e (st_s st)"
  shows "good_state (st_s (fst (register_device_sso e host pub owner st)))"
proof (cases "gm_get (st_devices st) pub")
  case (Some d)
  define d1 where "d1 = (if host \<noteq> [] \<and> d_hostname d \<noteq> host then d\<lparr>d_hostname := host\<rparr> else d)"
  define d2 where "d2 = (if owner \<noteq> [] \<and> d_owner d \<noteq> owner then d1\<lparr>d_owner := owner\<rparr> else d1)"
  have "good_state (st_s (set_device pub d2 st))"
    by (rule good_touch [OF assms(1) Some]) (auto simp: d2_def d1_def split: if_splits)
  with Some assms(1) show ?thesis by (auto simp: register_device_sso_def Let_def d1_def d2_def split: if_splits)
next
  case None
  show ?thesis
  proof (cases "create_device e host pub owner st")
    case (Inr r)
    then obtain st1 d where c: "create_device e host pub owner st = Inr (st1, d)" by (cases r) auto
    from create_device_ok [OF c good_devs [OF assms(1)] assms(2)] create_device_form(1) [OF c] assms(1)
    show ?thesis using None c by (simp add: register_device_sso_def good_state_def set_device_def)
  qed (use None assms(1) in \<open>simp add: register_device_sso_def\<close>)
qed

lemma rotate_good:
  assumes "good_state (st_s st)" "fresh e (st_s st)"
  shows "good_state (st_s (fst (rotate_token_if_due e pub st)))"
proof (cases "gm_get (st_devices st) pub")
  case (Some d)
  let ?t = "''omtok-'' @ hex_encode (e_rnd_key e)"
  define d' where "d' = d\<lparr>d_prev_token := d_token d, d_prev_until := e_now e + token_grace,
      d_token := ?t, d_token_issued := e_now e\<rparr>"
  have "device_ok (sf_cidr (st_s st)) pub d"
    using good_devs [OF assms(1)] Some by (rule devs_okD)
  then have "device_ok (sf_cidr (st_s st)) pub d'"
    by (simp add: d'_def device_ok_def split: option.splits)
  moreover have "tokens x \<inter> {?t} = {}" if "gm_get (st_devices st) a = Some x" for a x
    using map_of_SomeD [OF that] assms(2) by (auto simp: fresh_def)
  ultimately have "devs_ok (sf_cidr (st_s st)) (gm_put pub d' (st_devices st))"
    by (intro devs_ok_rewrite [OF good_devs [OF assms(1)] Some, of d' "{?t}"]) (auto simp: d'_def tokens_def)
  with good_devices [OF assms(1), of "gm_put pub d'"] assms(1) Some show ?thesis
    by (simp add: rotate_token_if_due_def Let_def set_device_def d'_def)
qed (use assms in \<open>simp add: rotate_token_if_due_def\<close>)

lemma touch_good:
  assumes "good_state (st_s st)"
  shows "good_state (st_s (fst (touch_device e pub ep eps rs st)))"
proof (cases "gm_get (st_devices st) pub")
  case (Some d)
  define d4 where "d4 = (let d1 = d\<lparr>d_last_seen := e_now e\<rparr>;
          d2 = (if ep \<noteq> [] then d1\<lparr>d_endpoint := ep\<rparr> else d1);
          d3 = (case eps of None \<Rightarrow> d2 | Some eps \<Rightarrow> d2\<lparr>d_endpoints := eps\<rparr>)
      in case rs of None \<Rightarrow> d3 | Some rs \<Rightarrow> d3\<lparr>d_advertised := valid_routes rs\<rparr>)"
  have "good_state (st_s (set_device pub d4 st))"
    by (rule good_touch [OF assms(1) Some])
      (auto simp: d4_def Let_def split: option.splits if_splits dest: valid_routes_canonical)
  with Some assms(1) show ?thesis by (simp add: touch_device_def Let_def d4_def)
qed (use assms in \<open>simp add: touch_device_def\<close>)

lemma approve_good:
  assumes "good_state (st_s st)"
  shows "good_state (st_s (fst (set_approved_routes e target rs st)))"
proof (cases "normalize_all rs")
  case (Inr cs)
  show ?thesis
  proof (cases "find (\<lambda>(pub, d). is_target target d) (st_devices st)")
    case (Some r)
    then obtain pub d where r: "find (\<lambda>(pub, d). is_target target d) (st_devices st) = Some (pub, d)" by (cases r) auto
    have g: "gm_get (st_devices st) pub = Some d"
      using gm.find_sound [OF devs_okD(1) [OF good_devs [OF assms]] r] by simp
    have "good_state (st_s (set_device pub (d\<lparr>d_approved := cs\<rparr>) st))"
      by (rule good_touch [OF assms g]) (auto dest: normalize_all_canonical [OF Inr])
    with Inr r show ?thesis by (simp add: set_approved_routes_def Let_def)
  qed (use Inr assms in \<open>simp add: set_approved_routes_def\<close>)
qed (use assms in \<open>simp add: set_approved_routes_def\<close>)

lemma remove_good:
  "good_state (st_s st) \<Longrightarrow> good_state (st_s (fst (remove_device e target st)))"
  "good_state (st_s st) \<Longrightarrow> good_state (st_s (fst (remove_owned_device e owner target st)))"
  using good_remove [of st]
  by (auto simp: remove_device_def remove_owned_device_def split: option.splits)

lemma users_ok_put:
  assumes "users_ok m" "gm_get m (u_email u) = None" "CHR ''@'' \<in> set (u_email u)"
    "\<And>email x. gm_get m email = Some x \<Longrightarrow> u_id x \<noteq> u_id u"
  shows "users_ok (gm_put (u_email u) u m)"
proof -
  have "a = b" if "gm_get m a = Some x" "gm_get m b = Some y" "u_id x = u_id y" for a b x y
    using assms(1) that unfolding users_ok_def by blast
  then have "a = b" if "gm_get (gm_put (u_email u) u m) a = Some x"
      "gm_get (gm_put (u_email u) u m) b = Some y" "u_id x = u_id y" for a b x y
    using that assms(4) by (intro gm.put_injective_values [of m u_id "u_email u" u a x b y]) auto
  moreover have "gm_ok (gm_put (u_email u) u m)"
    using assms(1) by (intro gm_ok_put) (simp add: users_ok_def)
  moreover have "u_email x = email \<and> CHR ''@'' \<in> set email"
    if "gm_get (gm_put (u_email u) u m) email = Some x" for email x
    using that assms(1,3) by (auto simp: gm_get_put users_ok_def split: if_splits)
  ultimately show ?thesis unfolding users_ok_def by blast
qed

lemma register_user_good:
  assumes "good_state (st_s st)" "fresh e (st_s st)"
  shows "good_state (st_s (fst (register_user ul gen e email pw code req st)))"
proof (cases "CHR ''@'' \<in> set (normalize_email ul email) \<and> gm_get (sf_users (st_s st)) (normalize_email ul email) = None")
  case True
  have users: "users_ok (gm_put (normalize_email ul email) \<lparr>u_id = hex_encode (e_rnd_id e),
      u_email = normalize_email ul email, u_hash = h, u_created = e_now e\<rparr> (sf_users (st_s st)))"
    (is "users_ok (gm_put _ (?u h) _)") for h
  proof -
    have "u_id x \<noteq> u_id (?u h)" if "gm_get (sf_users (st_s st)) em = Some x" for em x
      using map_of_SomeD [OF that] assms(2) by (auto simp: fresh_def)
    then have "users_ok (gm_put (u_email (?u h)) (?u h) (sf_users (st_s st)))"
      using True assms(1) by (intro users_ok_put) (auto simp: good_state_def)
    then show ?thesis by simp
  qed
  with True assms(1) show ?thesis
    by (simp add: register_user_def Let_def good_state_def split: option.splits)
next
  case False
  with assms(1) show ?thesis by (auto simp: register_user_def Let_def split: option.splits)
qed

lemma run_op_good:
  assumes "good_state (st_s st)" "fresh e (st_s st)"
  shows "good_state (st_s (fst (run_op ul gen e op st)))"
proof (cases op)
  case (OpAuthKey owner reusable ttl)
  with assms show ?thesis by (simp add: acked_def create_auth_key_for_def Let_def good_state_def)
next
  case (OpAcl p)
  with assms show ?thesis by (simp add: acked_def set_acl_def good_state_def)
next
  case (OpInvite ttl)
  with assms show ?thesis by (simp add: acked_def create_invite_def Let_def good_state_def)
next
  case (OpSession uid)
  with assms show ?thesis
    by (simp add: acked_def create_session_def Let_def good_state_def gm_ok_put gm_ok_filter)
next
  case (OpLogout token)
  with assms show ?thesis by (simp add: good_state_def gm_ok_del)
qed (use assms in \<open>simp_all add: acked_def register_device_good register_device_sso_good rotate_good
  touch_good approve_good remove_good register_user_good\<close>)

section \<open>Every call leaves the old file or the new state\<close>

definition loads :: "store \<Rightarrow> state_file diskfile option" where
  "loads st = load_file (st_path st) (st_fs st)"

lemma saved_loads:
  "loads (fst (saved e st a)) =
     (if e_fault e = None then Some \<lparr>f_content = Some (st_s st), f_mode = private_mode\<rparr> else loads st)"
proof (cases "save_file (st_path st) (e_tmp e) (st_s st) (e_fault e) (st_fs st)")
  case (Pair fs' ok)
  then have "ok \<longleftrightarrow> e_fault e = None"
    using save_file_ok_iff [of "st_path st" "e_tmp e" "st_s st" "e_fault e" "st_fs st"] by simp
  with Pair show ?thesis using saver.save_done saver.save_failed
    by (cases ok) (auto simp: loads_def saved_def save_locked_def)
qed

text \<open>
  The shape of every call: it leaves the store as it was, or it changes the state in memory and
  ends with one save of it, and reports success exactly when the save does.
\<close>

definition one_save :: "env \<Rightarrow> store \<Rightarrow> store \<times> bool \<Rightarrow> bool" where
  "one_save e st r \<longleftrightarrow> fst r = st \<or> (\<exists>s. fst r = fst (save_locked e (st\<lparr>st_s := s\<rparr>)) \<and> (snd r \<longrightarrow> e_fault e = None))"

lemma one_save_saved:
  "st_path st1 = st_path st \<Longrightarrow> st_fs st1 = st_fs st \<Longrightarrow> one_save e st (acked (saved e st1 a))"
proof -
  assume "st_path st1 = st_path st" "st_fs st1 = st_fs st"
  then have "st1 = st\<lparr>st_s := st_s st1\<rparr>" by simp
  moreover have "fst (acked (saved e st1 a)) = fst (save_locked e st1)"
    by (simp add: acked_def saved_def split_beta)
  moreover have "snd (acked (saved e st1 a)) \<longleftrightarrow> e_fault e = None"
    by (simp add: acked_def saved_def split_beta save_locked_ok)
  ultimately show ?thesis unfolding one_save_def by metis
qed

lemma one_save_same: "one_save e st (acked (st, r))"
  by (simp add: one_save_def acked_def)

lemma run_op_one_save: "\<forall>t. op \<noteq> OpLogout t \<Longrightarrow> one_save e st (run_op ul gen e op st)"
proof (cases op)
  case (OpRegister key host pub)
  then show ?thesis
    by (auto simp: register_device_def set_device_def Let_def intro!: one_save_saved one_save_same
        dest!: create_device_form(1) split: option.splits sum.splits)
next
  case (OpRegisterSSO host pub owner)
  then show ?thesis
    by (auto simp: register_device_sso_def set_device_def Let_def intro!: one_save_saved one_save_same
        dest!: create_device_form(1) split: option.splits sum.splits)
qed (auto simp: create_auth_key_for_def rotate_token_if_due_def touch_device_def set_approved_routes_def
  set_acl_def remove_device_def create_invite_def register_user_def create_session_def
  remove_owned_device_def set_device_def Let_def
  intro!: one_save_saved one_save_same split: option.splits sum.splits)

abbreviation file_of :: "state_file \<Rightarrow> state_file diskfile" where
  "file_of s \<equiv> \<lparr>f_content = Some s, f_mode = private_mode\<rparr>"

lemma save_locked_loads:
  "loads (fst (save_locked e st)) = (if e_fault e = None then Some (file_of (st_s st)) else loads st)"
  using saved_loads [of e st undefined] by (simp add: saved_def split_beta)

lemma loads_upd [simp]: "loads (st\<lparr>st_s := s\<rparr>) = loads st"
  by (simp add: loads_def)

lemma run_op_path [simp]: "st_path (fst (run_op ul gen e op st)) = st_path st"
proof (cases "\<exists>t. op = OpLogout t")
  case False
  then have "one_save e st (run_op ul gen e op st)" by (intro run_op_one_save) blast
  then show ?thesis by (auto simp: one_save_def)
qed (auto simp: delete_session_def)

lemma run_op_loads:
  "loads (fst (run_op ul gen e op st)) = loads st \<or>
   loads (fst (run_op ul gen e op st)) = Some (file_of (st_s (fst (run_op ul gen e op st))))"
proof (cases "\<exists>t. op = OpLogout t")
  case True
  then obtain t where "op = OpLogout t" ..
  then show ?thesis by (simp add: delete_session_def save_locked_loads)
next
  case False
  then have "one_save e st (run_op ul gen e op st)" by (intro run_op_one_save) blast
  then show ?thesis by (auto simp: one_save_def save_locked_loads)
qed

lemma run_op_acked:
  assumes "\<forall>t. op \<noteq> OpLogout t" "snd (run_op ul gen e op st)" "fst (run_op ul gen e op st) \<noteq> st"
  shows "loads (fst (run_op ul gen e op st)) = Some (file_of (st_s (fst (run_op ul gen e op st))))"
  using run_op_one_save [OF assms(1), of e st ul gen] assms(2,3)
  by (auto simp: one_save_def save_locked_loads)

lemma crashed_loads:
  assumes "n < 4"
  shows "load_file (st_path st) (crashed ul gen e op n st) = loads st \<or>
    load_file (st_path st) (crashed ul gen e op n st) =
      Some (file_of (st_s (fst (run_op ul gen (e\<lparr>e_fault := None\<rparr>) op st))))"
proof (cases "st_fs (fst (run_op ul gen (e\<lparr>e_fault := None\<rparr>) op st)) = st_fs st")
  case False
  let ?ss = "save_states (st_path st) (e_tmp e) (st_s (fst (run_op ul gen (e\<lparr>e_fault := None\<rparr>) op st))) (st_fs st)"
  have "?ss ! n \<in> set ?ss" using assms by (intro nth_mem) (simp add: save_states_def Let_def)
  from save_states_old_or_new [OF this] False show ?thesis
    by (simp add: crashed_def Let_def loads_def)
qed (simp add: crashed_def loads_def)

section \<open>Opening a file that satisfies the invariant\<close>

definition good_file :: "state_file diskfile option \<Rightarrow> bool" where
  "good_file f \<longleftrightarrow> (\<forall>x. f = Some x \<longrightarrow> (\<exists>s. f_content x = Some s \<and> good_state s))"

lemma store_inv_iff: "store_inv st \<longleftrightarrow> good_state (st_s st) \<and> loads st \<noteq> None \<and> good_file (loads st)"
  by (auto simp: store_inv_def good_file_def loads_def on_disk_def split: option.splits)

lemma good_file_of [simp]: "good_file (Some (file_of s)) \<longleftrightarrow> good_state s" "good_file None"
  by (simp_all add: good_file_def)

lemma devs_ok_empty [simp]: "devs_ok cidr []" "users_ok []"
  by (simp_all add: devs_ok_def ips_apart_def tokens_apart_def users_ok_def)

lemma parse_prefix_nil [simp]: "parse_prefix [] = None"
  by (simp add: parse_prefix_def cut_last_def)

lemma parse_cidr_nil: "parse_cidr [] = None"
  by (simp add: parse_cidr_def)

lemma devs_ok_cidr: "devs_ok [] m \<Longrightarrow> devs_ok cidr m"
  by (simp add: devs_ok_def device_ok_def)

lemma open_store_good:
  assumes "open_store_cidr e readable path cidr fs = Inr (st, created)" "good_file (load_file path fs)"
  shows "store_inv st" "st_path st = path"
proof -
  define s0 where "s0 = (case load_file path fs of None \<Rightarrow> empty_state | Some f \<Rightarrow> the (f_content f))"
  define s1 where "s1 = (if sf_admin_key s0 = [] then s0\<lparr>sf_admin_key := ''omadmin-'' @ hex_encode (e_rnd_key e)\<rparr> else s0)"
  define s2 where "s2 = (if sf_cidr s1 = [] then s1\<lparr>sf_cidr := cidr\<rparr> else s1)"
  define st1 where "st1 = \<lparr>st_path = path, st_fs = fs, st_s = s2\<rparr>"
  have "cidr \<noteq> []" using assms(1) by (auto simp: open_store_cidr_def parse_cidr_nil)
  have "devs_ok (sf_cidr s0) (sf_devices s0) \<and> users_ok (sf_users s0) \<and> gm_ok (sf_sessions s0)"
    using assms(2) by (auto simp: s0_def empty_state_def good_file_def good_state_def split: option.splits)
  with \<open>cidr \<noteq> []\<close> have good: "good_state s2"
    by (auto simp: s2_def s1_def good_state_def intro: devs_ok_cidr)
  have "(st = st1 \<and> sf_admin_key s0 \<noteq> []) \<or> (st = fst (save_locked e st1) \<and> sf_admin_key s0 = [] \<and> e_fault e = None)"
    using assms(1) save_locked_ok [of e st1]
    by (auto simp: open_store_cidr_def s0_def s1_def s2_def st1_def Let_def split: if_splits option.splits prod.splits)
  moreover have "good_file (loads st1)" using assms(2) by (simp add: st1_def loads_def)
  moreover have "sf_admin_key s0 \<noteq> [] \<Longrightarrow> loads st1 \<noteq> None"
    by (auto simp: st1_def loads_def s0_def empty_state_def split: option.splits)
  ultimately show "store_inv st" "st_path st = path"
    using good by (auto simp: store_inv_iff save_locked_loads st1_def)
qed

section \<open>Every reachable store satisfies it\<close>

lemma store_inv_step:
  assumes inv: "store_inv st" and en: "store_en ul gen ev st"
  shows "store_inv (store_step ul gen ev st)"
proof (cases ev)
  case (Call e op)
  with assms run_op_good [of st e ul gen op] run_op_loads [of ul gen e op st] show ?thesis
    by (auto simp: store_inv_iff)
next
  case (Iterate ds us ss)
  then have same: "same_map (st_devices st) ds" "same_map (sf_users (st_s st)) us" "same_map (sf_sessions (st_s st)) ss"
    using en by auto
  have good: "good_state (st_s st)" using inv by (simp add: store_inv_iff)
  then have "users_ok us" "gm_ok ss"
    using same same_map_get [OF _ same(2)] by (auto simp: good_state_def users_ok_def same_map_def)
  with good devs_ok_same [OF good_devs [OF good] same(1)] inv Iterate show ?thesis
    by (simp add: store_inv_iff good_state_def loads_def)
next
  case (Restart e cidr)
  show ?thesis
  proof (cases "open_store_cidr e True (st_path st) cidr (st_fs st)")
    case (Inr r)
    with inv Restart open_store_good(1) show ?thesis
      by (cases r) (auto simp: store_inv_iff loads_def)
  qed (use inv Restart in simp)
next
  case (Crash e op n e' cidr)
  let ?fs = "crashed ul gen e op n st"
  have c: "n < 4" "fresh e (st_s st)" using en Crash by auto
  then have "fresh (e\<lparr>e_fault := None\<rparr>) (st_s st)" by (simp add: fresh_def)
  with inv have "good_state (st_s (fst (run_op ul gen (e\<lparr>e_fault := None\<rparr>) op st)))"
    by (intro run_op_good) (simp_all add: store_inv_iff)
  with crashed_loads [OF c(1), of st ul gen e op] inv have "good_file (load_file (st_path st) ?fs)"
    by (auto simp: store_inv_iff)
  with open_store_good(1) [of e' True "st_path st" cidr ?fs] Crash inv show ?thesis
    by (auto split: sum.splits)
qed

interpretation store_machine: invariant_machine first_boot "store_step ul gen" "store_en ul gen" store_inv
  for ul gen
proof unfold_locales
  fix st
  assume "first_boot st"
  then show "store_inv st" by (auto simp: first_boot_def intro!: open_store_good(1))
qed (rule store_inv_step)

lemmas store_reach_inv = store_machine.reach_inv

lemma store_reach_good: "store_reach ul gen st0 st \<Longrightarrow> first_boot st0 \<Longrightarrow> good_state (st_s st)"
  using store_machine.reach_inv by (simp add: store_inv_iff)

end
