(* ===== verification/Store_Demo.thy ===== *)
theory Store_Demo
  imports Store_Machine
begin

text \<open>
  A concrete run of the store, used to instantiate the properties: a first boot on an empty disk,
  a single-use key for an owner, and the registration of two machines.
\<close>

definition demo_env :: "int \<Rightarrow> byte \<Rightarrow> env" where
  "demo_env t b = \<lparr>e_now = t, e_rnd_id = [b], e_rnd_key = [b], e_fault = None, e_tmp = ''1''\<rparr>"

lemma demo_env_sel [simp]: "e_now (demo_env t b) = t" "e_fault (demo_env t b) = None" "e_rnd_key (demo_env t b) = [b]"
  "e_rnd_id (demo_env t b) = [b]"
  by (simp_all add: demo_env_def)

definition demo0 :: store where
  "demo0 = \<lparr>st_path = ''s'', st_fs = [(Target ''s'', file_of (empty_state
       \<lparr>sf_admin_key := ''omadmin-01'', sf_cidr := ''10.0.0.0/29''\<rparr>))],
     st_s = empty_state\<lparr>sf_admin_key := ''omadmin-01'', sf_cidr := ''10.0.0.0/29''\<rparr>\<rparr>"

definition demo1 :: store where
  "demo1 = fst (create_auth_key_for (demo_env 1 2) ''ann@x'' False 0 demo0)"

definition demo2 :: store where
  "demo2 = fst (register_device (demo_env 2 3) ''omkey-02'' ''h1'' ''pk1'' demo1)"

definition demo3 :: store where
  "demo3 = fst (register_device_sso (demo_env 3 4) ''h2'' ''pk2'' ''bob@x'' demo2)"

lemma demo0_boot: "first_boot demo0"
proof -
  have "open_store_cidr (demo_env 0 1) True ''s'' ''10.0.0.0/29'' [] = Inr (demo0, True)"
    by (simp add: compute open_store_cidr_def load_file_def demo0_def demo_env_def Let_def empty_state_def
        save_locked_def save_file_def)
  moreover have "load_file ''s'' [] = (None :: state_file diskfile option)" by (simp add: load_file_def)
  ultimately show ?thesis unfolding first_boot_def by blast
qed

lemma demo1_state: "st_s demo1 = empty_state\<lparr>sf_admin_key := ''omadmin-01'', sf_cidr := ''10.0.0.0/29'',
    sf_auth_keys := [\<lparr>k_key = ''omkey-02'', k_owner = ''ann@x'', k_reusable = False, k_used = False,
      k_created = 1, k_expires = 0\<rparr>]\<rparr>"
  by (simp add: demo1_def create_auth_key_for_def demo0_def demo_env_def Let_def empty_state_def compute)

definition demo_dev1 :: device where
  "demo_dev1 = \<lparr>d_id = ''03'', d_hostname = ''h1'', d_owner = ''ann@x'', d_public_key = ''pk1'',
     d_token = ''omtok-03'', d_token_issued = 2, d_prev_token = [], d_prev_until = 0, d_ip = ''10.0.0.1'',
     d_endpoint = [], d_endpoints = [], d_advertised = [], d_approved = [], d_created = 2, d_last_seen = 0\<rparr>"

definition demo_dev2 :: device where
  "demo_dev2 = \<lparr>d_id = ''04'', d_hostname = ''h2'', d_owner = ''bob@x'', d_public_key = ''pk2'',
     d_token = ''omtok-04'', d_token_issued = 3, d_prev_token = [], d_prev_until = 0, d_ip = ''10.0.0.2'',
     d_endpoint = [], d_endpoints = [], d_advertised = [], d_approved = [], d_created = 3, d_last_seen = 0\<rparr>"

lemma demo2_run: "register_device (demo_env 2 3) ''omkey-02'' ''h1'' ''pk1'' demo1 = (demo2, Inr demo_dev1)"
proof -
  have "snd (register_device (demo_env 2 3) ''omkey-02'' ''h1'' ''pk1'' demo1) = Inr demo_dev1"
    by (simp add: register_device_def create_device_def allocate_ip_def demo1_state demo_env_def
        empty_state_def compute key_usable_def unexpired_def alloc_loop.simps contains_next_def used_ips_def
        saved_result demo_dev1_def Let_def)
  then show ?thesis unfolding demo2_def by (metis prod.collapse)
qed

lemma demo2_state: "st_s demo2 = (st_s demo1)\<lparr>sf_devices := [(''pk1'', demo_dev1)],
    sf_auth_keys := [\<lparr>k_key = ''omkey-02'', k_owner = ''ann@x'', k_reusable = False, k_used = True,
      k_created = 1, k_expires = 0\<rparr>]\<rparr>"
  by (simp add: demo2_def register_device_def create_device_def allocate_ip_def demo1_state demo_env_def
      empty_state_def compute key_usable_def unexpired_def alloc_loop.simps contains_next_def used_ips_def
      demo_dev1_def Let_def)

lemma demo3_run: "snd (register_device_sso (demo_env 3 4) ''h2'' ''pk2'' ''bob@x'' demo2) = Inr demo_dev2"
  by (simp add: register_device_sso_def create_device_def allocate_ip_def demo2_state demo1_state demo_env_def
      empty_state_def compute alloc_loop.simps contains_next_def used_ips_def
      saved_result demo_dev1_def demo_dev2_def Let_def)

lemma demo3_devices: "st_devices demo3 = [(''pk1'', demo_dev1), (''pk2'', demo_dev2)]"
  by (simp add: demo3_def register_device_sso_def create_device_def allocate_ip_def demo2_state demo1_state
      demo_env_def empty_state_def compute alloc_loop.simps contains_next_def used_ips_def
      demo_dev1_def demo_dev2_def Let_def)

lemma demo3_users: "sf_users (st_s demo3) = []" "sf_acl (st_s demo3) = None"
  by (simp_all add: demo3_def register_device_sso_def create_device_def allocate_ip_def demo2_state demo1_state
      demo_env_def empty_state_def compute alloc_loop.simps contains_next_def used_ips_def
      demo_dev1_def demo_dev2_def Let_def)

lemma demo3_admin: "store_admin_key demo3 = ''omadmin-01''"
  by (simp add: store_admin_key_def demo3_def register_device_sso_def create_device_def allocate_ip_def demo2_state
      demo1_state demo_env_def empty_state_def compute alloc_loop.simps contains_next_def used_ips_def
      demo_dev1_def demo_dev2_def Let_def)

lemma demo3_fresh: "fresh (demo_env t 5) (st_s demo3)" "fresh (demo_env t 6) (st_s demo3)"
  by (simp_all add: fresh_def demo3_devices demo3_users tokens_def demo_dev1_def demo_dev2_def demo_env_def compute)

lemma demo_cidr: "sf_cidr (st_s demo2) = ''10.0.0.0/29''" "sf_cidr (st_s demo3) = ''10.0.0.0/29''"
proof -
  show c: "sf_cidr (st_s demo2) = ''10.0.0.0/29''" by (simp add: demo2_state demo1_state)
  have "sf_cidr (st_s demo3) = sf_cidr (st_s demo2)"
    by (auto simp: demo3_def register_device_sso_def Let_def set_device_def dest!: create_device_form(1)
        split: option.splits sum.splits)
  with c show "sf_cidr (st_s demo3) = ''10.0.0.0/29''" by simp
qed

lemma demo_prefix: "parse_prefix ''10.0.0.0/29'' = Some (Prefix (V4 167772160) 29)"
  "masked (Prefix (V4 167772160) 29) = Prefix (V4 167772160) 29"
  by (simp_all add: compute)

lemma demo_fresh: "fresh (demo_env 1 2) (st_s demo0)" "fresh (demo_env 2 3) (st_s demo1)"
  "fresh (demo_env 3 4) (st_s demo2)"
  by (simp_all add: fresh_def demo0_def demo1_state demo2_state empty_state_def tokens_def demo_dev1_def
      demo_env_def compute)

lemma demo_reach:
  "store_reach ul gen demo0 demo1" "store_reach ul gen demo0 demo2" "store_reach ul gen demo0 demo3"
proof -
  have "store_reach ul gen demo0 (store_step ul gen (Call (demo_env 1 2) (OpAuthKey ''ann@x'' False 0)) demo0)"
    using demo_fresh by (intro next_step start) simp
  then show 1: "store_reach ul gen demo0 demo1" by (simp add: demo1_def acked_def)
  from 1 have "store_reach ul gen demo0
      (store_step ul gen (Call (demo_env 2 3) (OpRegister ''omkey-02'' ''h1'' ''pk1'')) demo1)"
    using demo_fresh by (intro next_step) simp_all
  then show 2: "store_reach ul gen demo0 demo2" by (simp add: demo2_def acked_def)
  from 2 have "store_reach ul gen demo0
      (store_step ul gen (Call (demo_env 3 4) (OpRegisterSSO ''h2'' ''pk2'' ''bob@x'')) demo2)"
    using demo_fresh by (intro next_step) simp_all
  then show "store_reach ul gen demo0 demo3" by (simp add: demo3_def acked_def)
qed

lemmas demo_store_ok = store_reach_good [OF demo_reach(2) demo0_boot] store_reach_good [OF demo_reach(3) demo0_boot]

text \<open>A heartbeat that advertises two subnets (the second is not one), then the approval of the first.\<close>

definition demo4 :: store where
  "demo4 = fst (touch_device (demo_env 4 5) ''pk1'' ''1.2.3.4:5'' None (Some [''10.1.2.3/16'', ''lan'']) demo3)"

definition demo_dev4 :: device where
  "demo_dev4 = demo_dev1\<lparr>d_last_seen := 4, d_endpoint := ''1.2.3.4:5'', d_advertised := [''10.1.0.0/16'']\<rparr>"

lemma demo_routes: "normalize_cidr ''10.1.2.3/16'' = Inr ''10.1.0.0/16''" "normalize_cidr ''lan'' = Inl ErrNotPrefix"
  "normalize_cidr ''10.1.0.0/16'' = Inr ''10.1.0.0/16''"
proof -
  have t: "trim_space ''10.1.2.3/16'' = ''10.1.2.3/16''" "trim_space ''lan'' = ''lan''"
    "trim_space ''10.1.0.0/16'' = ''10.1.0.0/16''"
    by (rule trim_space_plain; simp add: is_plain_def)+
  show "normalize_cidr ''10.1.2.3/16'' = Inr ''10.1.0.0/16''" "normalize_cidr ''lan'' = Inl ErrNotPrefix"
    "normalize_cidr ''10.1.0.0/16'' = Inr ''10.1.0.0/16''"
    unfolding normalize_cidr_def t by (simp_all add: compute)
qed

lemma demo4_devices: "st_devices demo4 = [(''pk1'', demo_dev4), (''pk2'', demo_dev2)]"
  by (simp add: demo4_def touch_device_def Let_def demo3_devices set_device_def demo_routes demo_dev4_def demo_dev1_def)

lemma demo4_reach: "store_reach ul gen demo0 demo4"
proof -
  have "fresh (demo_env 4 5) (st_s demo3)"
  proof -
    have "sf_users (st_s demo3) = []"
      by (simp add: demo3_def register_device_sso_def create_device_def allocate_ip_def demo2_state demo1_state
          demo_env_def empty_state_def compute alloc_loop.simps contains_next_def used_ips_def
          demo_dev1_def demo_dev2_def Let_def)
    then show ?thesis
      by (simp add: fresh_def demo3_devices tokens_def demo_dev1_def demo_dev2_def compute)
  qed
  then have "store_reach ul gen demo0
      (store_step ul gen (Call (demo_env 4 5) (OpTouch ''pk1'' ''1.2.3.4:5'' None (Some [''10.1.2.3/16'', ''lan'']))) demo3)"
    using demo_reach(3) by (intro next_step) simp_all
  then show ?thesis by (simp add: demo4_def acked_def)
qed

text \<open>An account on the first boot's store, and its session.\<close>

definition demo_user :: user where
  "demo_user = \<lparr>u_id = ''05'', u_email = ''a@b'', u_hash = ''password'', u_created = 4\<rparr>"

definition demo5 :: store where
  "demo5 = fst (register_user (\<lambda>x. x) Some (demo_env 4 5) ''a@b'' ''password'' [] False demo0)"

definition demo6 :: store where
  "demo6 = fst (create_session (demo_env 5 6) ''05'' demo5)"

lemma demo_email: "normalize_email (\<lambda>x. x) ''a@b'' = ''a@b''"
proof -
  have "trim_space ''a@b'' = ''a@b''" by (rule trim_space_plain) (simp add: is_plain_def)
  then show ?thesis by (simp add: normalize_email_def to_lower_def is_ascii_def lower_char_def)
qed

lemma demo5_users: "sf_users (st_s demo5) = [(''a@b'', demo_user)]" "st_devices demo5 = []"
  "sf_sessions (st_s demo5) = []"
  by (simp_all add: demo5_def register_user_def Let_def demo0_def empty_state_def compute demo_email demo_user_def)

lemma demo5_reach: "store_reach (\<lambda>x. x) Some demo0 demo5"
proof -
  have "fresh (demo_env 4 5) (st_s demo0)" by (simp add: fresh_def demo0_def empty_state_def)
  then have "store_reach (\<lambda>x. x) Some demo0
      (store_step (\<lambda>x. x) Some (Call (demo_env 4 5) (OpUser ''a@b'' ''password'' [] False)) demo0)"
    by (intro next_step start) simp
  then show ?thesis by (simp add: demo5_def acked_def)
qed

lemma demo6_state: "sf_users (st_s demo6) = [(''a@b'', demo_user)]" "st_devices demo6 = []"
  "sf_sessions (st_s demo6) = [(''omsess-06'', \<lparr>s_user = ''05'', s_expires = 5 + session_ttl\<rparr>)]"
  by (simp_all add: demo6_def create_session_def Let_def demo5_users compute)

lemma demo6_reach: "store_reach (\<lambda>x. x) Some demo0 demo6"
proof -
  have "fresh (demo_env 5 6) (st_s demo5)" by (simp add: fresh_def demo5_users demo_user_def compute)
  with demo5_reach have "store_reach (\<lambda>x. x) Some demo0
      (store_step (\<lambda>x. x) Some (Call (demo_env 5 6) (OpSession ''05'')) demo5)"
    by (intro next_step) simp_all
  then show ?thesis by (simp add: demo6_def acked_def)
qed

lemma demo6_session: "session_user 6 ''omsess-06'' demo6 = Some demo_user"
  by (simp add: session_user_def session_live_def demo6_state demo_user_def session_ttl_def duration_defs)

end
