(* ===== verification/Store_Props.thy ===== *)
theory Store_Props
  imports Store_Demo
begin

text \<open>
  The properties of the store: addresses, durability, crashes, enrolment keys, tokens, routes,
  revocation, the policy, accounts and sessions.
\<close>

section \<open>Helper lemmas\<close>

lemma demo_lookup: "gm_get (st_devices demo3) ''pk1'' = Some demo_dev1" "gm_get (st_devices demo3) ''pk2'' = Some demo_dev2"
  by (simp_all add: demo3_devices)

lemma allocate_ip_cases:
  assumes "parse_prefix (sf_cidr s) = Some p"
  shows "case allocate_ip s of
      Inr ip \<Rightarrow> (\<exists>a. ip = show_addr a \<and> host_addr (masked p) a \<and> ip \<notin> used_ips (sf_devices s) \<and>
        (\<forall>b. host_addr (masked p) b \<longrightarrow> show_addr b \<notin> used_ips (sf_devices s) \<longrightarrow> a \<le> b))
    | Inl err \<Rightarrow> err = ErrIPExhausted \<and> (\<forall>b. host_addr (masked p) b \<longrightarrow> show_addr b \<in> used_ips (sf_devices s))"
  using assms alloc_spec [OF refl parse_prefix_bits [OF assms], of "used_ips (sf_devices s)"]
  by (auto simp: allocate_ip_def split: option.splits)

lemma reopen:
  assumes "loads st = Some (file_of (st_s st))" "good_state (st_s st)" "parse_cidr cidr \<noteq> None"
  shows "open_store_cidr e True (st_path st) cidr (st_fs st) = Inr (st, False)"
  using assms by (simp add: open_store_cidr_def loads_def good_state_def Let_def)

lemma open_whole:
  assumes "load_file path fs = Some f" "f_content f = Some s" "good_state s" "parse_cidr cidr \<noteq> None"
  shows "open_store_cidr e True path cidr fs = Inr (\<lparr>st_path = path, st_fs = fs, st_s = s\<rparr>, False)"
  using assms by (simp add: open_store_cidr_def good_state_def Let_def)

lemma device_by_token_order:
  assumes ok: "devs_ok cidr (st_devices st)" and same: "same_map (st_devices st) ds"
  shows "device_by_token now token (upd (sf_devices_update (\<lambda>_. ds)) st) = device_by_token now token st"
proof -
  let ?st = "upd (sf_devices_update (\<lambda>_. ds)) st"
  have ds: "devs_ok cidr ds" using ok same by (rule devs_ok_same)
  have "gm_get ds = gm_get (st_devices st)" using devs_okD(1) [OF ok] same by (rule same_map_get)
  then have "device_by_token now token ?st = Some x \<longleftrightarrow> device_by_token now token st = Some x" for x
    using device_by_token_iff [of ?st now token x] device_by_token_iff [of st now token x]
      devs_okD(1,5) [OF ds] devs_okD(1,5) [OF ok] by simp
  then show ?thesis by (metis not_Some_eq)
qed

section \<open>Addresses\<close>

text \<open>C2: in every state the server can reach, through any sequence of calls, map iteration orders,
  restarts and crashes, two machines never share an overlay address, every machine's address is a
  host address of the overlay network (not its network address, not its last address), and the
  machine is filed under its own public key.\<close>

theorem addresses_unique:
  assumes "store_reach ul gen st0 st" "first_boot st0" "gm_get (st_devices st) a = Some x"
  shows "(\<forall>b y. gm_get (st_devices st) b = Some y \<and> d_ip y = d_ip x \<longrightarrow> b = a) \<and>
    d_public_key x = a \<and>
    (\<exists>p h. parse_prefix (store_cidr st) = Some p \<and> host_addr (masked p) h \<and> d_ip x = show_addr h)"
proof -
  have ok: "devs_ok (sf_cidr (st_s st)) (st_devices st)"
    using store_reach_good [OF assms(1,2)] by (rule good_devs)
  have "device_ok (sf_cidr (st_s st)) a x" using ok assms(3) by (rule devs_okD)
  then show ?thesis using devs_okD(3) [OF ok _ assms(3)]
    by (auto simp: device_ok_def store_cidr_def split: option.splits)
qed

theorem addresses_unique_witness:
  "d_public_key demo_dev2 = ''pk2'' \<and>
   (\<exists>p h. parse_prefix (store_cidr demo3) = Some p \<and> host_addr (masked p) h \<and> ''10.0.0.2'' = show_addr h)"
  using addresses_unique [OF demo_reach(3) [of "\<lambda>x. x" Some] demo0_boot demo_lookup(2)]
  by (simp add: demo_dev2_def)

text \<open>Address allocation gives the least host address of the network that no machine holds, and
  reports exhaustion exactly when every host address is held; with a network it can parse it has no
  other error.\<close>

theorem allocate_least_free:
  assumes "parse_prefix (sf_cidr s) = Some p"
  shows "case allocate_ip s of
      Inr ip \<Rightarrow> (\<exists>a. ip = show_addr a \<and> host_addr (masked p) a \<and> ip \<notin> used_ips (sf_devices s) \<and>
        (\<forall>b. host_addr (masked p) b \<longrightarrow> show_addr b \<notin> used_ips (sf_devices s) \<longrightarrow> a \<le> b))
    | Inl err \<Rightarrow> err = ErrIPExhausted \<and> (\<forall>b. host_addr (masked p) b \<longrightarrow> show_addr b \<in> used_ips (sf_devices s))"
  using assms by (rule allocate_ip_cases)

theorem allocate_least_free_witness:
  "case allocate_ip (st_s demo3) of
      Inr ip \<Rightarrow> (\<exists>a. ip = show_addr a \<and> host_addr (Prefix (V4 167772160) 29) a \<and> ip \<notin> used_ips (st_devices demo3) \<and>
        (\<forall>b. host_addr (Prefix (V4 167772160) 29) b \<longrightarrow> show_addr b \<notin> used_ips (st_devices demo3) \<longrightarrow> a \<le> b))
    | Inl err \<Rightarrow> err = ErrIPExhausted \<and>
        (\<forall>b. host_addr (Prefix (V4 167772160) 29) b \<longrightarrow> show_addr b \<in> used_ips (st_devices demo3))"
  using allocate_least_free [of "st_s demo3" "Prefix (V4 167772160) 29"] demo_cidr(2) demo_prefix
  by (simp cong: sum.case_cong del: masked.simps)

section \<open>Durability and crashes\<close>



text \<open>C13: the process may stop between any two system calls of a save: the next start succeeds and
  finds either the state that was on disk before the call or the whole state after it, never a
  partial file.\<close>

theorem crash_atomic:
  assumes "store_reach ul gen st0 st" "first_boot st0" "fresh e (st_s st)" "n < 4" "parse_cidr cidr \<noteq> None"
  shows "\<exists>st'. open_store_cidr e' True (st_path st) cidr (crashed ul gen e op n st) = Inr (st', False) \<and>
    (on_disk st = Some (st_s st') \<or> st_s st' = st_s (fst (run_op ul gen (e\<lparr>e_fault := None\<rparr>) op st)))"
proof -
  have inv: "store_inv st" using assms(1,2) by (rule store_reach_inv)
  then obtain f s where f: "loads st = Some f" "f_content f = Some s" "good_state s"
    by (auto simp: store_inv_iff good_file_def)
  have "fresh (e\<lparr>e_fault := None\<rparr>) (st_s st)" using assms(3) by (simp add: fresh_def)
  with inv have "good_state (st_s (fst (run_op ul gen (e\<lparr>e_fault := None\<rparr>) op st)))"
    by (intro run_op_good) (simp_all add: store_inv_iff)
  moreover have "on_disk st = Some s" using f by (simp add: on_disk_def loads_def)
  ultimately show ?thesis
    using crashed_loads [OF assms(4), of st ul gen e op] f assms(5)
    by (auto simp: open_whole)
qed

theorem crash_atomic_witness:
  "\<exists>st'. open_store_cidr (demo_env 9 9) True (st_path demo1) ''10.0.0.0/29''
      (crashed (\<lambda>x. x) Some (demo_env 2 3) (OpRegister ''omkey-02'' ''h1'' ''pk1'') 2 demo1) = Inr (st', False)"
  using crash_atomic [OF demo_reach(1) demo0_boot demo_fresh(2), of 2 "''10.0.0.0/29''" "demo_env 9 9" "\<lambda>x. x" Some
      "OpRegister ''omkey-02'' ''h1'' ''pk1''"]
  by (auto simp: compute)

section \<open>Enrolment\<close>



text \<open>A registration that fails for any other reason than the write of the state file leaves the
  store untouched; with an unknown public key and no usable key the error is the invalid-key error.\<close>

theorem enrolment_errors:
  "(snd (register_device e key host pub st) = Inl err \<and> err \<noteq> ErrSave \<longrightarrow>
      fst (register_device e key host pub st) = st) \<and>
   (gm_get (st_devices st) pub = None \<and> (\<forall>k \<in> set (sf_auth_keys (st_s st)). \<not> key_usable (e_now e) key k) \<longrightarrow>
      register_device e key host pub st = (st, Inl ErrInvalidAuthKey))"
proof
  show "snd (register_device e key host pub st) = Inl err \<and> err \<noteq> ErrSave \<longrightarrow>
      fst (register_device e key host pub st) = st"
    by (auto simp: register_device_def Let_def saved_result split: option.splits sum.splits if_splits)
  show "gm_get (st_devices st) pub = None \<and> (\<forall>k \<in> set (sf_auth_keys (st_s st)). \<not> key_usable (e_now e) key k) \<longrightarrow>
      register_device e key host pub st = (st, Inl ErrInvalidAuthKey)"
  proof
    assume a: "gm_get (st_devices st) pub = None \<and> (\<forall>k \<in> set (sf_auth_keys (st_s st)). \<not> key_usable (e_now e) key k)"
    then have "find (key_usable (e_now e) key) (sf_auth_keys (st_s st)) = None" by (auto simp: find_None_iff)
    with a show "register_device e key host pub st = (st, Inl ErrInvalidAuthKey)"
      by (simp add: register_device_def)
  qed
qed

theorem enrolment_errors_witness:
  "register_device (demo_env 5 5) ''omkey-02'' ''h3'' ''pk3'' demo2 = (demo2, Inl ErrInvalidAuthKey)"
  using enrolment_errors [of "demo_env 5 5" "''omkey-02''" "''h3''" "''pk3''" demo2 ErrSave]
  by (simp add: demo2_state demo1_state empty_state_def key_usable_def)

text \<open>C31: for a public key that is already registered the enrolment key is not looked at: any key,
  valid or not, gets the machine's record with its current token, and renames the machine. A public
  key is not a secret (every peer receives it), so this is a way to take a machine's token.\<close>

theorem known_key_needs_no_auth:
  assumes "gm_get (st_devices st) pub = Some d" "e_fault e = None" "host \<noteq> []"
  shows "snd (register_device e key host pub st) = Inr (d\<lparr>d_hostname := host\<rparr>) \<and>
    gm_get (st_devices (fst (register_device e key host pub st))) pub = Some (d\<lparr>d_hostname := host\<rparr>)"
  using assms by (cases "d_hostname d = host")
    (auto simp: register_device_def Let_def saved_result set_device_def gm_get_put)

theorem known_key_needs_no_auth_witness:
  "snd (register_device (demo_env 5 5) ''no such key'' ''evil'' ''pk1'' demo3) = Inr (demo_dev1\<lparr>d_hostname := ''evil''\<rparr>)"
  using known_key_needs_no_auth [OF demo_lookup(1), of "demo_env 5 5" "''evil''" "''no such key''"]
  by (simp add: demo_env_def)

section \<open>Machine tokens\<close>

text \<open>In every reachable state a presented token identifies at most one machine, the one that
  holds it as its current token or as its previous one within the grace period, and the answer does
  not depend on the order in which the map is iterated.\<close>

theorem token_one_machine:
  assumes "store_reach ul gen st0 st" "first_boot st0"
  shows "(\<forall>d. device_by_token now token st = Some d \<longleftrightarrow>
      token \<noteq> [] \<and> (\<exists>pub. gm_get (st_devices st) pub = Some d) \<and>
      (d_token d = token \<or> d_prev_token d = token \<and> now < d_prev_until d)) \<and>
    (\<forall>ds. same_map (st_devices st) ds \<longrightarrow>
      device_by_token now token (upd (sf_devices_update (\<lambda>_. ds)) st) = device_by_token now token st)"
proof (intro conjI allI impI)
  have ok: "devs_ok (sf_cidr (st_s st)) (st_devices st)"
    using store_reach_good [OF assms] by (rule good_devs)
  show "device_by_token now token st = Some d \<longleftrightarrow> token \<noteq> [] \<and> (\<exists>pub. gm_get (st_devices st) pub = Some d) \<and>
      (d_token d = token \<or> d_prev_token d = token \<and> now < d_prev_until d)" for d
    using device_by_token_iff [OF devs_okD(1) [OF ok] devs_okD(5) [OF ok]] by (auto simp: token_matches_def)
  fix ds
  assume "same_map (st_devices st) ds"
  with ok show "device_by_token now token (upd (sf_devices_update (\<lambda>_. ds)) st) = device_by_token now token st"
    by (rule device_by_token_order)
qed

theorem token_one_machine_witness:
  "device_by_token 5 ''omtok-03'' demo3 = Some demo_dev1"
  using token_one_machine [OF demo_reach(3) [of "\<lambda>x. x" Some] demo0_boot, of 5 "''omtok-03''"] demo_lookup
  by (auto simp: demo_dev1_def)

lemma rotated_old_token:
  assumes "store_reach ul gen st0 st" "first_boot st0" "fresh e (st_s st)"
    and "gm_get (st_devices st) pub = Some d" "token_rotate_after \<le> e_now e - d_token_issued d"
  shows "device_by_token now (d_token d) (fst (rotate_token_if_due e pub st)) =
    (if now < e_now e + token_grace
     then Some (d\<lparr>d_prev_token := d_token d, d_prev_until := e_now e + token_grace,
       d_token := ''omtok-'' @ hex_encode (e_rnd_key e), d_token_issued := e_now e\<rparr>) else None)"
proof -
  let ?new = "''omtok-'' @ hex_encode (e_rnd_key e)" and ?st = "fst (rotate_token_if_due e pub st)"
  let ?d = "d\<lparr>d_prev_token := d_token d, d_prev_until := e_now e + token_grace, d_token := ?new,
      d_token_issued := e_now e\<rparr>"
  have good: "good_state (st_s st)" using assms(1,2) by (rule store_reach_good)
  have ok': "devs_ok (sf_cidr (st_s ?st)) (st_devices ?st)"
    using rotate_good [OF good assms(3)] by (rule good_devs)
  have "device_ok (sf_cidr (st_s st)) pub d" using good_devs [OF good] assms(4) by (rule devs_okD)
  then have tok: "d_token d \<noteq> []" by (simp add: device_ok_def)
  have new: "d_token d \<noteq> ?new"
    using map_of_SomeD [OF assms(4)] assms(3) tok by (auto simp: fresh_def tokens_def)
  have get: "gm_get (st_devices ?st) pub = Some ?d" using assms(4,5) by (rule rotate_due)
  note iff = device_by_token_iff [OF devs_okD(1) [OF ok'] devs_okD(5) [OF ok']]
  show ?thesis
  proof (cases "now < e_now e + token_grace")
    case True
    then show ?thesis using iff [of now "d_token d" ?d] get tok by (auto simp: token_matches_def)
  next
    case False
    have "device_by_token now (d_token d) ?st = None"
    proof (rule ccontr)
      assume "device_by_token now (d_token d) ?st \<noteq> None"
      then obtain x q where x: "token_matches now (d_token d) x" "gm_get (st_devices ?st) q = Some x"
        using iff by auto
      then have "d_token d \<in> tokens x" using tok by (intro token_matches_tokens)
      moreover have "d_token d \<in> tokens ?d" using tok by (simp add: tokens_def)
      ultimately have "q = pub" using devs_okD(4) [OF ok' x(2) get] by blast
      with x(2) get have "x = ?d" by simp
      with x(1) False new show False by (simp add: token_matches_def)
    qed
    with False show ?thesis by simp
  qed
qed

text \<open>A rotation that is due hands out a new token; from then on the new token identifies the
  machine, and the old one does so exactly until the grace period of one hour ends.\<close>

theorem rotation_grace:
  assumes "store_reach ul gen st0 st" "first_boot st0" "fresh e (st_s st)" "e_fault e = None"
    and "gm_get (st_devices st) pub = Some d" "token_rotate_after \<le> e_now e - d_token_issued d"
  defines "st' \<equiv> fst (rotate_token_if_due e pub st)"
  shows "\<exists>new d'. snd (rotate_token_if_due e pub st) = Inr new \<and> new \<noteq> d_token d \<and>
    gm_get (st_devices st') pub = Some d' \<and> d_ip d' = d_ip d \<and>
    (\<forall>now. device_by_token now new st' = Some d') \<and>
    (\<forall>now. device_by_token now (d_token d) st' = (if now < e_now e + token_grace then Some d' else None))"
proof -
  let ?new = "''omtok-'' @ hex_encode (e_rnd_key e)"
  let ?d = "d\<lparr>d_prev_token := d_token d, d_prev_until := e_now e + token_grace, d_token := ?new,
      d_token_issued := e_now e\<rparr>"
  have good: "good_state (st_s st)" using assms(1,2) by (rule store_reach_good)
  have ok': "devs_ok (sf_cidr (st_s st')) (st_devices st')"
    unfolding st'_def using rotate_good [OF good assms(3)] by (rule good_devs)
  have "device_ok (sf_cidr (st_s st)) pub d" using good_devs [OF good] assms(5) by (rule devs_okD)
  then have "d_token d \<noteq> ?new"
    using map_of_SomeD [OF assms(5)] assms(3) by (auto simp: fresh_def tokens_def device_ok_def)
  moreover have get: "gm_get (st_devices st') pub = Some ?d"
    unfolding st'_def using assms(5,6) by (rule rotate_due)
  moreover have "device_by_token now ?new st' = Some ?d" for now
    using device_by_token_iff [OF devs_okD(1) [OF ok'] devs_okD(5) [OF ok']] get by (auto simp: token_matches_def)
  moreover have "snd (rotate_token_if_due e pub st) = Inr ?new"
    using assms(4,5,6) time_sub_less [of token_rotate_after "e_now e" "d_token_issued d"]
    by (simp add: rotate_token_if_due_def Let_def saved_result token_rotate_after_def duration_defs)
  ultimately show ?thesis
    using rotated_old_token [OF assms(1-3,5,6)] unfolding st'_def
    by (intro exI [of _ ?new] exI [of _ ?d]) simp
qed

theorem rotation_grace_witness:
  "\<exists>d'. \<forall>now. device_by_token now ''omtok-03'' (fst (rotate_token_if_due (demo_env (2 + 24 * hour) 5) ''pk1'' demo3)) =
        (if now < 2 + 24 * hour + token_grace then Some d' else None)"
proof -
  have "d_token demo_dev1 = ''omtok-03''" "token_rotate_after \<le> e_now (demo_env (2 + 24 * hour) 5) - d_token_issued demo_dev1"
    by (simp_all add: demo_dev1_def token_rotate_after_def)
  with rotation_grace [OF demo_reach(3) [of "\<lambda>x. x" Some] demo0_boot demo3_fresh(1) _ demo_lookup(1),
        of "2 + 24 * hour"]
  show ?thesis unfolding demo_env_sel by metis
qed

text \<open>The new token is handed out once. If the answer that carries it is lost, every later poll
  of the same day with the old token is told that nothing is due, and when the grace period ends the
  old token is refused: the machine is locked out, although the comment on the token fields promises
  that the grace period covers a lost answer.\<close>

theorem rotation_answer_lost:
  assumes "store_reach ul gen st0 st" "first_boot st0" "fresh e (st_s st)" "e_fault e = None"
    and "gm_get (st_devices st) pub = Some d" "token_rotate_after \<le> e_now e - d_token_issued d"
    and "st' = fst (rotate_token_if_due e pub st)"
  shows "(\<forall>e'. e_now e' - e_now e < token_rotate_after \<longrightarrow> rotate_token_if_due e' pub st' = (st', Inr [])) \<and>
    (\<forall>now. e_now e + token_grace \<le> now \<longrightarrow> device_by_token now (d_token d) st' = None)"
proof -
  let ?d = "d\<lparr>d_prev_token := d_token d, d_prev_until := e_now e + token_grace,
      d_token := ''omtok-'' @ hex_encode (e_rnd_key e), d_token_issued := e_now e\<rparr>"
  have get: "gm_get (st_devices st') pub = Some ?d" unfolding assms(7) using assms(5,6) by (rule rotate_due)
  have "rotate_token_if_due e' pub st' = (st', Inr [])" if "e_now e' - e_now e < token_rotate_after" for e'
    using that by (intro rotate_not_due [OF get]) simp
  moreover have "device_by_token now (d_token d) st' = None" if "e_now e + token_grace \<le> now" for now
    using rotated_old_token [OF assms(1-3,5,6)] that assms(7) by simp
  ultimately show ?thesis by blast
qed

theorem rotation_answer_lost_witness:
  "device_by_token (2 + 25 * hour) ''omtok-03''
     (fst (rotate_token_if_due (demo_env (2 + 24 * hour) 5) ''pk1'' demo3)) = None"
proof -
  have "d_token demo_dev1 = ''omtok-03''" "token_rotate_after \<le> e_now (demo_env (2 + 24 * hour) 5) - d_token_issued demo_dev1"
    "e_now (demo_env (2 + 24 * hour) 5) + token_grace \<le> 2 + 25 * hour"
    by (simp_all add: demo_dev1_def token_rotate_after_def token_grace_def)
  with rotation_answer_lost [OF demo_reach(3) [of "\<lambda>x. x" Some] demo0_boot demo3_fresh(1) _ demo_lookup(1) _ refl,
      of "2 + 24 * hour"]
  show ?thesis unfolding demo_env_sel by metis
qed

section \<open>Routes\<close>

text \<open>C32: subnet routes are distributed only when advertised by the machine and approved by an
  administrator. After a successful approval the machine's active routes are its advertised ones
  that are the canonical form of an approved spelling, in the order it advertises them; every one is
  a canonical IPv4 network. One bad spelling rejects the whole approval, changes nothing and is
  named in the error.\<close>

theorem route_approval:
  assumes "store_reach ul gen st0 st" "first_boot st0"
  shows "case set_approved_routes e target rs st of
      (st', Inr d) \<Rightarrow> is_target target d \<and>
        active_routes d = filter (\<lambda>r. \<exists>s \<in> set rs. normalize_cidr s = Inr r) (d_advertised d) \<and>
        (\<forall>r \<in> set (active_routes d). normalize_cidr r = Inr r) \<and>
        (\<exists>pub. gm_get (st_devices st') pub = Some d)
    | (st', Inl (ErrRoute bad)) \<Rightarrow> st' = st \<and> bad \<in> set rs \<and> (\<exists>err. normalize_cidr bad = Inl err)
    | (st', Inl ErrSave) \<Rightarrow> e_fault e \<noteq> None
    | (st', Inl err) \<Rightarrow> st' = st \<and> err = ErrNoMatch target"
proof (cases "normalize_all rs")
  case (Inl err)
  with normalize_all_err [OF Inl] show ?thesis by (auto simp: set_approved_routes_def)
next
  case (Inr cs)
  show ?thesis
  proof (cases "find (\<lambda>(pub, d). is_target target d) (st_devices st)")
    case None
    with Inr show ?thesis by (simp add: set_approved_routes_def)
  next
    case (Some r)
    then obtain pub d where r: "find (\<lambda>(pub, d). is_target target d) (st_devices st) = Some (pub, d)" by (cases r) auto
    have ok: "devs_ok (sf_cidr (st_s st)) (st_devices st)"
      using store_reach_good [OF assms] by (rule good_devs)
    have d: "gm_get (st_devices st) pub = Some d" "is_target target d"
      using gm.find_sound [OF devs_okD(1) [OF ok] r] by auto
    have "\<forall>r \<in> set (d_advertised d). canonical_route r"
      using devs_okD(2) [OF ok d(1)] by (simp add: device_ok_def)
    moreover have "set cs = {c. \<exists>s \<in> set rs. normalize_cidr s = Inr c}"
      using Inr unfolding normalize_all_ok
      by (induction rs cs rule: list_all2_induct) auto
    ultimately have "\<forall>r \<in> set (active_routes (d\<lparr>d_approved := cs\<rparr>)). normalize_cidr r = Inr r"
      "active_routes (d\<lparr>d_approved := cs\<rparr>) = filter (\<lambda>r. \<exists>s \<in> set rs. normalize_cidr s = Inr r) (d_advertised d)"
      by (auto simp: active_routes_filter canonical_route_def)
    moreover have "is_target target (d\<lparr>d_approved := cs\<rparr>)" using d(2) by (simp add: is_target_def)
    moreover have "set_approved_routes e target rs st =
        saved e (set_device pub (d\<lparr>d_approved := cs\<rparr>) st) (d\<lparr>d_approved := cs\<rparr>)"
      using Inr r by (simp add: set_approved_routes_def Let_def)
    moreover have "\<exists>q. gm_get (st_devices (set_device pub (d\<lparr>d_approved := cs\<rparr>) st)) q = Some (d\<lparr>d_approved := cs\<rparr>)"
      by (auto simp: set_device_def gm_get_put)
    ultimately show ?thesis
      by (cases "e_fault e") (auto simp: saved_def split_beta save_locked_ok)
  qed
qed

theorem route_approval_witness:
  "\<exists>st'. set_approved_routes (demo_env 6 6) ''h1'' [''10.1.2.3/16''] demo4 =
      (st', Inr (demo_dev4\<lparr>d_approved := [''10.1.0.0/16'']\<rparr>)) \<and>
    active_routes (demo_dev4\<lparr>d_approved := [''10.1.0.0/16'']\<rparr>) = [''10.1.0.0/16'']"
proof -
  have "snd (set_approved_routes (demo_env 6 6) ''h1'' [''10.1.2.3/16''] demo4) =
      Inr (demo_dev4\<lparr>d_approved := [''10.1.0.0/16'']\<rparr>)"
    by (simp add: set_approved_routes_def demo_routes demo4_devices is_target_def demo_dev4_def demo_dev1_def
        saved_result Let_def)
  then obtain st' where st': "set_approved_routes (demo_env 6 6) ''h1'' [''10.1.2.3/16''] demo4 =
      (st', Inr (demo_dev4\<lparr>d_approved := [''10.1.0.0/16'']\<rparr>))" by (metis prod.collapse)
  from route_approval [OF demo4_reach [of "\<lambda>x. x" Some] demo0_boot, where e = "demo_env 6 6"
      and target = "''h1''" and rs = "[''10.1.2.3/16'']"] st'
  have "active_routes (demo_dev4\<lparr>d_approved := [''10.1.0.0/16'']\<rparr>) = [''10.1.0.0/16'']"
    by (simp add: demo_routes demo_dev4_def)
  with st' show ?thesis by blast
qed

text \<open>Canonical routes. A normalised route is its own normal form, and two spellings get the
  same text exactly when they denote the same network, so comparing the texts compares the routes.\<close>

theorem canonical_routes:
  assumes "normalize_cidr s = Inr c" "normalize_cidr t = Inr d"
  shows "normalize_cidr c = Inr c \<and>
    (c = d \<longleftrightarrow> map_option masked (parse_prefix (trim_space s)) = map_option masked (parse_prefix (trim_space t)))"
  using normalize_canonical [OF assms(1)] normalize_eq_iff [OF assms] by (simp add: canonical_route_def)

theorem canonical_routes_witness:
  "map_option masked (parse_prefix (trim_space ''10.1.2.3/16'')) = map_option masked (parse_prefix (trim_space ''10.1.0.0/16''))"
  using canonical_routes [OF demo_routes(1,3)] by simp

section \<open>Revocation\<close>

text \<open>After a revocation the machine's tokens, current and previous, open nothing any more at
  any time, its address is free again, and no other machine is touched.\<close>

theorem revocation:
  assumes "store_reach ul gen st0 st" "first_boot st0" "remove_device e target st = (st', Inr d)"
  shows "is_target target d \<and> on_disk st' = Some (st_s st') \<and>
    (\<forall>t \<in> {d_token d, d_prev_token d}. \<forall>now. device_by_token now t st' = None) \<and>
    d_ip d \<notin> used_ips (st_devices st') \<and>
    (\<forall>pub. pub \<noteq> d_public_key d \<longrightarrow> gm_get (st_devices st') pub = gm_get (st_devices st) pub)"
proof -
  have good: "good_state (st_s st)" using assms(1,2) by (rule store_reach_good)
  note ok = good_devs [OF good]
  from assms(3) obtain pub where f: "find (\<lambda>(pub, d). is_target target d) (st_devices st) = Some (pub, d)"
    and e: "e_fault e = None" and st': "st_s st' = (st_s st)\<lparr>sf_devices := gm_del pub (st_devices st)\<rparr>"
    and disk: "on_disk st' = Some (st_s st')"
    by (auto simp: remove_device_def saved_def split_beta save_locked_ok save_locked_disk split: option.splits if_splits)
  have d: "gm_get (st_devices st) pub = Some d" "is_target target d"
    using gm.find_sound [OF devs_okD(1) [OF ok] f] by auto
  have pub: "pub = d_public_key d" using devs_okD(2) [OF ok d(1)] by (simp add: device_ok_def)
  have get: "gm_get (st_devices st') q = (if q = pub then None else gm_get (st_devices st) q)" for q
    using st' by (simp add: gm_get_del)
  have ok': "devs_ok (sf_cidr (st_s st)) (st_devices st')"
    using devs_ok_del [OF ok] st' by simp
  have 1: "device_by_token now t st' = None" if "t \<in> {d_token d, d_prev_token d}" for t now
  proof (rule ccontr)
    assume "device_by_token now t st' \<noteq> None"
    then obtain x q where x: "t \<noteq> []" "token_matches now t x" "gm_get (st_devices st') q = Some x"
      using device_by_token_iff [OF devs_okD(1) [OF ok'] devs_okD(5) [OF ok']] by auto
    then have "t \<in> tokens x" by (intro token_matches_tokens)
    moreover have "t \<in> tokens d" using that x(1) by (auto simp: tokens_def)
    moreover have "gm_get (st_devices st) q = Some x" "q \<noteq> pub" using x(3) get by (auto split: if_splits)
    ultimately show False using devs_okD(4) [OF ok _ d(1)] by blast
  qed
  have 2: "d_ip d \<notin> used_ips (st_devices st')"
  proof
    assume "d_ip d \<in> used_ips (st_devices st')"
    then obtain q x where "(q, x) \<in> set (st_devices st')" "d_ip x = d_ip d" by (auto simp: used_ips_def)
    then have "gm_get (st_devices st') q = Some x" by (intro map_of_is_SomeI [OF devs_okD(1) [OF ok']])
    then have "gm_get (st_devices st) q = Some x" "q \<noteq> pub" using get by (auto split: if_splits)
    with devs_okD(3) [OF ok _ d(1)] \<open>d_ip x = d_ip d\<close> show False by blast
  qed
  have 3: "gm_get (st_devices st') q = gm_get (st_devices st) q" if "q \<noteq> d_public_key d" for q
    using get [of q] pub that by metis
  show ?thesis by (intro conjI ballI allI impI) (fact d(2), fact disk, fact 1, fact 2, fact 3)
qed

theorem revocation_witness:
  "device_by_token 9 ''omtok-03'' (fst (remove_device (demo_env 7 7) ''10.0.0.1'' demo3)) = None"
proof -
  have "snd (remove_device (demo_env 7 7) ''10.0.0.1'' demo3) = Inr demo_dev1"
    by (simp add: remove_device_def demo3_devices is_target_def demo_dev1_def saved_result)
  then have "remove_device (demo_env 7 7) ''10.0.0.1'' demo3 =
      (fst (remove_device (demo_env 7 7) ''10.0.0.1'' demo3), Inr demo_dev1)" by (metis prod.collapse)
  from revocation [OF demo_reach(3) [of "\<lambda>x. x" Some] demo0_boot this] show ?thesis
    by (simp add: demo_dev1_def)
qed

text \<open>A portal user removes only machines he owns: the machine removed is his and is the one
  he named, every other machine stays, and a target that is not one of his machines changes nothing,
  whether it exists or not.\<close>

theorem owned_removal:
  assumes "store_reach ul gen st0 st" "first_boot st0"
  shows "case remove_owned_device e owner target st of
      (st', Inr d) \<Rightarrow> d_owner d = owner \<and> is_target target d \<and>
        gm_get (st_devices st) (d_public_key d) = Some d \<and>
        st_devices st' = gm_del (d_public_key d) (st_devices st)
    | (st', Inl ErrSave) \<Rightarrow> e_fault e \<noteq> None
    | (st', Inl err) \<Rightarrow> err = ErrDeviceNotOwned \<and> st' = st \<and>
        (\<forall>pub d. gm_get (st_devices st) pub = Some d \<and> is_target target d \<longrightarrow> d_owner d \<noteq> owner)"
proof -
  have ok: "devs_ok (sf_cidr (st_s st)) (st_devices st)"
    using store_reach_good [OF assms] by (rule good_devs)
  let ?P = "\<lambda>(pub, d). d_owner d = owner \<and> is_target target d"
  show ?thesis
  proof (cases "find ?P (st_devices st)")
    case None
    with gm.find_complete [OF devs_okD(1) [OF ok], of ?P] show ?thesis
      by (auto simp: remove_owned_device_def)
  next
    case (Some r)
    then obtain pub d where r: "find ?P (st_devices st) = Some (pub, d)" by (cases r) auto
    have d: "gm_get (st_devices st) pub = Some d" "d_owner d = owner" "is_target target d"
      using gm.find_sound [OF devs_okD(1) [OF ok] r] by auto
    have "pub = d_public_key d" using devs_okD(2) [OF ok d(1)] by (simp add: device_ok_def)
    moreover have "remove_owned_device e owner target st = saved e (upd (sf_devices_update (gm_del pub)) st) d"
      using r by (simp add: remove_owned_device_def)
    ultimately show ?thesis using d
      by (cases "e_fault e") (simp_all add: saved_def split_beta save_locked_ok)
  qed
qed

theorem owned_removal_witness:
  "\<exists>st'. remove_owned_device (demo_env 7 7) ''ann@x'' ''h2'' demo3 = (st', Inl ErrDeviceNotOwned) \<and> st' = demo3"
proof -
  have "snd (remove_owned_device (demo_env 7 7) ''ann@x'' ''h2'' demo3) = Inl ErrDeviceNotOwned"
    by (simp add: remove_owned_device_def demo3_devices is_target_def demo_dev1_def demo_dev2_def)
  then obtain st' where "remove_owned_device (demo_env 7 7) ''ann@x'' ''h2'' demo3 = (st', Inl ErrDeviceNotOwned)"
    by (metis prod.collapse)
  with owned_removal [OF demo_reach(3) [of "\<lambda>x. x" Some] demo0_boot, where e = "demo_env 7 7"
      and owner = "''ann@x''" and target = "''h2''"] show ?thesis by simp
qed

section \<open>Listing and the policy\<close>

lemma devices_order:
  assumes "devs_ok cidr (st_devices st)" "same_map (st_devices st) ds"
  shows "devices (upd (sf_devices_update (\<lambda>_. ds)) st) = devices st"
proof -
  let ?xs = "map snd (st_devices st)" and ?ys = "map snd ds"
  have ds: "devs_ok cidr ds" using assms by (rule devs_ok_same)
  have ips: "distinct (map d_ip (map snd m))" if "devs_ok cidr m" for m
  proof -
    note ok = devs_okD(1) [OF that]
    have "p = q" if "p \<in> set m" "q \<in> set m" "d_ip (snd p) = d_ip (snd q)" for p q
    proof -
      have g: "gm_get m (fst p) = Some (snd p)" "gm_get m (fst q) = Some (snd q)"
        using that(1,2) by (auto intro!: map_of_is_SomeI [OF ok])
      with devs_okD(3) [OF \<open>devs_ok cidr m\<close> g that(3)] show ?thesis by (simp add: prod_eq_iff)
    qed
    moreover have "distinct m" using ok by (simp add: distinct_map)
    ultimately show ?thesis by (auto simp: distinct_map inj_on_def)
  qed
  have "sort_key d_ip ?ys = sort_key d_ip ?xs"
  proof (rule map_sorted_distinct_set_unique)
    have "set ?ys = set ?xs" using assms(2) by (simp add: same_map_def)
    then show "set (sort_key d_ip ?ys) = set (sort_key d_ip ?xs)" by simp
    from ips [OF assms(1)] \<open>set ?ys = set ?xs\<close>
    show "inj_on d_ip (set (sort_key d_ip ?ys) \<union> set (sort_key d_ip ?xs))"
      by (simp add: distinct_map inj_on_imageI)
  qed (use ips [OF ds] ips [OF assms(1)] in
      \<open>auto simp: distinct_map intro: inj_on_imageI inj_on_imageI2\<close>)
  then show ?thesis by (simp add: devices_def)
qed

text \<open>The list of machines holds each machine once, in the order of the address texts, and is the
  same whatever order the map is iterated in.\<close>

theorem listing_deterministic:
  assumes "store_reach ul gen st0 st" "first_boot st0" "same_map (st_devices st) ds"
  shows "devices (upd (sf_devices_update (\<lambda>_. ds)) st) = devices st \<and>
    sorted (map d_ip (devices st)) \<and> length (devices st) = length (st_devices st) \<and>
    (\<forall>d. d \<in> set (devices st) \<longleftrightarrow> (\<exists>pub. gm_get (st_devices st) pub = Some d))"
proof -
  have ok: "devs_ok (sf_cidr (st_s st)) (st_devices st)"
    using store_reach_good [OF assms(1,2)] by (rule good_devs)
  have "d \<in> set (devices st) \<longleftrightarrow> (\<exists>pub. gm_get (st_devices st) pub = Some d)" for d
    using devs_okD(1) [OF ok] by (force simp: devices_def)
  with devices_order [OF ok assms(3)] show ?thesis by (simp add: devices_def)
qed

theorem listing_deterministic_witness:
  "devices (upd (sf_devices_update (\<lambda>_. [(''pk2'', demo_dev2), (''pk1'', demo_dev1)])) demo3) = devices demo3"
proof -
  have "same_map (st_devices demo3) [(''pk2'', demo_dev2), (''pk1'', demo_dev1)]"
    by (auto simp: same_map_def demo3_devices)
  with listing_deterministic [OF demo_reach(3) [of "\<lambda>x. x" Some] demo0_boot] show ?thesis by blast
qed


section \<open>Accounts and sessions\<close>

text \<open>An account created behind an invitation consumes exactly one live invitation with the
  given code and no other; the account is new, filed under the normalised address, and on disk.\<close>

theorem invited_registration:
  assumes "register_user ul gen e email pw code True st = (st', Inr u)"
  shows "\<exists>i pre post. sf_invites (st_s st) = pre @ i # post \<and> i_code i = code \<and> \<not> i_used i \<and>
      (i_expires i = 0 \<or> e_now e < i_expires i) \<and>
      sf_invites (st_s st') = pre @ i\<lparr>i_used := True\<rparr> # post \<and>
      gm_get (sf_users (st_s st)) (normalize_email ul email) = None \<and>
      sf_users (st_s st') = gm_put (normalize_email ul email) u (sf_users (st_s st)) \<and>
      8 \<le> length pw \<and> gen pw = Some (u_hash u) \<and> on_disk st' = Some (st_s st')"
  using register_user_ok [OF assms] by (auto simp: invite_usable_def unexpired_def)

theorem invited_registration_witness:
  "let st = upd (sf_invites_update (\<lambda>_. [\<lparr>i_code = ''c'', i_used = False, i_created = 0, i_expires = 0\<rparr>])) demo0;
       r = register_user (\<lambda>x. x) Some (demo_env 3 1) ''a@b'' ''password'' ''c'' True st
   in \<exists>u. snd r = Inr u \<and> on_disk (fst r) = Some (st_s (fst r))"
proof -
  let ?st = "upd (sf_invites_update (\<lambda>_. [\<lparr>i_code = ''c'', i_used = False, i_created = 0, i_expires = 0\<rparr>])) demo0"
  obtain u where "snd (register_user (\<lambda>x. x) Some (demo_env 3 1) ''a@b'' ''password'' ''c'' True ?st) = Inr u"
    by (simp add: register_user_def Let_def demo0_def empty_state_def invite_usable_def unexpired_def saved_result demo_email)
  then have "register_user (\<lambda>x. x) Some (demo_env 3 1) ''a@b'' ''password'' ''c'' True ?st =
      (fst (register_user (\<lambda>x. x) Some (demo_env 3 1) ''a@b'' ''password'' ''c'' True ?st), Inr u)"
    by (metis prod.collapse)
  from invited_registration [OF this] show ?thesis
    using \<open>snd _ = Inr u\<close> by (auto simp: Let_def)
qed

lemma find_user:
  assumes "users_ok m" "gm_get m email = Some u"
  shows "find (\<lambda>(email, v). u_id v = u_id u) m = Some (email, u)"
proof -
  have ok: "gm_ok m" using assms(1) by (simp add: users_ok_def)
  have "find (\<lambda>(email, v). u_id v = u_id u) m \<noteq> None"
    using gm.find_complete [OF ok, of "\<lambda>(email, v). u_id v = u_id u"] assms(2) by auto
  then obtain a x where f: "find (\<lambda>(email, v). u_id v = u_id u) m = Some (a, x)" by auto
  with gm.find_sound [OF ok f] have "gm_get m a = Some x" "u_id x = u_id u" by auto
  with assms have "a = email" unfolding users_ok_def by blast
  with f assms(2) \<open>gm_get m a = Some x\<close> show ?thesis by simp
qed

text \<open>A web session opens the account it was created for, from its creation to its expiry seven
  days later inclusive, and nothing once it is closed; an unknown token opens nothing.\<close>

theorem session_lifecycle:
  assumes "store_reach ul gen st0 st" "first_boot st0" "gm_get (sf_users (st_s st)) email = Some u"
  shows "case create_session e (u_id u) st of
      (st', Inr t) \<Rightarrow> (\<forall>now. session_user now t st' = (if now \<le> e_now e + session_ttl then Some u else None)) \<and>
        (\<forall>e' now. session_user now t (delete_session e' t st') = None)
    | (st', Inl err) \<Rightarrow> err = ErrSave \<and> e_fault e \<noteq> None"
proof -
  have good: "good_state (st_s st)" using assms(1,2) by (rule store_reach_good)
  let ?t = "''omsess-'' @ hex_encode (e_rnd_key e)" and ?st = "fst (create_session e (u_id u) st)"
  have sess: "gm_get (sf_sessions (st_s ?st)) ?t = Some \<lparr>s_user = u_id u, s_expires = e_now e + session_ttl\<rparr>"
    using create_session_sessions [of st e "u_id u" ?t] good by (simp add: good_state_def)
  have users: "sf_users (st_s ?st) = sf_users (st_s st)" by (simp add: create_session_def Let_def)
  have "find (\<lambda>(email, v). u_id v = u_id u) (sf_users (st_s st)) = Some (email, u)"
    using good assms(3) by (intro find_user) (simp_all add: good_state_def)
  then have "session_user now ?t ?st = (if now \<le> e_now e + session_ttl then Some u else None)" for now
    using sess users by (simp add: session_user_def session_live_def)
  moreover have "session_user now ?t (delete_session e' ?t ?st) = None" for e' now
    by (simp add: session_user_def gm_get_del)
  moreover have "snd (create_session e (u_id u) st) = (if e_fault e = None then Inr ?t else Inl ErrSave)"
    by (simp add: create_session_def Let_def saved_result)
  ultimately show ?thesis by (cases "e_fault e") (simp_all add: split_beta)
qed

theorem session_lifecycle_witness:
  "\<exists>st u t. session_user (5 + session_ttl) t st = Some u \<and> session_user (6 + session_ttl) t st = None"
proof -
  have u: "gm_get (sf_users (st_s demo5)) ''a@b'' = Some demo_user" by (simp add: demo5_users)
  from session_lifecycle [OF demo5_reach demo0_boot u, where e = "demo_env 5 6"] obtain st' t where
    "\<forall>now. session_user now t st' = (if now \<le> 5 + session_ttl then Some demo_user else None)"
    by (cases "create_session (demo_env 5 6) (u_id demo_user) demo5") (auto split: sum.splits)
  then have "session_user (5 + session_ttl) t st' = Some demo_user \<and> session_user (6 + session_ttl) t st' = None" by simp
  then show ?thesis by blast
qed

text \<open>The range given at the first boot is checked with a parser that accepts leading zeros in
  the prefix length, and used later with one that does not: a server started on such a range comes
  up, and then no machine can ever be enrolled on it.\<close>

theorem range_accepted_then_refused:
  "\<exists>st. open_store_cidr (demo_env 0 1) True ''s'' ''10.0.0.0/029'' [] = Inr (st, True) \<and>
     (\<forall>e host pub owner. register_device_sso e host pub owner st = (st, Inl (ErrBadCIDR ''10.0.0.0/029'')))"
proof -
  have "parse_prefix ''10.0.0.0/029'' = None" by (simp add: compute)
  moreover have "parse_cidr ''10.0.0.0/029'' \<noteq> None" by (simp add: compute)
  moreover define st0 where "st0 = \<lparr>st_path = ''s'', st_fs = [], st_s = empty_state
      \<lparr>sf_admin_key := ''omadmin-'' @ hex_encode [1], sf_cidr := ''10.0.0.0/029''\<rparr>\<rparr>"
  ultimately have "open_store_cidr (demo_env 0 1) True ''s'' ''10.0.0.0/029'' [] =
      Inr (fst (save_locked (demo_env 0 1) st0), True)"
    by (auto simp: open_store_cidr_def load_file_def empty_state_def Let_def split_beta save_locked_ok)
  moreover have "register_device_sso e host pub owner (fst (save_locked (demo_env 0 1) st0)) =
      (fst (save_locked (demo_env 0 1) st0), Inl (ErrBadCIDR ''10.0.0.0/029''))" for e host pub owner
    using \<open>parse_prefix _ = None\<close>
    by (simp add: register_device_sso_def create_device_def allocate_ip_def st0_def empty_state_def)
  ultimately show ?thesis by blast
qed

end
