(* ===== verification/Wire.thy ===== *)
theory Wire
  imports Users
begin

text \<open>
  The messages between agents, browsers and the server, \<open>internal/types/types.go\<close>, and the
  requests and answers of the HTTP layer. A body is what it decodes to (\<open>None\<close> when it is not the
  JSON the handler wants), an absent JSON list is \<open>None\<close>. Error texts are constructors.
\<close>

section \<open>Messages\<close>

record register_request =
  rr_auth_key :: string
  rr_hostname :: string
  rr_public_key :: string

record register_response =
  ra_device_id :: string
  ra_device_token :: string
  ra_ip :: string
  ra_cidr :: string

record poll_request =
  pr_listen_port :: int
  pr_endpoints :: "string list option"
  pr_advertised :: "string list option"

record peer =
  pe_hostname :: string
  pe_public_key :: string
  pe_ip :: string
  pe_owner :: string
  pe_endpoint :: string
  pe_endpoints :: "string list"
  pe_routes :: "string list"
  pe_advertised :: "string list"
  pe_last_seen :: time
  pe_online :: bool

record enroll_start_request =
  es_hostname :: string
  es_public_key :: string

record netmap =
  nm_self :: peer
  nm_peers :: "peer list"
  nm_new_token :: string

record auth_key_response =
  ak_key :: string
  ak_reusable :: bool
  ak_expires :: time

record auth_key_info =
  ai_key_masked :: string
  ai_reusable :: bool
  ai_used :: bool
  ai_created :: time
  ai_expires :: time

record info_response =
  in_cidr :: string
  in_devices :: nat
  in_online :: nat

record user_register_request =
  ur_email :: string
  ur_password :: string
  ur_invite :: string

record user_login_request =
  ul_email :: string
  ul_password :: string

record user_profile =
  up_email :: string
  up_machines :: "peer list"

record invite_response =
  ir_code :: string
  ir_expires :: time

record invite_info =
  ii_code_masked :: string
  ii_used :: bool
  ii_created :: time
  ii_expires :: time

section \<open>HTTP\<close>

text \<open>
  The answers: \<open>PEnrolled\<close> is the page shown after an enrolment, with the three texts it interpolates.
  What a handler reads of a request beside its body: the remote address, the Authorization header
  (empty when absent), the session cookie, the query parameters (empty when absent), the path
  parameter, whether the connection is TLS and the X-Forwarded-Proto header.
\<close>

record http_request =
  rq_remote :: string
  rq_authorization :: string
  rq_cookie :: "string option"
  rq_query :: "string \<Rightarrow> string"
  rq_path :: string
  rq_tls :: bool
  rq_proto :: string

datatype api_error =
    BadJSON | BadPublicKey | BadTTL | Internal | BadAdminKey | BadDeviceToken | LoginRequired
  | SessionExpired | FromStore store_err | NoSSO | EnrollUnknown | EnrollFailed enroll_failure
and enroll_failure =
    ExchangeFailed | NoIdToken | BadIdToken | NoEmail | EmailUnverified | EmailRefused | EnrollInternal

datatype payload =
    PError api_error
  | PRegister register_response
  | PNetMap netmap
  | PAuthKey auth_key_response
  | PPeers "peer list"
  | PPeer peer
  | PKeys "auth_key_info list"
  | PInfo info_response
  | PAcl acl_policy
  | PMode string
  | PEmail string
  | PProfile user_profile
  | PInvite invite_response
  | PInvites "invite_info list"
  | PEnrollStart string string
  | PWaiting
  | PRedirect string
  | PEnrolled string string string
  | PNotFound
  | PEmpty

record cookie =
  ck_value :: string
  ck_secure :: bool
  ck_max_age :: int

record response =
  rs_status :: nat
  rs_cookie :: "cookie option"
  rs_body :: payload

definition write_json :: "nat \<Rightarrow> payload \<Rightarrow> response" where
  "write_json status body = \<lparr>rs_status = status, rs_cookie = None, rs_body = body\<rparr>"

definition write_error :: "nat \<Rightarrow> api_error \<Rightarrow> response" where
  "write_error status err = write_json status (PError err)"

definition bearer_token :: "http_request \<Rightarrow> string" where
  "bearer_token r =
     (if has_prefix ''Bearer '' (rq_authorization r) then trim_prefix ''Bearer '' (rq_authorization r) else [])"

definition equal_fold_https :: "string \<Rightarrow> bool" where
  "equal_fold_https s \<longleftrightarrow> map lower_char s = ''https'' \<or>
     (map lower_char (take 4 s) = ''http'' \<and> drop 4 s = map char_of [0xC5, 0xBF :: nat])"

definition is_https :: "http_request \<Rightarrow> bool" where
  "is_https r \<longleftrightarrow> rq_tls r \<or> equal_fold_https (rq_proto r)"

text \<open>The environment of one request: the gate's clock, two store operations, the clock of the view.\<close>

record hctx =
  c_gate :: time
  c_env1 :: env
  c_env2 :: env
  c_now :: time

section \<open>Host and port\<close>

definition split_host_port :: "string \<Rightarrow> (string \<times> string) option" where
  "split_host_port s =
     (case cut_last CHR '':'' s of
        None \<Rightarrow> None
      | Some (before, port) \<Rightarrow>
          if s \<noteq> [] \<and> hd s = CHR ''['' then
            (case cut_at CHR '']'' s of
               None \<Rightarrow> None
             | Some (front, rest) \<Rightarrow>
                 if before = front @ '']'' \<and> CHR ''['' \<notin> set (tl s) \<and> CHR '']'' \<notin> set rest
                 then Some (tl front, port) else None)
          else if CHR '':'' \<in> set before \<or> CHR ''['' \<in> set s \<or> CHR '']'' \<in> set s then None
          else Some (before, port))"

definition join_host_port :: "string \<Rightarrow> string \<Rightarrow> string" where
  "join_host_port host port =
     (if CHR '':'' \<in> set host then ''['' @ host @ '']:'' @ port else host @ '':'' @ port)"

lemma split_join_host_port:
  assumes "set host \<inter> {CHR ''['', CHR '']''} = {}" "set port \<inter> {CHR ''['', CHR '']'', CHR '':''} = {}"
  shows "split_host_port (join_host_port host port) = Some (host, port)"
proof (cases "CHR '':'' \<in> set host")
  case True
  have "cut_last CHR '':'' ((''['' @ host @ '']'') @ CHR '':'' # port) = Some (''['' @ host @ '']'', port)"
    using assms(2) by (intro cut_last_append) auto
  moreover have "cut_at CHR '']'' ((''['' @ host) @ CHR '']'' # '':'' @ port) = Some (''['' @ host, '':'' @ port)"
    using assms(1) by (intro cut_at_append) auto
  ultimately show ?thesis using True assms by (auto simp: split_host_port_def join_host_port_def)
next
  case False
  have "cut_last CHR '':'' (host @ CHR '':'' # port) = Some (host, port)"
    using assms(2) by (intro cut_last_append) auto
  then show ?thesis using False assms
    by (cases host) (auto simp: split_host_port_def join_host_port_def)
qed

end
