(* ===== verification/Gate.thy ===== *)
theory Gate
  imports Wire
begin

text \<open>
  The gates of the HTTP API: \<open>requireAdmin\<close> and \<open>requireDevice\<close> of \<open>internal/control/server.go\<close>
  and \<open>requireUser\<close> of \<open>users_http.go\<close>. Their common contract is a locale: a request that does not
  authenticate is answered 401 and changes nothing, one that does runs the handler as the identity
  it proved.
\<close>

text \<open>\<open>Server\<close> without the SSO part, which has a theory of its own.\<close>

record server =
  sv_store :: store
  sv_open :: bool

type_synonym 'i handler = "hctx \<Rightarrow> 'i \<Rightarrow> http_request \<Rightarrow> server \<Rightarrow> server \<times> response"

definition require_admin :: "unit handler \<Rightarrow> hctx \<Rightarrow> http_request \<Rightarrow> server \<Rightarrow> server \<times> response" where
  "require_admin next c r s =
     (if bearer_token r \<noteq> store_admin_key (sv_store s) then (s, write_error 401 BadAdminKey)
      else next c () r s)"

definition require_device :: "device handler \<Rightarrow> hctx \<Rightarrow> http_request \<Rightarrow> server \<Rightarrow> server \<times> response" where
  "require_device next c r s =
     (case device_by_token (c_gate c) (bearer_token r) (sv_store s) of
        None \<Rightarrow> (s, write_error 401 BadDeviceToken)
      | Some d \<Rightarrow> next c d r s)"

definition require_user :: "user handler \<Rightarrow> hctx \<Rightarrow> http_request \<Rightarrow> server \<Rightarrow> server \<times> response" where
  "require_user next c r s =
     (case rq_cookie r of
        None \<Rightarrow> (s, write_error 401 LoginRequired)
      | Some token \<Rightarrow>
          (case session_user (c_gate c) token (sv_store s) of
             None \<Rightarrow> (s, write_error 401 SessionExpired)
           | Some u \<Rightarrow> next c u r s))"

locale auth_gate =
  fixes auth :: "hctx \<Rightarrow> http_request \<Rightarrow> server \<Rightarrow> 'i option"
    and guard :: "'i handler \<Rightarrow> hctx \<Rightarrow> http_request \<Rightarrow> server \<Rightarrow> server \<times> response"
  assumes deny: "auth c r s = None \<Longrightarrow> \<exists>err. guard h c r s = (s, write_error 401 err)"
    and pass: "auth c r s = Some i \<Longrightarrow> guard h c r s = h c i r s"
begin

lemma effect_needs_identity:
  "fst (guard h c r s) \<noteq> s \<Longrightarrow> \<exists>i. auth c r s = Some i"
  using deny [of c r s h] by (cases "auth c r s") auto

lemma guard_invariant:
  assumes "P s" "\<And>i. auth c r s = Some i \<Longrightarrow> P (fst (h c i r s))"
  shows "P (fst (guard h c r s))"
proof (cases "auth c r s")
  case None
  with assms(1) deny [OF None, of h] show ?thesis by auto
next
  case (Some i)
  with assms(2) pass [OF Some, of h] show ?thesis by simp
qed

lemma status_401: "auth c r s = None \<Longrightarrow> rs_status (snd (guard h c r s)) = 401"
  using deny [of c r s h] by (auto simp: write_error_def write_json_def)

text \<open>A handler that answers only in 200 and in errors other than 401 tells a refusal apart.\<close>

lemma refused_iff:
  "(\<And>i. rs_status (snd (h c i r s)) \<noteq> 401) \<Longrightarrow>
   rs_status (snd (guard h c r s)) = 401 \<longleftrightarrow> auth c r s = None"
  using status_401 [of c r s h] pass [of c r s _ h] by (cases "auth c r s") auto

end

definition admin_auth :: "hctx \<Rightarrow> http_request \<Rightarrow> server \<Rightarrow> unit option" where
  "admin_auth c r s = (if bearer_token r = store_admin_key (sv_store s) then Some () else None)"

definition device_auth :: "hctx \<Rightarrow> http_request \<Rightarrow> server \<Rightarrow> device option" where
  "device_auth c r s = device_by_token (c_gate c) (bearer_token r) (sv_store s)"

definition user_auth :: "hctx \<Rightarrow> http_request \<Rightarrow> server \<Rightarrow> user option" where
  "user_auth c r s = Option.bind (rq_cookie r) (\<lambda>t. session_user (c_gate c) t (sv_store s))"

interpretation admin_gate: auth_gate admin_auth require_admin
  by unfold_locales (auto simp: admin_auth_def require_admin_def split: if_splits)

interpretation device_gate: auth_gate device_auth require_device
  by unfold_locales (auto simp: device_auth_def require_device_def)

interpretation user_gate: auth_gate user_auth require_user
  by unfold_locales (auto simp: user_auth_def require_user_def split: option.splits)

end
