(* ===== verification/Server.thy ===== *)
theory Server
  imports Gate
begin

text \<open>
  The handlers of \<open>internal/control/server.go\<close>. \<open>key_ok\<close> is \<open>wgtypes.ParseKey\<close> succeeding
  (WireGuard's key parser), \<open>parse_dur\<close> is \<open>time.ParseDuration\<close> (\<open>None\<close> on an error): both are
  parameters. Each handler is the whole function, in one piece of time: the environment \<open>c\<close> gives
  the clock and the random bytes of its store calls.
\<close>

abbreviation put_store :: "server \<Rightarrow> store \<Rightarrow> server" where
  "put_store s st \<equiv> s\<lparr>sv_store := st\<rparr>"

section \<open>Views\<close>

definition online :: "device \<Rightarrow> time \<Rightarrow> bool" where
  "online d now \<longleftrightarrow> d_last_seen d \<noteq> 0 \<and> time_sub now (d_last_seen d) < online_threshold"

definition peer_view :: "device \<Rightarrow> time \<Rightarrow> peer" where
  "peer_view d now =
     \<lparr>pe_hostname = d_hostname d, pe_public_key = d_public_key d, pe_ip = d_ip d, pe_owner = d_owner d,
      pe_endpoint = d_endpoint d, pe_endpoints = d_endpoints d, pe_routes = active_routes d,
      pe_advertised = [], pe_last_seen = d_last_seen d, pe_online = online d now\<rparr>"

definition admin_peer_view :: "device \<Rightarrow> time \<Rightarrow> peer" where
  "admin_peer_view d now = (peer_view d now)\<lparr>pe_advertised := d_advertised d\<rparr>"

definition ellipsis :: string where
  "ellipsis = map char_of [0xE2, 0x80, 0xA6 :: nat]"

definition mask_key :: "string \<Rightarrow> string" where
  "mask_key key =
     (if length key \<le> 10 then key else take 6 key @ ellipsis @ drop (length key - 6) key)"

section \<open>Machines\<close>

definition default_hostname :: string where "default_hostname = ''machine-sans-nom''"

definition handle_register ::
  "(string \<Rightarrow> bool) \<Rightarrow> register_request option \<Rightarrow> hctx \<Rightarrow> http_request \<Rightarrow> server \<Rightarrow> server \<times> response" where
  "handle_register key_ok body c r s =
     (case body of
        None \<Rightarrow> (s, write_error 400 BadJSON)
      | Some req \<Rightarrow>
          if \<not> key_ok (rr_public_key req) then (s, write_error 400 BadPublicKey)
          else
            let host = (if rr_hostname req = [] then default_hostname else rr_hostname req);
                (st, res) = register_device (c_env1 c) (rr_auth_key req) host (rr_public_key req) (sv_store s)
            in case res of
                 Inl ErrInvalidAuthKey \<Rightarrow> (put_store s st, write_error 401 (FromStore ErrInvalidAuthKey))
               | Inl _ \<Rightarrow> (put_store s st, write_error 500 Internal)
               | Inr d \<Rightarrow> (put_store s st, write_json 200 (PRegister
                   \<lparr>ra_device_id = d_id d, ra_device_token = d_token d, ra_ip = d_ip d,
                    ra_cidr = store_cidr st\<rparr>)))"

definition observed_endpoint :: "http_request \<Rightarrow> poll_request \<Rightarrow> string" where
  "observed_endpoint r req =
     (if 0 < pr_listen_port req then
        (case split_host_port (rq_remote r) of
           None \<Rightarrow> []
         | Some (host, _) \<Rightarrow> join_host_port host (show_nat (nat (pr_listen_port req))))
      else [])"

text \<open>The loop over the devices: the machine itself becomes \<open>Self\<close>, the visible others are peers.\<close>

definition build_netmap :: "device \<Rightarrow> time \<Rightarrow> string \<Rightarrow> acl_policy option \<Rightarrow> device list \<Rightarrow> netmap" where
  "build_netmap self now new_token acl ds =
     fold (\<lambda>d nm.
         if d_public_key d = d_public_key self then nm\<lparr>nm_self := peer_view d now\<rparr>
         else if \<not> acl_visible acl self d then nm
         else nm\<lparr>nm_peers := nm_peers nm @ [peer_view d now]\<rparr>)
       ds \<lparr>nm_self = (peer_view self now)\<lparr>pe_online := True\<rparr>, nm_peers = [], nm_new_token = new_token\<rparr>"

definition handle_poll :: "poll_request option \<Rightarrow> device handler" where
  "handle_poll body c self r s =
     (case body of
        None \<Rightarrow> (s, write_error 400 BadJSON)
      | Some req \<Rightarrow>
          (case touch_device (c_env1 c) (d_public_key self) (observed_endpoint r req)
                  (pr_endpoints req) (pr_advertised req) (sv_store s) of
             (st1, Inl _) \<Rightarrow> (put_store s st1, write_error 500 Internal)
           | (st1, Inr _) \<Rightarrow>
               (case rotate_token_if_due (c_env2 c) (d_public_key self) st1 of
                  (st2, Inl _) \<Rightarrow> (put_store s st2, write_error 500 Internal)
                | (st2, Inr new_token) \<Rightarrow>
                    (put_store s st2, write_json 200 (PNetMap
                      (build_netmap self (c_now c) new_token (store_acl st2) (devices st2)))))))"

section \<open>Administration\<close>

definition query_ttl :: "(string \<Rightarrow> duration option) \<Rightarrow> duration \<Rightarrow> http_request \<Rightarrow> duration option" where
  "query_ttl parse_dur unset r =
     (if rq_query r ''ttl'' = [] then Some unset
      else case parse_dur (rq_query r ''ttl'') of
        None \<Rightarrow> None
      | Some d \<Rightarrow> if d < 0 then None else Some d)"

definition auth_key_view :: "auth_key \<Rightarrow> auth_key_response" where
  "auth_key_view k = \<lparr>ak_key = k_key k, ak_reusable = k_reusable k, ak_expires = k_expires k\<rparr>"

definition handle_create_auth_key :: "(string \<Rightarrow> duration option) \<Rightarrow> unit handler" where
  "handle_create_auth_key parse_dur c i r s =
     (case query_ttl parse_dur (24 * hour) r of
        None \<Rightarrow> (s, write_error 400 BadTTL)
      | Some ttl \<Rightarrow>
          (case create_auth_key (c_env1 c) (rq_query r ''reusable'' = ''true'') ttl (sv_store s) of
             (st, Inl _) \<Rightarrow> (put_store s st, write_error 500 Internal)
           | (st, Inr k) \<Rightarrow> (put_store s st, write_json 200 (PAuthKey (auth_key_view k)))))"

definition handle_list_auth_keys :: "unit handler" where
  "handle_list_auth_keys c i r s =
     (s, write_json 200 (PKeys (map (\<lambda>k.
        \<lparr>ai_key_masked = mask_key (k_key k), ai_reusable = k_reusable k, ai_used = k_used k,
         ai_created = k_created k, ai_expires = k_expires k\<rparr>) (auth_keys (sv_store s)))))"

definition handle_list_devices :: "unit handler" where
  "handle_list_devices c i r s =
     (s, write_json 200 (PPeers (map (\<lambda>d. admin_peer_view d (c_now c)) (devices (sv_store s)))))"

definition handle_set_routes :: "string list option \<Rightarrow> unit handler" where
  "handle_set_routes body c i r s =
     (case body of
        None \<Rightarrow> (s, write_error 400 BadJSON)
      | Some routes \<Rightarrow>
          (case set_approved_routes (c_env1 c) (rq_path r) routes (sv_store s) of
             (st, Inl err) \<Rightarrow> (put_store s st, write_error 400 (FromStore err))
           | (st, Inr d) \<Rightarrow> (put_store s st, write_json 200 (PPeer (admin_peer_view d (c_now c))))))"

definition handle_info :: "unit handler" where
  "handle_info c i r s =
     (s, write_json 200 (PInfo (fold (\<lambda>d info.
        (if online d (c_now c) then in_online_update Suc else (\<lambda>x. x)) (in_devices_update Suc info))
       (devices (sv_store s)) \<lparr>in_cidr = store_cidr (sv_store s), in_devices = 0, in_online = 0\<rparr>)))"

definition handle_revoke_device :: "unit handler" where
  "handle_revoke_device c i r s =
     (case remove_device (c_env1 c) (rq_path r) (sv_store s) of
        (st, Inl err) \<Rightarrow> (put_store s st, write_error 404 (FromStore err))
      | (st, Inr d) \<Rightarrow> (put_store s st, write_json 200 (PPeer (peer_view d (c_now c)))))"

definition handle_get_acl :: "unit handler" where
  "handle_get_acl c i r s =
     (s, write_json 200 (PAcl (case store_acl (sv_store s) of None \<Rightarrow> \<lparr>p_rules = []\<rparr> | Some p \<Rightarrow> p)))"

definition handle_set_acl :: "acl_policy option \<Rightarrow> unit handler" where
  "handle_set_acl body c i r s =
     (case body of
        None \<Rightarrow> (s, write_error 400 BadJSON)
      | Some p \<Rightarrow>
          (case acl_validate p of
             Inl err \<Rightarrow> (s, write_error 400 (FromStore err))
           | Inr _ \<Rightarrow>
               (case set_acl (c_env1 c) (Some p) (sv_store s) of
                  (st, Inl _) \<Rightarrow> (put_store s st, write_error 500 Internal)
                | (st, Inr _) \<Rightarrow> (put_store s st, write_json 200 (PAcl p)))))"

section \<open>Lemmas on the views\<close>

lemma online_iff: "online d now \<longleftrightarrow> d_last_seen d \<noteq> 0 \<and> now - d_last_seen d < 35 * second"
  by (simp add: online_def online_threshold_def time_sub_less duration_defs)

lemma build_netmap_fold:
  "fold (\<lambda>d nm. if d_public_key d = d_public_key self then nm\<lparr>nm_self := peer_view d now\<rparr>
         else if \<not> acl_visible acl self d then nm
         else nm\<lparr>nm_peers := nm_peers nm @ [peer_view d now]\<rparr>) ds nm =
   \<lparr>nm_self = (case find (\<lambda>d. d_public_key d = d_public_key self) (rev ds) of
        None \<Rightarrow> nm_self nm | Some d \<Rightarrow> peer_view d now),
    nm_peers = nm_peers nm @ map (\<lambda>d. peer_view d now)
      (filter (\<lambda>d. d_public_key d \<noteq> d_public_key self \<and> acl_visible acl self d) ds),
    nm_new_token = nm_new_token nm\<rparr>"
proof (induction ds arbitrary: nm)
  case (Cons d ds)
  have "find P (xs @ ys) = (case find P xs of None \<Rightarrow> find P ys | Some x \<Rightarrow> Some x)" for P :: "device \<Rightarrow> bool" and xs ys
    by (induction xs) auto
  then show ?case by (auto simp: Cons.IH split: option.splits)
qed simp

lemma netmap_peers:
  "nm_peers (build_netmap self now tok acl ds) = map (\<lambda>d. peer_view d now)
     (filter (\<lambda>d. d_public_key d \<noteq> d_public_key self \<and> acl_visible acl self d) ds)"
  "nm_new_token (build_netmap self now tok acl ds) = tok"
  by (simp_all add: build_netmap_def build_netmap_fold)

lemma netmap_self:
  assumes "d \<in> set ds" "d_public_key d = d_public_key self"
    "\<And>x. x \<in> set ds \<Longrightarrow> d_public_key x = d_public_key self \<Longrightarrow> x = d"
  shows "nm_self (build_netmap self now tok acl ds) = peer_view d now"
proof -
  let ?P = "\<lambda>x. d_public_key x = d_public_key self"
  have "find ?P (rev ds) \<noteq> None" using assms(1,2) by (auto simp: find_None_iff)
  then obtain x where "find ?P (rev ds) = Some x" by auto
  moreover from this have "x \<in> set ds" "?P x" by (auto dest: find_in_set)
  ultimately show ?thesis using assms(3) by (simp add: build_netmap_def build_netmap_fold)
qed

lemma handle_info_counts:
  "fold (\<lambda>d info. (if online d now then in_online_update Suc else (\<lambda>x. x)) (in_devices_update Suc info)) ds i =
   i\<lparr>in_devices := in_devices i + length ds, in_online := in_online i + length (filter (\<lambda>d. online d now) ds)\<rparr>"
  by (induction ds arbitrary: i) auto

text \<open>A masked key shows the first and the last six bytes of a key longer than ten bytes.\<close>

lemma mask_key_hides:
  "10 < length key \<Longrightarrow> length key = length key' \<Longrightarrow> take 6 key = take 6 key' \<Longrightarrow>
   drop (length key - 6) key = drop (length key - 6) key' \<Longrightarrow> mask_key key = mask_key key'"
  by (simp add: mask_key_def)

end
