(* ===== verification/Users_Http.thy ===== *)
theory Users_Http
  imports Server
begin

text \<open>The portal's handlers, \<open>internal/control/users_http.go\<close>.\<close>

definition handle_user_config :: "hctx \<Rightarrow> http_request \<Rightarrow> server \<Rightarrow> server \<times> response" where
  "handle_user_config c r s =
     (s, write_json 200 (PMode (if sv_open s then ''open'' else ''invite'')))"

text \<open>\<open>openSession\<close> runs on the second environment: a request opens it after at most one store call.\<close>

definition open_session :: "hctx \<Rightarrow> http_request \<Rightarrow> user \<Rightarrow> server \<Rightarrow> server \<times> response" where
  "open_session c r u s =
     (case create_session (c_env2 c) (u_id u) (sv_store s) of
        (st, Inl _) \<Rightarrow> (put_store s st, write_error 500 Internal)
      | (st, Inr token) \<Rightarrow>
          (put_store s st,
           (write_json 200 (PEmail (u_email u)))\<lparr>rs_cookie := Some
              \<lparr>ck_value = token, ck_secure = is_https r, ck_max_age = session_ttl div second\<rparr>\<rparr>))"

definition handle_user_register ::
  "(string \<Rightarrow> string) \<Rightarrow> (string \<Rightarrow> string option) \<Rightarrow> user_register_request option \<Rightarrow>
   hctx \<Rightarrow> http_request \<Rightarrow> server \<Rightarrow> server \<times> response" where
  "handle_user_register ul gen body c r s =
     (case body of
        None \<Rightarrow> (s, write_error 400 BadJSON)
      | Some req \<Rightarrow>
          (case register_user ul gen (c_env1 c) (ur_email req) (ur_password req) (ur_invite req)
                  (\<not> sv_open s) (sv_store s) of
             (st, Inl ErrEmailTaken) \<Rightarrow> (put_store s st, write_error 409 (FromStore ErrEmailTaken))
           | (st, Inl err) \<Rightarrow> (put_store s st, write_error 400 (FromStore err))
           | (st, Inr u) \<Rightarrow> open_session c r u (put_store s st)))"

definition handle_user_login ::
  "(string \<Rightarrow> string) \<Rightarrow> (string \<Rightarrow> string \<Rightarrow> bool) \<Rightarrow> user_login_request option \<Rightarrow>
   hctx \<Rightarrow> http_request \<Rightarrow> server \<Rightarrow> server \<times> response" where
  "handle_user_login ul cmp body c r s =
     (case body of
        None \<Rightarrow> (s, write_error 400 BadJSON)
      | Some req \<Rightarrow>
          (case authenticate ul cmp (ul_email req) (ul_password req) (sv_store s) of
             Inl _ \<Rightarrow> (s, write_error 401 (FromStore ErrBadCredentials))
           | Inr u \<Rightarrow> open_session c r u s))"

definition handle_user_logout :: "hctx \<Rightarrow> http_request \<Rightarrow> server \<Rightarrow> server \<times> response" where
  "handle_user_logout c r s =
     (case rq_cookie r of None \<Rightarrow> s | Some token \<Rightarrow> put_store s (delete_session (c_env1 c) token (sv_store s)),
      (write_json 204 PEmpty)\<lparr>rs_cookie := Some \<lparr>ck_value = [], ck_secure = False, ck_max_age = -1\<rparr>\<rparr>)"

definition handle_user_me :: "user handler" where
  "handle_user_me c u r s =
     (s, write_json 200 (PProfile \<lparr>up_email = u_email u,
        up_machines = map (\<lambda>d. peer_view d (c_now c))
          (filter (\<lambda>d. d_owner d = u_email u) (devices (sv_store s)))\<rparr>))"

definition handle_user_auth_key :: "user handler" where
  "handle_user_auth_key c u r s =
     (case create_auth_key_for (c_env1 c) (u_email u) (rq_query r ''reusable'' = ''true'') (24 * hour)
             (sv_store s) of
        (st, Inl _) \<Rightarrow> (put_store s st, write_error 500 Internal)
      | (st, Inr k) \<Rightarrow> (put_store s st, write_json 200 (PAuthKey (auth_key_view k))))"

definition handle_user_revoke :: "user handler" where
  "handle_user_revoke c u r s =
     (case remove_owned_device (c_env1 c) (u_email u) (rq_path r) (sv_store s) of
        (st, Inl err) \<Rightarrow> (put_store s st, write_error 404 (FromStore err))
      | (st, Inr d) \<Rightarrow> (put_store s st, write_json 200 (PPeer (peer_view d (c_now c)))))"

definition handle_create_invite :: "(string \<Rightarrow> duration option) \<Rightarrow> unit handler" where
  "handle_create_invite parse_dur c i r s =
     (case query_ttl parse_dur (7 * 24 * hour) r of
        None \<Rightarrow> (s, write_error 400 BadTTL)
      | Some ttl \<Rightarrow>
          (case create_invite (c_env1 c) ttl (sv_store s) of
             (st, Inl _) \<Rightarrow> (put_store s st, write_error 500 Internal)
           | (st, Inr v) \<Rightarrow> (put_store s st, write_json 200 (PInvite
               \<lparr>ir_code = i_code v, ir_expires = i_expires v\<rparr>))))"

definition handle_list_invites :: "unit handler" where
  "handle_list_invites c i r s =
     (s, write_json 200 (PInvites (map (\<lambda>v.
        \<lparr>ii_code_masked = mask_key (i_code v), ii_used = i_used v, ii_created = i_created v,
         ii_expires = i_expires v\<rparr>) (invites (sv_store s)))))"

end
