(* ===== verification/Oidc.thy ===== *)
theory Oidc
  imports Users_Http
begin

text \<open>
  Enrolment through an identity provider, \<open>internal/control/oidc.go\<close>. The OAuth2 and OpenID
  libraries are a record of parameters: exchanging a code for a token set, the raw identity token
  in it, its verification, its claims, and the provider's URL for a state. A callback reads the
  session in one critical section, talks to the provider, registers the machine and writes the
  session in another one, so it is two steps here, and the handler is their composition.
\<close>

section \<open>State\<close>

record oidc_config =
  oc_issuer :: string
  oc_client_id :: string
  oc_client_secret :: string
  oc_public_url :: string
  oc_allowed_domain :: string
  oc_allowed_emails :: "string list"

record enroll_session =
  en_hostname :: string
  en_public_key :: string
  en_created :: time
  en_approved :: bool
  en_result :: "register_response option"
  en_owner :: string
  en_failure :: "enroll_failure option"

record oidc_provider =
  op_cfg :: oidc_config
  op_redirect_url :: string
  op_sessions :: "(string, enroll_session) gomap"

text \<open>\<open>Server\<close> with its SSO part; \<open>None\<close> when it is not configured.\<close>

record sso_server = server +
  sv_oidc :: "oidc_provider option"

record ('t, 'i) idp =
  idp_exchange :: "string \<Rightarrow> 't option"
  idp_id_token :: "'t \<Rightarrow> string"
  idp_verify :: "string \<Rightarrow> 'i option"
  idp_claims :: "'i \<Rightarrow> (string \<times> bool option) option"
  idp_auth_url :: "string \<Rightarrow> string"

definition enroll_ttl :: duration where "enroll_ttl = 15 * minute"

definition trim_right_slash :: "string \<Rightarrow> string" where
  "trim_right_slash s = rev (dropWhile (\<lambda>c. c = CHR ''/'') (rev s))"

datatype oidc_err = OidcMissing | OidcDiscovery

text \<open>\<open>discovered\<close> is whether the provider's metadata was found.\<close>

definition enable_oidc :: "bool \<Rightarrow> oidc_config \<Rightarrow> sso_server \<Rightarrow> oidc_err + sso_server" where
  "enable_oidc discovered cfg s =
     (if oc_issuer cfg = [] \<or> oc_client_id cfg = [] \<or> oc_client_secret cfg = [] \<or> oc_public_url cfg = []
      then Inl OidcMissing
      else if \<not> discovered then Inl OidcDiscovery
      else let cfg' = cfg\<lparr>oc_public_url := trim_right_slash (oc_public_url cfg)\<rparr>
           in Inr (s\<lparr>sv_oidc := Some \<lparr>op_cfg = cfg', op_redirect_url = oc_public_url cfg' @ ''/oidc/callback'',
                op_sessions = []\<rparr>\<rparr>))"

section \<open>Access control\<close>

definition email_allowed :: "(string \<Rightarrow> string) \<Rightarrow> oidc_config \<Rightarrow> string \<Rightarrow> bool" where
  "email_allowed ul cfg email0 =
     (let email = to_lower ul email0 in
      if oc_allowed_emails cfg \<noteq> [] then
        list_ex (\<lambda>e. to_lower ul (trim_space e) = email) (oc_allowed_emails cfg)
      else if oc_allowed_domain cfg \<noteq> [] then
        has_suffix (''@'' @ to_lower ul (oc_allowed_domain cfg)) email
      else True)"

section \<open>Sessions\<close>

definition enroll_live :: "time \<Rightarrow> enroll_session \<Rightarrow> bool" where
  "enroll_live now s \<longleftrightarrow> time_sub now (en_created s) \<le> enroll_ttl"

definition prune_locked :: "time \<Rightarrow> oidc_provider \<Rightarrow> oidc_provider" where
  "prune_locked now p = p\<lparr>op_sessions := filter (\<lambda>(sid, s). enroll_live now s) (op_sessions p)\<rparr>"

definition put_session :: "string \<Rightarrow> enroll_session \<Rightarrow> oidc_provider \<Rightarrow> oidc_provider" where
  "put_session sid s p = p\<lparr>op_sessions := gm_put sid s (op_sessions p)\<rparr>"

definition handle_enroll_start ::
  "(string \<Rightarrow> bool) \<Rightarrow> enroll_start_request option \<Rightarrow> hctx \<Rightarrow> sso_server \<Rightarrow> sso_server \<times> response" where
  "handle_enroll_start key_ok body c s =
     (case sv_oidc s of
        None \<Rightarrow> (s, write_error 501 NoSSO)
      | Some p \<Rightarrow>
          (case body of
             None \<Rightarrow> (s, write_error 400 BadJSON)
           | Some req \<Rightarrow>
               if \<not> key_ok (es_public_key req) then (s, write_error 400 BadPublicKey)
               else
                 let host = (if es_hostname req = [] then default_hostname else es_hostname req);
                     sid = hex_encode (e_rnd_key (c_env1 c));
                     p' = put_session sid
                       \<lparr>en_hostname = host, en_public_key = es_public_key req, en_created = c_now c,
                        en_approved = False, en_result = None, en_owner = [], en_failure = None\<rparr>
                       (prune_locked (c_now c) p)
                 in (s\<lparr>sv_oidc := Some p'\<rparr>,
                     write_json 200 (PEnrollStart sid (oc_public_url (op_cfg p) @ ''/enroll/'' @ sid)))))"

definition handle_enroll_wait :: "hctx \<Rightarrow> http_request \<Rightarrow> sso_server \<Rightarrow> response" where
  "handle_enroll_wait c r s =
     (case sv_oidc s of
        None \<Rightarrow> write_error 501 NoSSO
      | Some p \<Rightarrow>
          (case gm_get (op_sessions p) (rq_query r ''session'') of
             None \<Rightarrow> write_error 404 EnrollUnknown
           | Some out \<Rightarrow>
               if \<not> enroll_live (c_now c) out then write_error 404 EnrollUnknown
               else case en_failure out of
                 Some f \<Rightarrow> write_error 403 (EnrollFailed f)
               | None \<Rightarrow>
                   if \<not> en_approved out then write_json 202 PWaiting
                   else (case en_result out of
                      None \<Rightarrow> write_json 200 PEmpty
                    | Some res \<Rightarrow> write_json 200 (PRegister res))))"

text \<open>The validity test shared by the redirection and the callback.\<close>

definition enroll_pending :: "time \<Rightarrow> string \<Rightarrow> oidc_provider \<Rightarrow> enroll_session option" where
  "enroll_pending now sid p =
     (case gm_get (op_sessions p) sid of
        None \<Rightarrow> None
      | Some s \<Rightarrow> if enroll_live now s \<and> \<not> en_approved s then Some s else None)"

definition handle_enroll_redirect ::
  "('t, 'i) idp \<Rightarrow> hctx \<Rightarrow> http_request \<Rightarrow> sso_server \<Rightarrow> response" where
  "handle_enroll_redirect idp c r s =
     (case sv_oidc s of
        None \<Rightarrow> write_json 404 PNotFound
      | Some p \<Rightarrow>
          (case enroll_pending (c_now c) (rq_path r) p of
             None \<Rightarrow> write_error 404 EnrollUnknown
           | Some _ \<Rightarrow> write_json 302 (PRedirect (idp_auth_url idp (rq_path r)))))"

section \<open>The callback\<close>

text \<open>What the provider says of the code: an e-mail, or the failure and its status.\<close>

definition identify :: "(string \<Rightarrow> string) \<Rightarrow> ('t, 'i) idp \<Rightarrow> oidc_config \<Rightarrow> string \<Rightarrow> (nat \<times> enroll_failure) + string" where
  "identify ul idp cfg code =
     (case idp_exchange idp code of
        None \<Rightarrow> Inl (502, ExchangeFailed)
      | Some tok \<Rightarrow>
          if idp_id_token idp tok = [] then Inl (502, NoIdToken)
          else case idp_verify idp (idp_id_token idp tok) of
            None \<Rightarrow> Inl (403, BadIdToken)
          | Some id_token \<Rightarrow>
              (case idp_claims idp id_token of
                 None \<Rightarrow> Inl (403, NoEmail)
               | Some (email, verified) \<Rightarrow>
                   if email = [] then Inl (403, NoEmail)
                   else if verified = Some False then Inl (403, EmailUnverified)
                   else if \<not> email_allowed ul cfg email then Inl (403, EmailRefused)
                   else Inr email))"

text \<open>
  The session of a callback is a pointer taken from the map at its start: the writes at its end
  reach the map if the session is still in it (the identifiers are never used twice).
\<close>

definition write_session :: "string \<Rightarrow> (enroll_session \<Rightarrow> enroll_session) \<Rightarrow> sso_server \<Rightarrow> sso_server" where
  "write_session sid f s =
     (case sv_oidc s of
        None \<Rightarrow> s
      | Some p \<Rightarrow>
          (case gm_get (op_sessions p) sid of
             None \<Rightarrow> s
           | Some e \<Rightarrow> s\<lparr>sv_oidc := Some (put_session sid (f e) p)\<rparr>))"

fun html_escape :: "string \<Rightarrow> string" where
  "html_escape [] = []"
| "html_escape (c # s) =
     (if c = CHR ''&'' then ''&amp;'' else if c = CHR ''<'' then ''&lt;''
      else if c = CHR ''>'' then ''&gt;'' else if c = CHR 0x22 then ''&quot;'' else [c]) @ html_escape s"

definition callback_begin :: "hctx \<Rightarrow> http_request \<Rightarrow> sso_server \<Rightarrow> (string \<times> enroll_session) option" where
  "callback_begin c r s =
     (case sv_oidc s of
        None \<Rightarrow> None
      | Some p \<Rightarrow> map_option (\<lambda>e. (rq_query r ''state'', e)) (enroll_pending (c_now c) (rq_query r ''state'') p))"

definition callback_finish ::
  "(string \<Rightarrow> string) \<Rightarrow> ('t, 'i) idp \<Rightarrow> hctx \<Rightarrow> http_request \<Rightarrow> string \<times> enroll_session \<Rightarrow>
   sso_server \<Rightarrow> sso_server \<times> response" where
  "callback_finish ul idp c r sess s =
     (case sv_oidc s of
        None \<Rightarrow> (s, write_json 404 PNotFound)
      | Some p \<Rightarrow>
          (case identify ul idp (op_cfg p) (rq_query r ''code'') of
             Inl (status, f) \<Rightarrow>
               (write_session (fst sess) (en_failure_update (\<lambda>_. Some f)) s, write_error status (EnrollFailed f))
           | Inr email \<Rightarrow>
               (case register_device_sso (c_env1 c) (en_hostname (snd sess)) (en_public_key (snd sess)) email
                       (sv_store s) of
                  (st, Inl _) \<Rightarrow>
                    (write_session (fst sess) (en_failure_update (\<lambda>_. Some EnrollInternal)) (s\<lparr>sv_store := st\<rparr>),
                     write_error 500 (EnrollFailed EnrollInternal))
                | (st, Inr d) \<Rightarrow>
                    (write_session (fst sess)
                       (\<lambda>e. e\<lparr>en_approved := True, en_owner := email,
                          en_result := Some \<lparr>ra_device_id = d_id d, ra_device_token = d_token d,
                            ra_ip = d_ip d, ra_cidr = store_cidr st\<rparr>\<rparr>)
                       (s\<lparr>sv_store := st\<rparr>),
                     write_json 200 (PEnrolled (html_escape (en_hostname (snd sess))) (d_ip d)
                       (html_escape email))))))"

definition handle_oidc_callback ::
  "(string \<Rightarrow> string) \<Rightarrow> ('t, 'i) idp \<Rightarrow> hctx \<Rightarrow> http_request \<Rightarrow> sso_server \<Rightarrow> sso_server \<times> response" where
  "handle_oidc_callback ul idp c r s =
     (case sv_oidc s of
        None \<Rightarrow> (s, write_json 404 PNotFound)
      | Some p \<Rightarrow>
          (case callback_begin c r s of
             None \<Rightarrow> (s, write_error 404 EnrollUnknown)
           | Some sess \<Rightarrow> callback_finish ul idp c r sess s))"

end
