(* ===== verification/Api.thy ===== *)
theory Api
  imports Oidc Store_Machine
begin

text \<open>
  \<open>Server.Handler\<close>: which handler and which gate every route has, and the server as a machine over
  requests. A request reaches its handler with the JSON of its body decoded; routing by method and
  path is the constructor of the call.
\<close>

section \<open>Routes\<close>

datatype api_call =
    Register "register_request option"
  | Poll "poll_request option"
  | CreateAuthKey
  | ListAuthKeys
  | ListDevices
  | RevokeDevice
  | SetRoutes "string list option"
  | GetAcl
  | SetAcl "acl_policy option"
  | GetInfo
  | EnrollStart "enroll_start_request option"
  | EnrollWait
  | EnrollRedirect
  | OidcCallback
  | Healthz
  | UserConfig
  | UserRegister "user_register_request option"
  | UserLogin "user_login_request option"
  | UserLogout
  | UserMe
  | UserAuthKey
  | UserRevoke
  | CreateInvite
  | ListInvites

text \<open>The code the server calls that is not in the repository.\<close>

record ('t, 'i) deps =
  dp_key_ok :: "string \<Rightarrow> bool"
  dp_duration :: "string \<Rightarrow> duration option"
  dp_lower :: "string \<Rightarrow> string"
  dp_hash :: "string \<Rightarrow> string option"
  dp_compare :: "string \<Rightarrow> string \<Rightarrow> bool"
  dp_idp :: "('t, 'i) idp"

definition on_server :: "(server \<Rightarrow> server \<times> response) \<Rightarrow> sso_server \<Rightarrow> sso_server \<times> response" where
  "on_server h s =
     (let (s', a) = h (server.truncate s) in (s\<lparr>sv_store := sv_store s', sv_open := sv_open s'\<rparr>, a))"

fun api_request ::
  "('t, 'i) deps \<Rightarrow> api_call \<Rightarrow> hctx \<Rightarrow> http_request \<Rightarrow> sso_server \<Rightarrow> sso_server \<times> response" where
  "api_request D (Register b) c r s = on_server (handle_register (dp_key_ok D) b c r) s"
| "api_request D (Poll b) c r s = on_server (require_device (handle_poll b) c r) s"
| "api_request D CreateAuthKey c r s = on_server (require_admin (handle_create_auth_key (dp_duration D)) c r) s"
| "api_request D ListAuthKeys c r s = on_server (require_admin handle_list_auth_keys c r) s"
| "api_request D ListDevices c r s = on_server (require_admin handle_list_devices c r) s"
| "api_request D RevokeDevice c r s = on_server (require_admin handle_revoke_device c r) s"
| "api_request D (SetRoutes b) c r s = on_server (require_admin (handle_set_routes b) c r) s"
| "api_request D GetAcl c r s = on_server (require_admin handle_get_acl c r) s"
| "api_request D (SetAcl b) c r s = on_server (require_admin (handle_set_acl b) c r) s"
| "api_request D GetInfo c r s = on_server (require_admin handle_info c r) s"
| "api_request D (EnrollStart b) c r s = handle_enroll_start (dp_key_ok D) b c s"
| "api_request D EnrollWait c r s = (s, handle_enroll_wait c r s)"
| "api_request D EnrollRedirect c r s = (s, handle_enroll_redirect (dp_idp D) c r s)"
| "api_request D OidcCallback c r s = handle_oidc_callback (dp_lower D) (dp_idp D) c r s"
| "api_request D Healthz c r s = (s, write_json 200 PEmpty)"
| "api_request D UserConfig c r s = on_server (handle_user_config c r) s"
| "api_request D (UserRegister b) c r s = on_server (handle_user_register (dp_lower D) (dp_hash D) b c r) s"
| "api_request D (UserLogin b) c r s = on_server (handle_user_login (dp_lower D) (dp_compare D) b c r) s"
| "api_request D UserLogout c r s = on_server (handle_user_logout c r) s"
| "api_request D UserMe c r s = on_server (require_user handle_user_me c r) s"
| "api_request D UserAuthKey c r s = on_server (require_user handle_user_auth_key c r) s"
| "api_request D UserRevoke c r s = on_server (require_user handle_user_revoke c r) s"
| "api_request D CreateInvite c r s = on_server (require_admin (handle_create_invite (dp_duration D)) c r) s"
| "api_request D ListInvites c r s = on_server (require_admin handle_list_invites c r) s"

lemma on_server_store [simp]: "sv_store (fst (on_server h s)) = sv_store (fst (h (server.truncate s)))"
  "sv_oidc (fst (on_server h s)) = sv_oidc s" "snd (on_server h s) = snd (h (server.truncate s))"
  by (simp_all add: on_server_def split_beta)

lemma truncate_sel [simp]: "sv_store (server.truncate s) = sv_store s" "sv_open (server.truncate s) = sv_open s"
  by (simp_all add: server.truncate_def)

lemma on_server_same: "fst (h (server.truncate s)) = server.truncate s \<Longrightarrow> fst (on_server h s) = s"
  by (simp add: on_server_def split_beta)

section \<open>A request is a sequence of store calls\<close>

text \<open>The random bytes of a request's two store calls are new, and differ from each other.\<close>

definition fresh_ctx :: "hctx \<Rightarrow> store \<Rightarrow> bool" where
  "fresh_ctx c st \<longleftrightarrow> fresh (c_env1 c) (st_s st) \<and> fresh (c_env2 c) (st_s st) \<and>
     e_rnd_id (c_env1 c) \<noteq> e_rnd_id (c_env2 c)"

lemma acked_fst [simp]: "fst (acked r) = fst r"
  by (simp add: acked_def)

lemma reach_call:
  "store_reach ul gen st0 st \<Longrightarrow> fresh e (st_s st) \<Longrightarrow> store_reach ul gen st0 (fst (run_op ul gen e op st))"
  using next_step [of "store_step ul gen" "store_en ul gen" st0 st "Call e op"] by simp

lemmas reach_ops =
  reach_call [where op = "OpAuthKey owner reusable ttl" for owner reusable ttl, simplified]
  reach_call [where op = "OpRegister key host pub" for key host pub, simplified]
  reach_call [where op = "OpRegisterSSO host pub owner" for host pub owner, simplified]
  reach_call [where op = "OpRotate pub" for pub, simplified]
  reach_call [where op = "OpTouch pub ep eps rs" for pub ep eps rs, simplified]
  reach_call [where op = "OpApprove target rs" for target rs, simplified]
  reach_call [where op = "OpAcl p" for p, simplified]
  reach_call [where op = "OpRemove target" for target, simplified]
  reach_call [where op = "OpInvite ttl" for ttl, simplified]
  reach_call [where op = "OpUser email pw code req" for email pw code req, simplified]
  reach_call [where op = "OpSession uid" for uid, simplified]
  reach_call [where op = "OpLogout token" for token, simplified]
  reach_call [where op = "OpRemoveOwned owner target" for owner target, simplified]

text \<open>A heartbeat leaves every token as it was; a registration adds its own account only.\<close>

lemma fresh_touch:
  assumes "fresh e (st_s st)" "gm_ok (st_devices st)"
  shows "fresh e (st_s (fst (touch_device e' pub ep eps rs st)))"
proof (cases "gm_get (st_devices st) pub")
  case (Some d)
  let ?t = "''omtok-'' @ hex_encode (e_rnd_key e)"
  have old: "?t \<notin> tokens x" if "(q, x) \<in> set (st_devices st)" for q x
    using that assms(1) by (auto simp: fresh_def)
  define d4 where "d4 = (let d1 = d\<lparr>d_last_seen := e_now e'\<rparr>;
          d2 = (if ep \<noteq> [] then d1\<lparr>d_endpoint := ep\<rparr> else d1);
          d3 = (case eps of None \<Rightarrow> d2 | Some eps \<Rightarrow> d2\<lparr>d_endpoints := eps\<rparr>)
      in case rs of None \<Rightarrow> d3 | Some rs \<Rightarrow> d3\<lparr>d_advertised := valid_routes rs\<rparr>)"
  have "tokens d4 = tokens d" by (simp add: d4_def tokens_def Let_def split: option.splits)
  then have "?t \<notin> tokens d4" using old map_of_SomeD [OF Some] by metis
  then have "\<forall>(q, x) \<in> set (gm_put pub d4 (st_devices st)). ?t \<notin> tokens x"
    using old gm_put_subset [of pub d4 "st_devices st"] by blast
  moreover have "st_s (fst (touch_device e' pub ep eps rs st)) = (st_s st)\<lparr>sf_devices := gm_put pub d4 (st_devices st)\<rparr>"
    using Some by (simp add: touch_device_def Let_def d4_def set_device_def)
  ultimately show ?thesis using assms(1) by (simp add: fresh_def)
qed (use assms in \<open>simp add: touch_device_def\<close>)

lemma fresh_register_user:
  assumes "fresh e2 (st_s st)" "e_rnd_id e \<noteq> e_rnd_id e2"
  shows "fresh e2 (st_s (fst (register_user ul gen e email pw code req st)))"
proof -
  have "u_id u \<noteq> hex_encode (e_rnd_id e2)" if u: "(q, u) \<in> set (gm_put k \<lparr>u_id = hex_encode (e_rnd_id e),
      u_email = k, u_hash = h, u_created = t\<rparr> (sf_users (st_s st)))" for q u k h t
  proof -
    from subsetD [OF gm_put_subset u] show ?thesis using assms by (auto simp: fresh_def hex_encode_inj)
  qed
  then show ?thesis using assms(1)
    by (auto simp: register_user_def Let_def fresh_def split: option.splits)
qed

section \<open>Every handler keeps the store reachable\<close>

text \<open>\<open>keeps h\<close>: a handler started on a reachable store, with new random bytes, leaves one.\<close>

definition keeps :: "(string \<Rightarrow> string) \<Rightarrow> (string \<Rightarrow> string option) \<Rightarrow> 'i handler \<Rightarrow> bool" where
  "keeps ul gen h \<longleftrightarrow> (\<forall>st0 c i r s. first_boot st0 \<and> store_reach ul gen st0 (sv_store s) \<and> fresh_ctx c (sv_store s) \<longrightarrow>
     store_reach ul gen st0 (sv_store (fst (h c i r s))))"

lemma keepsI:
  "(\<And>st0 c i r s. first_boot st0 \<Longrightarrow> store_reach ul gen st0 (sv_store s) \<Longrightarrow> fresh_ctx c (sv_store s) \<Longrightarrow>
     store_reach ul gen st0 (sv_store (fst (h c i r s)))) \<Longrightarrow> keeps ul gen h"
  by (simp add: keeps_def)

lemma keeps_views:
  "keeps ul gen handle_list_auth_keys" "keeps ul gen handle_list_devices" "keeps ul gen handle_get_acl"
  "keeps ul gen handle_info" "keeps ul gen handle_user_me" "keeps ul gen handle_list_invites"
  by (simp_all add: keeps_def handle_list_auth_keys_def handle_list_devices_def handle_get_acl_def
      handle_info_def handle_user_me_def handle_list_invites_def)

lemma keeps_calls:
  "keeps ul gen (handle_create_auth_key pd)" "keeps ul gen (handle_set_routes rs)"
  "keeps ul gen handle_revoke_device" "keeps ul gen (handle_set_acl p)" "keeps ul gen handle_user_auth_key"
  "keeps ul gen handle_user_revoke" "keeps ul gen (handle_create_invite pd)"
  by (rule keepsI; auto simp: fresh_ctx_def handle_create_auth_key_def create_auth_key_def handle_set_routes_def
      handle_revoke_device_def handle_set_acl_def handle_user_auth_key_def handle_user_revoke_def
      handle_create_invite_def split_beta intro: reach_ops split: option.splits sum.splits)+

lemma keeps_poll: "keeps ul gen (handle_poll b)"
proof (rule keepsI)
  fix st0 c self r and s :: server
  assume boot: "first_boot st0" and reach: "store_reach ul gen st0 (sv_store s)" and f: "fresh_ctx c (sv_store s)"
  have ok: "gm_ok (st_devices (sv_store s))"
    using devs_okD(1) [OF good_devs [OF store_reach_good [OF reach boot]]] .
  show "store_reach ul gen st0 (sv_store (fst (handle_poll b c self r s)))"
  proof (cases b)
    case (Some req)
    let ?st = "fst (touch_device (c_env1 c) (d_public_key self) (observed_endpoint r req)
                  (pr_endpoints req) (pr_advertised req) (sv_store s))"
    have 1: "store_reach ul gen st0 ?st" using reach f by (intro reach_ops) (simp_all add: fresh_ctx_def)
    have "fresh (c_env2 c) (st_s ?st)" using f ok by (intro fresh_touch) (simp_all add: fresh_ctx_def)
    with 1 have "store_reach ul gen st0 (fst (rotate_token_if_due (c_env2 c) (d_public_key self) ?st))"
      by (rule reach_ops)
    with 1 Some show ?thesis
      by (auto simp: handle_poll_def split_beta split: sum.splits)
  qed (use reach in \<open>simp add: handle_poll_def\<close>)
qed

lemma reach_session:
  "store_reach ul gen st0 (sv_store s) \<Longrightarrow> fresh (c_env2 c) (st_s (sv_store s)) \<Longrightarrow>
   store_reach ul gen st0 (sv_store (fst (open_session c r u s)))"
  by (auto simp: open_session_def split_beta intro: reach_ops split: sum.splits)

lemma reach_public:
  assumes "store_reach ul gen st0 (sv_store s)" "fresh_ctx c (sv_store s)"
  shows "store_reach ul gen st0 (sv_store (fst (handle_register key_ok b c r s)))"
    "store_reach ul gen st0 (sv_store (fst (handle_user_config c r s)))"
    "store_reach ul gen st0 (sv_store (fst (handle_user_register ul gen b' c r s)))"
    "store_reach ul gen st0 (sv_store (fst (handle_user_login ul cmp b'' c r s)))"
    "store_reach ul gen st0 (sv_store (fst (handle_user_logout c r s)))"
proof -
  have f: "fresh (c_env1 c) (st_s (sv_store s))" "fresh (c_env2 c) (st_s (sv_store s))"
    "e_rnd_id (c_env1 c) \<noteq> e_rnd_id (c_env2 c)" using assms(2) by (simp_all add: fresh_ctx_def)
  show "store_reach ul gen st0 (sv_store (fst (handle_register key_ok b c r s)))"
  proof (cases b)
    case (Some q)
    let ?host = "if rr_hostname q = [] then default_hostname else rr_hostname q"
    obtain st res where r: "register_device (c_env1 c) (rr_auth_key q) ?host (rr_public_key q) (sv_store s) = (st, res)"
      by fastforce
    then have "store_reach ul gen st0 st" using reach_ops(2) [OF assms(1) f(1)] by (metis fst_conv)
    moreover have "sv_store (fst (handle_register key_ok b c r s)) \<in> {st, sv_store s}"
      using Some r by (cases res; cases "projl res") (simp_all add: handle_register_def Let_def)
    ultimately show ?thesis using assms(1) by auto
  qed (use assms(1) in \<open>simp add: handle_register_def\<close>)
  show "store_reach ul gen st0 (sv_store (fst (handle_user_config c r s)))"
    using assms(1) by (simp add: handle_user_config_def)
  show "store_reach ul gen st0 (sv_store (fst (handle_user_login ul cmp b'' c r s)))"
    using assms(1) f(2)
    by (auto simp: handle_user_login_def intro: reach_session split: option.splits sum.splits)
  show "store_reach ul gen st0 (sv_store (fst (handle_user_logout c r s)))"
    using assms(1) f(1) by (auto simp: handle_user_logout_def intro: reach_ops split: option.splits)
  show "store_reach ul gen st0 (sv_store (fst (handle_user_register ul gen b' c r s)))"
  proof (cases b')
    case (Some q)
    let ?r = "register_user ul gen (c_env1 c) (ur_email q) (ur_password q) (ur_invite q) (\<not> sv_open s) (sv_store s)"
    obtain st res where r: "?r = (st, res)" by fastforce
    have 1: "store_reach ul gen st0 st" using reach_ops(10) [OF assms(1) f(1)] r by (metis fst_conv)
    have 2: "fresh (c_env2 c) (st_s st)" using fresh_register_user [OF f(2,3)] r by (metis fst_conv)
    show ?thesis
    proof (cases res)
      case (Inl err)
      with Some r 1 show ?thesis by (cases err) (simp_all add: handle_user_register_def)
    next
      case (Inr u)
      with Some r 1 2 show ?thesis
        by (simp add: handle_user_register_def reach_session)
    qed
  qed (use assms(1) in \<open>simp add: handle_user_register_def\<close>)
qed

section \<open>The server as a machine\<close>

definition session_ok :: "enroll_session \<Rightarrow> bool" where
  "session_ok e \<longleftrightarrow> (en_approved e \<longleftrightarrow> en_result e \<noteq> None)"

definition sessions_ok :: "oidc_provider option \<Rightarrow> bool" where
  "sessions_ok p \<longleftrightarrow> (case p of None \<Rightarrow> True | Some q \<Rightarrow> gm_ok (op_sessions q) \<and>
     (\<forall>sid e. gm_get (op_sessions q) sid = Some e \<longrightarrow> session_ok e))"

definition store_ok :: "('t, 'i) deps \<Rightarrow> store \<Rightarrow> bool" where
  "store_ok D st \<longleftrightarrow> (\<exists>st0. first_boot st0 \<and> store_reach (dp_lower D) (dp_hash D) st0 st)"

definition api_inv :: "('t, 'i) deps \<Rightarrow> sso_server \<Rightarrow> bool" where
  "api_inv D s \<longleftrightarrow> store_ok D (sv_store s) \<and> sessions_ok (sv_oidc s)"

definition api_init :: "('t, 'i) deps \<Rightarrow> sso_server \<Rightarrow> bool" where
  "api_init D s \<longleftrightarrow> first_boot (sv_store s) \<and> (case sv_oidc s of None \<Rightarrow> True | Some p \<Rightarrow> op_sessions p = [])"

definition api_step :: "('t, 'i) deps \<Rightarrow> api_call \<times> hctx \<times> http_request \<Rightarrow> sso_server \<Rightarrow> sso_server" where
  "api_step D ev s = (case ev of (call, c, r) \<Rightarrow> fst (api_request D call c r s))"

definition api_en :: "api_call \<times> hctx \<times> http_request \<Rightarrow> sso_server \<Rightarrow> bool" where
  "api_en ev s = (case ev of (call, c, r) \<Rightarrow> fresh_ctx c (sv_store s))"

lemma store_ok_keeps:
  assumes "keeps (dp_lower D) (dp_hash D) h" "store_ok D (sv_store s)" "fresh_ctx c (sv_store s)"
  shows "store_ok D (sv_store (fst (h c i r s)))"
  using assms unfolding keeps_def store_ok_def by blast

text \<open>The gates add nothing: a gated handler keeps the store reachable because the handler does.\<close>

lemma store_ok_admin:
  "keeps (dp_lower D) (dp_hash D) h \<Longrightarrow> store_ok D (sv_store s) \<Longrightarrow> fresh_ctx c (sv_store s) \<Longrightarrow>
   store_ok D (sv_store (fst (require_admin h c r s)))"
  by (rule admin_gate.guard_invariant [where P = "\<lambda>s. store_ok D (sv_store s)"]) (auto intro: store_ok_keeps)

lemma store_ok_device:
  "keeps (dp_lower D) (dp_hash D) h \<Longrightarrow> store_ok D (sv_store s) \<Longrightarrow> fresh_ctx c (sv_store s) \<Longrightarrow>
   store_ok D (sv_store (fst (require_device h c r s)))"
  by (rule device_gate.guard_invariant [where P = "\<lambda>s. store_ok D (sv_store s)"]) (auto intro: store_ok_keeps)

lemma store_ok_user:
  "keeps (dp_lower D) (dp_hash D) h \<Longrightarrow> store_ok D (sv_store s) \<Longrightarrow> fresh_ctx c (sv_store s) \<Longrightarrow>
   store_ok D (sv_store (fst (require_user h c r s)))"
  by (rule user_gate.guard_invariant [where P = "\<lambda>s. store_ok D (sv_store s)"]) (auto intro: store_ok_keeps)

lemma store_ok_public:
  assumes "store_ok D (sv_store s)" "fresh_ctx c (sv_store s)"
  shows "store_ok D (sv_store (fst (handle_register key_ok b c r s)))"
    "store_ok D (sv_store (fst (handle_user_config c r s)))"
    "store_ok D (sv_store (fst (handle_user_register (dp_lower D) (dp_hash D) b' c r s)))"
    "store_ok D (sv_store (fst (handle_user_login (dp_lower D) cmp b'' c r s)))"
    "store_ok D (sv_store (fst (handle_user_logout c r s)))"
proof -
  from assms(1) obtain st0 where st0: "first_boot st0" "store_reach (dp_lower D) (dp_hash D) st0 (sv_store s)"
    unfolding store_ok_def by blast
  note reach = reach_public [OF st0(2) assms(2)]
  show "store_ok D (sv_store (fst (handle_register key_ok b c r s)))"
    "store_ok D (sv_store (fst (handle_user_config c r s)))"
    "store_ok D (sv_store (fst (handle_user_register (dp_lower D) (dp_hash D) b' c r s)))"
    "store_ok D (sv_store (fst (handle_user_login (dp_lower D) cmp b'' c r s)))"
    "store_ok D (sv_store (fst (handle_user_logout c r s)))"
    unfolding store_ok_def
    by (rule exI [of _ st0], rule conjI, rule st0(1), rule reach)+
qed

lemma write_session_store [simp]: "sv_store (write_session sid f s) = sv_store s"
  by (simp add: write_session_def split: option.splits)

lemma store_ok_callback:
  assumes "store_ok D (sv_store s)" "fresh_ctx c (sv_store s)"
  shows "store_ok D (sv_store (fst (callback_finish ul idp c r sess s)))"
proof -
  have "store_ok D (fst (register_device_sso (c_env1 c) host pub owner (sv_store s)))" for host pub owner
    using assms reach_ops(3) unfolding store_ok_def fresh_ctx_def by blast
  then show ?thesis using assms(1)
    by (auto simp: callback_finish_def split_beta split: option.splits sum.splits)
qed

lemma sessions_ok_write:
  "sessions_ok (sv_oidc s) \<Longrightarrow> (\<And>e. session_ok e \<Longrightarrow> session_ok (f e)) \<Longrightarrow>
   sessions_ok (sv_oidc (write_session sid f s))"
  by (auto simp: sessions_ok_def write_session_def put_session_def gm_get_put gm_ok_put split: option.splits)

lemma sessions_ok_callback:
  "sessions_ok (sv_oidc s) \<Longrightarrow> sessions_ok (sv_oidc (fst (callback_finish ul idp c r sess s)))"
  by (auto simp: callback_finish_def split_beta session_ok_def intro!: sessions_ok_write split: option.splits sum.splits)

lemma sessions_ok_start:
  "sessions_ok (sv_oidc s) \<Longrightarrow> sessions_ok (sv_oidc (fst (handle_enroll_start key_ok b c s)))"
  by (auto simp: handle_enroll_start_def sessions_ok_def Let_def put_session_def prune_locked_def
      gm_get_put gm_get_filter gm_ok_put gm_ok_filter session_ok_def split: option.splits if_splits)

lemma api_inv_step:
  assumes inv: "api_inv D s" and en: "fresh_ctx c (sv_store s)"
  shows "api_inv D (fst (api_request D call c r s))"
proof -
  have ok: "store_ok D (sv_store s)" "sessions_ok (sv_oidc s)" using inv by (simp_all add: api_inv_def)
  have t: "store_ok D (sv_store (server.truncate s))" "fresh_ctx c (sv_store (server.truncate s))"
    using ok en by simp_all
  note keep = keeps_calls keeps_views keeps_poll
  show ?thesis
  proof (cases call)
    case (EnrollStart b)
    have "sv_store (fst (handle_enroll_start key_ok b c s)) = sv_store s" for key_ok
      by (simp add: handle_enroll_start_def Let_def split: option.splits)
    with ok EnrollStart show ?thesis by (simp add: api_inv_def sessions_ok_start)
  next
    case OidcCallback
    with ok en inv show ?thesis
      by (auto simp: handle_oidc_callback_def api_inv_def sessions_ok_callback store_ok_callback split: option.splits)
  qed (use inv ok t keep store_ok_admin [OF _ t] store_ok_device [OF _ t] store_ok_user [OF _ t] store_ok_public [OF t]
      in \<open>simp_all add: api_inv_def\<close>)
qed

interpretation api_machine: invariant_machine "api_init D" "api_step D" api_en "api_inv D" for D
proof unfold_locales
  fix s :: sso_server
  assume i: "api_init D s"
  then have "store_ok D (sv_store s)"
    unfolding store_ok_def api_init_def by (blast intro: start)
  moreover have "sessions_ok (sv_oidc s)"
    using i by (auto simp: api_init_def sessions_ok_def split: option.splits)
  ultimately show "api_inv D s" by (simp add: api_inv_def)
next
  fix s :: sso_server and e
  assume "api_inv D s" "api_en e s"
  then show "api_inv D (api_step D e s)"
    by (cases e) (simp add: api_step_def api_en_def api_inv_step)
qed

end
