(* ===== verification/Api_Props.thy ===== *)
theory Api_Props
  imports Api Store_Demo
begin

text \<open>
  The properties of the HTTP API: who may do what, the network map, the portal and enrolment
  through an identity provider.
\<close>

section \<open>A concrete server\<close>

definition demo_request :: http_request where
  "demo_request = \<lparr>rq_remote = ''1.2.3.4:9'', rq_authorization = ''Bearer omtok-03'', rq_cookie = None,
     rq_query = (\<lambda>k. if k = ''state'' then ''s1'' else []), rq_path = [], rq_tls = False, rq_proto = []\<rparr>"

definition demo_ctx :: "int \<Rightarrow> hctx" where
  "demo_ctx t = \<lparr>c_gate = t, c_env1 = demo_env t 5, c_env2 = demo_env t 6, c_now = t\<rparr>"

text \<open>A provider that vouches for the e-mail it is given as a code.\<close>

definition demo_idp :: "(string, string) idp" where
  "demo_idp = \<lparr>idp_exchange = (\<lambda>c. if c = ''bad'' then None else Some c), idp_id_token = (\<lambda>t. t @ ''!''),
     idp_verify = (\<lambda>i. Some i), idp_claims = (\<lambda>i. Some (butlast i, None)), idp_auth_url = (\<lambda>s. s)\<rparr>"

definition demo_deps :: "(string, string) deps" where
  "demo_deps = \<lparr>dp_key_ok = (\<lambda>_. True), dp_duration = (\<lambda>_. None), dp_lower = (\<lambda>s. s), dp_hash = Some,
     dp_compare = (=), dp_idp = demo_idp\<rparr>"

definition demo_session :: enroll_session where
  "demo_session = \<lparr>en_hostname = ''h3'', en_public_key = ''pk3'', en_created = 0, en_approved = False,
     en_result = None, en_owner = [], en_failure = None\<rparr>"

definition demo_provider :: oidc_provider where
  "demo_provider = \<lparr>op_cfg = \<lparr>oc_issuer = ''i'', oc_client_id = ''c'', oc_client_secret = ''s'',
       oc_public_url = ''u'', oc_allowed_domain = [], oc_allowed_emails = []\<rparr>,
     op_redirect_url = ''u/oidc/callback'', op_sessions = [(''s1'', demo_session)]\<rparr>"

definition demo_server :: sso_server where
  "demo_server = \<lparr>sv_store = demo3, sv_open = False, sv_oidc = Some demo_provider\<rparr>"

section \<open>Authorisation\<close>

datatype access = Public | AdminOnly | MachineOnly | PortalOnly

fun access_of :: "api_call \<Rightarrow> access" where
  "access_of (Poll _) = MachineOnly"
| "access_of UserMe = PortalOnly"
| "access_of UserAuthKey = PortalOnly"
| "access_of UserRevoke = PortalOnly"
| "access_of (Register _) = Public"
| "access_of (EnrollStart _) = Public"
| "access_of EnrollWait = Public"
| "access_of EnrollRedirect = Public"
| "access_of OidcCallback = Public"
| "access_of Healthz = Public"
| "access_of UserConfig = Public"
| "access_of (UserRegister _) = Public"
| "access_of (UserLogin _) = Public"
| "access_of UserLogout = Public"
| "access_of _ = AdminOnly"

text \<open>The identity a request must prove for a kind of access.\<close>

definition authorised :: "access \<Rightarrow> hctx \<Rightarrow> http_request \<Rightarrow> sso_server \<Rightarrow> bool" where
  "authorised a c r s =
     (case a of
        Public \<Rightarrow> True
      | AdminOnly \<Rightarrow> bearer_token r = store_admin_key (sv_store s)
      | MachineOnly \<Rightarrow> device_by_token (c_gate c) (bearer_token r) (sv_store s) \<noteq> None
      | PortalOnly \<Rightarrow> (\<exists>t. rq_cookie r = Some t \<and> session_user (c_gate c) t (sv_store s) \<noteq> None))"

text \<open>C1: every administration route needs the administration key, every machine route a live machine
  token, every portal route a live session: without it the answer is 401 and nothing changes.\<close>

theorem api_authorisation:
  assumes "\<not> authorised (access_of call) c r s"
  shows "fst (api_request D call c r s) = s \<and> rs_status (snd (api_request D call c r s)) = 401"
proof -
  let ?s = "server.truncate s"
  have admin: "fst (on_server (require_admin h c r) s) = s \<and> rs_status (snd (on_server (require_admin h c r) s)) = 401"
    if "bearer_token r \<noteq> store_admin_key (sv_store s)" for h
  proof -
    have none: "admin_auth c r ?s = None" using that by (simp add: admin_auth_def)
    from admin_gate.deny [OF none, of h] admin_gate.status_401 [OF none, of h]
    show ?thesis by (auto simp: on_server_same)
  qed
  have device: "fst (on_server (require_device h c r) s) = s \<and> rs_status (snd (on_server (require_device h c r) s)) = 401"
    if "device_by_token (c_gate c) (bearer_token r) (sv_store s) = None" for h
  proof -
    have none: "device_auth c r ?s = None" using that by (simp add: device_auth_def)
    from device_gate.deny [OF none, of h] device_gate.status_401 [OF none, of h]
    show ?thesis by (auto simp: on_server_same)
  qed
  have user: "fst (on_server (require_user h c r) s) = s \<and> rs_status (snd (on_server (require_user h c r) s)) = 401"
    if "\<forall>t. rq_cookie r = Some t \<longrightarrow> session_user (c_gate c) t (sv_store s) = None" for h
  proof -
    have none: "user_auth c r ?s = None" using that by (cases "rq_cookie r") (simp_all add: user_auth_def)
    from user_gate.deny [OF none, of h] user_gate.status_401 [OF none, of h]
    show ?thesis by (auto simp: on_server_same)
  qed
  from assms admin device user show ?thesis
    by (cases call) (simp_all add: authorised_def)
qed

theorem api_authorisation_witness:
  "fst (api_request demo_deps ListDevices (demo_ctx 5) demo_request demo_server) = demo_server"
proof -
  have "\<not> authorised (access_of ListDevices) (demo_ctx 5) demo_request demo_server"
    by (simp add: authorised_def demo_server_def demo3_admin demo_request_def bearer_token_def compute)
  from api_authorisation [OF this, of demo_deps] show ?thesis by simp
qed

text \<open>C3: through any sequence of requests, of any kind and from anyone, two machines never share an
  address or a token, and an enrolment session has a result exactly when it is approved.\<close>

theorem api_invariant:
  assumes "reach (api_step D) api_en s0 s" "api_init D s0"
  shows "(\<forall>a b x y. gm_get (st_devices (sv_store s)) a = Some x \<and> gm_get (st_devices (sv_store s)) b = Some y \<and>
      (d_ip x = d_ip y \<or> d_token x = d_token y) \<longrightarrow> a = b) \<and>
    (\<forall>p sid e. sv_oidc s = Some p \<and> gm_get (op_sessions p) sid = Some e \<longrightarrow>
      (en_approved e \<longleftrightarrow> en_result e \<noteq> None))"
proof (intro conjI allI impI)
  have inv: "api_inv D s" using assms by (rule api_machine.reach_inv)
  then obtain st0 where "first_boot st0" "store_reach (dp_lower D) (dp_hash D) st0 (sv_store s)"
    by (auto simp: api_inv_def store_ok_def)
  then have ok: "devs_ok (sf_cidr (st_s (sv_store s))) (st_devices (sv_store s))"
    using store_reach_good good_devs by blast
  fix a b x y
  assume xy: "gm_get (st_devices (sv_store s)) a = Some x \<and> gm_get (st_devices (sv_store s)) b = Some y \<and>
      (d_ip x = d_ip y \<or> d_token x = d_token y)"
  then have x: "gm_get (st_devices (sv_store s)) a = Some x" by blast
  then have "d_token x \<noteq> []" using devs_okD(2) [OF ok x] by (simp add: device_ok_def)
  then have "d_token x \<in> tokens x" "d_token x = d_token y \<Longrightarrow> d_token x \<in> tokens y" by (simp_all add: tokens_def)
  with xy show "a = b" using devs_okD(3,4) [OF ok] by blast
next
  fix p sid e
  assume "sv_oidc s = Some p \<and> gm_get (op_sessions p) sid = Some e"
  with api_machine.reach_inv [OF assms] show "en_approved e \<longleftrightarrow> en_result e \<noteq> None"
    by (auto simp: api_inv_def sessions_ok_def session_ok_def)
qed

theorem api_invariant_witness:
  "\<not> (gm_get (st_devices demo0) ''a'' = Some demo_dev1 \<and> gm_get (st_devices demo0) ''b'' = Some demo_dev1)"
proof -
  have "api_init demo_deps \<lparr>sv_store = demo0, sv_open = False, sv_oidc = None\<rparr>"
    by (simp add: api_init_def demo0_boot)
  from api_invariant [OF start this]
  have "\<forall>a b x y. gm_get (st_devices demo0) a = Some x \<and> gm_get (st_devices demo0) b = Some y \<and> d_ip x = d_ip y \<longrightarrow> a = b"
    unfolding server.select_convs by blast
  then show ?thesis using list.inject char.inject by fastforce
qed

section \<open>The network map\<close>

lemma set_devices:
  "gm_ok (st_devices st) \<Longrightarrow> d \<in> set (devices st) \<longleftrightarrow> (\<exists>pub. gm_get (st_devices st) pub = Some d)"
  by (force simp: devices_def)

lemma poll_answer:
  assumes "api_request D (Poll b) c r s = (s', a)" "rs_status a = 200"
  obtains req self tok where "b = Some req"
    "device_by_token (c_gate c) (bearer_token r) (sv_store s) = Some self"
    "rs_body a = PNetMap (build_netmap self (c_now c) tok (store_acl (sv_store s')) (devices (sv_store s')))"
proof -
  obtain self where self: "device_by_token (c_gate c) (bearer_token r) (sv_store s) = Some self"
    using assms by (cases "device_by_token (c_gate c) (bearer_token r) (sv_store s)")
      (auto simp: on_server_def require_device_def write_error_def write_json_def)
  with assms that show thesis
    by (cases b)
      (auto simp: on_server_def require_device_def handle_poll_def write_error_def write_json_def
        split: prod.splits sum.splits)
qed

text \<open>C34: a machine that polls learns exactly the machines the policy lets it see, itself excepted:
  each with its active routes only and its reachability, none with a token; a machine the policy
  hides is absent altogether.\<close>

theorem poll_netmap:
  assumes "store_ok D (sv_store s)" "fresh_ctx c (sv_store s)"
    and "api_request D (Poll b) c r s = (s', a)" "rs_status a = 200"
  shows "\<exists>self nm. device_by_token (c_gate c) (bearer_token r) (sv_store s) = Some self \<and> rs_body a = PNetMap nm \<and>
    (\<forall>p. p \<in> set (nm_peers nm) \<longleftrightarrow> (\<exists>pub d. gm_get (st_devices (sv_store s')) pub = Some d \<and>
       pub \<noteq> d_public_key self \<and> acl_visible (sf_acl (st_s (sv_store s'))) self d \<and> p = peer_view d (c_now c))) \<and>
    (\<forall>d. gm_get (st_devices (sv_store s')) (d_public_key self) = Some d \<longrightarrow> nm_self nm = peer_view d (c_now c))"
proof -
  from assms(3,4) obtain req self tok where b: "b = Some req"
    and self: "device_by_token (c_gate c) (bearer_token r) (sv_store s) = Some self"
    and body: "rs_body a = PNetMap (build_netmap self (c_now c) tok (store_acl (sv_store s')) (devices (sv_store s')))"
    by (rule poll_answer)
  have "store_ok D (sv_store (fst (require_device (handle_poll b) c r (server.truncate s))))"
    using assms(1,2) by (intro store_ok_device keeps_poll) simp_all
  then have "store_ok D (sv_store s')" using assms(3) by (metis api_request.simps(2) fst_conv on_server_store(1))
  then have ok: "devs_ok (sf_cidr (st_s (sv_store s'))) (st_devices (sv_store s'))"
    unfolding store_ok_def using store_reach_good good_devs by blast
  let ?nm = "build_netmap self (c_now c) tok (store_acl (sv_store s')) (devices (sv_store s'))"
  have pub: "d_public_key d = q" if "gm_get (st_devices (sv_store s')) q = Some d" for q d
    using devs_okD(2) [OF ok that] by (simp add: device_ok_def)
  note set = set_devices [OF devs_okD(1) [OF ok]]
  have "p \<in> set (nm_peers ?nm) \<longleftrightarrow> (\<exists>pub d. gm_get (st_devices (sv_store s')) pub = Some d \<and>
       pub \<noteq> d_public_key self \<and> acl_visible (sf_acl (st_s (sv_store s'))) self d \<and> p = peer_view d (c_now c))" for p
    using pub set by (auto simp: netmap_peers store_acl_def)
  moreover have "nm_self ?nm = peer_view d (c_now c)"
    if d: "gm_get (st_devices (sv_store s')) (d_public_key self) = Some d" for d
  proof (rule netmap_self)
    show "d \<in> set (devices (sv_store s'))" using d set by blast
    show "d_public_key d = d_public_key self" using pub [OF d] .
    show "x = d" if "x \<in> set (devices (sv_store s'))" "d_public_key x = d_public_key self" for x
      using that d pub set by auto
  qed
  ultimately show ?thesis using self body by blast
qed

lemma demo_ctx_fresh: "fresh_ctx (demo_ctx t) (sv_store demo_server)"
  using demo3_fresh by (simp add: fresh_ctx_def demo_ctx_def demo_server_def)

lemma demo_store_ok_api: "store_ok demo_deps (sv_store demo_server)"
  using demo_reach(3) demo0_boot unfolding store_ok_def demo_server_def by auto

lemma demo_poll: "rs_status (snd (api_request demo_deps
    (Poll (Some \<lparr>pr_listen_port = 0, pr_endpoints = None, pr_advertised = None\<rparr>)) (demo_ctx 5) demo_request demo_server)) = 200"
proof -
  have "snd (touch_device (demo_env 5 5) ''pk1'' [] None None demo3) = Inr ()"
    by (simp add: touch_device_def demo3_devices saved_result Let_def)
  then obtain st1 where t: "touch_device (demo_env 5 5) ''pk1'' [] None None demo3 = (st1, Inr ())"
    by (metis prod.collapse)
  have "gm_get (st_devices (fst (touch_device (demo_env 5 5) ''pk1'' [] None None demo3))) ''pk1'' =
      Some (demo_dev1\<lparr>d_last_seen := 5\<rparr>)"
    by (simp add: touch_device_def demo3_devices set_device_def Let_def)
  with t have d: "gm_get (st_devices st1) ''pk1'' = Some (demo_dev1\<lparr>d_last_seen := 5\<rparr>)" by simp
  have r: "rotate_token_if_due (demo_env 5 6) ''pk1'' st1 = (st1, Inr [])"
    by (rule rotate_not_due [OF d]) (simp add: demo_dev1_def token_rotate_after_def duration_defs)
  have "device_by_token 5 ''omtok-03'' demo3 = Some demo_dev1"
    by (simp add: device_by_token_def demo3_devices token_matches_def demo_dev1_def)
  moreover have "d_public_key demo_dev1 = ''pk1''" by (simp add: demo_dev1_def)
  ultimately show ?thesis using t r
    by (simp add: require_device_def handle_poll_def demo_server_def demo_ctx_def demo_request_def bearer_token_def
        compute observed_endpoint_def write_json_def)
qed

theorem poll_netmap_witness:
  "\<exists>nm. rs_body (snd (api_request demo_deps (Poll (Some \<lparr>pr_listen_port = 0, pr_endpoints = None, pr_advertised = None\<rparr>))
      (demo_ctx 5) demo_request demo_server)) = PNetMap nm"
proof -
  have "fresh_ctx (demo_ctx 5) (sv_store demo_server)"
    by (rule demo_ctx_fresh)
  from poll_netmap [OF demo_store_ok_api this surjective_pairing demo_poll] show ?thesis by blast
qed

section \<open>The portal\<close>

text \<open>C35: the portal is confined to its user: his profile lists exactly the machines whose owner is his
  address, and no portal request of his removes or changes a machine of anybody else.\<close>

theorem portal_isolation:
  assumes "store_ok D (sv_store s)" "access_of call = PortalOnly" "user_auth c r (server.truncate s) = Some u"
  shows "(\<forall>pub d. gm_get (st_devices (sv_store s)) pub = Some d \<and> d_owner d \<noteq> u_email u \<longrightarrow>
      gm_get (st_devices (sv_store (fst (api_request D call c r s)))) pub = Some d) \<and>
    (call = UserMe \<longrightarrow> (\<exists>ms. rs_body (snd (api_request D call c r s)) = PProfile \<lparr>up_email = u_email u, up_machines = ms\<rparr> \<and>
      (\<forall>m. m \<in> set ms \<longleftrightarrow> (\<exists>pub d. gm_get (st_devices (sv_store s)) pub = Some d \<and> d_owner d = u_email u \<and>
        m = peer_view d (c_now c)))))"
proof -
  have ok: "gm_ok (st_devices (sv_store s))"
    using assms(1) store_reach_good good_devs devs_okD(1) unfolding store_ok_def by blast
  have gate: "require_user h c r (server.truncate s) = h c u r (server.truncate s)" for h
    using assms(3) by (rule user_gate.pass)
  from assms(2) consider "call = UserMe" | "call = UserAuthKey" | "call = UserRevoke" by (cases call) auto
  then show ?thesis
  proof cases
    case 1
    then show ?thesis using set_devices [OF ok]
      by (auto simp: gate handle_user_me_def write_json_def)
  next
    case 2
    have "st_devices (fst (create_auth_key_for e owner re ttl st)) = st_devices st" for e owner re ttl st
      by (simp add: create_auth_key_for_def Let_def)
    with 2 show ?thesis
      by (auto simp: gate handle_user_auth_key_def split_beta split: sum.splits)
  next
    case 3
    let ?P = "\<lambda>(pub, d). d_owner d = u_email u \<and> is_target (rq_path r) d"
    have "gm_get (st_devices (fst (remove_owned_device (c_env1 c) (u_email u) (rq_path r) (sv_store s)))) pub = Some d"
      if d: "gm_get (st_devices (sv_store s)) pub = Some d" "d_owner d \<noteq> u_email u" for pub d
    proof (cases "find ?P (st_devices (sv_store s))")
      case (Some x)
      then obtain q y where y: "find ?P (st_devices (sv_store s)) = Some (q, y)" by (cases x) auto
      from gm.find_sound [OF ok y] d have "q \<noteq> pub" by auto
      with y d show ?thesis by (simp add: remove_owned_device_def gm_get_del)
    qed (use d in \<open>simp add: remove_owned_device_def\<close>)
    with 3 show ?thesis by (auto simp: gate handle_user_revoke_def split_beta split: sum.splits)
  qed
qed

definition demo_portal :: sso_server where
  "demo_portal = \<lparr>sv_store = demo6, sv_open = False, sv_oidc = None\<rparr>"

theorem portal_isolation_witness:
  "rs_body (snd (api_request demo_deps UserMe (demo_ctx 6)
      (demo_request\<lparr>rq_cookie := Some ''omsess-06''\<rparr>) demo_portal)) = PProfile \<lparr>up_email = ''a@b'', up_machines = []\<rparr>"
proof -
  have "store_ok demo_deps (sv_store demo_portal)"
    using demo6_reach demo0_boot by (auto simp: store_ok_def demo_portal_def demo_deps_def)
  moreover have "user_auth (demo_ctx 6) (demo_request\<lparr>rq_cookie := Some ''omsess-06''\<rparr>) (server.truncate demo_portal)
      = Some demo_user"
    by (simp add: user_auth_def demo_portal_def demo_ctx_def demo6_session)
  ultimately obtain ms where
    "rs_body (snd (api_request demo_deps UserMe (demo_ctx 6) (demo_request\<lparr>rq_cookie := Some ''omsess-06''\<rparr>) demo_portal))
      = PProfile \<lparr>up_email = ''a@b'', up_machines = ms\<rparr>"
    "\<forall>m. m \<in> set ms \<longleftrightarrow> (\<exists>pub d. gm_get (st_devices (sv_store demo_portal)) pub = Some d \<and>
       d_owner d = ''a@b'' \<and> m = peer_view d 6)"
    using portal_isolation [of demo_deps demo_portal UserMe "demo_ctx 6" "demo_request\<lparr>rq_cookie := Some ''omsess-06''\<rparr>"
        demo_user]
    by (auto simp: demo_user_def demo_ctx_def)
  moreover have "ms = []" using calculation(2) by (simp add: demo_portal_def demo6_state)
  ultimately show ?thesis by simp
qed

section \<open>Enrolment through an identity provider\<close>

text \<open>The access control, on addresses with one \<open>@\<close>.\<close>

lemma domain_suffix:
  assumes "CHR ''@'' \<notin> set dm" "CHR ''@'' \<notin> set host"
  shows "has_suffix (''@'' @ dm) (local @ ''@'' @ host) \<longleftrightarrow> host = dm"
proof
  assume "has_suffix (''@'' @ dm) (local @ ''@'' @ host)"
  then obtain t where t: "local @ CHR ''@'' # host = t @ CHR ''@'' # dm" by (auto simp: has_suffix_iff)
  then have "cut_last CHR ''@'' (local @ CHR ''@'' # host) = cut_last CHR ''@'' (t @ CHR ''@'' # dm)" by simp
  then show "host = dm" using assms by (simp add: cut_last_append)
qed (auto simp: has_suffix_iff)

text \<open>With a list of addresses only those may enrol, whatever the domain; without one, a domain
  lets in exactly the addresses whose part after the last @ is that domain, compared without case, so
  a domain that merely ends in the same letters is refused.\<close>

theorem email_filter:
  assumes "list_all is_ascii email" "list_all is_ascii (oc_allowed_domain cfg)" "CHR ''@'' \<notin> set (oc_allowed_domain cfg)"
    and "email = local @ ''@'' @ host" "CHR ''@'' \<notin> set host"
  shows "email_allowed ul cfg email \<longleftrightarrow>
    (if oc_allowed_emails cfg \<noteq> [] then \<exists>e \<in> set (oc_allowed_emails cfg). to_lower ul (trim_space e) = map lower_char email
     else oc_allowed_domain cfg = [] \<or> map lower_char host = map lower_char (oc_allowed_domain cfg))"
proof -
  have at: "lower_char c = CHR ''@'' \<longleftrightarrow> c = CHR ''@''" for c
  proof -
    have "lower_char c = CHR ''@'' \<longleftrightarrow> (of_char (lower_char c) :: nat) = of_char CHR ''@''"
      by (simp only: of_char_eq_iff)
    also have "\<dots> \<longleftrightarrow> (of_char c :: nat) = of_char CHR ''@''" unfolding of_lower_char by auto
    finally show ?thesis by (simp only: of_char_eq_iff)
  qed
  have "CHR ''@'' \<notin> set (map lower_char t)" if "CHR ''@'' \<notin> set t" for t
  proof
    assume "CHR ''@'' \<in> set (map lower_char t)"
    then obtain c where "c \<in> set t" "lower_char c = CHR ''@''" by auto
    with at [of c] that show False by simp
  qed
  then have "CHR ''@'' \<notin> set (map lower_char (oc_allowed_domain cfg))" "CHR ''@'' \<notin> set (map lower_char host)"
    using assms(3,5) by blast+
  moreover have "to_lower ul email = map lower_char local @ ''@'' @ map lower_char host"
    using assms(1,4) by (simp add: to_lower_ascii lower_char_def)
  ultimately show ?thesis
    using assms(1,2,4) domain_suffix [of "map lower_char (oc_allowed_domain cfg)" "map lower_char host" "map lower_char local"]
    by (auto simp: email_allowed_def Let_def list_ex_iff to_lower_ascii lower_char_def)
qed

theorem email_filter_witness:
  "email_allowed (\<lambda>x. x) ((op_cfg demo_provider)\<lparr>oc_allowed_domain := ''X.fr''\<rparr>) ''eve@evilx.fr'' = False"
proof -
  have l: "map lower_char ''evilx.fr'' = ''evilx.fr''" "map lower_char ''X.fr'' = ''x.fr''"
    "list_all is_ascii ''eve@evilx.fr''" "list_all is_ascii ''X.fr''"
    by code_simp+
  let ?cfg = "(op_cfg demo_provider)\<lparr>oc_allowed_domain := ''X.fr''\<rparr>"
  have c: "oc_allowed_domain ?cfg = ''X.fr''" "oc_allowed_emails ?cfg = []"
    by (simp_all add: demo_provider_def)
  have at: "CHR ''@'' \<notin> set ''X.fr''" "CHR ''@'' \<notin> set ''evilx.fr''" "''eve@evilx.fr'' = ''eve'' @ ''@'' @ ''evilx.fr''"
    by simp_all
  have "email_allowed (\<lambda>x. x) ?cfg ''eve@evilx.fr'' \<longleftrightarrow> (''X.fr'' = [] \<or> map lower_char ''evilx.fr'' = map lower_char ''X.fr'')"
    using email_filter [of "''eve@evilx.fr''" ?cfg, unfolded c, OF l(3) l(4) at(1) at(3) at(2), where ul = "\<lambda>x. x"]
    by (simp only: simp_thms if_False)
  then show ?thesis unfolding l by simp
qed

lemma identify_allowed: "identify ul idp cfg code = Inr email \<Longrightarrow> email_allowed ul cfg email \<and> email \<noteq> []"
  by (auto simp: identify_def split: option.splits if_splits)

lemma callback_store:
  "sv_store (fst (callback_finish ul idp c r sess s)) = sv_store s \<or>
   (\<exists>p email. sv_oidc s = Some p \<and> identify ul idp (op_cfg p) (rq_query r ''code'') = Inr email \<and>
     sv_store (fst (callback_finish ul idp c r sess s)) =
       fst (register_device_sso (c_env1 c) (en_hostname (snd sess)) (en_public_key (snd sess)) email (sv_store s)))"
  by (cases "sv_oidc s"; cases "identify ul idp (op_cfg (the (sv_oidc s))) (rq_query r ''code'')")
    (auto simp: callback_finish_def split_beta split: sum.split)

text \<open>C36: a callback changes the store only for a pending session that has not expired, only when the
  provider vouches for an e-mail that the access control admits, and then exactly by registering the
  machine of that session in the name of that e-mail.\<close>

theorem sso_enrolment:
  assumes "sv_store (fst (api_request D OidcCallback c r s)) \<noteq> sv_store s"
  shows "\<exists>p sess email. sv_oidc s = Some p \<and> gm_get (op_sessions p) (rq_query r ''state'') = Some sess \<and>
    \<not> en_approved sess \<and> c_now c - en_created sess \<le> enroll_ttl \<and>
    identify (dp_lower D) (dp_idp D) (op_cfg p) (rq_query r ''code'') = Inr email \<and>
    email_allowed (dp_lower D) (op_cfg p) email \<and>
    sv_store (fst (api_request D OidcCallback c r s)) =
      fst (register_device_sso (c_env1 c) (en_hostname sess) (en_public_key sess) email (sv_store s))"
proof -
  from assms obtain p where p: "sv_oidc s = Some p" by (auto simp: handle_oidc_callback_def split: option.splits)
  with assms obtain sess where b: "callback_begin c r s = Some (rq_query r ''state'', sess)"
    by (auto simp: handle_oidc_callback_def callback_begin_def split: option.splits)
  then have sess: "gm_get (op_sessions p) (rq_query r ''state'') = Some sess" "enroll_live (c_now c) sess"
      "\<not> en_approved sess"
    using p by (auto simp: callback_begin_def enroll_pending_def split: option.splits if_splits)
  have live: "c_now c - en_created sess \<le> enroll_ttl"
    using sess(2) time_sub_greater [of enroll_ttl "c_now c" "en_created sess"]
    by (auto simp: enroll_live_def enroll_ttl_def duration_defs not_less [symmetric])
  have f: "fst (api_request D OidcCallback c r s) =
      fst (callback_finish (dp_lower D) (dp_idp D) c r (rq_query r ''state'', sess) s)"
    using p b by (simp add: handle_oidc_callback_def)
  with callback_store [of "dp_lower D" "dp_idp D" c r "(rq_query r ''state'', sess)" s] assms p obtain email where
    e: "identify (dp_lower D) (dp_idp D) (op_cfg p) (rq_query r ''code'') = Inr email"
    "sv_store (fst (api_request D OidcCallback c r s)) =
      fst (register_device_sso (c_env1 c) (en_hostname sess) (en_public_key sess) email (sv_store s))" by auto
  with identify_allowed [OF e(1)] p sess live show ?thesis by blast
qed

definition demo_callback :: "string \<Rightarrow> http_request" where
  "demo_callback code = demo_request\<lparr>rq_query := (\<lambda>k. if k = ''state'' then ''s1'' else code)\<rparr>"

lemma demo_identify: "identify (dp_lower demo_deps) (dp_idp demo_deps) (op_cfg demo_provider) ''c@d'' = Inr ''c@d''"
  "identify (dp_lower demo_deps) (dp_idp demo_deps) (op_cfg demo_provider) ''bad'' = Inl (502, ExchangeFailed)"
  by (simp_all add: identify_def demo_deps_def demo_idp_def email_allowed_def demo_provider_def)

lemma demo_register:
  "\<exists>st d. register_device_sso (demo_env 5 5) ''h3'' ''pk3'' ''c@d'' demo3 = (st, Inr d) \<and> d_owner d = ''c@d'' \<and>
     st_devices st = [(''pk1'', demo_dev1), (''pk2'', demo_dev2), (''pk3'', d)]"
proof -
  have "allocate_ip (st_s demo3) = Inr ''10.0.0.3''"
    by (simp add: allocate_ip_def demo_cidr compute demo3_devices used_ips_def demo_dev1_def demo_dev2_def
        alloc_loop.simps contains_next_def)
  then obtain d where d: "create_device (demo_env 5 5) ''h3'' ''pk3'' ''c@d'' demo3 =
      Inr (set_device ''pk3'' d demo3, d)" "d_owner d = ''c@d''"
    by (simp add: create_device_def Let_def set_device_def)
  then have "register_device_sso (demo_env 5 5) ''h3'' ''pk3'' ''c@d'' demo3 =
      saved (demo_env 5 5) (set_device ''pk3'' d demo3) d"
    by (simp add: register_device_sso_def demo3_devices)
  moreover have "saved (demo_env 5 5) st d = (fst (saved (demo_env 5 5) st d), Inr d)" for st
    by (simp add: saved_def split_beta save_locked_ok)
  moreover have "st_devices (fst (saved (demo_env 5 5) (set_device ''pk3'' d demo3) d)) =
      [(''pk1'', demo_dev1), (''pk2'', demo_dev2), (''pk3'', d)]"
    by (simp add: set_device_def demo3_devices)
  ultimately show ?thesis using d(2) by metis
qed

lemma demo_begin: "callback_begin (demo_ctx 5) (demo_callback code) demo_server = Some (''s1'', demo_session)"
  by (simp add: callback_begin_def demo_server_def demo_callback_def enroll_pending_def demo_provider_def
      enroll_live_def demo_ctx_def demo_session_def enroll_ttl_def duration_defs time_sub_def)

theorem sso_enrolment_witness:
  "sv_store (fst (api_request demo_deps OidcCallback (demo_ctx 5) (demo_callback ''c@d'') demo_server)) =
     fst (register_device_sso (demo_env 5 5) ''h3'' ''pk3'' ''c@d'' demo3)"
proof -
  obtain st d where r: "register_device_sso (demo_env 5 5) ''h3'' ''pk3'' ''c@d'' demo3 = (st, Inr d)"
    "st_devices st = [(''pk1'', demo_dev1), (''pk2'', demo_dev2), (''pk3'', d)]" using demo_register by blast
  have o: "sv_oidc demo_server = Some demo_provider" "sv_store demo_server = demo3" by (simp_all add: demo_server_def)
  have q: "rq_query (demo_callback ''c@d'') ''code'' = ''c@d''" by (simp add: demo_callback_def)
  have "sv_store (fst (api_request demo_deps OidcCallback (demo_ctx 5) (demo_callback ''c@d'') demo_server)) = st"
    using r demo_identify(1) demo_begin
    by (simp add: handle_oidc_callback_def o callback_finish_def q demo_ctx_def demo_session_def)
  moreover have "st \<noteq> demo3" using r(2) demo3_devices by auto
  ultimately have ne: "sv_store (fst (api_request demo_deps OidcCallback (demo_ctx 5) (demo_callback ''c@d'') demo_server))
      \<noteq> sv_store demo_server" using o by simp
  from sso_enrolment [OF ne] obtain sess email where
    "gm_get (op_sessions demo_provider) ''s1'' = Some sess"
    "identify (dp_lower demo_deps) (dp_idp demo_deps) (op_cfg demo_provider) ''c@d'' = Inr email"
    "sv_store (fst (api_request demo_deps OidcCallback (demo_ctx 5) (demo_callback ''c@d'') demo_server)) =
      fst (register_device_sso (demo_env 5 5) (en_hostname sess) (en_public_key sess) email demo3)"
    unfolding o q by (auto simp: demo_callback_def demo_ctx_def)
  then show ?thesis unfolding demo_identify(1) by (auto simp: demo_provider_def demo_session_def)
qed

text \<open>What a successful callback leaves in its session.\<close>

lemma callback_success:
  assumes "api_request D OidcCallback c r s = (s', a)" "rs_status a = 200"
  obtains p e email d p' where "sv_oidc s = Some p" "gm_get (op_sessions p) (rq_query r ''state'') = Some e"
    "sv_oidc s' = Some p'" "gm_get (op_sessions p') (rq_query r ''state'') =
      Some (e\<lparr>en_approved := True, en_owner := email, en_result := Some
        \<lparr>ra_device_id = d_id d, ra_device_token = d_token d, ra_ip = d_ip d, ra_cidr = store_cidr (sv_store s')\<rparr>\<rparr>)"
    "register_device_sso (c_env1 c) (en_hostname e) (en_public_key e) email (sv_store s) = (sv_store s', Inr d)"
proof -
  have ok: "rs_status a \<noteq> 404 \<and> rs_status a \<noteq> 500" using assms(2) by simp
  with assms(1) obtain p where p: "sv_oidc s = Some p"
    by (auto simp: handle_oidc_callback_def write_json_def split: option.splits)
  with assms(1) ok obtain sess where b: "callback_begin c r s = Some (rq_query r ''state'', sess)"
    by (auto simp: handle_oidc_callback_def callback_begin_def write_error_def write_json_def split: option.splits)
  then have sess: "gm_get (op_sessions p) (rq_query r ''state'') = Some sess"
    using p by (auto simp: callback_begin_def enroll_pending_def split: option.splits if_splits)
  have f: "callback_finish (dp_lower D) (dp_idp D) c r (rq_query r ''state'', sess) s = (s', a)"
    using assms(1) p b by (simp add: handle_oidc_callback_def)
  obtain email where i: "identify (dp_lower D) (dp_idp D) (op_cfg p) (rq_query r ''code'') = Inr email"
  proof (cases "identify (dp_lower D) (dp_idp D) (op_cfg p) (rq_query r ''code'')")
    case (Inl x)
    then have "fst x \<in> {502, 403}" by (auto simp: identify_def split: option.splits if_splits)
    moreover have "rs_status a = fst x"
      using f p Inl by (cases x) (auto simp: callback_finish_def write_error_def write_json_def)
    ultimately show ?thesis using assms(2) by auto
  qed
  obtain st res where r: "register_device_sso (c_env1 c) (en_hostname sess) (en_public_key sess) email (sv_store s) = (st, res)"
    by fastforce
  obtain d where d: "res = Inr d"
    using f p i r ok by (cases res) (auto simp: callback_finish_def write_error_def write_json_def)
  have "s' = write_session (rq_query r ''state'') (\<lambda>e. e\<lparr>en_approved := True, en_owner := email,
      en_result := Some \<lparr>ra_device_id = d_id d, ra_device_token = d_token d, ra_ip = d_ip d, ra_cidr = store_cidr st\<rparr>\<rparr>)
      (s\<lparr>sv_store := st\<rparr>)"
    using f p i r d by (simp add: callback_finish_def)
  with p sess r d that show thesis
    by (auto simp: write_session_def put_session_def gm_get_put)
qed

text \<open>An enrolment session is approved once: after a successful callback every further callback
  for the same session, by anyone, is answered 404 and changes nothing, and the agent that waits on
  the session gets the registered machine's identity.\<close>

theorem sso_once:
  assumes "api_request D OidcCallback c r s = (s', a)" "rs_status a = 200" "rq_query r' ''state'' = rq_query r ''state''"
  shows "api_request D OidcCallback c' r' s' = (s', write_error 404 EnrollUnknown)"
proof -
  obtain p e email d p' where "sv_oidc s = Some p" "gm_get (op_sessions p) (rq_query r ''state'') = Some e"
    "sv_oidc s' = Some p'" "gm_get (op_sessions p') (rq_query r ''state'') =
      Some (e\<lparr>en_approved := True, en_owner := email, en_result := Some
        \<lparr>ra_device_id = d_id d, ra_device_token = d_token d, ra_ip = d_ip d, ra_cidr = store_cidr (sv_store s')\<rparr>\<rparr>)"
    "register_device_sso (c_env1 c) (en_hostname e) (en_public_key e) email (sv_store s) = (sv_store s', Inr d)"
    using assms(1,2) by (rule callback_success)
  then show ?thesis using assms(3)
    by (simp add: handle_oidc_callback_def callback_begin_def enroll_pending_def)
qed

lemma demo_callback_ok:
  "\<exists>s' a. api_request demo_deps OidcCallback (demo_ctx 5) (demo_callback ''c@d'') demo_server = (s', a) \<and> rs_status a = 200"
proof -
  obtain st d where r: "register_device_sso (demo_env 5 5) ''h3'' ''pk3'' ''c@d'' demo3 = (st, Inr d)"
    using demo_register by blast
  have o: "sv_oidc demo_server = Some demo_provider" "sv_store demo_server = demo3" by (simp_all add: demo_server_def)
  have q: "rq_query (demo_callback ''c@d'') ''code'' = ''c@d''" by (simp add: demo_callback_def)
  show ?thesis
    using r demo_identify(1) demo_begin
    by (simp add: handle_oidc_callback_def o callback_finish_def q demo_ctx_def demo_session_def write_json_def)
qed

theorem sso_once_witness:
  "\<exists>s'. api_request demo_deps OidcCallback (demo_ctx 7) (demo_callback ''x@y'') s' = (s', write_error 404 EnrollUnknown)"
proof -
  obtain s' a where sa: "api_request demo_deps OidcCallback (demo_ctx 5) (demo_callback ''c@d'') demo_server = (s', a)"
    "rs_status a = 200" using demo_callback_ok by blast
  have "rq_query (demo_callback ''x@y'') ''state'' = rq_query (demo_callback ''c@d'') ''state''"
    by (simp add: demo_callback_def)
  from sso_once [OF sa this] show ?thesis by blast
qed

lemma register_sso_present:
  assumes "register_device_sso e host pub owner st = (st', Inr d)"
  shows "gm_get (st_devices st') pub = Some d"
proof (cases "gm_get (st_devices st) pub")
  case (Some x)
  with assms show ?thesis
    by (auto simp: register_device_sso_def Let_def saved_def split_beta set_device_def gm_get_put split: if_splits)
next
  case None
  show ?thesis
  proof (cases "create_device e host pub owner st")
    case (Inr y)
    then obtain st1 d1 where c: "create_device e host pub owner st = Inr (st1, d1)" by (cases y) auto
    with None assms have "(st', Inr d) = saved e st1 d1" by (simp add: register_device_sso_def)
    then have "st_s st' = st_s st1" "d = d1" by (auto simp: saved_def split_beta split: if_splits)
    with create_device_form(1) [OF c] show ?thesis by (simp add: set_device_def gm_get_put)
  qed (use None assms in \<open>simp add: register_device_sso_def\<close>)
qed

text \<open>A failed attempt sticks: when a callback has failed (a refused account, say) and a later one
  for the same session succeeds, the machine is registered and the session approved, but the waiting
  agent is still answered 403 with the old failure, and never receives its token.\<close>

theorem sso_failure_sticks:
  assumes "api_request D OidcCallback c r s = (s', a)" "rs_status a = 200" "sv_oidc s = Some p"
    and "gm_get (op_sessions p) (rq_query r ''state'') = Some e" "en_failure e = Some f"
    and "rq_query r' ''session'' = rq_query r ''state''" "c_now c' - en_created e \<le> enroll_ttl"
  shows "snd (api_request D EnrollWait c' r' s') = write_error 403 (EnrollFailed f) \<and>
    (\<exists>d. gm_get (st_devices (sv_store s')) (en_public_key e) = Some d)"
proof -
  obtain p0 e0 email d p' where *: "sv_oidc s = Some p0" "gm_get (op_sessions p0) (rq_query r ''state'') = Some e0"
    "sv_oidc s' = Some p'" "gm_get (op_sessions p') (rq_query r ''state'') =
      Some (e0\<lparr>en_approved := True, en_owner := email, en_result := Some
        \<lparr>ra_device_id = d_id d, ra_device_token = d_token d, ra_ip = d_ip d, ra_cidr = store_cidr (sv_store s')\<rparr>\<rparr>)"
    "register_device_sso (c_env1 c) (en_hostname e0) (en_public_key e0) email (sv_store s) = (sv_store s', Inr d)"
    using assms(1,2) by (rule callback_success)
  then have e: "e0 = e" using assms(3,4) by simp
  have "enroll_live (c_now c') e"
    using assms(7) time_sub_greater [of enroll_ttl "c_now c'" "en_created e"]
    by (auto simp: enroll_live_def enroll_ttl_def duration_defs not_less [symmetric])
  then have "snd (api_request D EnrollWait c' r' s') = write_error 403 (EnrollFailed f)"
    using * e assms(5,6) by (simp add: handle_enroll_wait_def enroll_live_def)
  moreover have "\<exists>d. gm_get (st_devices (sv_store s')) (en_public_key e) = Some d"
    using register_sso_present [OF *(5)] e by blast
  ultimately show ?thesis by blast
qed

definition demo_failed :: sso_server where
  "demo_failed = demo_server\<lparr>sv_oidc := Some (put_session ''s1'' (demo_session\<lparr>en_failure := Some EmailRefused\<rparr>)
     demo_provider)\<rparr>"

theorem sso_failure_sticks_witness:
  "\<exists>s'. snd (api_request demo_deps EnrollWait (demo_ctx 6)
      (demo_request\<lparr>rq_query := (\<lambda>_. ''s1'')\<rparr>) s') = write_error 403 (EnrollFailed EmailRefused) \<and>
    (\<exists>d. gm_get (st_devices (sv_store s')) ''pk3'' = Some d)"
proof -
  let ?e = "demo_session\<lparr>en_failure := Some EmailRefused\<rparr>"
  obtain st d where r: "register_device_sso (demo_env 5 5) ''h3'' ''pk3'' ''c@d'' demo3 = (st, Inr d)"
    using demo_register by blast
  obtain p where p: "sv_oidc demo_failed = Some p" "op_cfg p = op_cfg demo_provider" "gm_get (op_sessions p) ''s1'' = Some ?e"
    by (simp add: demo_failed_def put_session_def gm_get_put)
  have o: "sv_store demo_failed = demo3" by (simp add: demo_failed_def demo_server_def)
  have q: "rq_query (demo_callback ''c@d'') ''code'' = ''c@d''" "rq_query (demo_callback ''c@d'') ''state'' = ''s1''"
    by (simp_all add: demo_callback_def)
  have b: "callback_begin (demo_ctx 5) (demo_callback ''c@d'') demo_failed = Some (''s1'', ?e)"
    using p by (simp add: callback_begin_def q enroll_pending_def enroll_live_def demo_ctx_def demo_session_def
        enroll_ttl_def duration_defs time_sub_def)
  obtain s' a where sa: "api_request demo_deps OidcCallback (demo_ctx 5) (demo_callback ''c@d'') demo_failed = (s', a)"
    "rs_status a = 200"
    using r demo_identify(1) b p
    by (simp add: handle_oidc_callback_def callback_finish_def o q demo_ctx_def demo_session_def write_json_def)
  have "gm_get (op_sessions p) (rq_query (demo_callback ''c@d'') ''state'') = Some ?e" using p q by simp
  from sso_failure_sticks [OF sa p(1) this, of EmailRefused "demo_request\<lparr>rq_query := (\<lambda>_. ''s1'')\<rparr>" "demo_ctx 6"]
  show ?thesis
    by (auto simp: q demo_session_def demo_ctx_def enroll_ttl_def duration_defs)
qed

end
