(* ===== verification/Bytes.thy ===== *)
theory Bytes
  imports Netip
begin

text \<open>
  Big-endian integers in byte strings (\<open>encoding/binary\<close>), slices with Go's bound checks, and the
  interface of a message codec: what encodes can be decoded, and different messages are told apart.
\<close>

section \<open>Big-endian integers\<close>

fun put_be :: "nat \<Rightarrow> nat \<Rightarrow> bytes" where
  "put_be 0 x = []"
| "put_be (Suc n) x = put_be n (x div 256) @ [word_of_nat (x mod 256)]"

definition get_be :: "bytes \<Rightarrow> nat" where
  "get_be bs = foldl (\<lambda>acc b. 256 * acc + unat b) 0 bs"

lemma length_put_be [simp]: "length (put_be n x) = n"
  by (induction n x rule: put_be.induct) simp_all

lemma get_be_snoc [simp]: "get_be (bs @ [b]) = 256 * get_be bs + unat b" "get_be [] = 0"
  by (simp_all add: get_be_def)

lemma unat_of_byte: "unat (word_of_nat n :: byte) = n mod 256"
  by (simp add: unat_of_nat)

lemma get_put_be: "get_be (put_be n x) = x mod 256 ^ n"
proof (induction n x rule: put_be.induct)
  case (2 n x)
  have "x mod 256 ^ Suc n = 256 * (x div 256 mod 256 ^ n) + x mod 256"
    by (simp add: mod_mult2_eq)
  with 2 show ?case by (simp add: unat_of_byte)
qed simp

lemma put_get_be: "put_be (length bs) (get_be bs) = bs"
proof (induction bs rule: rev_induct)
  case (snoc b bs)
  have "unat b < 256" using unat_bound [of b] by simp
  with snoc show ?case by simp
qed simp

lemma get_be_bound: "get_be bs < 256 ^ length bs"
proof (induction bs rule: rev_induct)
  case (snoc b bs)
  have "unat b < 256" using unat_bound [of b] by simp
  with snoc show ?case by simp
qed simp

lemma get_put_16: "word_of_nat (get_be (put_be 2 (unat (w :: 16 word)))) = w"
  and get_put_32: "word_of_nat (get_be (put_be 4 (unat (v :: 32 word)))) = v"
  and get_put_128: "word_of_nat (get_be (put_be 16 (unat (u :: 128 word)))) = u"
  using unat_bound [of w] unat_bound [of v] unat_bound [of u] by (simp_all add: get_put_be)

lemma put_be_inj: "x < 256 ^ n \<Longrightarrow> y < 256 ^ n \<Longrightarrow> put_be n x = put_be n y \<longleftrightarrow> x = y"
  by (metis get_put_be mod_less)

section \<open>Slices\<close>

definition slice :: "nat \<Rightarrow> nat \<Rightarrow> 'a list \<Rightarrow> 'a list" where
  "slice a b xs = take (b - a) (drop a xs)"

lemma length_slice [simp]: "b \<le> length xs \<Longrightarrow> length (slice a b xs) = b - a"
  by (simp add: slice_def)

lemma slice_append1 [simp]: "b \<le> length xs \<Longrightarrow> slice a b (xs @ ys) = slice a b xs"
  by (simp add: slice_def)

lemma slice_append2: "length xs \<le> a \<Longrightarrow> slice a b (xs @ ys) = slice (a - length xs) (b - length xs) ys"
  by (simp add: slice_def)

lemma slice_all [simp]: "b = length xs \<Longrightarrow> slice 0 b xs = xs"
  by (simp add: slice_def)

text \<open>XOR with a repeated or long enough key, byte by byte.\<close>

definition xor_bytes :: "bytes \<Rightarrow> bytes \<Rightarrow> bytes" where
  "xor_bytes bs key = map2 (XOR) bs key"

lemma xor_xor_bytes: "length bs \<le> length key \<Longrightarrow> xor_bytes (xor_bytes bs key) key = bs"
proof (induction bs arbitrary: key)
  case (Cons b bs)
  then show ?case by (cases key) (auto simp: xor_bytes_def xor.assoc)
qed (simp add: xor_bytes_def)

lemma length_xor_bytes [simp]: "length bs \<le> length key \<Longrightarrow> length (xor_bytes bs key) = length bs"
  by (simp add: xor_bytes_def)

section \<open>Codecs\<close>

text \<open>What the users of a message format rely on: decoding what was encoded gives it back.\<close>

locale codec =
  fixes enc :: "'m \<Rightarrow> bytes"
    and dec :: "bytes \<Rightarrow> 'm option"
    and wf :: "'m \<Rightarrow> bool"
  assumes dec_enc: "wf m \<Longrightarrow> dec (enc m) = Some m"
begin

lemma enc_inj: "wf m \<Longrightarrow> wf m' \<Longrightarrow> enc m = enc m' \<Longrightarrow> m = m'"
  by (metis dec_enc option.inject)

lemma enc_accepted: "wf m \<Longrightarrow> dec (enc m) \<noteq> None"
  by (simp add: dec_enc)

end

text \<open>A tagged format: every message starts with a tag of its own, so two formats never mix.\<close>

locale tagged_codec = codec +
  fixes tag :: byte
  assumes starts: "wf m \<Longrightarrow> enc m \<noteq> [] \<and> hd (enc m) = tag"
    and only: "dec b \<noteq> None \<Longrightarrow> b \<noteq> [] \<and> hd b = tag"
begin

lemma foreign_rejected: "hd b \<noteq> tag \<Longrightarrow> dec b = None"
  using only by (cases "dec b") auto

end

end
