(* ===== verification/Base64.thy ===== *)
theory Base64
  imports Bytes
begin

text \<open>
  \<open>base64.StdEncoding\<close> as the relay uses it: keys in text. The decoder ignores carriage returns and line
  feeds, requires the padding and does not look at the unused bits before it.
\<close>

section \<open>Digits\<close>

definition b64_alphabet :: string where
  "b64_alphabet = ''ABCDEFGHIJKLMNOPQRSTUVWXYZabcdefghijklmnopqrstuvwxyz0123456789+/''"

definition b64_char :: "nat \<Rightarrow> char" where
  "b64_char v = b64_alphabet ! v"

fun index_of :: "'a \<Rightarrow> 'a list \<Rightarrow> nat option" where
  "index_of x [] = None"
| "index_of x (y # ys) = (if x = y then Some 0 else map_option Suc (index_of x ys))"

definition b64_val :: "char \<Rightarrow> nat option" where
  "b64_val c = index_of c b64_alphabet"

text \<open>Four digits hold three bytes.\<close>

definition b64_digits :: "nat \<Rightarrow> string" where
  "b64_digits n = map b64_char [n div 262144 mod 64, n div 4096 mod 64, n div 64 mod 64, n mod 64]"

fun b64_encode :: "bytes \<Rightarrow> string" where
  "b64_encode [] = []"
| "b64_encode [a] = take 2 (b64_digits (get_be [a, 0, 0])) @ ''==''"
| "b64_encode [a, b] = take 3 (b64_digits (get_be [a, b, 0])) @ ''=''"
| "b64_encode (a # b # c # bs) = b64_digits (get_be [a, b, c]) @ b64_encode bs"

definition b64_quad :: "char \<Rightarrow> char \<Rightarrow> char \<Rightarrow> char \<Rightarrow> bytes option" where
  "b64_quad w x y z =
     (case (b64_val w, b64_val x, b64_val y, b64_val z) of
        (Some i, Some j, Some k, Some l) \<Rightarrow> Some (put_be 3 (262144 * i + 4096 * j + 64 * k + l))
      | _ \<Rightarrow> None)"

fun b64_quads :: "string \<Rightarrow> bytes option" where
  "b64_quads [] = Some []"
| "b64_quads (w # x # y # z # cs) =
     (if z = CHR ''='' \<and> cs = [] then
        (if y = CHR ''='' then map_option (take 1) (b64_quad w x (CHR ''A'') (CHR ''A''))
         else map_option (take 2) (b64_quad w x y (CHR ''A'')))
      else case (b64_quad w x y z, b64_quads cs) of
        (Some a, Some b) \<Rightarrow> Some (a @ b)
      | _ \<Rightarrow> None)"
| "b64_quads cs = None"

definition is_newline :: "char \<Rightarrow> bool" where
  "is_newline c \<longleftrightarrow> of_char c = (10 :: nat) \<or> of_char c = (13 :: nat)"

definition b64_decode :: "string \<Rightarrow> bytes option" where
  "b64_decode s = b64_quads (filter (\<lambda>c. \<not> is_newline c) s)"

section \<open>Decoding what was encoded\<close>

lemma b64_table: "list_all (\<lambda>v. b64_val (b64_char v) = Some v \<and> b64_char v \<noteq> CHR ''='' \<and> \<not> is_newline (b64_char v)) [0..<64]"
  by code_simp

lemma b64_val_char [simp]: "v < 64 \<Longrightarrow> b64_val (b64_char v) = Some v"
  and b64_char_pad: "v < 64 \<Longrightarrow> b64_char v \<noteq> CHR ''=''"
  and b64_char_text: "v < 64 \<Longrightarrow> \<not> is_newline (b64_char v)"
  using b64_table by (auto simp: list_all_iff)

lemma b64_A: "CHR ''A'' = b64_char 0"
  by (simp add: b64_char_def b64_alphabet_def)

lemma radix_sum: "q2 = 64 * q3 + r2 \<Longrightarrow> q1 = 64 * q2 + r1 \<Longrightarrow> n = 64 * q1 + r0 \<Longrightarrow>
    262144 * q3 + 4096 * r2 + 64 * r1 + r0 = (n :: nat)"
  by simp

lemma radix64:
  assumes "(n :: nat) < 16777216"
  shows "262144 * (n div 262144 mod 64) + 4096 * (n div 4096 mod 64) + 64 * (n div 64 mod 64) + n mod 64 = n"
proof -
  have "n div 262144 < 64" using assms by (simp add: less_mult_imp_div_less)
  then have m: "n div 262144 mod 64 = n div 262144" by (rule mod_less)
  have "n div 4096 = 64 * (n div 262144) + n div 4096 mod 64" "n div 64 = 64 * (n div 4096) + n div 64 mod 64"
    using mult_div_mod_eq [of 64 "n div 4096"] mult_div_mod_eq [of 64 "n div 64"]
    by (simp_all flip: div_mult2_eq)
  then show ?thesis unfolding m by (rule radix_sum) (simp only: mult_div_mod_eq)
qed

lemma get_be_3: "get_be [a, b, c] < 16777216"
  using get_be_bound [of "[a, b, c]"] by simp

lemma b64_quad_digits:
  assumes "b64_digits (get_be [a, b, c]) = [w, x, y, z]"
  shows "b64_quad w x y z = Some [a, b, c]"
proof -
  let ?n = "get_be [a, b, c]"
  have "b64_quad w x y z = Some (put_be 3 (262144 * (?n div 262144 mod 64) + 4096 * (?n div 4096 mod 64) +
      64 * (?n div 64 mod 64) + ?n mod 64))"
    using assms by (auto simp: b64_digits_def b64_quad_def)
  moreover have "put_be 3 ?n = [a, b, c]" using put_get_be [of "[a, b, c]"] by (simp add: numeral_3_eq_3)
  ultimately show ?thesis by (simp only: radix64 [OF get_be_3])
qed

lemma b64_digits_cases:
  obtains w x y z where "b64_digits n = [w, x, y, z]" "z \<noteq> CHR ''=''" "y \<noteq> CHR ''=''" "w = b64_char (n div 262144 mod 64)"
    "x = b64_char (n div 4096 mod 64)" "y = b64_char (n div 64 mod 64)" "z = b64_char (n mod 64)"
  by (simp add: b64_digits_def b64_char_pad)

lemma b64_digits_text: "c \<in> set (b64_digits n) \<Longrightarrow> \<not> is_newline c"
  by (auto simp: b64_digits_def b64_char_text)

lemma zero_tail: "get_be [a, 0, 0] mod 64 = 0" "get_be [a, 0, 0] div 64 mod 64 = 0" "get_be [a, b, 0] mod 64 = 0"
proof -
  have "get_be [a, 0, 0] = 65536 * unat a" "get_be [a, b, 0] = 256 * (256 * unat a + unat b)"
    by (simp_all add: get_be_def)
  then show "get_be [a, 0, 0] mod 64 = 0" "get_be [a, 0, 0] div 64 mod 64 = 0" "get_be [a, b, 0] mod 64 = 0"
    by (simp_all add: dvd_imp_mod_0)
qed

lemma b64_quads_encode: "b64_quads (b64_encode bs) = Some bs"
proof (induction bs rule: b64_encode.induct)
  case (2 a)
  obtain w x y z where q: "b64_digits (get_be [a, 0, 0]) = [w, x, y, z]"
    "y = b64_char (get_be [a, 0, 0] div 64 mod 64)" "z = b64_char (get_be [a, 0, 0] mod 64)"
    by (rule b64_digits_cases)
  then have "b64_quad w x (CHR ''A'') (CHR ''A'') = Some [a, 0, 0]"
    using b64_quad_digits [OF q(1)] by (simp add: zero_tail b64_A)
  then show ?case by (simp add: q(1))
next
  case (3 a b)
  obtain w x y z where q: "b64_digits (get_be [a, b, 0]) = [w, x, y, z]" "y \<noteq> CHR ''=''"
    "z = b64_char (get_be [a, b, 0] mod 64)"
    by (rule b64_digits_cases)
  then have "b64_quad w x y (CHR ''A'') = Some [a, b, 0]"
    using b64_quad_digits [OF q(1)] by (simp add: zero_tail b64_A)
  then show ?case using q by simp
next
  case (4 a b c bs)
  obtain w x y z where q: "b64_digits (get_be [a, b, c]) = [w, x, y, z]" "z \<noteq> CHR ''=''"
    by (rule b64_digits_cases)
  then show ?case using b64_quad_digits [OF q(1)] 4 by simp
qed simp

lemma b64_encode_text: "c \<in> set (b64_encode bs) \<Longrightarrow> \<not> is_newline c"
proof (induction bs rule: b64_encode.induct)
  case (2 a)
  then show ?case by (auto dest!: in_set_takeD b64_digits_text) (simp add: is_newline_def)
next
  case (3 a b)
  then show ?case by (auto dest!: in_set_takeD b64_digits_text) (simp add: is_newline_def)
next
  case (4 a b c bs)
  then show ?case by (auto dest: b64_digits_text)
qed simp

lemma b64_decode_encode: "b64_decode (b64_encode bs) = Some bs"
  using b64_encode_text [of _ bs] by (simp add: b64_decode_def b64_quads_encode filter_id_conv)

end
