(* ===== verification/Wgnet.thy ===== *)
theory Wgnet
  imports Base64 Wire
begin

text \<open>
  The WireGuard device, \<open>internal/wgnet/wgnet.go\<close> and \<open>uapi_client.go\<close>: the configuration text that brings the
  engine's peers in line with the network map, the system routes, and the reading of the engine's
  status. The engine and the operating system are parameters: whether they accept what they are given
  and the status text they return.
\<close>

section \<open>Keys\<close>

text \<open>\<open>wgtypes.ParseKey\<close> and \<open>Key.String\<close>.\<close>

record wgkeys =
  wk_parse :: "string \<Rightarrow> bytes option"
  wk_string :: "bytes \<Rightarrow> string"

definition wgkeys_ok :: "wgkeys \<Rightarrow> bool" where
  "wgkeys_ok W \<longleftrightarrow> (\<forall>k. length k = 32 \<longrightarrow> wk_parse W (wk_string W k) = Some k) \<and>
     (\<forall>s k. wk_parse W s = Some k \<longrightarrow> length k = 32)"

definition hex_key :: "bytes \<Rightarrow> string" where
  "hex_key k = hex_encode k"

definition base64_key :: "wgkeys \<Rightarrow> string \<Rightarrow> string" where
  "base64_key W s =
     (case hex_decode (trim_space s) of
        None \<Rightarrow> []
      | Some raw \<Rightarrow> if length raw \<noteq> 32 then [] else wk_string W raw)"

section \<open>The configuration text\<close>

definition newline :: char where "newline = CHR 0x0A"

definition config_line :: "string \<Rightarrow> string" where
  "config_line s = s @ [newline]"

definition keepalive_interval :: duration where "keepalive_interval = 25 * second"
definition default_mtu :: nat where "default_mtu = 1280"

definition initial_config :: "bytes \<Rightarrow> nat \<Rightarrow> string" where
  "initial_config k port = config_line (''private_key='' @ hex_key k) @ config_line (''listen_port='' @ show_nat port)"

text \<open>\<open>SetAddress\<close> up to the platform's part.\<close>

definition set_address :: "string \<Rightarrow> string \<Rightarrow> (string \<times> prefix) option" where
  "set_address ip cidr = map_option (\<lambda>p. (ip, masked p)) (parse_cidr cidr)"

text \<open>One machine of the map; an invalid one is skipped. \<open>init_ep\<close> chooses the first endpoint of a new peer.\<close>

definition valid_peer :: "wgkeys \<Rightarrow> peer \<Rightarrow> bool" where
  "valid_peer W p \<longleftrightarrow> wk_parse W (pe_public_key p) \<noteq> None \<and> net_parse_ip (pe_ip p) \<noteq> None"

definition peer_lines :: "wgkeys \<Rightarrow> (peer \<Rightarrow> string) \<Rightarrow> string list \<Rightarrow> peer \<Rightarrow> string list" where
  "peer_lines W init_ep known p =
     [''public_key='' @ hex_key (the (wk_parse W (pe_public_key p)))] @
     (if pe_public_key p \<in> set known then [''update_only=true'']
      else if init_ep p \<noteq> [] then [''endpoint='' @ init_ep p] else []) @
     [''replace_allowed_ips=true'', ''allowed_ip='' @ pe_ip p @ ''/32''] @
     map (\<lambda>r. ''allowed_ip='' @ r) (filter (\<lambda>r. parse_cidr r \<noteq> None) (pe_routes p)) @
     [''persistent_keepalive_interval='' @ show_nat (nat (keepalive_interval div second))]"

definition removal_lines :: "bytes \<Rightarrow> string list" where
  "removal_lines k = [''public_key='' @ hex_key k, ''remove=true'']"

definition sync_lines :: "wgkeys \<Rightarrow> (peer \<Rightarrow> string) \<Rightarrow> peer list \<Rightarrow> string list \<Rightarrow> string list" where
  "sync_lines W init_ep peers known =
     (let valid = filter (valid_peer W) peers; seen = map pe_public_key valid in
      concat (map (peer_lines W init_ep known) valid) @
      concat (map (\<lambda>pub. case wk_parse W pub of None \<Rightarrow> [] | Some k \<Rightarrow> removal_lines k)
        (filter (\<lambda>pub. pub \<notin> set seen) known)))"

definition sync_text :: "wgkeys \<Rightarrow> (peer \<Rightarrow> string) \<Rightarrow> peer list \<Rightarrow> string list \<Rightarrow> string" where
  "sync_text W init_ep peers known = concat (map config_line (sync_lines W init_ep peers known))"

text \<open>
  \<open>known\<close> is the set of keys the caller keeps between two calls, in the order of the next \<open>range\<close>. The
  engine is given nothing when there is nothing to say; when it refuses, the set stays as it was.
\<close>

definition sync_peers :: "wgkeys \<Rightarrow> (peer \<Rightarrow> string) \<Rightarrow> (string \<Rightarrow> bool) \<Rightarrow> peer list \<Rightarrow> string list \<Rightarrow>
    string list \<times> string option \<times> bool" where
  "sync_peers W init_ep ipc_set peers known =
     (let text = sync_text W init_ep peers known in
      if text = [] then (known, None, True)
      else if \<not> ipc_set text then (known, Some text, False)
      else (remdups (map pe_public_key (filter (valid_peer W) peers)), Some text, True))"

definition endpoint_config :: "wgkeys \<Rightarrow> string \<Rightarrow> string \<Rightarrow> string option" where
  "endpoint_config W pub ep =
     map_option (\<lambda>k. config_line (''public_key='' @ hex_key k) @ config_line ''update_only=true'' @
       config_line (''endpoint='' @ ep)) (wk_parse W pub)"

section \<open>System routes\<close>

text \<open>\<open>net.ParseCIDR\<close>'s network as \<open>IPNet.String\<close> writes it: an IPv4-mapped network in its IPv4 form.\<close>

definition ipnet_string :: "prefix \<Rightarrow> string" where
  "ipnet_string p =
     (let m = masked p in
      if \<not> is4 (p_addr m) \<and> is4 (unmap (p_addr m)) then show_prefix (Prefix (unmap (p_addr m)) (p_bits p - 96))
      else show_prefix m)"

definition desired_routes :: "string list \<Rightarrow> string list" where
  "desired_routes cidrs =
     remdups (List.map_filter (\<lambda>c. case parse_cidr c of
        None \<Rightarrow> None
      | Some p \<Rightarrow> if 0 < p_bits p then Some (ipnet_string p) else None) cidrs)"

datatype route_op = RouteAdd string | RouteDel string

text \<open>\<open>fails\<close> says which operations the system refuses. The result has the operations asked of the system
  and the first that failed.\<close>

fun del_routes :: "(route_op \<Rightarrow> bool) \<Rightarrow> string list \<Rightarrow> string list \<Rightarrow> string list \<times> route_op list" where
  "del_routes fails desired [] = ([], [])"
| "del_routes fails desired (c # cs) =
     (let (kept, ops) = del_routes fails desired cs in
      if c \<in> set desired then (c # kept, ops) else (kept, RouteDel c # ops))"

fun add_routes :: "(route_op \<Rightarrow> bool) \<Rightarrow> string list \<Rightarrow> string list \<Rightarrow> string list \<times> route_op list" where
  "add_routes fails [] installed = (installed, [])"
| "add_routes fails (c # cs) installed =
     (if c \<in> set installed then add_routes fails cs installed
      else
        let (installed', ops) = add_routes fails cs (if fails (RouteAdd c) then installed else c # installed)
        in (installed', RouteAdd c # ops))"

definition set_routes :: "(route_op \<Rightarrow> bool) \<Rightarrow> string list \<Rightarrow> string list \<Rightarrow> string list \<times> route_op list \<times> route_op option" where
  "set_routes fails cidrs installed =
     (let desired = desired_routes cidrs;
          (kept, dels) = del_routes fails desired installed;
          (installed', adds) = add_routes fails desired kept
      in (installed', dels @ adds, find fails (dels @ adds)))"

section \<open>The engine's status\<close>

text \<open>\<open>fmt.Sscanf\<close> with \<open>%d\<close> into an \<open>int64\<close>: spaces, a sign, the digits that follow; 0 when there are none or
  the number does not fit.\<close>

definition int64_max :: int where "int64_max = 2 ^ 63 - 1"

definition scan_int64 :: "string \<Rightarrow> int" where
  "scan_int64 s =
     (let t = dropWhile (\<lambda>c. c \<in> {CHR '' '', CHR 0x09}) s;
          neg = (t \<noteq> [] \<and> hd t = CHR ''-'');
          body = (if t \<noteq> [] \<and> hd t \<in> {CHR ''-'', CHR ''+''} then tl t else t);
          ds = takeWhile is_digit body;
          n = int (dec_value ds); v = (if neg then - n else n)
      in if ds = [] \<or> v > int64_max \<or> v < - int64_max - 1 then 0 else v)"

text \<open>\<open>time.Unix\<close>, counted from Go's zero time.\<close>

definition unix_epoch :: time where "unix_epoch = 62135596800 * second"

definition unix_time :: "int \<Rightarrow> time" where
  "unix_time sec = unix_epoch + sec * second"

definition handshake_line :: "wgkeys \<Rightarrow> string \<Rightarrow> string \<times> (string, time) gomap \<Rightarrow> string \<times> (string, time) gomap" where
  "handshake_line W line acc =
     (case acc of (current, out) \<Rightarrow>
        (case cut_at CHR ''='' line of
           None \<Rightarrow> (current, out)
         | Some (k, v) \<Rightarrow>
             if k = ''public_key'' then (base64_key W v, out)
             else if k = ''last_handshake_time_sec'' then
               (if current = [] then (current, out)
                else let sec = scan_int64 v in
                  (current, gm_put current (if 0 < sec then unix_time sec else 0) out))
             else (current, out)))"

definition peer_handshakes :: "wgkeys \<Rightarrow> string option \<Rightarrow> (string, time) gomap option" where
  "peer_handshakes W status =
     map_option (\<lambda>s. snd (fold (handshake_line W) (split_on newline s) ([], []))) status"

text \<open>
  \<open>QueryStatus\<close>: the same text read by another process, line by line until the empty one; numbers are
  read by \<open>strconv.ParseInt\<close>, whose error is ignored but whose value is kept.
\<close>

record peer_status =
  ps_public_key :: string
  ps_endpoint :: string
  ps_last_handshake :: time
  ps_rx :: int
  ps_tx :: int

record device_status =
  ds_listen_port :: int
  ds_peers :: "peer_status list"

definition parse_int64 :: "string \<Rightarrow> int" where
  "parse_int64 s =
     (let neg = (s \<noteq> [] \<and> hd s = CHR ''-'');
          ds = (if s \<noteq> [] \<and> hd s \<in> {CHR ''-'', CHR ''+''} then tl s else s);
          n = int (dec_value ds)
      in if ds = [] \<or> \<not> list_all is_digit ds then 0
         else if neg then max (- int64_max - 1) (- n) else min int64_max n)"

definition map_last :: "('a \<Rightarrow> 'a) \<Rightarrow> 'a list \<Rightarrow> 'a list" where
  "map_last f xs = (if xs = [] then [] else butlast xs @ [f (last xs)])"

definition status_line :: "wgkeys \<Rightarrow> string \<times> string \<Rightarrow> device_status \<Rightarrow> device_status option" where
  "status_line W kv st =
     (case kv of (k, v) \<Rightarrow>
        if k = ''listen_port'' then Some (st\<lparr>ds_listen_port := parse_int64 v\<rparr>)
        else if k = ''public_key'' then
          Some (st\<lparr>ds_peers := ds_peers st @ [\<lparr>ps_public_key = base64_key W v, ps_endpoint = [], ps_last_handshake = 0,
            ps_rx = 0, ps_tx = 0\<rparr>]\<rparr>)
        else if k = ''endpoint'' then Some (st\<lparr>ds_peers := map_last (\<lambda>p. p\<lparr>ps_endpoint := v\<rparr>) (ds_peers st)\<rparr>)
        else if k = ''last_handshake_time_sec'' then
          Some (if 0 < parse_int64 v
                then st\<lparr>ds_peers := map_last (\<lambda>p. p\<lparr>ps_last_handshake := unix_time (parse_int64 v)\<rparr>) (ds_peers st)\<rparr> else st)
        else if k = ''rx_bytes'' then Some (st\<lparr>ds_peers := map_last (\<lambda>p. p\<lparr>ps_rx := parse_int64 v\<rparr>) (ds_peers st)\<rparr>)
        else if k = ''tx_bytes'' then Some (st\<lparr>ds_peers := map_last (\<lambda>p. p\<lparr>ps_tx := parse_int64 v\<rparr>) (ds_peers st)\<rparr>)
        else if k = ''errno'' \<and> v \<noteq> ''0'' then None
        else Some st)"

definition drop_cr :: "string \<Rightarrow> string" where
  "drop_cr s = (if s \<noteq> [] \<and> last s = CHR 0x0D then butlast s else s)"

fun query_lines :: "wgkeys \<Rightarrow> string list \<Rightarrow> device_status \<Rightarrow> device_status option" where
  "query_lines W [] st = Some st"
| "query_lines W (l # ls) st =
     (if drop_cr l = [] then Some st
      else case cut_at CHR ''='' (drop_cr l) of
        None \<Rightarrow> query_lines W ls st
      | Some kv \<Rightarrow> (case status_line W kv st of None \<Rightarrow> None | Some st' \<Rightarrow> query_lines W ls st'))"

definition query_status :: "wgkeys \<Rightarrow> string option \<Rightarrow> device_status option" where
  "query_status W text =
     (case text of None \<Rightarrow> None
      | Some t \<Rightarrow> query_lines W (split_on newline t) \<lparr>ds_listen_port = 0, ds_peers = []\<rparr>)"

section \<open>Lemmas on the text\<close>

lemma split_on_cut: "split_on c (a @ c # b) = split_on c a @ split_on c b"
proof (induction a)
  case (Cons x a)
  moreover have "split_on c a \<noteq> []" by (cases a) (auto split: list.splits)
  ultimately show ?case by (cases "split_on c a") auto
qed simp

lemma split_config:
  "\<forall>l \<in> set ls. newline \<notin> set l \<Longrightarrow> split_on newline (concat (map config_line ls)) = ls @ [[]]"
  by (induction ls) (auto simp: config_line_def split_on_append)

lemma split_config_line:
  "l \<in> set ls \<Longrightarrow> set (split_on newline l) \<subseteq> set (split_on newline (concat (map config_line ls)))"
  by (induction ls) (auto simp: config_line_def split_on_cut)

lemma peer_lines_synced:
  "p \<in> set peers \<Longrightarrow> valid_peer W p \<Longrightarrow> l \<in> set (peer_lines W init_ep known p) \<Longrightarrow> l \<in> set (sync_lines W init_ep peers known)"
  by (auto simp: sync_lines_def Let_def)

lemma removal_synced:
  assumes "pub \<in> set known" "wk_parse W pub = Some k" "\<forall>p \<in> set peers. valid_peer W p \<longrightarrow> pe_public_key p \<noteq> pub"
  shows "set (removal_lines k) \<subseteq> set (sync_lines W init_ep peers known)"
proof -
  have "pub \<in> set (filter (\<lambda>pub. pub \<notin> pe_public_key ` set (filter (valid_peer W) peers)) known)"
    using assms(1,3) by auto
  then show ?thesis using assms(2) by (force simp: sync_lines_def Let_def)
qed

lemma sync_lines_known:
  assumes "set known = pe_public_key ` {p \<in> set peers. valid_peer W p}"
  shows "sync_lines W init_ep peers known = concat (map (peer_lines W init_ep known) (filter (valid_peer W) peers))"
proof -
  have "filter (\<lambda>pub. pub \<notin> pe_public_key ` {p \<in> set peers. valid_peer W p}) known = []"
    using assms by (simp add: filter_empty_conv)
  then show ?thesis by (simp add: sync_lines_def Let_def)
qed

section \<open>Lemmas on the routes\<close>

lemma fst_del_routes [simp]: "fst (del_routes fails desired cs) = filter (\<lambda>c. c \<in> set desired) cs"
  by (induction cs) (auto simp: split_beta)

lemma snd_del_routes: "snd (del_routes fails desired cs) = map RouteDel (filter (\<lambda>c. c \<notin> set desired) cs)"
  by (induction cs) (auto simp: split_beta)

lemma add_routes_props:
  assumes "distinct cs"
  shows "set (fst (add_routes fails cs ins)) = set ins \<union> {c \<in> set cs. c \<notin> set ins \<and> \<not> fails (RouteAdd c)} \<and>
    set (snd (add_routes fails cs ins)) = RouteAdd ` (set cs - set ins)"
  using assms
proof (induction cs arbitrary: ins)
  case (Cons c cs)
  then have IH: "set (fst (add_routes fails cs j)) = set j \<union> {c \<in> set cs. c \<notin> set j \<and> \<not> fails (RouteAdd c)}"
    "set (snd (add_routes fails cs j)) = RouteAdd ` (set cs - set j)" for j by simp_all
  from Cons.prems have "c \<notin> set cs" by simp
  then show ?case using IH [of ins] IH [of "c # ins"]
    by (cases "c \<in> set ins"; cases "fails (RouteAdd c)") (auto simp: split_beta)
qed simp

lemma distinct_desired [simp]: "distinct (desired_routes cidrs)"
  by (simp add: desired_routes_def)

text \<open>The system's table, as the operations that succeed change it.\<close>

fun run_route :: "(route_op \<Rightarrow> bool) \<Rightarrow> route_op \<Rightarrow> string set \<Rightarrow> string set" where
  "run_route fails (RouteAdd c) T = (if fails (RouteAdd c) then T else insert c T)"
| "run_route fails (RouteDel c) T = (if fails (RouteDel c) then T else T - {c})"

lemma run_dels: "fold (run_route fails) (map RouteDel cs) T = T - {c \<in> set cs. \<not> fails (RouteDel c)}"
  by (induction cs arbitrary: T) auto

lemma run_adds: "\<forall>op \<in> set ops. \<exists>c. op = RouteAdd c \<Longrightarrow>
    fold (run_route fails) ops T = T \<union> {c. RouteAdd c \<in> set ops \<and> \<not> fails (RouteAdd c)}"
  by (induction ops arbitrary: T) (auto split: if_splits)

lemma set_routes_result:
  assumes "set_routes fails cidrs installed = (installed', ops, err)"
  shows "set installed' = {c \<in> set (desired_routes cidrs). c \<in> set installed \<or> \<not> fails (RouteAdd c)}"
    and "set ops = RouteDel ` (set installed - set (desired_routes cidrs)) \<union> RouteAdd ` (set (desired_routes cidrs) - set installed)"
    and "fold (run_route fails) ops T =
      (T - {c \<in> set installed. c \<notin> set (desired_routes cidrs) \<and> \<not> fails (RouteDel c)}) \<union>
      {c \<in> set (desired_routes cidrs). c \<notin> set installed \<and> \<not> fails (RouteAdd c)}"
proof -
  let ?d = "desired_routes cidrs"
  let ?kept = "filter (\<lambda>c. c \<in> set ?d) installed"
  have e: "installed' = fst (add_routes fails ?d ?kept)"
    "ops = map RouteDel (filter (\<lambda>c. c \<notin> set ?d) installed) @ snd (add_routes fails ?d ?kept)"
    using assms by (auto simp: set_routes_def Let_def split_beta snd_del_routes)
  note a = add_routes_props [OF distinct_desired [of cidrs], of fails ?kept]
  show "set installed' = {c \<in> set ?d. c \<in> set installed \<or> \<not> fails (RouteAdd c)}"
    using a by (auto simp: e(1))
  show "set ops = RouteDel ` (set installed - set ?d) \<union> RouteAdd ` (set ?d - set installed)"
    using a by (auto simp: e(2))
  show "fold (run_route fails) ops T = (T - {c \<in> set installed. c \<notin> set ?d \<and> \<not> fails (RouteDel c)}) \<union>
      {c \<in> set ?d. c \<notin> set installed \<and> \<not> fails (RouteAdd c)}"
    using a by (subst e(2)) (auto simp: run_dels run_adds)
qed

lemma set_routes_error: "set_routes fails cidrs installed = (installed', ops, err) \<Longrightarrow> err = find fails ops"
  by (auto simp: set_routes_def Let_def split_beta)

end
