(* ===== verification/Stun.thy ===== *)
theory Stun
  imports Bytes
begin

text \<open>
  The STUN codec and server, \<open>internal/stun/stun.go\<close> and \<open>server.go\<close>. The parser of answers can
  panic, so its result has three cases. A transaction identifier is twelve bytes.
\<close>

section \<open>Messages\<close>

definition magic_cookie :: nat where "magic_cookie = 0x2112A442"
definition header_len :: nat where "header_len = 20"
definition type_binding_request :: nat where "type_binding_request = 1"
definition type_binding_response :: nat where "type_binding_response = 0x101"
definition attr_mapped_address :: nat where "attr_mapped_address = 1"
definition attr_xor_mapped_address :: nat where "attr_xor_mapped_address = 0x20"
definition family_ipv4 :: byte where "family_ipv4 = 1"
definition family_ipv6 :: byte where "family_ipv6 = 2"

lemmas stun_consts = magic_cookie_def header_len_def type_binding_request_def type_binding_response_def
  attr_mapped_address_def attr_xor_mapped_address_def family_ipv4_def family_ipv6_def

type_synonym txid = bytes

definition is_message :: "bytes \<Rightarrow> bool" where
  "is_message b \<longleftrightarrow> header_len \<le> length b \<and> (b ! 0) AND 0xC0 = 0 \<and> get_be (slice 4 8 b) = magic_cookie"

definition is_binding_response :: "bytes \<Rightarrow> bool" where
  "is_binding_response b \<longleftrightarrow> is_message b \<and> get_be (slice 0 2 b) = type_binding_response"

definition build_binding_request :: "txid \<Rightarrow> bytes" where
  "build_binding_request tx = put_be 2 type_binding_request @ put_be 2 0 @ put_be 4 magic_cookie @ tx"

definition parse_binding_request :: "bytes \<Rightarrow> txid option" where
  "parse_binding_request b =
     (if \<not> is_message b then None
      else if get_be (slice 0 2 b) \<noteq> type_binding_request then None
      else Some (slice 8 20 b))"

text \<open>\<open>AsSlice\<close> and \<open>AddrFromSlice\<close>.\<close>

fun addr_bytes :: "addr \<Rightarrow> bytes" where
  "addr_bytes (V4 w) = put_be 4 (unat w)"
| "addr_bytes (V6 w z) = put_be 16 (unat w)"

definition addr_of_bytes :: "bytes \<Rightarrow> addr option" where
  "addr_of_bytes bs =
     (if length bs = 4 then Some (V4 (word_of_nat (get_be bs)))
      else if length bs = 16 then Some (V6 (word_of_nat (get_be bs)) [])
      else None)"

definition xor_key :: "txid \<Rightarrow> bytes" where
  "xor_key tx = put_be 4 magic_cookie @ tx"

definition port_key :: "16 word" where "port_key = 0x2112"

definition build_binding_response :: "txid \<Rightarrow> addrport \<Rightarrow> bytes" where
  "build_binding_response tx ap =
     (let ip = unmap (fst ap);
          ip_len = (if is4 ip then 4 else 16);
          family = (if is4 ip then family_ipv4 else family_ipv6);
          attr_len = 4 + ip_len
      in put_be 2 type_binding_response @ put_be 2 (4 + attr_len) @ put_be 4 magic_cookie @ tx @
         put_be 2 attr_xor_mapped_address @ put_be 2 attr_len @ [0, family] @
         put_be 2 (unat (snd ap XOR port_key)) @ xor_bytes (addr_bytes ip) (xor_key tx))"

definition decode_address :: "bytes \<Rightarrow> txid \<Rightarrow> bool \<Rightarrow> addrport option" where
  "decode_address v tx xored =
     (if length v < 8 then None
      else
        let ip_len = (if v ! 1 = family_ipv6 then 16 else 4) in
        if length v < 4 + ip_len then None
        else
          let port = word_of_nat (get_be (slice 2 4 v));
              ip_bytes = slice 4 (4 + ip_len) v;
              port' = (if xored then port XOR port_key else port);
              ip_bytes' = (if xored then xor_bytes ip_bytes (xor_key tx) else ip_bytes)
          in map_option (\<lambda>ip. (unmap ip, port')) (addr_of_bytes ip_bytes'))"

datatype 'a outcome = Done 'a | Failed | Panic

text \<open>\<open>pad4 n\<close> is \<open>(n+3)&^3\<close>. Slicing beyond the end panics.\<close>

definition pad4 :: "nat \<Rightarrow> nat" where "pad4 n = (n + 3) div 4 * 4"

function attr_loop :: "txid \<Rightarrow> addrport option \<Rightarrow> bytes \<Rightarrow> addrport outcome" where
  "attr_loop tx mapped attrs =
     (if length attrs < 4 then (case mapped of None \<Rightarrow> Failed | Some ap \<Rightarrow> Done ap)
      else
        let attr_type = get_be (slice 0 2 attrs);
            attr_len = get_be (slice 2 4 attrs)
        in if length attrs < 4 + attr_len then (case mapped of None \<Rightarrow> Failed | Some ap \<Rightarrow> Done ap)
           else
             let value = slice 4 (4 + attr_len) attrs;
                 found = (if attr_type = attr_xor_mapped_address then decode_address value tx True else None);
                 mapped' = (if attr_type = attr_mapped_address
                            then (case decode_address value tx False of None \<Rightarrow> mapped | Some ap \<Rightarrow> Some ap)
                            else mapped)
             in (case found of
                   Some ap \<Rightarrow> Done ap
                 | None \<Rightarrow>
                     if length attrs < 4 + pad4 attr_len then Panic
                     else attr_loop tx mapped' (drop (4 + pad4 attr_len) attrs)))"
  by pat_completeness auto
termination by (relation "measure (\<lambda>(tx, mapped, attrs). length attrs)") auto

declare attr_loop.simps [simp del]

definition parse_binding_response :: "bytes \<Rightarrow> (txid \<times> addrport) outcome" where
  "parse_binding_response b =
     (if \<not> is_binding_response b then Failed
      else
        let tx = slice 8 20 b;
            msg_len = get_be (slice 2 4 b)
        in if length b < header_len + msg_len then Failed
           else (case attr_loop tx None (slice header_len (header_len + msg_len) b) of
                   Done ap \<Rightarrow> Done (tx, ap) | Failed \<Rightarrow> Failed | Panic \<Rightarrow> Panic))"

section \<open>The server\<close>

text \<open>
  \<open>Serve\<close>: the loop as a function from the datagrams received, with their source, to those sent.
  The buffer holds 1500 bytes.
\<close>

definition stun_answer :: "bytes \<Rightarrow> addrport \<Rightarrow> bytes option" where
  "stun_answer b src =
     map_option (\<lambda>tx. build_binding_response tx (unmap (fst src), snd src)) (parse_binding_request (take 1500 b))"

fun stun_serve :: "(bytes \<times> addrport) list \<Rightarrow> (bytes \<times> addrport) list" where
  "stun_serve [] = []"
| "stun_serve ((b, src) # ps) =
     (case stun_answer b src of None \<Rightarrow> stun_serve ps | Some r \<Rightarrow> (r, src) # stun_serve ps)"

section \<open>Lemmas\<close>

lemma slice_drop: "slice (a + k) (b + k) xs = slice a b (drop k xs)"
  by (simp add: slice_def add.commute)

lemma cookie_word: "get_be (put_be 4 magic_cookie) = magic_cookie"
  by (simp add: get_put_be magic_cookie_def)

lemma magic_mod [simp]: "magic_cookie mod 4294967296 = magic_cookie"
  by (simp add: magic_cookie_def)

lemma first_byte: "put_be 2 type_binding_response ! 0 AND 0xC0 = 0" "put_be 2 type_binding_request ! 0 AND 0xC0 = 0"
  by (simp_all add: numeral_2_eq_2 type_binding_response_def type_binding_request_def)

lemma message_parts:
  assumes "length t = 2" "length l = 2" "length tx = 12"
  shows "slice 0 2 (t @ l @ put_be 4 magic_cookie @ tx @ rest) = t"
    "slice 2 4 (t @ l @ put_be 4 magic_cookie @ tx @ rest) = l"
    "slice 4 8 (t @ l @ put_be 4 magic_cookie @ tx @ rest) = put_be 4 magic_cookie"
    "slice 8 20 (t @ l @ put_be 4 magic_cookie @ tx @ rest) = tx"
    "slice 20 (20 + length rest) (t @ l @ put_be 4 magic_cookie @ tx @ rest) = rest"
    "(t @ l @ put_be 4 magic_cookie @ tx @ rest) ! 0 = t ! 0"
  using assms by (simp_all add: slice_append2 nth_append)

lemma parse_request_build: "length tx = 12 \<Longrightarrow> parse_binding_request (build_binding_request tx) = Some tx"
  using message_parts [of "put_be 2 type_binding_request" "put_be 2 0" tx "[]"] first_byte(2)
  by (simp add: parse_binding_request_def build_binding_request_def is_message_def cookie_word get_put_be
      header_len_def type_binding_request_def)

lemma addr_of_addr_bytes: "addr_zone a = [] \<Longrightarrow> addr_of_bytes (addr_bytes a) = Some a"
  by (cases a) (simp_all add: addr_of_bytes_def get_put_32 get_put_128)

lemma unmap_idem [simp]: "unmap (unmap a) = unmap a"
  by (cases a) simp_all

lemma length_addr_bytes [simp]: "length (addr_bytes a) = (if is4 a then 4 else 16)"
  by (cases a) simp_all

lemma unmap_zone: "addr_zone a = [] \<Longrightarrow> addr_zone (unmap a) = []"
  by (cases a) simp_all

lemma decode_built:
  assumes "length tx = 12" "addr_zone a = []"
  shows "decode_address ([0, if is4 (unmap a) then family_ipv4 else family_ipv6] @ put_be 2 (unat (p XOR port_key)) @
     xor_bytes (addr_bytes (unmap a)) (xor_key tx)) tx True = Some (unmap a, p)"
proof -
  let ?ip = "unmap a"
  have key: "length (xor_key tx) = 16" using assms by (simp add: xor_key_def)
  then have len: "length (addr_bytes ?ip) \<le> length (xor_key tx)" by simp
  have port: "word_of_nat (get_be (put_be 2 (unat (p XOR port_key)))) XOR port_key = p"
    unfolding get_put_16 by (simp add: xor.assoc)
  have fam: "(if is4 ?ip then family_ipv4 else family_ipv6) = family_ipv6 \<longleftrightarrow> \<not> is4 ?ip"
    by (simp add: family_ipv4_def family_ipv6_def)
  show ?thesis
    using len port addr_of_addr_bytes [OF unmap_zone [OF assms(2)]]
    by (simp add: decode_address_def fam Let_def slice_append2 slice_def length_xor_bytes [OF len] xor_xor_bytes [OF len])
qed

lemma pad4_ge: "n \<le> pad4 n"
  by (simp add: pad4_def)

lemma pad4_dvd: "4 dvd pad4 n"
  by (simp add: pad4_def)

lemma pad4_least: "4 dvd m \<Longrightarrow> n \<le> m \<Longrightarrow> pad4 n \<le> m"
proof (elim dvdE)
  fix k assume "n \<le> m" "m = 4 * k"
  then have "(n + 3) div 4 \<le> k" by simp
  with \<open>m = 4 * k\<close> show "pad4 n \<le> m" by (simp add: pad4_def)
qed

text \<open>An attribute list whose length is a multiple of four never runs past its end.\<close>

lemma attr_loop_no_panic: "4 dvd length attrs \<Longrightarrow> attr_loop tx mapped attrs \<noteq> Panic"
proof (induction "length attrs" arbitrary: attrs mapped rule: less_induct)
  case less
  show ?case
  proof (cases "length attrs < 4 \<or> length attrs < 4 + get_be (slice 2 4 attrs)")
    case True
    then show ?thesis by (subst attr_loop.simps) (auto simp: Let_def split: option.split)
  next
    case False
    let ?l = "get_be (slice 2 4 attrs)"
    have "pad4 ?l \<le> length attrs - 4" using False less.prems by (intro pad4_least) auto
    then have le: "\<not> length attrs < 4 + pad4 ?l" using False by linarith
    have dvd: "4 dvd length (drop (4 + pad4 ?l) attrs)"
      using less.prems pad4_dvd [of ?l] by (simp add: dvd_diff_nat)
    have "length (drop (4 + pad4 ?l) attrs) < length attrs" using False by (cases attrs) auto
    then have "attr_loop tx m (drop (4 + pad4 ?l) attrs) \<noteq> Panic" for m using less.hyps dvd by blast
    with False le show ?thesis
      by (subst attr_loop.simps) (auto simp: Let_def split: option.split)
  qed
qed

lemma parse_response_build:
  assumes "length tx = 12" "addr_zone a = []"
  shows "parse_binding_response (build_binding_response tx (a, p)) = Done (tx, (unmap a, p))"
proof -
  let ?ip_len = "if is4 (unmap a) then 4 else 16 :: nat"
  let ?v = "[0, if is4 (unmap a) then family_ipv4 else family_ipv6] @ put_be 2 (unat (p XOR port_key)) @
     xor_bytes (addr_bytes (unmap a)) (xor_key tx)"
  let ?attrs = "put_be 2 attr_xor_mapped_address @ put_be 2 (4 + ?ip_len) @ ?v"
  let ?b = "put_be 2 type_binding_response @ put_be 2 (8 + ?ip_len) @ put_be 4 magic_cookie @ tx @ ?attrs"
  have key: "length (xor_key tx) = 16" using assms by (simp add: xor_key_def)
  then have v: "length ?v = 4 + ?ip_len" by simp
  have b: "build_binding_response tx (a, p) = ?b" by (simp add: build_binding_response_def Let_def)
  note parts = message_parts [of "put_be 2 type_binding_response" "put_be 2 (8 + ?ip_len)" tx ?attrs]
  have len: "length ?attrs = 8 + ?ip_len" using v by simp
  have lenb: "length ?b = 28 + ?ip_len" using v assms(1) by simp
  have msg: "is_binding_response ?b"
    using parts assms(1) first_byte(1) lenb
    by (simp add: is_binding_response_def is_message_def header_len_def get_put_be cookie_word type_binding_response_def)
  have l: "get_be (slice 2 4 ?b) = 8 + ?ip_len" using parts(2) assms(1) by (simp add: get_put_be)
  have s: "slice 2 4 ?attrs = put_be 2 (4 + ?ip_len)" "slice 0 2 ?attrs = put_be 2 attr_xor_mapped_address"
    "slice 4 (4 + (4 + ?ip_len)) ?attrs = ?v"
    using v by (simp_all add: slice_append2)
  have "attr_loop tx None ?attrs = Done (unmap a, p)"
    using decode_built [OF assms, of p] len s
    by (subst attr_loop.simps) (simp add: Let_def get_put_be attr_xor_mapped_address_def)
  moreover have "slice header_len (header_len + get_be (slice 2 4 ?b)) ?b = ?attrs"
    using parts(5) assms(1) len unfolding l header_len_def by simp
  moreover have "slice 8 20 ?b = tx" using parts(4) assms(1) by simp
  ultimately show ?thesis
    unfolding b using msg lenb l by (simp add: parse_binding_response_def Let_def header_len_def)
qed

interpretation request_codec: codec build_binding_request parse_binding_request "\<lambda>tx. length tx = 12"
  by unfold_locales (rule parse_request_build)

lemma stun_answer_request:
  "length tx = 12 \<Longrightarrow> stun_answer (build_binding_request tx) src =
     Some (build_binding_response tx (unmap (fst src), snd src))"
  by (simp add: stun_answer_def build_binding_request_def parse_request_build [unfolded build_binding_request_def])

lemma length_response: "length tx = 12 \<Longrightarrow> length (build_binding_response tx ap) \<le> 44"
  by (cases "is4 (unmap (fst ap))") (simp_all add: build_binding_response_def Let_def xor_key_def)

section \<open>Properties\<close>

text \<open>C37: the discovery works end to end: for any transaction and any source address the server's answer
  to a well-formed request parses back to the same transaction and to the source address and port the
  server saw (IPv4 in its plain form), and it is at most 44 bytes long.\<close>

theorem stun_discovery:
  assumes "length tx = 12" "addr_zone a = []"
  shows "\<exists>r. stun_answer (build_binding_request tx) (a, p) = Some r \<and>
    parse_binding_response r = Done (tx, (unmap a, p)) \<and> length r \<le> 44"
  using stun_answer_request [OF assms(1), of "(a, p)"] parse_response_build [OF assms(1), of "unmap a" p]
    unmap_zone [OF assms(2)] length_response [OF assms(1)]
  by simp

theorem stun_discovery_witness:
  "\<exists>r. stun_answer (build_binding_request (replicate 12 7)) (V6 0xFFFF01020304 [], 4242) = Some r \<and>
     parse_binding_response r = Done (replicate 12 7, (V4 0x01020304, 4242))"
  using stun_discovery [of "replicate 12 7" "V6 0xFFFF01020304 []" 4242] by (auto simp: compute)

text \<open>The parser of answers never panics on a message whose declared length is a multiple of four,
  which is what the STUN format requires.\<close>

theorem stun_aligned_safe:
  assumes "4 dvd get_be (slice 2 4 b)"
  shows "parse_binding_response b \<noteq> Panic"
proof -
  have "attr_loop tx None (slice header_len (header_len + get_be (slice 2 4 b)) b) \<noteq> Panic"
    if "header_len + get_be (slice 2 4 b) \<le> length b" for tx
    using that assms by (intro attr_loop_no_panic) simp
  then show ?thesis by (auto simp: parse_binding_response_def Let_def split: outcome.split)
qed

theorem stun_aligned_safe_witness:
  "parse_binding_response (put_be 2 0x101 @ put_be 2 4 @ put_be 4 magic_cookie @ replicate 12 0 @ [0, 9, 0, 0]) \<noteq> Panic"
  using stun_aligned_safe [of "put_be 2 0x101 @ put_be 2 4 @ put_be 4 magic_cookie @ replicate 12 0 @ [0, 9, 0, 0]"]
  by (simp add: slice_append2 get_put_be)

text \<open>It does panic on 25 bytes anyone can send: a success answer whose only attribute is one byte long
  and not padded.\<close>

lemma unpadded_attribute:
  "parse_binding_response (put_be 2 type_binding_response @ put_be 2 5 @ put_be 4 magic_cookie @ replicate 12 0 @
     [0, 9, 0, 1, 0]) = Panic"
proof -
  let ?b = "put_be 2 type_binding_response @ put_be 2 5 @ put_be 4 magic_cookie @ replicate 12 0 @ [0, 9, 0, 1, 0]"
  note parts = message_parts [of "put_be 2 type_binding_response" "put_be 2 5" "replicate 12 0" "[0, 9, 0, 1, 0]"]
  have "is_binding_response ?b"
    using parts first_byte(1)
    by (simp add: is_binding_response_def is_message_def header_len_def get_put_be cookie_word type_binding_response_def)
  moreover have "get_be (slice 2 4 ?b) = 5" using parts(2) by (simp add: get_put_be)
  moreover have "slice 20 25 ?b = [0, 9, 0, 1, 0]" using parts(5) by simp
  moreover have "attr_loop tx None [0, 9, 0, 1, 0] = Panic" for tx
    by (subst attr_loop.simps)
      (simp add: slice_def get_be_def attr_xor_mapped_address_def attr_mapped_address_def pad4_def)
  ultimately show ?thesis by (simp add: parse_binding_response_def Let_def header_len_def)
qed

end
