(* ===== verification/Sha256.thy ===== *)
theory Sha256
  imports Bytes
begin

text \<open>
  The parts of Go's \<open>crypto/sha256\<close> and \<open>crypto/hmac\<close> the relay uses: the hash of FIPS 180-4 on byte
  strings, and its keyed form.
\<close>

section \<open>SHA-256\<close>

type_synonym word32 = "32 word"

definition rotr :: "nat \<Rightarrow> word32 \<Rightarrow> word32" where
  "rotr n w = drop_bit n w OR push_bit (32 - n) w"

definition sha_k :: "word32 list" where
  "sha_k =
    [0x428A2F98, 0x71374491, 0xB5C0FBCF, 0xE9B5DBA5, 0x3956C25B, 0x59F111F1, 0x923F82A4, 0xAB1C5ED5,
     0xD807AA98, 0x12835B01, 0x243185BE, 0x550C7DC3, 0x72BE5D74, 0x80DEB1FE, 0x9BDC06A7, 0xC19BF174,
     0xE49B69C1, 0xEFBE4786, 0x0FC19DC6, 0x240CA1CC, 0x2DE92C6F, 0x4A7484AA, 0x5CB0A9DC, 0x76F988DA,
     0x983E5152, 0xA831C66D, 0xB00327C8, 0xBF597FC7, 0xC6E00BF3, 0xD5A79147, 0x06CA6351, 0x14292967,
     0x27B70A85, 0x2E1B2138, 0x4D2C6DFC, 0x53380D13, 0x650A7354, 0x766A0ABB, 0x81C2C92E, 0x92722C85,
     0xA2BFE8A1, 0xA81A664B, 0xC24B8B70, 0xC76C51A3, 0xD192E819, 0xD6990624, 0xF40E3585, 0x106AA070,
     0x19A4C116, 0x1E376C08, 0x2748774C, 0x34B0BCB5, 0x391C0CB3, 0x4ED8AA4A, 0x5B9CCA4F, 0x682E6FF3,
     0x748F82EE, 0x78A5636F, 0x84C87814, 0x8CC70208, 0x90BEFFFA, 0xA4506CEB, 0xBEF9A3F7, 0xC67178F2]"

definition sha_init :: "word32 list" where
  "sha_init =
    [0x6A09E667, 0xBB67AE85, 0x3C6EF372, 0xA54FF53A, 0x510E527F, 0x9B05688C, 0x1F83D9AB, 0x5BE0CD19]"

text \<open>The message schedule, extended one word at a time from the sixteen words of a block.\<close>

fun schedule :: "nat \<Rightarrow> word32 list \<Rightarrow> word32 list" where
  "schedule 0 ws = ws"
| "schedule (Suc n) ws =
     (let i = length ws; w15 = ws ! (i - 15); w2 = ws ! (i - 2);
          s0 = rotr 7 w15 XOR rotr 18 w15 XOR drop_bit 3 w15;
          s1 = rotr 17 w2 XOR rotr 19 w2 XOR drop_bit 10 w2
      in schedule n (ws @ [ws ! (i - 16) + s0 + ws ! (i - 7) + s1]))"

fun sha_round :: "word32 \<times> word32 \<Rightarrow> word32 list \<Rightarrow> word32 list" where
  "sha_round (k, w) [a, b, c, d, e, f, g, h] =
     (let s1 = rotr 6 e XOR rotr 11 e XOR rotr 25 e;
          ch = (e AND f) XOR (NOT e AND g);
          t1 = h + s1 + ch + k + w;
          s0 = rotr 2 a XOR rotr 13 a XOR rotr 22 a;
          maj = (a AND b) XOR (a AND c) XOR (b AND c)
      in [t1 + (s0 + maj), a, b, c, d + t1, e, f, g])"
| "sha_round kw hs = hs"

fun be_words :: "bytes \<Rightarrow> word32 list" where
  "be_words (a # b # c # d # bs) = word_of_nat (get_be [a, b, c, d]) # be_words bs"
| "be_words bs = []"

definition sha_block :: "word32 list \<Rightarrow> bytes \<Rightarrow> word32 list" where
  "sha_block hs blk = map2 (+) hs (fold sha_round (zip sha_k (schedule 48 (be_words blk))) hs)"

function sha_blocks :: "word32 list \<Rightarrow> bytes \<Rightarrow> word32 list" where
  "sha_blocks hs bs = (if length bs < 64 then hs else sha_blocks (sha_block hs (take 64 bs)) (drop 64 bs))"
  by pat_completeness auto
termination by (relation "measure (\<lambda>(hs, bs). length bs)") auto

declare sha_blocks.simps [simp del]

definition sha_pad :: "bytes \<Rightarrow> bytes" where
  "sha_pad m = m @ [0x80] @ replicate ((119 - length m mod 64) mod 64) 0 @ put_be 8 (8 * length m)"

definition sha256 :: "bytes \<Rightarrow> bytes" where
  "sha256 m = concat (map (\<lambda>w. put_be 4 (unat w)) (sha_blocks sha_init (sha_pad m)))"

section \<open>HMAC\<close>

text \<open>A key longer than the block of 64 bytes is hashed first; a shorter one is filled with zeros.\<close>

definition hmac_key :: "bytes \<Rightarrow> bytes" where
  "hmac_key k = (let k' = (if 64 < length k then sha256 k else k) in k' @ replicate (64 - length k') 0)"

definition hmac_sha256 :: "bytes \<Rightarrow> bytes \<Rightarrow> bytes" where
  "hmac_sha256 k m =
     sha256 (map (\<lambda>b. b XOR 0x5C) (hmac_key k) @ sha256 (map (\<lambda>b. b XOR 0x36) (hmac_key k) @ m))"

section \<open>Lengths\<close>

lemma length_sha_round [simp]: "length (sha_round kw hs) = length hs"
  by (induction kw hs rule: sha_round.induct) (simp_all add: Let_def)

lemma length_fold_round [simp]: "length (fold sha_round kws hs) = length hs"
  by (induction kws arbitrary: hs) simp_all

lemma length_sha_blocks [simp]: "length (sha_blocks hs bs) = length hs"
proof (induction hs bs rule: sha_blocks.induct)
  case (1 hs bs)
  then show ?case by (subst sha_blocks.simps) (simp add: sha_block_def)
qed

lemma length_concat_words: "length (concat (map (\<lambda>w. put_be 4 (unat (w :: word32))) ws)) = 4 * length ws"
  by (induction ws) simp_all

lemma length_sha256 [simp]: "length (sha256 m) = 32"
  by (simp add: sha256_def length_concat_words sha_init_def)

lemma length_hmac [simp]: "length (hmac_sha256 k m) = 32"
  by (simp add: hmac_sha256_def)

text \<open>The padded message is made of whole blocks.\<close>

lemma sha_pad_blocks: "64 dvd length (sha_pad m)"
proof -
  let ?r = "length m mod 64"
  have r: "?r < 64" by simp
  have "(119 - ?r) mod 64 = (if ?r \<le> 55 then 55 - ?r else 119 - ?r)"
  proof (cases "?r \<le> 55")
    case True
    then have "119 - ?r = (55 - ?r) + 64" by simp
    then have "(119 - ?r) mod 64 = (55 - ?r) mod 64" by (metis mod_add_self2)
    also have "\<dots> = 55 - ?r" using True by (intro mod_less) linarith
    finally show ?thesis using True by simp
  next
    case False
    then have "119 - ?r < 64" by linarith
    then show ?thesis using False by simp
  qed
  then have "?r + ((119 - ?r) mod 64 + 9) = (if ?r \<le> 55 then 64 else 128)" using r by (simp split: if_splits)
  then have "64 dvd length m div 64 * 64 + (?r + ((119 - ?r) mod 64 + 9))" by simp
  then show ?thesis by (simp add: sha_pad_def ac_simps)
qed

end
