(* ===== verification/Relay.thy ===== *)
theory Relay
  imports Sha256 Base64
begin

text \<open>
  The fallback relay, \<open>internal/relay/relay.go\<close> and \<open>server.go\<close>: its frames, the proof that a client holds
  the private key of the public key it registers, and the server as a function from the datagrams it
  receives to those it sends. X25519, of \<open>golang.org/x/crypto\<close>, is a parameter.
\<close>

section \<open>Frames\<close>

definition relay_header_len :: nat where "relay_header_len = 6"
definition relay_key_len :: nat where "relay_key_len = 32"
definition relay_nonce_len :: nat where "relay_nonce_len = 16"
definition relay_mac_len :: nat where "relay_mac_len = 32"
definition type_register :: byte where "type_register = 1"
definition type_ack :: byte where "type_ack = 2"
definition type_forward :: byte where "type_forward = 3"
definition type_recv :: byte where "type_recv = 4"
definition type_challenge :: byte where "type_challenge = 5"
definition type_proof :: byte where "type_proof = 6"
definition relay_magic :: bytes where "relay_magic = [0xC6, 0x4F, 0x4D, 0x4E, 0x52]"

lemmas relay_consts = relay_header_len_def relay_key_len_def relay_nonce_len_def relay_mac_len_def
  type_register_def type_ack_def type_forward_def type_recv_def type_challenge_def type_proof_def relay_magic_def

type_synonym relay_key = bytes
type_synonym relay_nonce = bytes

definition endpoint_prefix :: string where "endpoint_prefix = ''relay:''"

definition endpoint_string :: "string \<Rightarrow> string" where
  "endpoint_string k = endpoint_prefix @ k"

definition is_frame :: "bytes \<Rightarrow> bool" where
  "is_frame b \<longleftrightarrow> relay_header_len \<le> length b \<and> b ! 0 = 0xC6 \<and> slice 1 5 b = slice 1 5 relay_magic"

definition frame_type :: "bytes \<Rightarrow> byte" where "frame_type b = b ! 5"

definition build_register :: "relay_key \<Rightarrow> bytes" where
  "build_register self = relay_magic @ [type_register] @ self"

definition build_ack :: bytes where
  "build_ack = relay_magic @ [type_ack]"

definition build_forward :: "relay_key \<Rightarrow> bytes \<Rightarrow> bytes" where
  "build_forward dst payload = relay_magic @ [type_forward] @ dst @ payload"

definition build_recv :: "relay_key \<Rightarrow> bytes \<Rightarrow> bytes" where
  "build_recv src payload = relay_magic @ [type_recv] @ src @ payload"

definition parse_keyed :: "bytes \<Rightarrow> (relay_key \<times> bytes) option" where
  "parse_keyed b =
     (if length b < relay_header_len + relay_key_len then None
      else Some (slice relay_header_len (relay_header_len + relay_key_len) b, drop (relay_header_len + relay_key_len) b))"

definition build_challenge :: "relay_key \<Rightarrow> relay_nonce \<Rightarrow> bytes" where
  "build_challenge pub nonce = relay_magic @ [type_challenge] @ pub @ nonce"

definition parse_challenge :: "bytes \<Rightarrow> (relay_key \<times> relay_nonce) option" where
  "parse_challenge b =
     (if length b \<noteq> relay_header_len + relay_key_len + relay_nonce_len then None
      else Some (slice 6 38 b, slice 38 54 b))"

section \<open>Proofs\<close>

record curve =
  cv_x25519 :: "bytes \<Rightarrow> bytes \<Rightarrow> bytes option"
  cv_base :: bytes

definition proof_mac :: "curve \<Rightarrow> bytes \<Rightarrow> bytes \<Rightarrow> bytes \<Rightarrow> relay_nonce \<Rightarrow> bytes option" where
  "proof_mac cv priv pub client nonce =
     map_option (\<lambda>shared. hmac_sha256 shared (nonce @ client)) (cv_x25519 cv priv pub)"

definition build_proof :: "curve \<Rightarrow> bytes \<Rightarrow> relay_key \<Rightarrow> relay_nonce \<Rightarrow> bytes option" where
  "build_proof cv priv pub nonce =
     (case cv_x25519 cv priv (cv_base cv) of None \<Rightarrow> None
      | Some client \<Rightarrow>
          (case proof_mac cv priv pub client nonce of None \<Rightarrow> None
           | Some mac \<Rightarrow> Some (relay_magic @ [type_proof] @ client @ nonce @ mac)))"

definition parse_proof :: "bytes \<Rightarrow> (relay_key \<times> relay_nonce \<times> bytes) option" where
  "parse_proof b =
     (if length b \<noteq> relay_header_len + relay_key_len + relay_nonce_len + relay_mac_len then None
      else Some (slice 6 38 b, slice 38 54 b, drop 54 b))"

definition verify_proof :: "curve \<Rightarrow> bytes \<Rightarrow> relay_key \<Rightarrow> relay_nonce \<Rightarrow> bytes \<Rightarrow> bool" where
  "verify_proof cv priv client nonce mac =
     (case proof_mac cv priv client client nonce of None \<Rightarrow> False | Some expected \<Rightarrow> expected = mac)"

definition key_to_b64 :: "relay_key \<Rightarrow> string" where
  "key_to_b64 k = b64_encode k"

definition key_from_b64 :: "string \<Rightarrow> relay_key option" where
  "key_from_b64 s = (case b64_decode s of None \<Rightarrow> None | Some raw \<Rightarrow> if length raw \<noteq> relay_key_len then None else Some raw)"

section \<open>The server\<close>

definition client_ttl :: duration where "client_ttl = 40 * second"
definition challenge_ttl :: duration where "challenge_ttl = 30 * second"
definition max_packet :: nat where "max_packet = 2048"

record relay_client =
  rc_addr :: addrport
  rc_last_seen :: time

record pending_challenge =
  pc_nonce :: relay_nonce
  pc_expires :: time

record relay_server =
  rl_priv :: bytes
  rl_pub :: relay_key
  rl_clients :: "(relay_key, relay_client) gomap"
  rl_by_addr :: "(addrport, relay_key) gomap"
  rl_pending :: "(addrport, pending_challenge) gomap"

text \<open>
  One datagram: the current time, the 16 bytes the random generator would give (\<open>None\<close> when it fails),
  what was received and from where. The handlers return the datagrams sent.
\<close>

record datagram =
  dg_now :: time
  dg_rnd :: "bytes option"
  dg_data :: bytes
  dg_src :: addrport

type_synonym packets = "(bytes \<times> addrport) list"

definition client_fresh :: "time \<Rightarrow> relay_client \<Rightarrow> bool" where
  "client_fresh now c \<longleftrightarrow> time_sub now (rc_last_seen c) < client_ttl"

definition on_register :: "time \<Rightarrow> bytes option \<Rightarrow> bytes \<Rightarrow> addrport \<Rightarrow> relay_server \<Rightarrow> relay_server \<times> packets" where
  "on_register now rnd pkt src s =
     (case parse_keyed pkt of None \<Rightarrow> (s, [])
      | Some (key, _) \<Rightarrow>
          (case (case gm_get (rl_clients s) key of
                   None \<Rightarrow> None
                 | Some cur \<Rightarrow> if rc_addr cur = src \<and> client_fresh now cur then Some cur else None) of
             Some cur \<Rightarrow>
               (s\<lparr>rl_clients := gm_put key \<lparr>rc_addr = src, rc_last_seen = now\<rparr> (rl_clients s)\<rparr>, [(build_ack, src)])
           | None \<Rightarrow>
               (case rnd of None \<Rightarrow> (s, [])
                | Some nonce \<Rightarrow>
                    (s\<lparr>rl_pending := gm_put src \<lparr>pc_nonce = nonce, pc_expires = now + challenge_ttl\<rparr> (rl_pending s)\<rparr>,
                     [(build_challenge (rl_pub s) nonce, src)]))))"

definition challenge_valid :: "time \<Rightarrow> relay_nonce \<Rightarrow> addrport \<Rightarrow> relay_server \<Rightarrow> bool" where
  "challenge_valid now nonce src s \<longleftrightarrow>
     (case gm_get (rl_pending s) src of None \<Rightarrow> False | Some ch \<Rightarrow> now < pc_expires ch \<and> pc_nonce ch = nonce)"

definition on_proof :: "curve \<Rightarrow> time \<Rightarrow> bytes \<Rightarrow> addrport \<Rightarrow> relay_server \<Rightarrow> relay_server \<times> packets" where
  "on_proof cv now pkt src s =
     (case parse_proof pkt of None \<Rightarrow> (s, [])
      | Some (client, nonce, mac) \<Rightarrow>
          if \<not> challenge_valid now nonce src s then (s, [])
          else
            let s1 = s\<lparr>rl_pending := gm_del src (rl_pending s)\<rparr> in
            if \<not> verify_proof cv (rl_priv s) client nonce mac then (s1, [])
            else
              let by_addr = (case gm_get (rl_clients s1) client of
                     Some old \<Rightarrow> if rc_addr old \<noteq> src then gm_del (rc_addr old) (rl_by_addr s1) else rl_by_addr s1
                   | None \<Rightarrow> rl_by_addr s1)
              in (s1\<lparr>rl_clients := gm_put client \<lparr>rc_addr = src, rc_last_seen = now\<rparr> (rl_clients s1),
                     rl_by_addr := gm_put src client by_addr\<rparr>, [(build_ack, src)]))"

text \<open>
  A sender that is not registered reads as the zero \<open>client\<close>, whose zero address is no source address; an
  absent destination is not fresh.
\<close>

definition on_forward :: "time \<Rightarrow> bytes \<Rightarrow> addrport \<Rightarrow> relay_server \<Rightarrow> relay_server \<times> packets" where
  "on_forward now pkt src s =
     (case parse_keyed pkt of None \<Rightarrow> (s, [])
      | Some (dst_key, payload) \<Rightarrow>
          if payload = [] then (s, [])
          else
            case (gm_get (rl_by_addr s) src, gm_get (rl_clients s) dst_key) of
              (Some src_key, Some dst) \<Rightarrow>
                (case gm_get (rl_clients s) src_key of
                   None \<Rightarrow> (s, [])
                 | Some sender \<Rightarrow>
                     if rc_addr sender \<noteq> src \<or> \<not> client_fresh now sender \<or> \<not> client_fresh now dst then (s, [])
                     else (s, [(build_recv src_key payload, rc_addr dst)]))
            | _ \<Rightarrow> (s, []))"

definition relay_handle :: "curve \<Rightarrow> time \<Rightarrow> bytes option \<Rightarrow> bytes \<Rightarrow> addrport \<Rightarrow> relay_server \<Rightarrow> relay_server \<times> packets" where
  "relay_handle cv now rnd pkt src s =
     (if \<not> is_frame pkt then (s, [])
      else if frame_type pkt = type_register then on_register now rnd pkt src s
      else if frame_type pkt = type_proof then on_proof cv now pkt src s
      else if frame_type pkt = type_forward then on_forward now pkt src s
      else (s, []))"

text \<open>The body of the loop of \<open>Serve\<close>: the buffer holds 2048 bytes, an IPv4-mapped source is unmapped.\<close>

definition dg_from :: "datagram \<Rightarrow> addrport" where
  "dg_from d = (unmap (fst (dg_src d)), snd (dg_src d))"

definition dg_pkt :: "datagram \<Rightarrow> bytes" where
  "dg_pkt d = take max_packet (dg_data d)"

definition relay_datagram :: "curve \<Rightarrow> datagram \<Rightarrow> relay_server \<Rightarrow> relay_server \<times> packets" where
  "relay_datagram cv d s = relay_handle cv (dg_now d) (dg_rnd d) (dg_pkt d) (dg_from d) s"

fun relay_run :: "curve \<Rightarrow> datagram list \<Rightarrow> relay_server \<Rightarrow> relay_server \<times> packets" where
  "relay_run cv [] s = (s, [])"
| "relay_run cv (d # ds) s =
     (let (s1, o1) = relay_datagram cv d s; (s2, o2) = relay_run cv ds s1 in (s2, o1 @ o2))"

definition relay_start :: "curve \<Rightarrow> bytes option \<Rightarrow> relay_server option" where
  "relay_start cv rnd =
     (case rnd of None \<Rightarrow> None
      | Some priv \<Rightarrow>
          map_option (\<lambda>pub. \<lparr>rl_priv = priv, rl_pub = pub, rl_clients = [], rl_by_addr = [], rl_pending = []\<rparr>)
            (cv_x25519 cv priv (cv_base cv)))"

section \<open>Lemmas on frames\<close>

lemma frame_built [simp]: "is_frame (relay_magic @ t # r)" "frame_type (relay_magic @ t # r) = t"
  by (simp_all add: is_frame_def frame_type_def relay_consts slice_def numeral_eq_Suc)

lemma frame_starts: "is_frame b \<Longrightarrow> b \<noteq> [] \<and> hd b = 0xC6"
  by (cases b) (auto simp: is_frame_def relay_consts)

lemma length_magic [simp]: "length relay_magic = 5"
  by (simp add: relay_magic_def)

lemma parse_keyed_built: "length k = 32 \<Longrightarrow> parse_keyed (relay_magic @ t # k @ p) = Some (k, p)"
  by (simp add: parse_keyed_def relay_consts slice_def)

lemma parse_challenge_built:
  "length k = 32 \<Longrightarrow> length n = 16 \<Longrightarrow> parse_challenge (relay_magic @ t # k @ n) = Some (k, n)"
  by (simp add: parse_challenge_def relay_consts slice_def)

lemma parse_proof_built:
  "length k = 32 \<Longrightarrow> length n = 16 \<Longrightarrow> length m = 32 \<Longrightarrow> parse_proof (relay_magic @ t # k @ n @ m) = Some (k, n, m)"
  by (simp add: parse_proof_def relay_consts slice_def)

lemma parse_keyed_length: "parse_keyed b = Some (k, p) \<Longrightarrow> length k = 32 \<and> length b = 38 + length p"
  by (auto simp: parse_keyed_def relay_consts split: if_splits)

lemma type_distinct [simp]: "type_register \<noteq> type_proof" "type_register \<noteq> type_forward" "type_proof \<noteq> type_forward"
  "type_proof \<noteq> type_register" "type_forward \<noteq> type_register" "type_forward \<noteq> type_proof"
  "type_recv \<noteq> type_ack" "type_recv \<noteq> type_challenge" "type_ack \<noteq> type_challenge" "type_challenge \<noteq> type_ack"
  "type_challenge \<noteq> type_recv" "type_ack \<noteq> type_recv"
  by (simp_all add: relay_consts)

text \<open>The formats as codecs. All start with a byte no other protocol of the socket uses.\<close>

definition frame_codec :: "byte \<Rightarrow> (bytes \<Rightarrow> 'm option) \<Rightarrow> bytes \<Rightarrow> 'm option" where
  "frame_codec t parse b = (if is_frame b \<and> frame_type b = t then parse b else None)"

lemma frame_codec_tag: "frame_codec t parse b = Some m \<Longrightarrow> b \<noteq> [] \<and> hd b = 0xC6"
  by (auto simp: frame_codec_def dest: frame_starts split: if_splits)

lemma frame_codec_built [simp]: "frame_codec t parse (relay_magic @ t # r) = parse (relay_magic @ t # r)"
  by (simp add: frame_codec_def)

lemma magic_starts: "relay_magic @ r \<noteq> [] \<and> hd (relay_magic @ r) = 0xC6"
  by (simp add: relay_magic_def)

interpretation forward_frame: tagged_codec "\<lambda>(k, p). build_forward k p" "frame_codec type_forward parse_keyed"
  "\<lambda>(k, p). length k = 32" "0xC6"
  by unfold_locales (auto simp: build_forward_def parse_keyed_built magic_starts dest: frame_codec_tag)

interpretation recv_frame: tagged_codec "\<lambda>(k, p). build_recv k p" "frame_codec type_recv parse_keyed"
  "\<lambda>(k, p). length k = 32" "0xC6"
  by unfold_locales (auto simp: build_recv_def parse_keyed_built magic_starts dest: frame_codec_tag)

interpretation challenge_frame: tagged_codec "\<lambda>(k, n). build_challenge k n" "frame_codec type_challenge parse_challenge"
  "\<lambda>(k, n). length k = 32 \<and> length n = 16" "0xC6"
  by unfold_locales (auto simp: build_challenge_def parse_challenge_built magic_starts dest: frame_codec_tag)

lemma register_built: "length k = 32 \<Longrightarrow> parse_keyed (build_register k) = Some (k, [])"
  using parse_keyed_built [of k type_register "[]"] by (simp add: build_register_def)

section \<open>What the handlers do\<close>

lemma on_register_cases:
  obtains "on_register now rnd pkt src s = (s, [])"
  | k p c where "parse_keyed pkt = Some (k, p)" "gm_get (rl_clients s) k = Some c" "rc_addr c = src" "client_fresh now c"
      "on_register now rnd pkt src s =
        (s\<lparr>rl_clients := gm_put k \<lparr>rc_addr = src, rc_last_seen = now\<rparr> (rl_clients s)\<rparr>, [(build_ack, src)])"
  | k p n where "parse_keyed pkt = Some (k, p)" "rnd = Some n"
      "on_register now rnd pkt src s =
        (s\<lparr>rl_pending := gm_put src \<lparr>pc_nonce = n, pc_expires = now + challenge_ttl\<rparr> (rl_pending s)\<rparr>,
         [(build_challenge (rl_pub s) n, src)])"
proof (cases "parse_keyed pkt")
  case (Some kp)
  obtain k p where kp: "kp = (k, p)" by (cases kp)
  show thesis
  proof (cases "\<exists>c. gm_get (rl_clients s) k = Some c \<and> rc_addr c = src \<and> client_fresh now c")
    case True
    then obtain c where "gm_get (rl_clients s) k = Some c" "rc_addr c = src" "client_fresh now c" by blast
    with that(2) [of k p c] Some kp show thesis by (simp add: on_register_def)
  next
    case False
    then have none: "(case gm_get (rl_clients s) k of None \<Rightarrow> None
      | Some cur \<Rightarrow> if rc_addr cur = src \<and> client_fresh now cur then Some cur else None) = None"
      by (auto split: option.split)
    show thesis
    proof (cases rnd)
      case None
      with that(1) Some kp none show thesis by (simp add: on_register_def)
    next
      case (Some n)
      with that(3) [of k p n] \<open>parse_keyed pkt = Some kp\<close> kp none show thesis by (simp add: on_register_def)
    qed
  qed
qed (use that(1) in \<open>simp add: on_register_def\<close>)

definition moved_entries :: "relay_key \<Rightarrow> addrport \<Rightarrow> relay_server \<Rightarrow> (addrport, relay_key) gomap" where
  "moved_entries k src s =
     (case gm_get (rl_clients s) k of
        Some old \<Rightarrow> if rc_addr old \<noteq> src then gm_del (rc_addr old) (rl_by_addr s) else rl_by_addr s
      | None \<Rightarrow> rl_by_addr s)"

lemma on_proof_cases:
  obtains "on_proof cv now pkt src s = (s, [])"
  | k n m where "parse_proof pkt = Some (k, n, m)" "challenge_valid now n src s" "\<not> verify_proof cv (rl_priv s) k n m"
      "on_proof cv now pkt src s = (s\<lparr>rl_pending := gm_del src (rl_pending s)\<rparr>, [])"
  | k n m where "parse_proof pkt = Some (k, n, m)" "challenge_valid now n src s" "verify_proof cv (rl_priv s) k n m"
      "on_proof cv now pkt src s =
        (s\<lparr>rl_pending := gm_del src (rl_pending s),
           rl_clients := gm_put k \<lparr>rc_addr = src, rc_last_seen = now\<rparr> (rl_clients s),
           rl_by_addr := gm_put src k (moved_entries k src s)\<rparr>, [(build_ack, src)])"
proof (cases "parse_proof pkt")
  case (Some knm)
  obtain k n m where knm: "knm = (k, n, m)" by (metis prod_cases3)
  show thesis
  proof (cases "challenge_valid now n src s")
    case True
    with Some knm that(2,3) [of k n m] show thesis
      by (cases "verify_proof cv (rl_priv s) k n m") (simp_all add: on_proof_def Let_def moved_entries_def cong: option.case_cong if_cong)
  next
    case False
    with Some knm that(1) show thesis by (simp add: on_proof_def)
  qed
qed (use that(1) in \<open>simp add: on_proof_def\<close>)

lemma on_forward_cases:
  obtains "on_forward now pkt src s = (s, [])"
  | dk p k sender dst where "parse_keyed pkt = Some (dk, p)" "p \<noteq> []" "gm_get (rl_by_addr s) src = Some k"
      "gm_get (rl_clients s) k = Some sender" "rc_addr sender = src" "client_fresh now sender"
      "gm_get (rl_clients s) dk = Some dst" "client_fresh now dst"
      "on_forward now pkt src s = (s, [(build_recv k p, rc_addr dst)])"
proof (cases "on_forward now pkt src s = (s, [])")
  case False
  then obtain dk p where 1: "parse_keyed pkt = Some (dk, p)" "p \<noteq> []"
    by (auto simp: on_forward_def split: option.splits if_splits)
  with False obtain k dst where 2: "gm_get (rl_by_addr s) src = Some k" "gm_get (rl_clients s) dk = Some dst"
    by (auto simp: on_forward_def split: option.splits)
  with False 1 obtain sender where 3: "gm_get (rl_clients s) k = Some sender"
    by (auto simp: on_forward_def split: option.splits)
  with False 1 2 have "rc_addr sender = src" "client_fresh now sender" "client_fresh now dst"
    by (auto simp: on_forward_def split: if_splits)
  with 1 2 3 show thesis by (intro that(2)) (simp_all add: on_forward_def)
qed (rule that(1))

lemma handle_cases:
  obtains "relay_handle cv now rnd pkt src s = (s, [])"
  | "is_frame pkt" "frame_type pkt = type_register" "relay_handle cv now rnd pkt src s = on_register now rnd pkt src s"
  | "is_frame pkt" "frame_type pkt = type_proof" "relay_handle cv now rnd pkt src s = on_proof cv now pkt src s"
  | "is_frame pkt" "frame_type pkt = type_forward" "relay_handle cv now rnd pkt src s = on_forward now pkt src s"
  by (simp add: relay_handle_def split: if_splits) metis

lemma relay_run_append:
  "relay_run cv (ds @ es) s =
     (let (s1, o1) = relay_run cv ds s; (s2, o2) = relay_run cv es s1 in (s2, o1 @ o2))"
  by (induction ds arbitrary: s) (auto simp: Let_def split: prod.splits)

lemma relay_run_snoc:
  "fst (relay_run cv (ds @ [d]) s) = fst (relay_datagram cv d (fst (relay_run cv ds s)))"
  by (simp add: relay_run_append Let_def split: prod.splits)

section \<open>Who is registered\<close>

text \<open>
  A challenge with nonce \<open>n\<close> was sent to \<open>a\<close> at time \<open>t\<close>; the key \<open>k\<close> was proved from \<open>a\<close>: a proof whose
  code verifies for \<open>k\<close> came from \<open>a\<close>, on a nonce the relay had sent to \<open>a\<close> less than 30 seconds before.
\<close>

definition issued :: "curve \<Rightarrow> relay_server \<Rightarrow> datagram list \<Rightarrow> addrport \<Rightarrow> relay_nonce \<Rightarrow> time \<Rightarrow> bool" where
  "issued cv s0 ds a n t \<longleftrightarrow>
     (\<exists>pre d post. ds = pre @ d # post \<and> dg_from d = a \<and> dg_now d = t \<and>
        snd (relay_datagram cv d (fst (relay_run cv pre s0))) = [(build_challenge (rl_pub s0) n, a)])"

definition authenticated :: "curve \<Rightarrow> relay_server \<Rightarrow> datagram list \<Rightarrow> relay_key \<Rightarrow> addrport \<Rightarrow> bool" where
  "authenticated cv s0 ds k a \<longleftrightarrow>
     (\<exists>pre d post n m t. ds = pre @ d # post \<and> dg_from d = a \<and> is_frame (dg_pkt d) \<and> frame_type (dg_pkt d) = type_proof \<and>
        parse_proof (dg_pkt d) = Some (k, n, m) \<and> verify_proof cv (rl_priv s0) k n m \<and>
        issued cv s0 pre a n t \<and> dg_now d < t + challenge_ttl)"

definition relay_inv :: "curve \<Rightarrow> relay_server \<Rightarrow> datagram list \<Rightarrow> relay_server \<Rightarrow> bool" where
  "relay_inv cv s0 ds s \<longleftrightarrow>
     rl_priv s = rl_priv s0 \<and> rl_pub s = rl_pub s0 \<and>
     (\<forall>a ch. gm_get (rl_pending s) a = Some ch \<longrightarrow> issued cv s0 ds a (pc_nonce ch) (pc_expires ch - challenge_ttl)) \<and>
     (\<forall>k c. gm_get (rl_clients s) k = Some c \<longrightarrow> authenticated cv s0 ds k (rc_addr c)) \<and>
     (\<forall>a k. gm_get (rl_by_addr s) a = Some k \<longrightarrow> (\<exists>c. gm_get (rl_clients s) k = Some c \<and> rc_addr c = a))"

lemma relay_invD:
  assumes "relay_inv cv s0 ds s"
  shows "gm_get (rl_clients s) k = Some c \<Longrightarrow> authenticated cv s0 ds k (rc_addr c)"
    and "gm_get (rl_by_addr s) a = Some k \<Longrightarrow> \<exists>c. gm_get (rl_clients s) k = Some c \<and> rc_addr c = a"
  using assms unfolding relay_inv_def by blast+

lemma issued_mono: "issued cv s0 ds a n t \<Longrightarrow> issued cv s0 (ds @ es) a n t"
  unfolding issued_def by (metis append.assoc append_Cons)

lemma authenticated_mono: "authenticated cv s0 ds k a \<Longrightarrow> authenticated cv s0 (ds @ es) k a"
  unfolding authenticated_def by (metis append.assoc append_Cons)

lemma issued_last:
  "dg_from d = a \<Longrightarrow> snd (relay_datagram cv d (fst (relay_run cv ds s0))) = [(build_challenge (rl_pub s0) n, a)] \<Longrightarrow>
   issued cv s0 (ds @ [d]) a n (dg_now d)"
  unfolding issued_def by blast

lemma authenticated_last:
  "is_frame (dg_pkt d) \<Longrightarrow> frame_type (dg_pkt d) = type_proof \<Longrightarrow> parse_proof (dg_pkt d) = Some (k, n, m) \<Longrightarrow>
   verify_proof cv (rl_priv s0) k n m \<Longrightarrow> issued cv s0 ds (dg_from d) n t \<Longrightarrow> dg_now d < t + challenge_ttl \<Longrightarrow>
   authenticated cv s0 (ds @ [d]) k (dg_from d)"
  unfolding authenticated_def by blast

lemma relay_inv_mono: "relay_inv cv s0 ds s \<Longrightarrow> relay_inv cv s0 (ds @ es) s"
  unfolding relay_inv_def by (meson issued_mono authenticated_mono)

lemma moved_entries_get:
  "gm_get (moved_entries k src s) a = Some k' \<Longrightarrow> gm_get (rl_by_addr s) a = Some k' \<and>
     (\<forall>old. gm_get (rl_clients s) k = Some old \<longrightarrow> rc_addr old \<noteq> src \<longrightarrow> a \<noteq> rc_addr old)"
  by (auto simp: moved_entries_def gm_get_del split: option.splits if_splits)

lemma relay_inv_register:
  assumes inv: "relay_inv cv s0 ds s" and run: "s = fst (relay_run cv ds s0)"
    and h: "relay_datagram cv d s = on_register (dg_now d) (dg_rnd d) (dg_pkt d) (dg_from d) s"
  shows "relay_inv cv s0 (ds @ [d]) (fst (relay_datagram cv d s))"
proof -
  let ?src = "dg_from d" and ?now = "dg_now d" and ?pkt = "dg_pkt d"
  note mono = relay_inv_mono [OF inv, of "[d]"]
  show ?thesis
  proof (cases rule: on_register_cases [of ?now "dg_rnd d" ?pkt ?src s])
    case 1
    with mono show ?thesis by (simp add: h)
  next
    case (2 k p c)
    then have "authenticated cv s0 (ds @ [d]) k ?src" "\<And>a. gm_get (rl_by_addr s) a = Some k \<Longrightarrow> a = ?src"
      using mono by (force simp: relay_inv_def)+
    with 2 mono show ?thesis
      by (auto simp: h relay_inv_def gm_get_put)
  next
    case (3 k p n)
    have "relay_datagram cv d s = (s\<lparr>rl_pending := gm_put ?src \<lparr>pc_nonce = n, pc_expires = ?now + challenge_ttl\<rparr> (rl_pending s)\<rparr>,
       [(build_challenge (rl_pub s) n, ?src)])"
      using 3 by (simp add: h)
    moreover from this have "issued cv s0 (ds @ [d]) ?src n ?now"
      using inv run by (intro issued_last) (simp_all add: relay_inv_def)
    ultimately show ?thesis using mono by (auto simp: relay_inv_def gm_get_put)
  qed
qed

lemma relay_inv_proof:
  assumes inv: "relay_inv cv s0 ds s" and frame: "is_frame (dg_pkt d)" "frame_type (dg_pkt d) = type_proof"
    and h: "relay_datagram cv d s = on_proof cv (dg_now d) (dg_pkt d) (dg_from d) s"
  shows "relay_inv cv s0 (ds @ [d]) (fst (relay_datagram cv d s))"
proof -
  let ?src = "dg_from d" and ?now = "dg_now d" and ?pkt = "dg_pkt d"
  note mono = relay_inv_mono [OF inv, of "[d]"]
  show ?thesis
  proof (cases rule: on_proof_cases [of cv ?now ?pkt ?src s])
    case 1
    with mono show ?thesis by (simp add: h)
  next
    case (2 k n m)
    with mono show ?thesis by (auto simp: h relay_inv_def gm_get_del)
  next
    case (3 k n m)
    obtain ch where ch: "gm_get (rl_pending s) ?src = Some ch" "?now < pc_expires ch" "pc_nonce ch = n"
      using 3(2) by (auto simp: challenge_valid_def split: option.splits)
    have "authenticated cv s0 (ds @ [d]) k ?src"
    proof (rule authenticated_last)
      show "is_frame ?pkt" "frame_type ?pkt = type_proof" by (rule frame)+
      show "parse_proof ?pkt = Some (k, n, m)" by fact
      show "verify_proof cv (rl_priv s0) k n m" using 3(3) inv by (simp add: relay_inv_def)
      show "issued cv s0 ds ?src n (pc_expires ch - challenge_ttl)" using inv ch(1,3) unfolding relay_inv_def by blast
      show "?now < pc_expires ch - challenge_ttl + challenge_ttl" using ch by simp
    qed
    moreover have "\<exists>c. gm_get (rl_clients s) k' = Some c \<and> rc_addr c = a" "k' = k \<Longrightarrow> a = ?src"
      if "gm_get (moved_entries k ?src s) a = Some k'" for a k'
      using moved_entries_get [OF that] relay_invD [OF inv] by metis+
    ultimately show ?thesis
      using mono 3(4)
      by (auto simp: h relay_inv_def gm_get_put gm_get_del)
  qed
qed

lemma relay_inv_step:
  assumes inv: "relay_inv cv s0 ds s" and run: "s = fst (relay_run cv ds s0)"
  shows "relay_inv cv s0 (ds @ [d]) (fst (relay_datagram cv d s))"
proof -
  let ?src = "dg_from d" and ?now = "dg_now d" and ?pkt = "dg_pkt d"
  note mono = relay_inv_mono [OF inv, of "[d]"]
  have dg: "relay_datagram cv d s = relay_handle cv ?now (dg_rnd d) ?pkt ?src s" by (simp add: relay_datagram_def)
  show ?thesis
  proof (cases rule: handle_cases [of cv ?now "dg_rnd d" ?pkt ?src s])
    case 1
    with mono show ?thesis by (simp add: dg)
  next
    case 2
    then show ?thesis using relay_inv_register [OF inv run] by (simp add: dg)
  next
    case 3
    then show ?thesis using relay_inv_proof [OF inv] by (simp add: dg)
  next
    case 4
    have "fst (on_forward ?now ?pkt ?src s) = s"
      by (cases rule: on_forward_cases [of ?now ?pkt ?src s]) simp_all
    with 4 mono show ?thesis by (simp add: dg)
  qed
qed

lemma relay_run_inv:
  assumes "relay_start cv rnd = Some s0"
  shows "relay_inv cv s0 ds (fst (relay_run cv ds s0))"
proof (induction ds rule: rev_induct)
  case Nil
  show ?case using assms by (auto simp: relay_inv_def relay_start_def split: option.splits)
next
  case (snoc d ds)
  then show ?case using relay_inv_step [OF _ refl] by (simp add: relay_run_snoc)
qed

end
