(* ===== verification/Omnisock.thy ===== *)
theory Omnisock
  imports Stun Relay
begin

text \<open>
  The magic socket, \<open>internal/omnisock/disco.go\<close> and \<open>bind.go\<close>: one UDP socket shared by WireGuard, STUN, the
  disco probes and the relay. The operating system's socket is the datagrams read from it and those
  written to it; the WireGuard engine is the packets it is handed.
\<close>

section \<open>Disco probes\<close>

definition disco_len :: nat where "disco_len = 18"
definition disco_magic :: bytes where "disco_magic = [0xC5, 0x4F, 0x4D, 0x4E, 0x49]"
definition disco_ping :: byte where "disco_ping = 1"
definition disco_pong :: byte where "disco_pong = 2"

lemmas disco_consts = disco_len_def disco_magic_def disco_ping_def disco_pong_def

type_synonym disco_txid = bytes

definition is_disco :: "bytes \<Rightarrow> bool" where
  "is_disco b \<longleftrightarrow> length b = disco_len \<and> take 5 b = disco_magic"

definition encode_disco :: "byte \<Rightarrow> disco_txid \<Rightarrow> bytes" where
  "encode_disco t i = disco_magic @ [t] @ i"

definition decode_disco :: "bytes \<Rightarrow> byte \<times> disco_txid" where
  "decode_disco b = (b ! 5, drop 6 b)"

section \<open>The socket\<close>

text \<open>
  \<open>bd_udp\<close> is the local port while the socket is open. The invalid address of a relay that is not
  configured is \<open>None\<close>. The channels of the pending STUN requests are named by their transactions.
\<close>

record bind =
  bd_udp :: "16 word option"
  bd_stun_tx :: "txid list"
  bd_pong :: bool
  bd_closed :: bool
  bd_mark :: "32 word"
  bd_relay_addr :: "addrport option"
  bd_relay_priv :: bytes
  bd_relay_self :: relay_key
  bd_relay_last_ack :: time

datatype endpoint = Direct addrport | ViaRelay relay_key

datatype bind_effect =
    Sent bytes addrport
  | PongSeen disco_txid addrport
  | StunMapped txid addrport

datatype bind_error = ErrClosed | ErrAlreadyOpen | ErrListen | ErrX25519 | ErrNoRelay | ErrForeignEndpoint | ErrBadEndpoint | ErrMark

definition new_bind :: bind where
  "new_bind = \<lparr>bd_udp = None, bd_stun_tx = [], bd_pong = False, bd_closed = False, bd_mark = 0,
     bd_relay_addr = None, bd_relay_priv = replicate 32 0, bd_relay_self = replicate 32 0, bd_relay_last_ack = 0\<rparr>"

definition set_pong_handler :: "bind \<Rightarrow> bind" where
  "set_pong_handler b = b\<lparr>bd_pong := True\<rparr>"

text \<open>\<open>listen\<close> is the port the operating system binds, if it does.\<close>

definition open_bind :: "16 word option \<Rightarrow> bind \<Rightarrow> bind \<times> (bind_error + 16 word)" where
  "open_bind listen b =
     (if bd_udp b \<noteq> None then (b, Inl ErrAlreadyOpen)
      else case listen of
        None \<Rightarrow> (b, Inl ErrListen)
      | Some p \<Rightarrow> (b\<lparr>bd_udp := Some p, bd_closed := False\<rparr>, Inr p))"

definition local_port :: "bind \<Rightarrow> nat" where
  "local_port b = (case bd_udp b of None \<Rightarrow> 0 | Some p \<Rightarrow> unat p)"

definition write_to :: "bytes \<Rightarrow> addrport \<Rightarrow> bind \<Rightarrow> bind_error + bind_effect list" where
  "write_to pkt dst b = (if bd_udp b = None then Inl ErrClosed else Inr [Sent pkt dst])"

definition sent_by :: "bind_error + bind_effect list \<Rightarrow> bind_effect list" where
  "sent_by r = (case r of Inl _ \<Rightarrow> [] | Inr es \<Rightarrow> es)"

definition close_bind :: "bind \<Rightarrow> bind" where
  "close_bind b = b\<lparr>bd_closed := True, bd_udp := None\<rparr>"

definition set_mark :: "bool \<Rightarrow> 32 word \<Rightarrow> bind \<Rightarrow> bind \<times> bind_error option" where
  "set_mark sys_ok mark b =
     (b\<lparr>bd_mark := mark\<rparr>, if bd_udp b \<noteq> None \<and> mark \<noteq> 0 \<and> \<not> sys_ok then Some ErrMark else None)"

section \<open>Receiving\<close>

definition handle_disco :: "bytes \<Rightarrow> addrport \<Rightarrow> bind \<Rightarrow> bind_effect list" where
  "handle_disco pkt src b =
     (let (t, i) = decode_disco pkt in
      if t = disco_ping then sent_by (write_to (encode_disco disco_pong i) src b)
      else if t = disco_pong then (if bd_pong b then [PongSeen i src] else [])
      else [])"

definition handle_stun :: "bytes \<Rightarrow> bind \<Rightarrow> (bind \<times> bind_effect list) outcome" where
  "handle_stun pkt b =
     (case parse_binding_response pkt of
        Panic \<Rightarrow> Panic
      | Failed \<Rightarrow> Done (b, [])
      | Done (tx, mapped) \<Rightarrow>
          Done (b\<lparr>bd_stun_tx := removeAll tx (bd_stun_tx b)\<rparr>,
                if tx \<in> set (bd_stun_tx b) then [StunMapped tx mapped] else []))"

text \<open>The frames of the relay: what it changes, what is sent and what is handed to the engine.\<close>

definition handle_relay :: "curve \<Rightarrow> time \<Rightarrow> bytes \<Rightarrow> addrport \<Rightarrow> bind \<Rightarrow> bind \<times> bind_effect list \<times> (bytes \<times> endpoint) option" where
  "handle_relay cv now pkt src b =
     (if frame_type pkt = type_ack then (b\<lparr>bd_relay_last_ack := now\<rparr>, [], None)
      else if frame_type pkt = type_challenge then
        (case parse_challenge pkt of
           None \<Rightarrow> (b, [], None)
         | Some (pub, nonce) \<Rightarrow>
             (case bd_relay_addr b of
                None \<Rightarrow> (b, [], None)
              | Some addr \<Rightarrow>
                  if src = addr then
                    (case build_proof cv (bd_relay_priv b) pub nonce of
                       None \<Rightarrow> (b, [], None)
                     | Some proof \<Rightarrow> (b, sent_by (write_to proof addr b), None))
                  else (b, [], None)))
      else if frame_type pkt = type_recv then
        (case parse_keyed pkt of
           None \<Rightarrow> (b, [], None)
         | Some (src_key, payload) \<Rightarrow>
             if payload \<noteq> [] then (b, [], Some (payload, ViaRelay src_key)) else (b, [], None))
      else (b, [], None))"

text \<open>One turn of the loop of \<open>receive\<close>, on a datagram already cut to the buffer, its source unmapped.\<close>

definition receive_packet :: "curve \<Rightarrow> time \<Rightarrow> bytes \<Rightarrow> addrport \<Rightarrow> bind \<Rightarrow>
    (bind \<times> bind_effect list \<times> (bytes \<times> endpoint) option) outcome" where
  "receive_packet cv now pkt src b =
     (if is_disco pkt then Done (b, handle_disco pkt src b, None)
      else if is_binding_response pkt then
        (case handle_stun pkt b of
           Done (b', es) \<Rightarrow> Done (b', es, None)
         | Failed \<Rightarrow> Failed
         | Panic \<Rightarrow> Panic)
      else if is_frame pkt then Done (handle_relay cv now pkt src b)
      else Done (b, [], Some (pkt, Direct src)))"

text \<open>
  The engine calls \<open>receive\<close> again after every packet: on a sequence of datagrams (cut to its buffer of
  \<open>buf\<close> bytes) the result is the state, the effects in order and the packets handed over. A panic ends
  the process; on a closed socket nothing is read.
\<close>

fun receive_all :: "curve \<Rightarrow> nat \<Rightarrow> datagram list \<Rightarrow> bind \<Rightarrow> (bind \<times> bind_effect list \<times> (bytes \<times> endpoint) list) outcome" where
  "receive_all cv buf [] b = Done (b, [], [])"
| "receive_all cv buf (d # ds) b =
     (if bd_udp b = None then Failed
      else case receive_packet cv (dg_now d) (take buf (dg_data d)) (dg_from d) b of
        Done (b1, es1, p) \<Rightarrow>
          (case receive_all cv buf ds b1 of
             Done (b2, es2, ps) \<Rightarrow> Done (b2, es1 @ es2, (case p of None \<Rightarrow> ps | Some x \<Rightarrow> x # ps))
           | Failed \<Rightarrow> Failed
           | Panic \<Rightarrow> Panic)
      | Failed \<Rightarrow> Failed
      | Panic \<Rightarrow> Panic)"

section \<open>The relay\<close>

definition configure_relay :: "curve \<Rightarrow> addrport \<Rightarrow> bytes \<Rightarrow> bind \<Rightarrow> bind_error + bind" where
  "configure_relay cv addr priv b =
     (case cv_x25519 cv priv (cv_base cv) of
        None \<Rightarrow> Inl ErrX25519
      | Some pub \<Rightarrow> Inr (b\<lparr>bd_relay_addr := Some addr, bd_relay_priv := priv, bd_relay_self := pub\<rparr>))"

definition relay_register :: "bind \<Rightarrow> bind_error + bind_effect list" where
  "relay_register b =
     (case bd_relay_addr b of None \<Rightarrow> Inl ErrNoRelay | Some addr \<Rightarrow> write_to (build_register (bd_relay_self b)) addr b)"

definition relay_healthy :: "time \<Rightarrow> bind \<Rightarrow> bool" where
  "relay_healthy now b \<longleftrightarrow> bd_relay_addr b \<noteq> None \<and> time_sub now (bd_relay_last_ack b) < 35 * second"

section \<open>Sending\<close>

definition send_ping :: "disco_txid \<Rightarrow> addrport \<Rightarrow> bind \<Rightarrow> bind_error + bind_effect list" where
  "send_ping i dst b = write_to (encode_disco disco_ping i) dst b"

text \<open>\<open>Send\<close> writes the packets in order and stops at the first error.\<close>

fun write_all :: "bytes list \<Rightarrow> addrport \<Rightarrow> bind \<Rightarrow> bind_effect list \<times> bind_error option" where
  "write_all [] dst b = ([], None)"
| "write_all (p # ps) dst b =
     (case write_to p dst b of
        Inl e \<Rightarrow> ([], Some e)
      | Inr es \<Rightarrow> (let (es', r) = write_all ps dst b in (es @ es', r)))"

definition bind_send :: "bytes list \<Rightarrow> endpoint option \<Rightarrow> bind \<Rightarrow> bind_effect list \<times> bind_error option" where
  "bind_send bufs ep b =
     (case ep of
        Some (Direct ap) \<Rightarrow> write_all bufs ap b
      | Some (ViaRelay k) \<Rightarrow>
          (case bd_relay_addr b of
             None \<Rightarrow> ([], Some ErrNoRelay)
           | Some addr \<Rightarrow> write_all (map (build_forward k) bufs) addr b)
      | None \<Rightarrow> ([], Some ErrForeignEndpoint))"

text \<open>
  \<open>ParseEndpoint\<close>: \<open>net.ResolveUDPAddr\<close> reads an address and port literally and otherwise asks the system's
  resolver, the parameter \<open>look\<close>.
\<close>

definition resolve_udp :: "(string \<Rightarrow> addrport option) \<Rightarrow> string \<Rightarrow> addrport option" where
  "resolve_udp look s = (case parse_addrport s of Some ap \<Rightarrow> Some ap | None \<Rightarrow> look s)"

definition parse_endpoint :: "(string \<Rightarrow> addrport option) \<Rightarrow> string \<Rightarrow> endpoint option" where
  "parse_endpoint look s =
     (if has_prefix endpoint_prefix s then
        map_option ViaRelay (key_from_b64 (drop (length endpoint_prefix) s))
      else map_option (\<lambda>ap. Direct (unmap (fst ap), snd ap)) (resolve_udp look s))"

fun dst_to_string :: "endpoint \<Rightarrow> string" where
  "dst_to_string (Direct ap) = show_addrport ap"
| "dst_to_string (ViaRelay k) = endpoint_string (key_to_b64 k)"

fun dst_ip :: "endpoint \<Rightarrow> addr option" where
  "dst_ip (Direct ap) = Some (fst ap)"
| "dst_ip (ViaRelay k) = None"

section \<open>STUN requests\<close>

text \<open>
  A request registers its transaction and sends; then answers, the ticks of the retransmission timer
  and the expiry of its context come in some order; at the end the transaction is forgotten.
\<close>

datatype stun_wait_event = Answered addrport | Tick | Expired

definition stun_begin :: "txid \<Rightarrow> addrport \<Rightarrow> bind \<Rightarrow> bind \<times> (bind_error + bind_effect list)" where
  "stun_begin tx dst b =
     (case write_to (build_binding_request tx) dst b of
        Inl e \<Rightarrow> (b\<lparr>bd_stun_tx := removeAll tx (bd_stun_tx b)\<rparr>, Inl e)
      | Inr es \<Rightarrow> (b\<lparr>bd_stun_tx := tx # removeAll tx (bd_stun_tx b)\<rparr>, Inr es))"

fun stun_wait :: "txid \<Rightarrow> addrport \<Rightarrow> stun_wait_event list \<Rightarrow> bind \<Rightarrow> (bind \<times> addrport option) option \<times> bind_effect list" where
  "stun_wait tx dst [] b = (None, [])"
| "stun_wait tx dst (Answered ap # evs) b = (Some (b\<lparr>bd_stun_tx := removeAll tx (bd_stun_tx b)\<rparr>, Some ap), [])"
| "stun_wait tx dst (Expired # evs) b = (Some (b\<lparr>bd_stun_tx := removeAll tx (bd_stun_tx b)\<rparr>, None), [])"
| "stun_wait tx dst (Tick # evs) b =
     (let (r, es) = stun_wait tx dst evs b in (r, sent_by (write_to (build_binding_request tx) dst b) @ es))"

end
