(* ===== verification/Endpoints.thy ===== *)
theory Endpoints
  imports Wgnet Omnisock
begin

text \<open>
  The endpoint manager, \<open>internal/agent/endpoints.go\<close>: the candidates of every peer, the probes in flight,
  the fallback to the relay after three rounds without a handshake and the return to a direct path with
  the first pong. The WireGuard device is what its calls answer: the handshake times (\<open>None\<close> when the
  engine cannot be read) and whether it accepts an endpoint.
\<close>

definition handshake_fresh :: duration where "handshake_fresh = 135 * second"
definition relay_after_rounds :: nat where "relay_after_rounds = 2"
definition probe_ttl :: duration where "probe_ttl = 15 * second"

record pending_probe =
  pp_public_key :: string
  pp_candidate :: addrport
  pp_sent_at :: time

record endpoint_manager =
  em_pending :: "(disco_txid, pending_probe) gomap"
  em_peers :: "(string, string list) gomap"
  em_relay_ok :: bool
  em_disconnected :: "(string, nat) gomap"
  em_on_relay :: "string list"

definition new_manager :: endpoint_manager where
  "new_manager = \<lparr>em_pending = [], em_peers = [], em_relay_ok = False, em_disconnected = [], em_on_relay = []\<rparr>"

definition set_relay_available :: "bool \<Rightarrow> endpoint_manager \<Rightarrow> endpoint_manager" where
  "set_relay_available ok m = m\<lparr>em_relay_ok := ok\<rparr>"

section \<open>Candidates\<close>

definition add_candidate :: "string \<Rightarrow> string list \<Rightarrow> string list" where
  "add_candidate ep out = (if ep \<noteq> [] \<and> ep \<notin> set out then out @ [ep] else out)"

definition candidates_of :: "peer \<Rightarrow> string list" where
  "candidates_of p = add_candidate (pe_endpoint p) (fold add_candidate (pe_endpoints p) [])"

definition initial_endpoint :: "peer \<Rightarrow> string" where
  "initial_endpoint p = (case candidates_of p of [] \<Rightarrow> [] | c # _ \<Rightarrow> c)"

fun dedup :: "string list \<Rightarrow> string list \<Rightarrow> string list" where
  "dedup out [] = out"
| "dedup out (s # ss) = dedup (if s \<in> set out then out else out @ [s]) ss"

text \<open>\<open>To4\<close>, \<open>IsGlobalUnicast\<close> and the range 100.64.0.0/10 of the overlay.\<close>

definition in_overlay :: "32 word \<Rightarrow> bool" where
  "in_overlay w \<longleftrightarrow> unat w div 16777216 = 100 \<and> 64 \<le> unat w div 65536 mod 256 \<and> unat w div 65536 mod 256 < 128"

definition global_unicast :: "32 word \<Rightarrow> bool" where
  "global_unicast w \<longleftrightarrow> w \<noteq> - 1 \<and> w \<noteq> 0 \<and> unat w div 16777216 \<noteq> 127 \<and>
     \<not> (224 \<le> unat w div 16777216 \<and> unat w div 16777216 < 240) \<and> unat w div 65536 \<noteq> 43518"

record net_iface =
  if_name :: string
  if_up :: bool
  if_loopback :: bool
  if_addrs :: "addr list option"

definition local_ipv4 :: "string \<Rightarrow> net_iface list option \<Rightarrow> string list" where
  "local_ipv4 skip ifaces =
     (case ifaces of
        None \<Rightarrow> []
      | Some is \<Rightarrow>
          concat (map (\<lambda>i. case if_addrs i of
               None \<Rightarrow> []
             | Some as \<Rightarrow>
                 List.map_filter (\<lambda>a. case unmap a of
                     V4 w \<Rightarrow> if \<not> global_unicast w \<or> in_overlay w then None else Some (show_v4 w)
                   | V6 _ _ \<Rightarrow> None) as)
            (filter (\<lambda>i. if_up i \<and> \<not> if_loopback i \<and> if_name i \<noteq> skip) is)))"

text \<open>\<open>stun srv\<close> is what \<open>STUNRequest\<close> gives for a server.\<close>

definition discover_endpoints :: "bind \<Rightarrow> (string \<Rightarrow> addrport option) \<Rightarrow> string list \<Rightarrow> string \<Rightarrow> net_iface list option \<Rightarrow> string list" where
  "discover_endpoints b stun servers skip ifaces =
     (if local_port b = 0 then []
      else
        let first = (case find (\<lambda>s. stun s \<noteq> None) servers of None \<Rightarrow> [] | Some s \<Rightarrow> [show_addrport (the (stun s))])
        in dedup [] (first @ map (\<lambda>ip. join_host_port ip (show_nat (local_port b))) (local_ipv4 skip ifaces)))"

text \<open>\<open>u\<close> is \<open>url.Parse\<close> followed by \<open>Hostname\<close>.\<close>

definition host_with_port :: "(string \<Rightarrow> string option) \<Rightarrow> string \<Rightarrow> string \<Rightarrow> string" where
  "host_with_port u server port =
     (case u server of None \<Rightarrow> [] | Some h \<Rightarrow> if h = [] then [] else join_host_port h port)"

definition default_stun_server :: "(string \<Rightarrow> string option) \<Rightarrow> string \<Rightarrow> string" where
  "default_stun_server u server = host_with_port u server ''3478''"

definition default_relay_server :: "(string \<Rightarrow> string option) \<Rightarrow> string \<Rightarrow> string" where
  "default_relay_server u server = host_with_port u server ''3479''"

section \<open>The network map\<close>

definition observe :: "peer list \<Rightarrow> endpoint_manager \<Rightarrow> endpoint_manager" where
  "observe ps m =
     (let peers = fold (\<lambda>p. gm_put (pe_public_key p) (candidates_of p)) ps [] in
      m\<lparr>em_peers := peers,
        em_disconnected := filter (\<lambda>(pub, n). gm_get peers pub \<noteq> None) (em_disconnected m),
        em_on_relay := filter (\<lambda>pub. gm_get peers pub \<noteq> None) (em_on_relay m)\<rparr>)"

section \<open>Probing\<close>

definition fresh_handshake :: "time \<Rightarrow> (string, time) gomap \<Rightarrow> string \<Rightarrow> bool" where
  "fresh_handshake now hs pub \<longleftrightarrow> (case gm_get hs pub of None \<Rightarrow> False | Some t \<Rightarrow> time_sub now t < handshake_fresh)"

definition rounds :: "endpoint_manager \<Rightarrow> string \<Rightarrow> nat" where
  "rounds m pub = (case gm_get (em_disconnected m) pub of None \<Rightarrow> 0 | Some n \<Rightarrow> n)"

text \<open>One peer of the loop: the state, whether it moves to the relay, the candidates to probe.\<close>

definition probe_peer :: "time \<Rightarrow> (string, time) gomap \<Rightarrow> string \<Rightarrow> string list \<Rightarrow> endpoint_manager \<Rightarrow>
    endpoint_manager \<times> bool \<times> addrport list" where
  "probe_peer now hs pub cands m =
     (let fresh = fresh_handshake now hs pub in
      if fresh \<and> pub \<notin> set (em_on_relay m) then (m\<lparr>em_disconnected := gm_put pub 0 (em_disconnected m)\<rparr>, False, [])
      else
        let m1 = (if fresh then m else m\<lparr>em_disconnected := gm_put pub (rounds m pub + 1) (em_disconnected m)\<rparr>);
            to_relay = (\<not> fresh \<and> em_relay_ok m1 \<and> pub \<notin> set (em_on_relay m1) \<and> relay_after_rounds < rounds m1 pub);
            m2 = (if to_relay then m1\<lparr>em_on_relay := em_on_relay m1 @ [pub]\<rparr> else m1)
        in (m2, to_relay, List.map_filter parse_addrport cands))"

fun probe_peers :: "time \<Rightarrow> (string, time) gomap \<Rightarrow> (string, string list) gomap \<Rightarrow> endpoint_manager \<Rightarrow>
    endpoint_manager \<times> string list \<times> (string \<times> addrport) list" where
  "probe_peers now hs [] m = (m, [], [])"
| "probe_peers now hs ((pub, cands) # ps) m =
     (let (m1, r, aps) = probe_peer now hs pub cands m;
          (m2, rs, qs) = probe_peers now hs ps m1
      in (m2, (if r then pub # rs else rs), map (Pair pub) aps @ qs))"

text \<open>The engine is asked to use the relay; when it refuses, the peer is not on the relay.\<close>

fun to_relay_all :: "(string \<Rightarrow> string \<Rightarrow> bool) \<Rightarrow> string list \<Rightarrow> endpoint_manager \<Rightarrow> endpoint_manager \<times> (string \<times> string) list" where
  "to_relay_all set_ep [] m = (m, [])"
| "to_relay_all set_ep (pub # pubs) m =
     (let ok = set_ep pub (endpoint_string pub);
          m1 = (if ok then m else m\<lparr>em_on_relay := removeAll pub (em_on_relay m)\<rparr>);
          (m2, eps) = to_relay_all set_ep pubs m1
      in (m2, (if ok then (pub, endpoint_string pub) # eps else eps)))"

text \<open>\<open>ids\<close> are the transactions of the pings, \<open>None\<close> for one the socket could not send.\<close>

fun send_probes :: "time \<Rightarrow> (string \<times> addrport) list \<Rightarrow> disco_txid option list \<Rightarrow> endpoint_manager \<Rightarrow> endpoint_manager" where
  "send_probes now ((pub, ap) # ps) (Some i # ids) m =
     send_probes now ps ids (m\<lparr>em_pending := gm_put i \<lparr>pp_public_key = pub, pp_candidate = ap, pp_sent_at = now\<rparr> (em_pending m)\<rparr>)"
| "send_probes now (q # ps) (None # ids) m = send_probes now ps ids m"
| "send_probes now _ _ m = m"

definition purge_probes :: "time \<Rightarrow> endpoint_manager \<Rightarrow> endpoint_manager" where
  "purge_probes now m =
     m\<lparr>em_pending := filter (\<lambda>(i, pr). \<not> probe_ttl < time_sub now (pp_sent_at pr)) (em_pending m)\<rparr>"

definition probe :: "time \<Rightarrow> (string, time) gomap option \<Rightarrow> (string \<Rightarrow> string \<Rightarrow> bool) \<Rightarrow> disco_txid option list \<Rightarrow>
    endpoint_manager \<Rightarrow> endpoint_manager \<times> (string \<times> string) list \<times> (string \<times> addrport) list" where
  "probe now handshakes set_ep ids m =
     (case handshakes of
        None \<Rightarrow> (m, [], [])
      | Some hs \<Rightarrow>
          let m0 = purge_probes now m;
              (m1, relays, sends) = probe_peers now hs (em_peers m0) m0;
              (m2, eps) = to_relay_all set_ep relays m1
          in (send_probes now sends ids m2, eps, sends))"

section \<open>Pongs\<close>

text \<open>The state and the endpoint given to the engine.\<close>

definition on_pong :: "time \<Rightarrow> (string, time) gomap option \<Rightarrow> (string \<Rightarrow> string \<Rightarrow> bool) \<Rightarrow> disco_txid \<Rightarrow> addrport \<Rightarrow>
    endpoint_manager \<Rightarrow> endpoint_manager \<times> (string \<times> string) option" where
  "on_pong now handshakes set_ep i src m =
     (case gm_get (em_pending m) i of
        None \<Rightarrow> (m, None)
      | Some pr \<Rightarrow>
          let pub = pp_public_key pr;
              m1 = m\<lparr>em_pending := gm_del i (em_pending m)\<rparr>;
              via_relay = (pub \<in> set (em_on_relay m))
          in if \<not> via_relay \<and> (case handshakes of None \<Rightarrow> False | Some hs \<Rightarrow> fresh_handshake now hs pub) then (m1, None)
             else if \<not> set_ep pub (show_addrport src) then (m1, None)
             else (m1\<lparr>em_on_relay := removeAll pub (em_on_relay m1),
                      em_disconnected := gm_put pub 0 (em_disconnected m1)\<rparr>, Some (pub, show_addrport src)))"

end
