(* ===== verification/Dnssrv.thy ===== *)
theory Dnssrv
  imports Server Store_Demo
begin

text \<open>
  The internal DNS, \<open>internal/dnssrv/dnssrv.go\<close>. The wire format is the DNS library's: a request is
  its list of questions, an answer its code and its address records. \<open>ul\<close> is Go's Unicode case table.
\<close>

section \<open>Names\<close>

definition trim_char :: "char \<Rightarrow> string \<Rightarrow> string" where
  "trim_char c s = rev (dropWhile (\<lambda>x. x = c) (rev (dropWhile (\<lambda>x. x = c) s)))"

definition is_lower_alnum :: "char \<Rightarrow> bool" where
  "is_lower_alnum c \<longleftrightarrow> (97 \<le> (of_char c :: nat) \<and> (of_char c :: nat) \<le> 122) \<or> is_digit c"

text \<open>The loop over the runes: a byte of a longer rune matches no case and is left out.\<close>

fun label_runes :: "string \<Rightarrow> string" where
  "label_runes [] = []"
| "label_runes (c # s) =
     (if is_lower_alnum c \<or> c = CHR ''-'' then c # label_runes s
      else if c = CHR ''.'' \<or> c = CHR ''_'' \<or> c = CHR '' '' then CHR ''-'' # label_runes s
      else label_runes s)"

definition sanitize_label :: "(string \<Rightarrow> string) \<Rightarrow> string \<Rightarrow> string" where
  "sanitize_label ul hostname = take 63 (trim_char CHR ''-'' (label_runes (to_lower ul hostname)))"

section \<open>The table\<close>

record dns_server =
  dz_zone :: string
  dz_records :: "(string, addr) gomap"

definition new_dns :: "(string \<Rightarrow> string) \<Rightarrow> string \<Rightarrow> dns_server" where
  "new_dns ul zone = \<lparr>dz_zone = trim_char CHR ''.'' (to_lower ul zone) @ ''.'', dz_records = []\<rparr>"

definition dns_entry :: "(string \<Rightarrow> string) \<Rightarrow> string \<Rightarrow> peer \<Rightarrow> (string \<times> addr) option" where
  "dns_entry ul zone p =
     (let label = sanitize_label ul (pe_hostname p) in
      case net_parse_ip (pe_ip p) of
        None \<Rightarrow> None
      | Some ip \<Rightarrow> if label = [] then None else Some (label @ ''.'' @ zone, ip))"

fun dns_add :: "(string \<Rightarrow> string) \<Rightarrow> string \<Rightarrow> peer list \<Rightarrow> (string, addr) gomap \<Rightarrow> (string, addr) gomap" where
  "dns_add ul zone [] m = m"
| "dns_add ul zone (p # ps) m =
     dns_add ul zone ps (case dns_entry ul zone p of None \<Rightarrow> m | Some (name, ip) \<Rightarrow> gm_put name ip m)"

definition dns_update :: "(string \<Rightarrow> string) \<Rightarrow> netmap \<Rightarrow> dns_server \<Rightarrow> dns_server" where
  "dns_update ul nm s = s\<lparr>dz_records := dns_add ul (dz_zone s) (nm_self nm # nm_peers nm) []\<rparr>"

section \<open>Queries\<close>

record dns_question =
  dq_name :: string
  dq_type :: nat

record dns_answer =
  da_name :: string
  da_ttl :: nat
  da_addr :: "32 word option"

datatype rcode = NoError | FormErr | NXDomain | Refused

record dns_reply =
  dr_rcode :: rcode
  dr_authoritative :: bool
  dr_answer :: "dns_answer list"

definition type_a :: nat where "type_a = 1"
definition type_any :: nat where "type_any = 255"
definition record_ttl :: nat where "record_ttl = 30"

text \<open>\<open>IP.To4\<close>, nil for an IPv6 address.\<close>

fun to4 :: "addr \<Rightarrow> 32 word option" where
  "to4 (V4 w) = Some w"
| "to4 (V6 w z) = (if drop_bit 32 w = 0xFFFF then Some (ucast w) else None)"

definition serve_dns :: "(string \<Rightarrow> string) \<Rightarrow> dns_question list \<Rightarrow> dns_server \<Rightarrow> dns_reply" where
  "serve_dns ul qs s =
     (let reply = \<lambda>rc ans. \<lparr>dr_rcode = rc, dr_authoritative = True, dr_answer = ans\<rparr> in
      if length qs \<noteq> 1 then reply FormErr []
      else
        let q = hd qs; name = to_lower ul (dq_name q) in
        if \<not> has_suffix (''.'' @ dz_zone s) name \<and> name \<noteq> dz_zone s then reply Refused []
        else case gm_get (dz_records s) name of
          None \<Rightarrow> reply NXDomain []
        | Some ip \<Rightarrow>
            reply NoError
              (if dq_type q = type_a \<or> dq_type q = type_any
               then [\<lparr>da_name = dq_name q, da_ttl = record_ttl, da_addr = to4 ip\<rparr>] else []))"

section \<open>Lemmas\<close>

lemma label_runes_chars: "c \<in> set (label_runes s) \<Longrightarrow> is_lower_alnum c \<or> c = CHR ''-''"
  by (induction s) (auto split: if_splits)

lemma trim_char_props:
  "set (trim_char c s) \<subseteq> set s" "trim_char c s \<noteq> [] \<Longrightarrow> hd (trim_char c s) \<noteq> c"
  "trim_char c s \<noteq> [] \<Longrightarrow> last (trim_char c s) \<noteq> c"
proof -
  let ?t = "dropWhile (\<lambda>x. x = c) s"
  show "set (trim_char c s) \<subseteq> set s"
    by (auto simp: trim_char_def dest!: set_dropWhileD)
  have l: "last (trim_char c s) \<noteq> c" if "trim_char c s \<noteq> []"
  proof -
    have "dropWhile (\<lambda>x. x = c) (rev ?t) \<noteq> []" using that by (simp add: trim_char_def)
    from hd_dropWhile [OF this] this show ?thesis by (simp add: trim_char_def last_rev)
  qed
  then show "trim_char c s \<noteq> [] \<Longrightarrow> last (trim_char c s) \<noteq> c" .
  assume ne: "trim_char c s \<noteq> []"
  have split: "?t = trim_char c s @ rev (takeWhile (\<lambda>x. x = c) (rev ?t))"
    unfolding trim_char_def by (metis rev_append rev_rev_ident takeWhile_dropWhile_id)
  then have "hd ?t = hd (trim_char c s)" "?t \<noteq> []" using ne by (metis hd_append2, metis append_is_Nil_conv)
  with hd_dropWhile [of "\<lambda>x. x = c" s] show "hd (trim_char c s) \<noteq> c" by simp
qed

lemma sanitize_label_props:
  "c \<in> set (sanitize_label ul h) \<Longrightarrow> is_lower_alnum c \<or> c = CHR ''-''"
  "length (sanitize_label ul h) \<le> 63"
  "sanitize_label ul h \<noteq> [] \<Longrightarrow> hd (sanitize_label ul h) \<noteq> CHR ''-''"
proof -
  let ?t = "trim_char CHR ''-'' (label_runes (to_lower ul h))"
  show "c \<in> set (sanitize_label ul h) \<Longrightarrow> is_lower_alnum c \<or> c = CHR ''-''"
    using trim_char_props(1) [of "CHR ''-''" "label_runes (to_lower ul h)"] label_runes_chars
    by (auto simp: sanitize_label_def dest!: in_set_takeD)
  show "length (sanitize_label ul h) \<le> 63" by (simp add: sanitize_label_def)
  show "sanitize_label ul h \<noteq> [] \<Longrightarrow> hd (sanitize_label ul h) \<noteq> CHR ''-''"
    using trim_char_props(2) [of "CHR ''-''" "label_runes (to_lower ul h)"]
    by (cases ?t) (simp_all add: sanitize_label_def)
qed

text \<open>The table is the bulk insertion of the entries, so the last peer with a name wins.\<close>

lemma dns_add_fold:
  "dns_add ul zone ps m = fold (\<lambda>(k, v). gm_put k v) (List.map_filter (dns_entry ul zone) ps) m"
  by (induction ps arbitrary: m) (auto simp: List.map_filter_def split: option.splits)

lemma dns_add_last:
  assumes "dns_entry ul zone p = Some (name, ip)" "\<And>q. q \<in> set post \<Longrightarrow> \<forall>x. dns_entry ul zone q \<noteq> Some (name, x)"
  shows "gm_get (dns_add ul zone (pre @ p # post) m) name = Some ip"
proof -
  have "name \<notin> fst ` set (List.map_filter (dns_entry ul zone) post)"
    using assms(2) by (force simp: List.map_filter_def)
  then show ?thesis
    using gm.fold_put_last [of name "List.map_filter (dns_entry ul zone) post" "List.map_filter (dns_entry ul zone) pre" ip m] assms(1)
    by (simp add: dns_add_fold List.map_filter_def)
qed

lemma dns_add_source:
  "gm_get (dns_add ul zone ps []) name = Some ip \<Longrightarrow> \<exists>p \<in> set ps. dns_entry ul zone p = Some (name, ip)"
  using gm.fold_put_source [of "List.map_filter (dns_entry ul zone) ps" "[]" name ip]
  by (auto simp: dns_add_fold List.map_filter_def)

section \<open>Properties\<close>

text \<open>A machine's label has only lower-case letters, digits and hyphens, at most 63 of them, and does
  not start with a hyphen, whatever its host name.\<close>

theorem label_form:
  "list_all (\<lambda>c. is_lower_alnum c \<or> c = CHR ''-'') (sanitize_label ul h) \<and> length (sanitize_label ul h) \<le> 63 \<and>
   hd (sanitize_label ul h @ ''a'') \<noteq> CHR ''-''"
  using sanitize_label_props [where ul = ul and h = h]
  by (cases "sanitize_label ul h = []") (auto simp: list_all_iff)

text \<open>It can end with one, although the comment calls it a valid DNS label: the cut to 63 bytes comes
  after the hyphens were trimmed.\<close>

theorem label_ends_with_hyphen:
  "last (sanitize_label ul (replicate 62 CHR ''a'' @ ''-b'')) = CHR ''-''"
proof -
  let ?h = "replicate 62 CHR ''a'' @ ''-b''"
  have a: "is_ascii CHR ''a''" "is_ascii CHR ''-''" "is_ascii CHR ''b''" "lower_char CHR ''a'' = CHR ''a''"
    "lower_char CHR ''-'' = CHR ''-''" "lower_char CHR ''b'' = CHR ''b''"
    "is_lower_alnum CHR ''a''" "is_lower_alnum CHR ''b''" by code_simp+
  have "list_all is_ascii ?h" using a by (simp add: list_all_iff)
  then have "to_lower ul ?h = ?h" using a by (simp add: to_lower_ascii map_replicate)
  moreover have "label_runes (replicate n CHR ''a'' @ ''-b'') = replicate n CHR ''a'' @ ''-b''" for n
    using a by (induction n) simp_all
  moreover have "trim_char CHR ''-'' ?h = ?h"
  proof -
    have "dropWhile (\<lambda>x. x = CHR ''-'') ?h = ?h"
      by (simp add: numeral_eq_Suc)
    then show ?thesis by (simp add: trim_char_def)
  qed
  ultimately show ?thesis by (simp add: sanitize_label_def)
qed

text \<open>C38: name resolution. After an update with a network map, a question for the label of one of its
  machines under the zone is answered with that machine's address (the last machine of the map, when
  several have the same label); a question for another type of record has an empty answer.\<close>

theorem dns_resolution:
  assumes "nm_self nm # nm_peers nm = pre @ p # post" "dns_entry ul (dz_zone s) p = Some (name, ip)"
    and "\<forall>q \<in> set post. \<forall>x. dns_entry ul (dz_zone s) q \<noteq> Some (name, x)"
    and "to_lower ul (dq_name q) = name"
  shows "serve_dns ul [q] (dns_update ul nm s) = \<lparr>dr_rcode = NoError, dr_authoritative = True, dr_answer =
     (if dq_type q = type_a \<or> dq_type q = type_any
      then [\<lparr>da_name = dq_name q, da_ttl = record_ttl, da_addr = to4 ip\<rparr>] else [])\<rparr>"
proof -
  have "gm_get (dz_records (dns_update ul nm s)) name = Some ip"
    unfolding dns_update_def assms(1) using dns_add_last [OF assms(2)] assms(3) by simp
  moreover have "has_suffix (''.'' @ dz_zone s) name"
    using assms(2) by (auto simp: dns_entry_def Let_def has_suffix_iff split: option.splits if_splits)
  ultimately show ?thesis
    using assms(4) by (simp add: serve_dns_def dns_update_def)
qed

text \<open>A map of two machines, the second with the name of the first.\<close>

definition demo_map :: netmap where
  "demo_map = \<lparr>nm_self = peer_view demo_dev1 5, nm_peers = [(peer_view demo_dev2 5)\<lparr>pe_hostname := ''h1''\<rparr>],
     nm_new_token = []\<rparr>"

lemma demo_entries:
  "dns_entry (\<lambda>x. x) ''omni.'' (peer_view demo_dev1 5) = Some (''h1.omni.'', V4 167772161)"
  "dns_entry (\<lambda>x. x) ''omni.'' ((peer_view demo_dev2 5)\<lparr>pe_hostname := ''h1''\<rparr>) = Some (''h1.omni.'', V4 167772162)"
proof -
  have l: "sanitize_label (\<lambda>x. x) ''h1'' = ''h1''" by code_simp
  have "net_parse_ip ''10.0.0.1'' = Some (V4 167772161)" "net_parse_ip ''10.0.0.2'' = Some (V4 167772162)"
    by (simp_all add: compute)
  then show "dns_entry (\<lambda>x. x) ''omni.'' (peer_view demo_dev1 5) = Some (''h1.omni.'', V4 167772161)"
    "dns_entry (\<lambda>x. x) ''omni.'' ((peer_view demo_dev2 5)\<lparr>pe_hostname := ''h1''\<rparr>) = Some (''h1.omni.'', V4 167772162)"
    using l by (simp_all add: dns_entry_def peer_view_def demo_dev1_def demo_dev2_def)
qed

lemma demo_lower: "to_lower (\<lambda>x. x) ''H1.omni.'' = ''h1.omni.''" "new_dns (\<lambda>x. x) ''omni'' = \<lparr>dz_zone = ''omni.'', dz_records = []\<rparr>"
  by code_simp+

theorem dns_resolution_witness:
  "dr_answer (serve_dns (\<lambda>x. x) [\<lparr>dq_name = ''H1.omni.'', dq_type = 1\<rparr>]
     (dns_update (\<lambda>x. x) demo_map (new_dns (\<lambda>x. x) ''omni''))) =
   [\<lparr>da_name = ''H1.omni.'', da_ttl = 30, da_addr = Some 167772162\<rparr>]"
  using dns_resolution [of demo_map "[peer_view demo_dev1 5]" "(peer_view demo_dev2 5)\<lparr>pe_hostname := ''h1''\<rparr>" "[]"
      "\<lambda>x. x" "new_dns (\<lambda>x. x) ''omni''" "''h1.omni.''" "V4 167772162" "\<lparr>dq_name = ''H1.omni.'', dq_type = 1\<rparr>"]
  by (simp add: demo_entries demo_lower demo_map_def type_a_def record_ttl_def)

text \<open>Nothing else is answered: an answer with an address comes from a machine of the map whose label
  was asked for, a name outside the zone is refused, and a request without exactly one question is a
  format error.\<close>

theorem dns_sound:
  "(dr_answer (serve_dns ul qs (dns_update ul nm s)) \<noteq> [] \<longrightarrow>
     (\<exists>q p ip. qs = [q] \<and> p \<in> set (nm_self nm # nm_peers nm) \<and>
        dns_entry ul (dz_zone s) p = Some (to_lower ul (dq_name q), ip) \<and>
        dr_answer (serve_dns ul qs (dns_update ul nm s)) = [\<lparr>da_name = dq_name q, da_ttl = record_ttl, da_addr = to4 ip\<rparr>])) \<and>
   (length qs \<noteq> 1 \<longrightarrow> dr_rcode (serve_dns ul qs s) = FormErr) \<and>
   (\<forall>q. qs = [q] \<and> \<not> has_suffix (''.'' @ dz_zone s) (to_lower ul (dq_name q)) \<and> to_lower ul (dq_name q) \<noteq> dz_zone s \<longrightarrow>
      dr_rcode (serve_dns ul qs s) = Refused)"
proof (intro conjI impI allI)
  assume a: "dr_answer (serve_dns ul qs (dns_update ul nm s)) \<noteq> []"
  then obtain q where q: "qs = [q]"
    by (cases qs rule: remdups_adj.cases) (auto simp: serve_dns_def Let_def)
  with a obtain ip where ip: "gm_get (dz_records (dns_update ul nm s)) (to_lower ul (dq_name q)) = Some ip"
    by (auto simp: serve_dns_def Let_def split: if_splits option.splits)
  from dns_add_source [of ul "dz_zone s" "nm_self nm # nm_peers nm" "to_lower ul (dq_name q)" ip] ip obtain p where
    "p \<in> set (nm_self nm # nm_peers nm)" "dns_entry ul (dz_zone s) p = Some (to_lower ul (dq_name q), ip)"
    by (auto simp: dns_update_def)
  moreover have "dr_answer (serve_dns ul qs (dns_update ul nm s)) =
      [\<lparr>da_name = dq_name q, da_ttl = record_ttl, da_addr = to4 ip\<rparr>]"
    using a q ip by (auto simp: serve_dns_def Let_def split: if_splits)
  ultimately show "\<exists>q p ip. qs = [q] \<and> p \<in> set (nm_self nm # nm_peers nm) \<and>
        dns_entry ul (dz_zone s) p = Some (to_lower ul (dq_name q), ip) \<and>
        dr_answer (serve_dns ul qs (dns_update ul nm s)) = [\<lparr>da_name = dq_name q, da_ttl = record_ttl, da_addr = to4 ip\<rparr>]"
    using q by blast
qed (auto simp: serve_dns_def Let_def)

theorem dns_sound_witness:
  "dr_rcode (serve_dns (\<lambda>x. x) [] (new_dns (\<lambda>x. x) ''omni'')) = FormErr"
  using dns_sound [of "\<lambda>x. x" "[]" demo_map "new_dns (\<lambda>x. x) ''omni''"] by simp

end
