(* ===== verification/Agent.thy ===== *)
theory Agent
  imports Endpoints Api Dnssrv
begin

text \<open>
  The agent, \<open>internal/agent/agent.go\<close>, \<open>client.go\<close> and \<open>state.go\<close>: its identity on disk, its HTTP client,
  enrolment, the choice of routes and the cycle that keeps the WireGuard engine, the system routes, the
  endpoints and the names in line with the server's network map.
\<close>

section \<open>The identity on disk\<close>

record agent_state =
  as_server_url :: string
  as_private_key :: string
  as_device_id :: string
  as_device_token :: string
  as_ip :: string
  as_cidr :: string
  as_iface :: string
  as_listen_port :: nat

definition state_save :: "string \<Rightarrow> string \<Rightarrow> agent_state \<Rightarrow> fault option \<Rightarrow> agent_state fs \<Rightarrow> agent_state fs \<times> bool" where
  "state_save path tmp st flt fs = save_file path tmp st flt fs"

text \<open>\<open>readable\<close>: whether the file that exists can be read. A file being written does not parse.\<close>

definition load_state :: "string \<Rightarrow> bool \<Rightarrow> agent_state fs \<Rightarrow> unit + agent_state option" where
  "load_state path readable fs =
     (case load_file path fs of
        None \<Rightarrow> Inr None
      | Some f \<Rightarrow> if \<not> readable then Inl () else case f_content f of None \<Rightarrow> Inl () | Some st \<Rightarrow> Inr (Some st))"

datatype os = Windows | Darwin | OtherOS

definition default_state_path :: "os \<Rightarrow> string \<Rightarrow> string" where
  "default_state_path os program_data =
     (case os of
        Windows \<Rightarrow> (if program_data = [] then ''C:'' @ [CHR 0x5C] @ ''ProgramData'' else program_data) @
          [CHR 0x5C] @ ''OmniUp'' @ [CHR 0x5C] @ ''omnid.json''
      | Darwin \<Rightarrow> ''/Library/Application Support/OmniUp/omnid.json''
      | OtherOS \<Rightarrow> ''/var/lib/omniup/omnid.json'')"

section \<open>The HTTP client\<close>

text \<open>
  \<open>transport\<close> is the network and the server behind it: the answer to a request, \<open>None\<close> when there is none.
  An answer of another shape than the route's does not come from the server.
\<close>

type_synonym transport = "api_call \<Rightarrow> http_request \<Rightarrow> response option"

record client =
  cl_server_url :: string
  cl_token :: string

datatype client_error = NoAnswer | HttpStatus nat payload | BadShape

definition new_client :: "string \<Rightarrow> string \<Rightarrow> client" where
  "new_client url token = \<lparr>cl_server_url = rev (dropWhile (\<lambda>c. c = CHR ''/'') (rev url)), cl_token = token\<rparr>"

definition with_token :: "client \<Rightarrow> http_request \<Rightarrow> http_request" where
  "with_token c r = r\<lparr>rq_authorization := (if cl_token c \<noteq> [] then ''Bearer '' @ cl_token c else [])\<rparr>"

definition client_do :: "transport \<Rightarrow> client \<Rightarrow> api_call \<Rightarrow> http_request \<Rightarrow> client_error + payload" where
  "client_do send c call r =
     (case send call (with_token c r) of
        None \<Rightarrow> Inl NoAnswer
      | Some a \<Rightarrow> if rs_status a \<noteq> 200 then Inl (HttpStatus (rs_status a) (rs_body a)) else Inr (rs_body a))"

definition client_register :: "transport \<Rightarrow> client \<Rightarrow> string \<Rightarrow> string \<Rightarrow> string \<Rightarrow> http_request \<Rightarrow> client_error + register_response" where
  "client_register send c auth_key hostname public_key r =
     (case client_do send c (Register (Some \<lparr>rr_auth_key = auth_key, rr_hostname = hostname, rr_public_key = public_key\<rparr>)) r of
        Inr (PRegister resp) \<Rightarrow> Inr resp
      | Inr _ \<Rightarrow> Inl BadShape
      | Inl e \<Rightarrow> Inl e)"

text \<open>The session and the address to open in a browser.\<close>

definition client_enroll_start :: "transport \<Rightarrow> client \<Rightarrow> string \<Rightarrow> string \<Rightarrow> http_request \<Rightarrow> client_error + string \<times> string" where
  "client_enroll_start send c hostname public_key r =
     (case client_do send c (EnrollStart (Some \<lparr>es_hostname = hostname, es_public_key = public_key\<rparr>)) r of
        Inr (PEnrollStart session url) \<Rightarrow> Inr (session, url)
      | Inr _ \<Rightarrow> Inl BadShape
      | Inl e \<Rightarrow> Inl e)"

text \<open>\<open>None\<close> while the user has not logged in. The request has no token.\<close>

definition client_enroll_wait :: "transport \<Rightarrow> string \<Rightarrow> http_request \<Rightarrow> client_error + register_response option" where
  "client_enroll_wait send session r =
     (case send EnrollWait (r\<lparr>rq_authorization := [], rq_query := (\<lambda>k. if k = ''session'' then session else [])\<rparr>) of
        None \<Rightarrow> Inl NoAnswer
      | Some a \<Rightarrow>
          if rs_status a = 202 then Inr None
          else if rs_status a = 200 then (case rs_body a of PRegister resp \<Rightarrow> Inr (Some resp) | _ \<Rightarrow> Inl BadShape)
          else Inl (HttpStatus (rs_status a) (rs_body a)))"

text \<open>An empty list of the request is left out of its JSON (\<open>omitempty\<close>), and reads as absent.\<close>

definition omit_empty :: "'a list \<Rightarrow> 'a list option" where
  "omit_empty xs = (if xs = [] then None else Some xs)"

definition client_poll :: "transport \<Rightarrow> client \<Rightarrow> nat \<Rightarrow> string list \<Rightarrow> string list \<Rightarrow> http_request \<Rightarrow> client_error + netmap" where
  "client_poll send c port endpoints advertised r =
     (case client_do send c (Poll (Some \<lparr>pr_listen_port = int port, pr_endpoints = omit_empty endpoints,
              pr_advertised = omit_empty advertised\<rparr>)) r of
        Inr (PNetMap nm) \<Rightarrow> Inr nm
      | Inr _ \<Rightarrow> Inl BadShape
      | Inl e \<Rightarrow> Inl e)"

section \<open>Routes\<close>

record options =
  ao_server_url :: string
  ao_auth_key :: string
  ao_hostname :: string
  ao_iface :: string
  ao_listen_port :: nat
  ao_mtu :: nat
  ao_state_path :: string
  ao_stun_servers :: "string list"
  ao_relay_server :: string
  ao_dns :: bool
  ao_dns_zone :: string
  ao_advertise_routes :: "string list"
  ao_advertise_exit :: bool
  ao_exit_node :: string
  ao_accept_routes :: bool

definition default_route :: string where "default_route = ''0.0.0.0/0''"

text \<open>The loop: the canonical form of each route once, in order; the first one that does not parse stops it.\<close>

fun advertise_loop :: "string list \<Rightarrow> string list \<Rightarrow> string + string list" where
  "advertise_loop [] acc = Inr acc"
| "advertise_loop (r # rs) acc =
     (case parse_prefix (trim_space r) of
        None \<Rightarrow> Inl r
      | Some p \<Rightarrow>
          let c = show_prefix (masked p) in
          advertise_loop rs (if c \<in> set acc then acc else acc @ [c]))"

definition advertised_routes :: "options \<Rightarrow> string + string list" where
  "advertised_routes opts =
     advertise_loop (ao_advertise_routes opts @ (if ao_advertise_exit opts then [default_route] else [])) []"

definition is_exit :: "options \<Rightarrow> peer \<Rightarrow> bool" where
  "is_exit opts p \<longleftrightarrow> ao_exit_node opts \<noteq> [] \<and> (pe_ip p = ao_exit_node opts \<or> pe_hostname p = ao_exit_node opts)"

text \<open>One peer's routes: those it keeps, the subnets collected so far, whether the exit node was found.\<close>

fun filter_peer :: "options \<Rightarrow> string list \<Rightarrow> bool \<Rightarrow> string list \<Rightarrow> string list \<Rightarrow> bool \<Rightarrow> string list \<times> string list \<times> bool" where
  "filter_peer opts mine exit [] subnets found = ([], subnets, found)"
| "filter_peer opts mine exit (r # rs) subnets found =
     (if r = default_route then
        (if exit then (let (keep, s, f) = filter_peer opts mine exit rs subnets True in (r # keep, s, f))
         else filter_peer opts mine exit rs subnets found)
      else if \<not> ao_accept_routes opts \<or> r \<in> set mine then filter_peer opts mine exit rs subnets found
      else (let (keep, s, f) = filter_peer opts mine exit rs (if r \<in> set subnets then subnets else subnets @ [r]) found
            in (r # keep, s, f)))"

fun filter_routes :: "options \<Rightarrow> string list \<Rightarrow> peer list \<Rightarrow> string list \<Rightarrow> bool \<Rightarrow> peer list \<times> string list \<times> bool" where
  "filter_routes opts mine [] subnets found = ([], subnets, found)"
| "filter_routes opts mine (p # ps) subnets found =
     (let (keep, s1, f1) = filter_peer opts mine (is_exit opts p) (pe_routes p) subnets found;
          (ps', s2, f2) = filter_routes opts mine ps s1 f1
      in (p\<lparr>pe_routes := keep\<rparr> # ps', s2, f2))"

section \<open>The start\<close>

text \<open>What a start meets: the file, the new key pair, the server, the operating system and the engine.
  Every tick of the enrolment meets the network as it is then. \<open>up_tun\<close> creates the interface
  and gives its real name, if it has one.\<close>

record up_env =
  up_readable :: bool
  up_new_key :: "bytes option"
  up_public :: "bytes \<Rightarrow> bytes"
  up_keys :: wgkeys
  up_send :: transport
  up_request :: http_request
  up_ticks :: "(transport \<times> http_request) list"
  up_tmp :: string
  up_fault :: "fault option"
  up_fault2 :: "fault option"
  up_tun :: "string \<Rightarrow> nat \<Rightarrow> string option option"
  up_ipc :: "string \<Rightarrow> bool"
  up_listen :: "16 word option"
  up_addr_ok :: "string \<Rightarrow> prefix \<Rightarrow> bool"
  up_url_host :: "string \<Rightarrow> string option"
  up_resolve :: "string \<Rightarrow> addrport option"
  up_curve :: curve
  up_exit_ok :: bool
  up_lower :: "string \<Rightarrow> string"

datatype up_error =
    BadState | NeedServer | NoKey | EnrolRefused client_error | Cancelled | SaveFailed
  | BadKey | NoDevice | BadAddress | BadRoute string | ExitNodeRefused

text \<open>\<open>enrollSSO\<close>: the session is probed at every tick until the answer is not \<open>pending\<close>; the list of ticks
  ends when the user gives up.\<close>

fun enroll_loop :: "string \<Rightarrow> (transport \<times> http_request) list \<Rightarrow> (client_error + register_response) option" where
  "enroll_loop session [] = None"
| "enroll_loop session ((send, r) # ts) =
     (case client_enroll_wait send session r of
        Inl e \<Rightarrow> Some (Inl e)
      | Inr None \<Rightarrow> enroll_loop session ts
      | Inr (Some reg) \<Rightarrow> Some (Inr reg))"

definition enroll_sso :: "up_env \<Rightarrow> client \<Rightarrow> string \<Rightarrow> string \<Rightarrow> (client_error + register_response) option" where
  "enroll_sso u c hostname pub =
     (case client_enroll_start (up_send u) c hostname pub (up_request u) of
        Inl e \<Rightarrow> Some (Inl e)
      | Inr (session, url) \<Rightarrow> enroll_loop session (up_ticks u))"

definition enrolled_state :: "options \<Rightarrow> client \<Rightarrow> string \<Rightarrow> register_response \<Rightarrow> agent_state" where
  "enrolled_state opts c priv reg =
     \<lparr>as_server_url = cl_server_url c, as_private_key = priv, as_device_id = ra_device_id reg,
      as_device_token = ra_device_token reg, as_ip = ra_ip reg, as_cidr = ra_cidr reg,
      as_iface = ao_iface opts, as_listen_port = ao_listen_port opts\<rparr>"

text \<open>The first contact: with an enrolment key or through the browser; then the identity is saved.\<close>

definition first_contact :: "up_env \<Rightarrow> options \<Rightarrow> agent_state fs \<Rightarrow> agent_state fs \<times> (up_error + agent_state)" where
  "first_contact u opts fs =
     (if ao_server_url opts = [] then (fs, Inl NeedServer)
      else case up_new_key u of
        None \<Rightarrow> (fs, Inl NoKey)
      | Some priv \<Rightarrow>
          let c = new_client (ao_server_url opts) [];
              pub = wk_string (up_keys u) (up_public u priv);
              result = (if ao_auth_key opts \<noteq> []
                then Some (client_register (up_send u) c (ao_auth_key opts) (ao_hostname opts) pub (up_request u))
                else enroll_sso u c (ao_hostname opts) pub)
          in case result of
               None \<Rightarrow> (fs, Inl Cancelled)
             | Some (Inl e) \<Rightarrow> (fs, Inl (EnrolRefused e))
             | Some (Inr reg) \<Rightarrow>
                 let st = enrolled_state opts c (wk_string (up_keys u) priv) reg;
                     (fs1, ok) = state_save (ao_state_path opts) (up_tmp u) st (up_fault u) fs
                 in (fs1, if ok then Inr st else Inl SaveFailed))"

definition load_or_enroll :: "up_env \<Rightarrow> options \<Rightarrow> agent_state fs \<Rightarrow> agent_state fs \<times> (up_error + agent_state)" where
  "load_or_enroll u opts fs =
     (case load_state (ao_state_path opts) (up_readable u) fs of
        Inl _ \<Rightarrow> (fs, Inl BadState)
      | Inr (Some st) \<Rightarrow> (fs, Inr st)
      | Inr None \<Rightarrow> first_contact u opts fs)"

text \<open>\<open>wgnet.Start\<close> and \<open>StartWithTUN\<close>: the interface, the engine's first configuration, and its opening of
  the socket. The control socket is left out.\<close>

definition start_device :: "up_env \<Rightarrow> string \<Rightarrow> nat \<Rightarrow> bytes \<Rightarrow> nat \<Rightarrow> bind \<Rightarrow> (string \<times> bind) option" where
  "start_device u name mtu priv port b =
     (case up_tun u name mtu of
        None \<Rightarrow> None
      | Some real \<Rightarrow>
          if \<not> up_ipc u (initial_config priv port) then None
          else case open_bind (up_listen u) b of
            (b1, Inl _) \<Rightarrow> None
          | (b1, Inr _) \<Rightarrow> Some (case real of None \<Rightarrow> name | Some n \<Rightarrow> n, b1))"

text \<open>\<open>ag_log\<close> lists what the agent has asked of its socket, of the engine and of the system since its start;
  nothing reads it.\<close>

datatype agent_effect =
    OnSocket bind_effect
  | Configured string
  | Routed route_op
  | EndpointGiven string string
  | Probed string addrport

record agent =
  ag_options :: options
  ag_state :: agent_state
  ag_disk :: "agent_state fs"
  ag_client :: client
  ag_advertised :: "string list"
  ag_stun_servers :: "string list"
  ag_relay_enabled :: bool
  ag_bind :: bind
  ag_manager :: endpoint_manager
  ag_known :: "string list"
  ag_installed :: "string list"
  ag_endpoints :: "string list"
  ag_last_stun :: time
  ag_dns :: "dns_server option"
  ag_exit_seen :: bool
  ag_log :: "agent_effect list"

definition own_stun_servers :: "up_env \<Rightarrow> options \<Rightarrow> string \<Rightarrow> string list" where
  "own_stun_servers u opts url =
     (if ao_stun_servers opts \<noteq> [] then ao_stun_servers opts
      else let d = default_stun_server (up_url_host u) url in if d \<noteq> [] then [d] else [])"

definition use_relay :: "up_env \<Rightarrow> options \<Rightarrow> string \<Rightarrow> bytes \<Rightarrow> bind \<Rightarrow> bind \<times> bool" where
  "use_relay u opts url priv b =
     (let relay = (if ao_relay_server opts = [] then default_relay_server (up_url_host u) url else ao_relay_server opts) in
      if relay = [] \<or> relay = ''off'' then (b, False)
      else case up_resolve u relay of
        None \<Rightarrow> (b, False)
      | Some ap \<Rightarrow>
          (case configure_relay (up_curve u) (unmap (fst ap), snd ap) priv b of
             Inl _ \<Rightarrow> (b, False)
           | Inr b1 \<Rightarrow> (b1, True)))"

text \<open>The interface's real name is kept in memory even when it cannot be saved.\<close>

definition rename_iface :: "up_env \<Rightarrow> options \<Rightarrow> string \<Rightarrow> agent_state \<Rightarrow> agent_state fs \<Rightarrow> agent_state \<times> agent_state fs" where
  "rename_iface u opts real st fs =
     (if as_iface st = real then (st, fs)
      else let st1 = st\<lparr>as_iface := real\<rparr>
           in (st1, fst (state_save (ao_state_path opts) (up_tmp u) st1 (up_fault2 u) fs)))"

definition start_agent :: "up_env \<Rightarrow> options \<Rightarrow> agent_state fs \<Rightarrow> agent_state \<Rightarrow> agent_state fs \<times> (up_error + agent)" where
  "start_agent u opts fs st =
     (case wk_parse (up_keys u) (as_private_key st) of
        None \<Rightarrow> (fs, Inl BadKey)
      | Some priv \<Rightarrow>
          (case start_device u (as_iface st) (if ao_mtu opts = 0 then default_mtu else ao_mtu opts) priv (as_listen_port st) new_bind of
             None \<Rightarrow> (fs, Inl NoDevice)
           | Some (real, b) \<Rightarrow>
               if (case set_address (as_ip st) (as_cidr st) of None \<Rightarrow> True | Some (ip, net) \<Rightarrow> \<not> up_addr_ok u ip net)
               then (fs, Inl BadAddress)
               else
                 let (st1, fs1) = rename_iface u opts real st fs;
                     (b1, enabled) = use_relay u opts (as_server_url st1) priv b
                 in case advertised_routes opts of
                      Inl r \<Rightarrow> (fs1, Inl (BadRoute r))
                    | Inr advertised \<Rightarrow>
                        if ao_exit_node opts \<noteq> [] \<and> \<not> up_exit_ok u then (fs1, Inl ExitNodeRefused)
                        else (fs1, Inr \<lparr>ag_options = opts, ag_state = st1, ag_disk = fs1,
                          ag_client = new_client (as_server_url st1) (as_device_token st1), ag_advertised = advertised,
                          ag_stun_servers = own_stun_servers u opts (as_server_url st1), ag_relay_enabled = enabled,
                          ag_bind = set_pong_handler b1, ag_manager = new_manager, ag_known = [], ag_installed = [],
                          ag_endpoints = [], ag_last_stun = 0,
                          ag_dns = (if ao_dns opts then Some (new_dns (up_lower u) (ao_dns_zone opts)) else None),
                          ag_exit_seen = True, ag_log = []\<rparr>)))"

definition up_start :: "up_env \<Rightarrow> options \<Rightarrow> agent_state fs \<Rightarrow> agent_state fs \<times> (up_error + agent)" where
  "up_start u opts fs =
     (case load_or_enroll u opts fs of
        (fs1, Inl e) \<Rightarrow> (fs1, Inl e)
      | (fs1, Inr st) \<Rightarrow> start_agent u opts fs1 st)"

section \<open>The cycle\<close>

definition poll_interval :: duration where "poll_interval = 10 * second"
definition stun_refresh :: duration where "stun_refresh = 25 * second"

text \<open>What one cycle meets: the clock, the network, the interfaces, the engine, the system and the disk.\<close>

record cycle_env =
  cy_now :: time
  cy_send :: transport
  cy_request :: http_request
  cy_stun :: "string \<Rightarrow> addrport option"
  cy_ifaces :: "net_iface list option"
  cy_keys :: wgkeys
  cy_ipc_set :: "string \<Rightarrow> bool"
  cy_route_fails :: "route_op \<Rightarrow> bool"
  cy_handshakes :: "(string, time) gomap option"
  cy_set_ep :: "string \<Rightarrow> string \<Rightarrow> bool"
  cy_pings :: "disco_txid option list"
  cy_lower :: "string \<Rightarrow> string"
  cy_tmp :: string
  cy_fault :: "fault option"

definition refresh_relay :: "cycle_env \<Rightarrow> agent \<Rightarrow> agent" where
  "refresh_relay e a =
     (if ag_relay_enabled a
      then a\<lparr>ag_log := ag_log a @ map OnSocket (sent_by (relay_register (ag_bind a))),
             ag_manager := set_relay_available (relay_healthy (cy_now e) (ag_bind a)) (ag_manager a)\<rparr>
      else a)"

definition refresh_endpoints :: "cycle_env \<Rightarrow> agent \<Rightarrow> agent" where
  "refresh_endpoints e a =
     (if stun_refresh < time_sub (cy_now e) (ag_last_stun a) then
        (let eps = discover_endpoints (ag_bind a) (cy_stun e) (ag_stun_servers a) (as_iface (ag_state a)) (cy_ifaces e);
             a1 = (if eps \<noteq> [] then a\<lparr>ag_endpoints := eps\<rparr> else a)
         in a1\<lparr>ag_last_stun := cy_now e\<rparr>)
      else a)"

definition take_token :: "cycle_env \<Rightarrow> netmap \<Rightarrow> agent \<Rightarrow> agent" where
  "take_token e nm a =
     (if nm_new_token nm \<noteq> []
      then let st = (ag_state a)\<lparr>as_device_token := nm_new_token nm\<rparr>
           in a\<lparr>ag_state := st, ag_client := (ag_client a)\<lparr>cl_token := nm_new_token nm\<rparr>,
                ag_disk := fst (state_save (ao_state_path (ag_options a)) (cy_tmp e) st (cy_fault e) (ag_disk a))\<rparr>
      else a)"

datatype cycle_result = PollFailed client_error | EngineRefused | CycleDone "route_op option"

text \<open>The network map applied: peers, system routes, endpoints, names.\<close>

definition apply_map :: "cycle_env \<Rightarrow> netmap \<Rightarrow> agent \<Rightarrow> agent \<times> cycle_result" where
  "apply_map e nm a =
     (let (peers, subnets, exit_found) = filter_routes (ag_options a) (ag_advertised a) (nm_peers nm) [] False;
          a1 = (if ao_exit_node (ag_options a) \<noteq> [] then a\<lparr>ag_exit_seen := exit_found\<rparr> else a);
          (known, cfg, accepted) = sync_peers (cy_keys e) initial_endpoint (cy_ipc_set e) peers (ag_known a1);
          a2 = a1\<lparr>ag_log := ag_log a1 @ (case cfg of None \<Rightarrow> [] | Some t \<Rightarrow> [Configured t])\<rparr>
      in if \<not> accepted then (a2, EngineRefused)
         else
           let (installed, ops, err) = (if ao_accept_routes (ag_options a2)
                 then set_routes (cy_route_fails e) subnets (ag_installed a2) else (ag_installed a2, [], None));
               (m, given, sends) = probe (cy_now e) (cy_handshakes e) (cy_set_ep e) (cy_pings e) (observe (nm_peers nm) (ag_manager a2))
           in (a2\<lparr>ag_known := known, ag_installed := installed, ag_manager := m,
                  ag_dns := map_option (dns_update (cy_lower e) nm) (ag_dns a2),
                  ag_log := ag_log a2 @ map Routed ops @ map (\<lambda>(k, ep). EndpointGiven k ep) given @
                    map (\<lambda>(k, ap). Probed k ap) sends\<rparr>, CycleDone err))"

definition sync_cycle :: "cycle_env \<Rightarrow> agent \<Rightarrow> agent \<times> cycle_result" where
  "sync_cycle e a =
     (let a1 = refresh_endpoints e (refresh_relay e a) in
      case client_poll (cy_send e) (ag_client a1) (as_listen_port (ag_state a1)) (ag_endpoints a1) (ag_advertised a1) (cy_request e) of
        Inl err \<Rightarrow> (a1, PollFailed err)
      | Inr nm \<Rightarrow> apply_map e nm (take_token e nm a1))"

section \<open>Between two cycles\<close>

text \<open>The engine reads the socket all along: a datagram changes the socket, and a pong the endpoints.\<close>

fun apply_effect :: "time \<Rightarrow> (string, time) gomap option \<Rightarrow> (string \<Rightarrow> string \<Rightarrow> bool) \<Rightarrow> bind_effect \<Rightarrow> agent \<Rightarrow> agent" where
  "apply_effect now hs set_ep (PongSeen i src) a =
     (let (m, given) = on_pong now hs set_ep i src (ag_manager a)
      in a\<lparr>ag_manager := m, ag_log := ag_log a @ (case given of None \<Rightarrow> [] | Some (k, ep) \<Rightarrow> [EndpointGiven k ep])\<rparr>)"
| "apply_effect now hs set_ep ef a = a\<lparr>ag_log := ag_log a @ [OnSocket ef]\<rparr>"

definition agent_packet :: "curve \<Rightarrow> (string, time) gomap option \<Rightarrow> (string \<Rightarrow> string \<Rightarrow> bool) \<Rightarrow> datagram \<Rightarrow> agent \<Rightarrow> agent outcome" where
  "agent_packet cv hs set_ep d a =
     (if bd_udp (ag_bind a) = None then Failed
      else case receive_packet cv (dg_now d) (dg_data d) (dg_from d) (ag_bind a) of
        Done (b, es, _) \<Rightarrow> Done (fold (apply_effect (dg_now d) hs set_ep) es (a\<lparr>ag_bind := b\<rparr>))
      | Failed \<Rightarrow> Failed
      | Panic \<Rightarrow> Panic)"

datatype agent_event =
    Cycle cycle_env
  | Packet curve "(string, time) gomap option" "string \<Rightarrow> string \<Rightarrow> bool" datagram

fun agent_step :: "agent_event \<Rightarrow> agent \<Rightarrow> agent" where
  "agent_step (Cycle e) a = fst (sync_cycle e a)"
| "agent_step (Packet cv hs set_ep d) a = (case agent_packet cv hs set_ep d a of Done a1 \<Rightarrow> a1 | _ \<Rightarrow> a)"

text \<open>A panic ends the process: nothing follows it.\<close>

fun agent_en :: "agent_event \<Rightarrow> agent \<Rightarrow> bool" where
  "agent_en (Cycle e) a = True"
| "agent_en (Packet cv hs set_ep d) a = (agent_packet cv hs set_ep d a \<noteq> Panic)"

section \<open>What the steps leave alone\<close>

lemma refreshed_sel: "ag_client (refresh_endpoints e (refresh_relay e a)) = ag_client a"
  "ag_state (refresh_endpoints e (refresh_relay e a)) = ag_state a"
  "ag_disk (refresh_endpoints e (refresh_relay e a)) = ag_disk a"
  "ag_advertised (refresh_endpoints e (refresh_relay e a)) = ag_advertised a"
  "ag_known (refresh_endpoints e (refresh_relay e a)) = ag_known a"
  "ag_installed (refresh_endpoints e (refresh_relay e a)) = ag_installed a"
  "ag_dns (refresh_endpoints e (refresh_relay e a)) = ag_dns a"
  "ag_options (refresh_endpoints e (refresh_relay e a)) = ag_options a"
  by (simp_all add: refresh_endpoints_def refresh_relay_def Let_def)

lemma take_token_sel:
  "cl_token (ag_client (take_token e nm a)) = (if nm_new_token nm \<noteq> [] then nm_new_token nm else cl_token (ag_client a))"
  "as_device_token (ag_state (take_token e nm a)) = (if nm_new_token nm \<noteq> [] then nm_new_token nm else as_device_token (ag_state a))"
  "ag_options (take_token e nm a) = ag_options a" "ag_installed (take_token e nm a) = ag_installed a"
  "ag_known (take_token e nm a) = ag_known a" "ag_dns (take_token e nm a) = ag_dns a" "ag_manager (take_token e nm a) = ag_manager a"
  by (simp_all add: take_token_def Let_def)

lemma apply_map_sel:
  "ag_client (fst (apply_map e nm a)) = ag_client a" "ag_state (fst (apply_map e nm a)) = ag_state a"
  "ag_disk (fst (apply_map e nm a)) = ag_disk a" "ag_options (fst (apply_map e nm a)) = ag_options a"
  by (simp_all add: apply_map_def Let_def split: prod.split)

lemma apply_map_polled: "snd (apply_map e nm a) \<noteq> PollFailed err"
  by (simp add: apply_map_def Let_def split: prod.split)

lemma sync_cycle_cases:
  fixes e a
  defines "a1 \<equiv> refresh_endpoints e (refresh_relay e a)"
  obtains (failed) err where "sync_cycle e a = (a1, PollFailed err)"
  | (polled) nm where "client_poll (cy_send e) (ag_client a) (as_listen_port (ag_state a)) (ag_endpoints a1) (ag_advertised a) (cy_request e) = Inr nm"
      "sync_cycle e a = apply_map e nm (take_token e nm a1)"
  by (cases "client_poll (cy_send e) (ag_client a) (as_listen_port (ag_state a)) (ag_endpoints a1) (ag_advertised a) (cy_request e)")
    (auto simp: sync_cycle_def a1_def refreshed_sel Let_def)

lemma apply_effect_sel:
  "ag_client (apply_effect now hs set_ep ef a) = ag_client a" "ag_state (apply_effect now hs set_ep ef a) = ag_state a"
  "ag_disk (apply_effect now hs set_ep ef a) = ag_disk a" "ag_options (apply_effect now hs set_ep ef a) = ag_options a"
  "ag_installed (apply_effect now hs set_ep ef a) = ag_installed a" "ag_bind (apply_effect now hs set_ep ef a) = ag_bind a"
  by (cases ef; simp add: split_beta)+

lemma apply_effects_sel:
  "ag_client (fold (apply_effect now hs set_ep) es a) = ag_client a" "ag_state (fold (apply_effect now hs set_ep) es a) = ag_state a"
  "ag_disk (fold (apply_effect now hs set_ep) es a) = ag_disk a" "ag_options (fold (apply_effect now hs set_ep) es a) = ag_options a"
  "ag_installed (fold (apply_effect now hs set_ep) es a) = ag_installed a" "ag_bind (fold (apply_effect now hs set_ep) es a) = ag_bind a"
  by (induction es arbitrary: a) (simp_all add: apply_effect_sel)

lemma packet_sel:
  assumes "agent_packet cv hs set_ep d a = Done a'"
  shows "ag_client a' = ag_client a" "ag_state a' = ag_state a" "ag_disk a' = ag_disk a" "ag_options a' = ag_options a"
    "ag_installed a' = ag_installed a"
  using assms by (auto simp: agent_packet_def apply_effects_sel split: if_splits outcome.splits)

end
