(* ===== verification/Cli.thy ===== *)
theory Cli
  imports Agent Relay
begin

text \<open>
  The programs around the library: \<open>cmd/omni-server/main.go\<close>, which starts the server and administers it,
  \<open>cmd/omnid/main.go\<close>, which starts the agent and shows its state, and \<open>cmd/omnid-gui\<close>, the tray icon. A
  command is a function of its flags, already read, and of what the network, the disk and the engine
  answer; what it prints is a value, without the layout of tables and the formatting of dates.
\<close>

section \<open>Lists on the command line\<close>

text \<open>\<open>strings.Split(s, ",")\<close>, each part trimmed, the empty ones dropped.\<close>

definition split_list :: "string \<Rightarrow> string list" where
  "split_list s = filter (\<lambda>x. x \<noteq> []) (map trim_space (split_on CHR '','' s))"

definition utf8 :: "nat list \<Rightarrow> string" where
  "utf8 bs = map char_of bs"

definition em_dash :: string where "em_dash = utf8 [0xE2, 0x80, 0x94]"
definition e_acute :: string where "e_acute = utf8 [0xC3, 0xA9]"

definition join_or_dash :: "string list \<Rightarrow> string" where
  "join_or_dash s = (if s = [] then em_dash else join '', '' s)"

section \<open>Administration\<close>

datatype cli_error = NeedAdminKey | Refused client_error | Usage | NoPolicyFile

definition admin_call :: "transport \<Rightarrow> string \<Rightarrow> api_call \<Rightarrow> http_request \<Rightarrow> cli_error + payload" where
  "admin_call send key call r =
     (if key = [] then Inl NeedAdminKey
      else case send call (r\<lparr>rq_authorization := ''Bearer '' @ key\<rparr>) of
        None \<Rightarrow> Inl (Refused NoAnswer)
      | Some a \<Rightarrow> if rs_status a \<noteq> 200 then Inl (Refused (HttpStatus (rs_status a) (rs_body a))) else Inr (rs_body a))"

text \<open>The query of a request, as the server reads it back. \<open>show_dur\<close> is \<open>Duration.String\<close>.\<close>

definition with_query :: "(string \<times> string) list \<Rightarrow> http_request \<Rightarrow> http_request" where
  "with_query kvs r = r\<lparr>rq_query := (\<lambda>k. case map_of kvs k of None \<Rightarrow> [] | Some v \<Rightarrow> v)\<rparr>"

definition cmd_genkey :: "transport \<Rightarrow> string \<Rightarrow> (duration \<Rightarrow> string) \<Rightarrow> bool \<Rightarrow> duration \<Rightarrow> http_request \<Rightarrow> cli_error + string \<times> time" where
  "cmd_genkey send key show_dur reusable expiry r =
     (case admin_call send key CreateAuthKey
         (with_query [(''reusable'', if reusable then ''true'' else ''false''), (''ttl'', show_dur expiry)] r) of
        Inl e \<Rightarrow> Inl e
      | Inr (PAuthKey k) \<Rightarrow> Inr (ak_key k, ak_expires k)
      | Inr _ \<Rightarrow> Inl (Refused BadShape))"

definition cmd_invite :: "transport \<Rightarrow> string \<Rightarrow> (duration \<Rightarrow> string) \<Rightarrow> duration \<Rightarrow> http_request \<Rightarrow> cli_error + string \<times> time" where
  "cmd_invite send key show_dur expiry r =
     (case admin_call send key CreateInvite (with_query [(''ttl'', show_dur expiry)] r) of
        Inl e \<Rightarrow> Inl e
      | Inr (PInvite v) \<Rightarrow> Inr (ir_code v, ir_expires v)
      | Inr _ \<Rightarrow> Inl (Refused BadShape))"

text \<open>A row: address, name, owner, state, endpoint, last activity.\<close>

definition device_row :: "peer \<Rightarrow> string \<times> string \<times> string \<times> string \<times> string \<times> time option" where
  "device_row p =
     (pe_ip p, pe_hostname p, if pe_owner p = [] then ''(cl'' @ e_acute @ '')'' else pe_owner p,
      if pe_online p then ''en ligne'' else ''hors ligne'', pe_endpoint p,
      if pe_last_seen p = 0 then None else Some (pe_last_seen p))"

definition cmd_devices :: "transport \<Rightarrow> string \<Rightarrow> http_request \<Rightarrow>
    cli_error + (string \<times> string \<times> string \<times> string \<times> string \<times> time option) list" where
  "cmd_devices send key r =
     (case admin_call send key ListDevices r of
        Inl e \<Rightarrow> Inl e
      | Inr (PPeers ps) \<Rightarrow> Inr (map device_row ps)
      | Inr _ \<Rightarrow> Inl (Refused BadShape))"

text \<open>With two arguments the routes of a machine are approved, otherwise the table is shown. A nil slice is
  \<open>null\<close> in the body, which reads as the empty list.\<close>

datatype routes_out = ActiveOf string string | RouteTable "(string \<times> string \<times> string) list"

definition cmd_routes :: "transport \<Rightarrow> string \<Rightarrow> string list \<Rightarrow> http_request \<Rightarrow> cli_error + routes_out" where
  "cmd_routes send key args r =
     (case args of
        target # list # _ \<Rightarrow>
          (let routes = (if list \<noteq> ''none'' then split_list list else []) in
           case admin_call send key (SetRoutes (Some routes)) (r\<lparr>rq_path := target\<rparr>) of
             Inl e \<Rightarrow> Inl e
           | Inr (PPeer p) \<Rightarrow> Inr (ActiveOf (pe_hostname p) (join_or_dash (pe_routes p)))
           | Inr _ \<Rightarrow> Inl (Refused BadShape))
      | _ \<Rightarrow>
          (case admin_call send key ListDevices r of
             Inl e \<Rightarrow> Inl e
           | Inr (PPeers ps) \<Rightarrow>
               Inr (RouteTable (map (\<lambda>p. (pe_hostname p, join_or_dash (pe_advertised p), join_or_dash (pe_routes p)))
                 (filter (\<lambda>p. \<not> (pe_advertised p = [] \<and> pe_routes p = [])) ps)))
           | Inr _ \<Rightarrow> Inl (Refused BadShape)))"

definition cmd_revoke :: "transport \<Rightarrow> string \<Rightarrow> string list \<Rightarrow> http_request \<Rightarrow> cli_error + string \<times> string" where
  "cmd_revoke send key args r =
     (case args of
        [target] \<Rightarrow>
          (case admin_call send key RevokeDevice (r\<lparr>rq_path := target\<rparr>) of
             Inl e \<Rightarrow> Inl e
           | Inr (PPeer p) \<Rightarrow> Inr (pe_hostname p, pe_ip p)
           | Inr _ \<Rightarrow> Inl (Refused BadShape))
      | _ \<Rightarrow> Inl Usage)"

text \<open>\<open>read\<close> reads a file: \<open>None\<close> when it cannot be read, \<open>Some None\<close> when it is not a policy, which only the
  server notices.\<close>

datatype acl_out = Applied nat | Shown acl_policy bool

definition cmd_acl :: "transport \<Rightarrow> string \<Rightarrow> (string \<Rightarrow> acl_policy option option) \<Rightarrow> string \<Rightarrow> http_request \<Rightarrow> cli_error + acl_out" where
  "cmd_acl send key read set_file r =
     (if set_file \<noteq> [] then
        (case read set_file of
           None \<Rightarrow> Inl NoPolicyFile
         | Some body \<Rightarrow>
             (case admin_call send key (SetAcl body) r of
                Inl e \<Rightarrow> Inl e
              | Inr (PAcl p) \<Rightarrow> Inr (Applied (length (p_rules p)))
              | Inr _ \<Rightarrow> Inl (Refused BadShape)))
      else
        (case admin_call send key GetAcl r of
           Inl e \<Rightarrow> Inl e
         | Inr (PAcl p) \<Rightarrow> Inr (Shown p (p_rules p = []))
         | Inr _ \<Rightarrow> Inl (Refused BadShape)))"

section \<open>Starting the server\<close>

record serve_flags =
  fl_state :: string
  fl_cidr :: string
  fl_tls_cert :: string
  fl_tls_key :: string
  fl_stun_addr :: string
  fl_relay_addr :: string
  fl_registration :: string
  fl_oidc_issuer :: string
  fl_oidc_client_id :: string
  fl_oidc_client_secret :: string
  fl_public_url :: string
  fl_oidc_domain :: string
  fl_oidc_emails :: string

datatype serve_error = BadRegistration | TlsPair | StoreRefused store_err | CannotListen string | SsoRefused oidc_err

text \<open>The server ready to answer; which of its services run beside it.\<close>

record served =
  sd_api :: sso_server
  sd_created :: bool
  sd_stun :: bool
  sd_relay :: bool
  sd_https :: bool

definition new_server :: "store \<Rightarrow> sso_server" where
  "new_server st = \<lparr>sv_store = st, sv_open = False, sv_oidc = None\<rparr>"

definition set_open_registration :: "bool \<Rightarrow> sso_server \<Rightarrow> sso_server" where
  "set_open_registration b s = s\<lparr>sv_open := b\<rparr>"

definition oidc_flags :: "serve_flags \<Rightarrow> oidc_config" where
  "oidc_flags f = \<lparr>oc_issuer = fl_oidc_issuer f, oc_client_id = fl_oidc_client_id f, oc_client_secret = fl_oidc_client_secret f,
     oc_public_url = fl_public_url f, oc_allowed_domain = fl_oidc_domain f, oc_allowed_emails = split_list (fl_oidc_emails f)\<rparr>"

definition cmd_serve :: "env \<Rightarrow> bool \<Rightarrow> (string \<Rightarrow> bool) \<Rightarrow> bool \<Rightarrow> serve_flags \<Rightarrow> state_file fs \<Rightarrow> serve_error + served" where
  "cmd_serve e readable listen discovered f fs =
     (if fl_registration f \<noteq> ''invite'' \<and> fl_registration f \<noteq> ''open'' then Inl BadRegistration
      else if (fl_tls_cert f = []) \<noteq> (fl_tls_key f = []) then Inl TlsPair
      else case open_store_cidr e readable (fl_state f) (fl_cidr f) fs of
        Inl err \<Rightarrow> Inl (StoreRefused err)
      | Inr (st, created) \<Rightarrow>
          if fl_stun_addr f \<noteq> ''off'' \<and> \<not> listen (fl_stun_addr f) then Inl (CannotListen (fl_stun_addr f))
          else if fl_relay_addr f \<noteq> ''off'' \<and> \<not> listen (fl_relay_addr f) then Inl (CannotListen (fl_relay_addr f))
          else
            let api = set_open_registration (fl_registration f = ''open'') (new_server st) in
            case (if fl_oidc_issuer f \<noteq> [] then enable_oidc discovered (oidc_flags f) api else Inr api) of
              Inl err \<Rightarrow> Inl (SsoRefused err)
            | Inr api' \<Rightarrow> Inr \<lparr>sd_api = api', sd_created = created, sd_stun = (fl_stun_addr f \<noteq> ''off''),
                sd_relay = (fl_relay_addr f \<noteq> ''off''), sd_https = (fl_tls_cert f \<noteq> [])\<rparr>)"

section \<open>The agent's program\<close>

definition default_iface :: "os \<Rightarrow> string" where
  "default_iface os = (if os = Darwin then ''utun'' else ''omni0'')"

record up_flags =
  uf_server :: string
  uf_auth_key :: string
  uf_hostname :: string
  uf_iface :: string
  uf_port :: nat
  uf_mtu :: nat
  uf_stun :: string
  uf_relay :: string
  uf_state :: string
  uf_dns :: bool
  uf_dns_zone :: string
  uf_routes :: string
  uf_exit :: bool
  uf_exit_node :: string
  uf_accept :: bool

definition parse_up_options :: "up_flags \<Rightarrow> options" where
  "parse_up_options f =
     \<lparr>ao_server_url = uf_server f, ao_auth_key = uf_auth_key f, ao_hostname = uf_hostname f, ao_iface = uf_iface f,
      ao_listen_port = uf_port f, ao_mtu = uf_mtu f, ao_state_path = uf_state f,
      ao_stun_servers = (if uf_stun f \<noteq> [] then split_list (uf_stun f) else []), ao_relay_server = uf_relay f,
      ao_dns = uf_dns f, ao_dns_zone = uf_dns_zone f,
      ao_advertise_routes = (if uf_routes f \<noteq> [] then split_list (uf_routes f) else []), ao_advertise_exit = uf_exit f,
      ao_exit_node = uf_exit_node f, ao_accept_routes = uf_accept f\<rparr>"

text \<open>\<open>omnid up\<close>: the agent of \<open>Up\<close> after any events; \<open>None\<close> when it does not start.\<close>

definition cmd_up :: "up_env \<Rightarrow> up_flags \<Rightarrow> agent_state fs \<Rightarrow> agent_state fs \<times> (up_error + agent)" where
  "cmd_up u f fs = up_start u (parse_up_options f) fs"

text \<open>The poll that \<open>omnid status\<close> and the tray icon make with the token they read from the agent's file.\<close>

definition status_call :: "agent_state \<Rightarrow> api_call" where
  "status_call st = Poll (Some \<lparr>pr_listen_port = int (as_listen_port st), pr_endpoints = omit_empty [], pr_advertised = omit_empty []\<rparr>)"

definition status_client :: "agent_state \<Rightarrow> client" where
  "status_client st = new_client (as_server_url st) (as_device_token st)"

definition status_poll :: "transport \<Rightarrow> http_request \<Rightarrow> agent_state \<Rightarrow> client_error + netmap" where
  "status_poll send r st = client_poll send (status_client st) (as_listen_port st) [] [] r"

text \<open>A line per peer: name, address, last handshake, endpoint, bytes received and sent.\<close>

definition status_name :: "(string, string) gomap \<Rightarrow> string \<Rightarrow> string" where
  "status_name names pub =
     (let name = (case gm_get names pub of None \<Rightarrow> [] | Some n \<Rightarrow> n) in
      if name = [] \<and> 12 < length pub then take 12 pub @ ellipsis else name)"

definition status_row :: "(string, string) gomap \<Rightarrow> (string, string) gomap \<Rightarrow> peer_status \<Rightarrow>
    string \<times> string \<times> time option \<times> string \<times> int \<times> int" where
  "status_row names ips p =
     (status_name names (ps_public_key p), case gm_get ips (ps_public_key p) of None \<Rightarrow> [] | Some a \<Rightarrow> a,
      if ps_last_handshake p = 0 then None else Some (ps_last_handshake p),
      if ps_endpoint p = [] then ''endpoint inconnu'' else ps_endpoint p, ps_rx p, ps_tx p)"

datatype status_out =
    StateUnreadable
  | NoIdentity
  | Inactive agent_state
  | Active agent_state int "(string \<times> string \<times> time option \<times> string \<times> int \<times> int) list"

definition cmd_status :: "wgkeys \<Rightarrow> string \<Rightarrow> bool \<Rightarrow> agent_state fs \<Rightarrow> (string \<Rightarrow> string option) \<Rightarrow> transport \<Rightarrow> http_request \<Rightarrow> status_out" where
  "cmd_status W path readable fs uapi send r =
     (case load_state path readable fs of
        Inl _ \<Rightarrow> StateUnreadable
      | Inr None \<Rightarrow> NoIdentity
      | Inr (Some st) \<Rightarrow>
          (case query_status W (uapi (as_iface st)) of
             None \<Rightarrow> Inactive st
           | Some dev \<Rightarrow>
               let ps = (case status_poll send r st of Inl _ \<Rightarrow> [] | Inr nm \<Rightarrow> nm_peers nm);
                   names = fold (\<lambda>p. gm_put (pe_public_key p) (pe_hostname p)) ps [];
                   ips = fold (\<lambda>p. gm_put (pe_public_key p) (pe_ip p)) ps []
               in Active st (ds_listen_port dev) (map (status_row names ips) (ds_peers dev))))"

text \<open>\<open>omnid down\<close>: the pid file's text; \<open>stop\<close> is the system's answer.\<close>

definition atoi :: "string \<Rightarrow> int option" where
  "atoi s =
     (let ds = (if s \<noteq> [] \<and> hd s \<in> {CHR ''-'', CHR ''+''} then tl s else s) in
      if ds = [] \<or> \<not> list_all is_digit ds then None
      else let n = int (dec_value ds); v = (if hd s = CHR ''-'' then - n else n) in
        if v > int64_max \<or> v < - int64_max - 1 then None else Some v)"

datatype down_error = NoDaemon | BadPid | StopFailed

definition cmd_down :: "string option \<Rightarrow> (int \<Rightarrow> bool) \<Rightarrow> down_error + int" where
  "cmd_down pid_file stop =
     (case pid_file of
        None \<Rightarrow> Inl NoDaemon
      | Some text \<Rightarrow>
          (case atoi (trim_space text) of
             None \<Rightarrow> Inl BadPid
           | Some pid \<Rightarrow> if stop pid then Inr pid else Inl StopFailed))"

section \<open>The tray icon\<close>

record tray_view =
  tv_connected :: bool
  tv_title :: string
  tv_self :: string
  tv_peers :: "string list"

definition brand :: string where "brand = ''OmniUp VPN '' @ em_dash @ '' ''"

definition peer_line :: "peer \<Rightarrow> string" where
  "peer_line p =
     (if pe_online p then utf8 [0xE2, 0x97, 0x8F] else utf8 [0xE2, 0x97, 0x8B]) @ '' '' @
     (if pe_hostname p = [] then pe_ip p else pe_hostname p) @ '' ('' @ pe_ip p @ '')''"

text \<open>\<open>sort.Slice\<close> by address: which of two equal addresses comes first is left to the library; here it is the
  first of the map.\<close>

definition build_view :: "string \<Rightarrow> string \<Rightarrow> bool \<Rightarrow> netmap option \<Rightarrow> tray_view" where
  "build_view hostname ip iface_up nm =
     (let self = ''Cette machine : '' @ (if hostname = [] then ip else hostname) @ '' ('' @ ip @ '')'' in
      if \<not> iface_up then
        \<lparr>tv_connected = False, tv_title = brand @ ''d'' @ e_acute @ ''connect'' @ e_acute, tv_self = self,
         tv_peers = [''Interface inactive'']\<rparr>
      else case nm of
        None \<Rightarrow> \<lparr>tv_connected = True, tv_title = brand @ ''connect'' @ e_acute @ '' (serveur injoignable)'', tv_self = self,
                 tv_peers = [''Serveur de coordination injoignable'']\<rparr>
      | Some m \<Rightarrow>
          let peers = sort_key pe_ip (nm_peers m) in
          \<lparr>tv_connected = True,
           tv_title = brand @ ''connect'' @ e_acute @ '' '' @ utf8 [0xC2, 0xB7] @ '' '' @
             show_nat (length (filter pe_online peers)) @ ''/'' @ show_nat (length peers) @ '' pair(s) en ligne'',
           tv_self = self,
           tv_peers = (if peers = [] then [''Aucun autre pair sur le r'' @ e_acute @ ''seau''] else map peer_line peers)\<rparr>)"

definition unconfigured_view :: tray_view where
  "unconfigured_view = \<lparr>tv_connected = False, tv_title = brand @ ''non configur'' @ e_acute,
     tv_self = ''Aucune machine enr'' @ utf8 [0xC3, 0xB4] @ ''l'' @ e_acute @ ''e'',
     tv_peers = [''Lancez '' @ utf8 [0xC2, 0xAB] @ '' omnid up '' @ utf8 [0xC2, 0xBB]]\<rparr>"

text \<open>\<open>update\<close>: the state the menu keeps, and the view it shows.\<close>

definition tray_update :: "wgkeys \<Rightarrow> string \<Rightarrow> bool \<Rightarrow> agent_state fs \<Rightarrow> (string \<Rightarrow> string option) \<Rightarrow> transport \<Rightarrow> http_request \<Rightarrow>
    agent_state option \<Rightarrow> agent_state option \<times> tray_view" where
  "tray_update W path readable fs uapi send r old =
     (case load_state path readable fs of
        Inl _ \<Rightarrow> (old, unconfigured_view)
      | Inr None \<Rightarrow> (old, unconfigured_view)
      | Inr (Some st) \<Rightarrow>
          let up = (query_status W (uapi (as_iface st)) \<noteq> None);
              nm = (if up then (case status_poll send r st of Inl _ \<Rightarrow> None | Inr m \<Rightarrow> Some m) else None);
              hostname = (case nm of None \<Rightarrow> [] | Some m \<Rightarrow> pe_hostname (nm_self m))
          in (Some st, build_view hostname (as_ip st) up nm))"

definition max_peer_items :: nat where "max_peer_items = 64"

text \<open>The menu entries that are visible.\<close>

definition render_items :: "tray_view \<Rightarrow> string list" where
  "render_items v = take max_peer_items (tv_peers v)"

end
