(* ===== verification/Wgnet_Props.thy ===== *)
theory Wgnet_Props
  imports Wgnet
begin

text \<open>
  What the WireGuard device promises: the configuration it writes, the system routes it keeps, the
  handshakes it reads.
\<close>

section \<open>The WireGuard keys the examples use\<close>

definition b64_keys :: wgkeys where
  "b64_keys = \<lparr>wk_parse = (\<lambda>s. case b64_decode s of None \<Rightarrow> None | Some k \<Rightarrow> if length k = 32 then Some k else None),
     wk_string = b64_encode\<rparr>"

lemma b64_keys_ok: "wgkeys_ok b64_keys"
  by (auto simp: wgkeys_ok_def b64_keys_def b64_decode_encode split: option.splits if_splits)

definition demo_wgkey :: "byte \<Rightarrow> bytes" where "demo_wgkey b = replicate 32 b"

lemma demo_wgkey [simp]: "length (demo_wgkey b) = 32" "wk_parse b64_keys (b64_encode (demo_wgkey b)) = Some (demo_wgkey b)"
  by (simp_all add: demo_wgkey_def b64_keys_def b64_decode_encode)

definition demo_peer :: "byte \<Rightarrow> string \<Rightarrow> peer" where
  "demo_peer b ep = \<lparr>pe_hostname = ''m'', pe_public_key = b64_encode (demo_wgkey b), pe_ip = ''10.0.0.2'', pe_owner = [],
     pe_endpoint = ep, pe_endpoints = [], pe_routes = [], pe_advertised = [], pe_last_seen = 0, pe_online = True\<rparr>"

lemma demo_peer_valid: "valid_peer b64_keys (demo_peer b ep)"
proof -
  have "net_parse_ip ''10.0.0.2'' = Some (V4 167772162)" by (simp add: compute)
  then show ?thesis by (simp add: valid_peer_def demo_peer_def)
qed

section \<open>Properties\<close>



text \<open>C26: the system routes. What the device believes installed is in the system's table whenever it was
  before; without a refusal the device's routes become exactly the wanted ones, nothing else of the
  table changes, and nothing is reported; and a route whose removal the system refuses is forgotten
  although it stays in the table.\<close>

theorem routes_tracked:
  assumes "set_routes fails cidrs installed = (installed', ops, err)" "set installed \<subseteq> T"
  shows "set installed' \<subseteq> fold (run_route fails) ops T \<and>
    ((\<forall>op. \<not> fails op) \<longrightarrow> set installed' = set (desired_routes cidrs) \<and> err = None \<and>
      fold (run_route fails) ops T = T - (set installed - set (desired_routes cidrs)) \<union> set (desired_routes cidrs)) \<and>
    (\<forall>c. c \<in> set installed - set (desired_routes cidrs) \<and> fails (RouteDel c) \<longrightarrow>
      err \<noteq> None \<and> c \<notin> set installed' \<and> c \<in> fold (run_route fails) ops T)"
proof -
  note r = set_routes_result [OF assms(1)] and e = set_routes_error [OF assms(1)]
  have "err \<noteq> None" if "c \<in> set installed - set (desired_routes cidrs)" "fails (RouteDel c)" for c
  proof -
    have "RouteDel c \<in> set ops" using that(1) r(2) by blast
    with that(2) show ?thesis by (auto simp: e find_None_iff)
  qed
  moreover have "err = None" if "\<forall>op. \<not> fails op" using that by (simp add: e find_None_iff)
  ultimately show ?thesis unfolding r(1) r(3) [of T] using assms(2) by auto
qed

theorem routes_tracked_witness:
  "\<exists>installed' ops err. set_routes (\<lambda>op. op = RouteDel ''10.1.0.0/16'') [] [''10.1.0.0/16''] = (installed', ops, err) \<and>
     ''10.1.0.0/16'' \<notin> set installed' \<and> ''10.1.0.0/16'' \<in> fold (run_route (\<lambda>op. op = RouteDel ''10.1.0.0/16'')) ops {''10.1.0.0/16''}"
proof -
  let ?f = "\<lambda>op. op = RouteDel ''10.1.0.0/16''"
  obtain i ops err where s: "set_routes ?f [] [''10.1.0.0/16''] = (i, ops, err)" by (metis prod_cases3)
  have "set (desired_routes []) = {}" by (simp add: desired_routes_def List.map_filter_def)
  then have "''10.1.0.0/16'' \<notin> set i" "''10.1.0.0/16'' \<in> fold (run_route ?f) ops {''10.1.0.0/16''}"
    using routes_tracked [OF s, of "{''10.1.0.0/16''}"] by auto
  with s show ?thesis by blast
qed

end
