(* ===== verification/Relay_Props.thy ===== *)
theory Relay_Props
  imports Relay
begin

text \<open>
  What the relay promises: only the holder of a private key is registered under its public key, a
  forwarded packet carries the authenticated key of its sender, a proof is used once.
\<close>

section \<open>The handshake\<close>

text \<open>What X25519 promises: both sides compute the same secret, of 32 bytes.\<close>

definition ecdh :: "curve \<Rightarrow> bool" where
  "ecdh cv \<longleftrightarrow>
     (\<forall>a b p q. cv_x25519 cv a (cv_base cv) = Some p \<longrightarrow> cv_x25519 cv b (cv_base cv) = Some q \<longrightarrow>
        cv_x25519 cv a q = cv_x25519 cv b p) \<and>
     (\<forall>a p r. cv_x25519 cv a p = Some r \<longrightarrow> length r = 32)"

text \<open>The client's side of a registration: a REGISTER, and the proof for the nonce it is sent.\<close>

definition join_by :: "curve \<Rightarrow> bytes \<Rightarrow> relay_key \<Rightarrow> relay_key \<Rightarrow> time \<Rightarrow> relay_nonce \<Rightarrow> addrport \<Rightarrow> datagram list" where
  "join_by cv priv k relay_pub t n a =
     [\<lparr>dg_now = t, dg_rnd = Some n, dg_data = build_register k, dg_src = a\<rparr>,
      \<lparr>dg_now = t, dg_rnd = None, dg_data = the (build_proof cv priv relay_pub n), dg_src = a\<rparr>]"

definition registered :: "relay_key \<Rightarrow> addrport \<Rightarrow> time \<Rightarrow> relay_server \<Rightarrow> relay_server" where
  "registered k a t s =
     s\<lparr>rl_pending := gm_del a (rl_pending s), rl_clients := gm_put k \<lparr>rc_addr = a, rc_last_seen = t\<rparr> (rl_clients s),
       rl_by_addr := gm_put a k (moved_entries k a s)\<rparr>"

definition relay_keys :: "curve \<Rightarrow> relay_server \<Rightarrow> bool" where
  "relay_keys cv s \<longleftrightarrow> cv_x25519 cv (rl_priv s) (cv_base cv) = Some (rl_pub s)"

lemma relay_keys_registered [simp]: "relay_keys cv (registered k a t s) = relay_keys cv s"
  "rl_pub (registered k a t s) = rl_pub s"
  by (simp_all add: relay_keys_def registered_def)

lemma delete_update_same: "gm_del a (gm_put a v m) = gm_del a m"
  by (induction m) auto

lemma proof_built:
  assumes "ecdh cv" "relay_keys cv s" "cv_x25519 cv priv (cv_base cv) = Some k" "cv_x25519 cv priv (rl_pub s) \<noteq> None"
  obtains mac where "build_proof cv priv (rl_pub s) n = Some (relay_magic @ type_proof # k @ n @ mac)" "length mac = 32"
    "verify_proof cv (rl_priv s) k n mac"
proof -
  obtain sh where sh: "cv_x25519 cv priv (rl_pub s) = Some sh" using assms(4) by blast
  then have "cv_x25519 cv (rl_priv s) k = Some sh"
    using assms(1-3) unfolding ecdh_def relay_keys_def by metis
  with sh show thesis
    using assms(3) by (intro that [of "hmac_sha256 sh (n @ k)"]) (simp_all add: build_proof_def proof_mac_def verify_proof_def)
qed

lemma on_register_challenge:
  assumes "parse_keyed pkt = Some (k, p)" "\<And>c. gm_get (rl_clients s) k = Some c \<Longrightarrow> rc_addr c = a \<Longrightarrow> \<not> client_fresh t c"
  shows "on_register t (Some n) pkt a s =
    (s\<lparr>rl_pending := gm_put a \<lparr>pc_nonce = n, pc_expires = t + challenge_ttl\<rparr> (rl_pending s)\<rparr>,
     [(build_challenge (rl_pub s) n, a)])"
  using assms by (auto simp: on_register_def split: option.split)

lemma handshake_run:
  assumes "ecdh cv" "relay_keys cv s" "cv_x25519 cv priv (cv_base cv) = Some k" "cv_x25519 cv priv (rl_pub s) \<noteq> None"
    and "length n = 16" "unmap (fst a) = fst a"
    and "\<And>c. gm_get (rl_clients s) k = Some c \<Longrightarrow> rc_addr c = a \<Longrightarrow> \<not> client_fresh t c"
  shows "relay_run cv (join_by cv priv k (rl_pub s) t n a) s =
    (registered k a t s, [(build_challenge (rl_pub s) n, a), (build_ack, a)])"
proof -
  let ?s = "s\<lparr>rl_pending := gm_put a \<lparr>pc_nonce = n, pc_expires = t + challenge_ttl\<rparr> (rl_pending s)\<rparr>"
  obtain mac where mac: "build_proof cv priv (rl_pub s) n = Some (relay_magic @ type_proof # k @ n @ mac)" "length mac = 32"
    "verify_proof cv (rl_priv s) k n mac" using assms(1-4) by (rule proof_built)
  have k: "length k = 32" using assms(1,3) unfolding ecdh_def by blast
  have from_a: "dg_from \<lparr>dg_now = t', dg_rnd = r, dg_data = b, dg_src = a\<rparr> = a" for t' r b
    using assms(6) by (simp add: dg_from_def)
  have short: "dg_pkt \<lparr>dg_now = t', dg_rnd = r, dg_data = b, dg_src = a\<rparr> = b" if "length b \<le> 2048" for t' r b
    using that by (simp add: dg_pkt_def max_packet_def)
  have frames: "is_frame (build_register k)" "frame_type (build_register k) = type_register" "length (build_register k) = 38"
    using k by (simp_all add: build_register_def)
  have "relay_handle cv t (Some n) (build_register k) a s = (?s, [(build_challenge (rl_pub s) n, a)])"
    using frames on_register_challenge [OF register_built [OF k], of s a t n] assms(7) by (simp add: relay_handle_def)
  moreover have "challenge_valid t n a ?s"
    by (simp add: challenge_valid_def gm_get_put challenge_ttl_def duration_defs)
  then have "relay_handle cv t None (relay_magic @ type_proof # k @ n @ mac) a ?s = (registered k a t s, [(build_ack, a)])"
    using parse_proof_built [OF k assms(5) mac(2), of type_proof] mac(3)
    by (simp add: relay_handle_def on_proof_def registered_def moved_entries_def Let_def delete_update_same
        cong: option.case_cong if_cong)
  ultimately show ?thesis
    using mac frames k assms(5) by (simp add: join_by_def relay_datagram_def from_a short)
qed

lemma forward_delivered:
  assumes "length dk = 32" "payload \<noteq> []" "gm_get (rl_by_addr s) a = Some k"
    and "gm_get (rl_clients s) k = Some c" "rc_addr c = a" "client_fresh t c"
    and "gm_get (rl_clients s) dk = Some dst" "client_fresh t dst"
  shows "relay_handle cv t rnd (build_forward dk payload) a s = (s, [(build_recv k payload, rc_addr dst)])"
  using assms parse_keyed_built [of dk type_forward payload]
  by (simp add: relay_handle_def build_forward_def on_forward_def)

section \<open>A curve and a relay to evaluate on\<close>

definition xor_curve :: curve where
  "xor_curve = \<lparr>cv_x25519 = (\<lambda>k p. if length k = 32 \<and> length p = 32 then Some (xor_bytes k p) else None),
     cv_base = 9 # replicate 31 0\<rparr>"

lemma xor_bytes_left_commute:
  "length a = length b \<Longrightarrow> length b = length c \<Longrightarrow> xor_bytes a (xor_bytes b c) = xor_bytes b (xor_bytes a c)"
  by (rule nth_equalityI) (simp_all add: xor_bytes_def xor.left_commute)

lemma xor_curve_ecdh: "ecdh xor_curve"
  by (auto simp: ecdh_def xor_curve_def xor_bytes_left_commute split: if_splits)

lemma xor_curve_def' [simp]:
  "length k = 32 \<Longrightarrow> length p = 32 \<Longrightarrow> cv_x25519 xor_curve k p = Some (xor_bytes k p)"
  "length (cv_base xor_curve) = 32"
  by (simp_all add: xor_curve_def)

definition demo_priv :: "byte \<Rightarrow> bytes" where "demo_priv b = replicate 32 b"
definition demo_pub :: "byte \<Rightarrow> bytes" where "demo_pub b = xor_bytes (demo_priv b) (cv_base xor_curve)"
definition demo_nonce :: bytes where "demo_nonce = replicate 16 3"
definition demo_addr :: "nat \<Rightarrow> addrport" where "demo_addr n = (V4 167772161, word_of_nat n)"

definition demo_relay :: relay_server where
  "demo_relay = \<lparr>rl_priv = demo_priv 7, rl_pub = demo_pub 7, rl_clients = [], rl_by_addr = [], rl_pending = []\<rparr>"

lemma demo_length [simp]: "length (demo_priv b) = 32" "length (demo_pub b) = 32" "length demo_nonce = 16"
  by (simp_all add: demo_priv_def demo_pub_def demo_nonce_def)

lemma demo_keys [simp]: "cv_x25519 xor_curve (demo_priv b) (cv_base xor_curve) = Some (demo_pub b)"
  by (simp add: demo_pub_def)

lemma demo_relay_start: "relay_start xor_curve (Some (demo_priv 7)) = Some demo_relay"
  by (simp add: relay_start_def demo_relay_def)

lemma demo_relay_keys: "relay_keys xor_curve demo_relay"
  by (simp add: relay_keys_def demo_relay_def)

lemma demo_plain [simp]: "unmap (fst (demo_addr n)) = fst (demo_addr n)"
  by (simp add: demo_addr_def)

lemma demo_pub_inj: "demo_pub 1 \<noteq> demo_pub 2"
proof
  assume "demo_pub 1 = demo_pub 2"
  then have "xor_bytes (demo_pub 1) (cv_base xor_curve) = xor_bytes (demo_pub 2) (cv_base xor_curve)" by simp
  then have "demo_priv 1 = demo_priv 2" by (simp add: demo_pub_def xor_xor_bytes)
  then show False by (simp add: demo_priv_def)
qed

section \<open>Properties\<close>

text \<open>C11: authenticity, over any sequence of datagrams from any sources. Every RECV frame the relay sends
  carries the payload of the FORWARD frame just received, under a key that was proved from the sender's
  own address on a nonce sent there less than 30 seconds before the proof, and it goes to an address
  where the destination key was proved in the same way.\<close>

theorem relay_authentic:
  assumes "relay_start cv rnd = Some s0"
    and "(f, dst) \<in> set (snd (relay_datagram cv d (fst (relay_run cv ds s0))))" "frame_type f = type_recv"
  shows "\<exists>k dk p. f = build_recv k p \<and> frame_type (dg_pkt d) = type_forward \<and> parse_keyed (dg_pkt d) = Some (dk, p) \<and>
    authenticated cv s0 ds k (dg_from d) \<and> authenticated cv s0 ds dk dst"
proof -
  let ?s = "fst (relay_run cv ds s0)"
  note inv = relay_run_inv [OF assms(1), of ds]
  have other: "f \<noteq> build_ack" "f \<noteq> build_challenge pub n" for pub n
    using assms(3) by (auto simp: build_ack_def build_challenge_def)
  have dg: "(f, dst) \<in> set (snd (relay_handle cv (dg_now d) (dg_rnd d) (dg_pkt d) (dg_from d) ?s))"
    using assms(2) by (simp add: relay_datagram_def)
  show ?thesis
  proof (cases rule: handle_cases [of cv "dg_now d" "dg_rnd d" "dg_pkt d" "dg_from d" ?s])
    case 2
    with dg other show ?thesis
      by (cases rule: on_register_cases [of "dg_now d" "dg_rnd d" "dg_pkt d" "dg_from d" ?s]) auto
  next
    case 3
    with dg other show ?thesis
      by (cases rule: on_proof_cases [of cv "dg_now d" "dg_pkt d" "dg_from d" ?s]) auto
  next
    case 4
    with dg have "(f, dst) \<in> set (snd (on_forward (dg_now d) (dg_pkt d) (dg_from d) ?s))" by simp
    then show ?thesis
    proof (cases rule: on_forward_cases [of "dg_now d" "dg_pkt d" "dg_from d" ?s])
      case (2 dk p k sender c)
      with relay_invD(1) [OF inv] have "authenticated cv s0 ds k (dg_from d)" "authenticated cv s0 ds dk (rc_addr c)"
        by metis+
      with 2 4 dg show ?thesis by auto
    qed simp
  qed (use dg in simp)
qed

lemma demo_two_clients:
  "relay_run xor_curve (join_by xor_curve (demo_priv 1) (demo_pub 1) (demo_pub 7) 100 demo_nonce (demo_addr 5) @
      join_by xor_curve (demo_priv 2) (demo_pub 2) (demo_pub 7) 100 demo_nonce (demo_addr 6)) demo_relay =
     (registered (demo_pub 2) (demo_addr 6) 100 (registered (demo_pub 1) (demo_addr 5) 100 demo_relay),
      [(build_challenge (demo_pub 7) demo_nonce, demo_addr 5), (build_ack, demo_addr 5),
       (build_challenge (demo_pub 7) demo_nonce, demo_addr 6), (build_ack, demo_addr 6)])"
proof -
  have p: "rl_pub demo_relay = demo_pub 7" "rl_clients demo_relay = []" by (simp_all add: demo_relay_def)
  then have c: "rl_clients (registered (demo_pub 1) (demo_addr 5) 100 demo_relay) =
      [(demo_pub 1, \<lparr>rc_addr = demo_addr 5, rc_last_seen = 100\<rparr>)]"
    by (simp add: registered_def)
  show ?thesis
    using handshake_run [of xor_curve demo_relay "demo_priv 1" "demo_pub 1" demo_nonce "demo_addr 5" 100]
      handshake_run [of xor_curve "registered (demo_pub 1) (demo_addr 5) 100 demo_relay" "demo_priv 2" "demo_pub 2"
        demo_nonce "demo_addr 6" 100]
      xor_curve_ecdh demo_relay_keys demo_pub_inj p c
    by (simp add: relay_run_append)
qed

theorem relay_authentic_witness:
  "authenticated xor_curve demo_relay
     (join_by xor_curve (demo_priv 1) (demo_pub 1) (demo_pub 7) 100 demo_nonce (demo_addr 5) @
      join_by xor_curve (demo_priv 2) (demo_pub 2) (demo_pub 7) 100 demo_nonce (demo_addr 6))
     (demo_pub 1) (demo_addr 5)"
proof -
  let ?ds = "join_by xor_curve (demo_priv 1) (demo_pub 1) (demo_pub 7) 100 demo_nonce (demo_addr 5) @
      join_by xor_curve (demo_priv 2) (demo_pub 2) (demo_pub 7) 100 demo_nonce (demo_addr 6)"
  let ?s = "registered (demo_pub 2) (demo_addr 6) 100 (registered (demo_pub 1) (demo_addr 5) 100 demo_relay)"
  let ?d = "\<lparr>dg_now = 100, dg_rnd = None, dg_data = build_forward (demo_pub 2) [42], dg_src = demo_addr 5\<rparr>"
  have run: "fst (relay_run xor_curve ?ds demo_relay) = ?s" by (simp add: demo_two_clients)
  have a: "demo_addr 5 \<noteq> demo_addr 6" by (simp add: demo_addr_def)
  have f: "client_fresh 100 \<lparr>rc_addr = x, rc_last_seen = 100\<rparr>" for x
    by (simp add: client_fresh_def client_ttl_def time_sub_def duration_defs)
  have s: "gm_get (rl_by_addr ?s) (demo_addr 5) = Some (demo_pub 1)"
    "gm_get (rl_clients ?s) (demo_pub 1) = Some \<lparr>rc_addr = demo_addr 5, rc_last_seen = 100\<rparr>"
    "gm_get (rl_clients ?s) (demo_pub 2) = Some \<lparr>rc_addr = demo_addr 6, rc_last_seen = 100\<rparr>"
    using a demo_pub_inj by (simp_all add: registered_def moved_entries_def demo_relay_def)
  have d: "dg_from ?d = demo_addr 5" "dg_pkt ?d = build_forward (demo_pub 2) [42]"
    by (simp_all add: dg_from_def dg_pkt_def build_forward_def max_packet_def)
  have "snd (relay_datagram xor_curve ?d ?s) = [(build_recv (demo_pub 1) [42], demo_addr 6)]"
    using forward_delivered [OF _ _ s(1,2) _ f s(3) f] by (simp add: relay_datagram_def d)
  moreover have "frame_type (build_recv (demo_pub 1) [42]) = type_recv" by (simp add: build_recv_def)
  ultimately obtain k dk p where k: "build_recv (demo_pub 1) [42] = build_recv k p"
    "authenticated xor_curve demo_relay ?ds k (dg_from ?d)" "parse_keyed (dg_pkt ?d) = Some (dk, p)"
    using relay_authentic [OF demo_relay_start, of _ _ ?d ?ds] run by auto
  have "p = [42]" using k(3) parse_keyed_built [of "demo_pub 2" type_forward "[42]"]
    unfolding d(2) by (simp add: build_forward_def)
  with k(1) have "k = demo_pub 1" by (simp add: build_recv_def)
  with k(2) show ?thesis by (simp only: d)
qed

text \<open>C12: the handshake works: a client that answers the challenge with \<open>BuildProof\<close> is acknowledged and
  registered at its address, and then what it forwards to a live client is delivered under its key for
  40 seconds. X25519 gives both sides the same secret and does not fail on the relay's key.\<close>

theorem relay_handshake:
  assumes "ecdh cv" "relay_keys cv s" "cv_x25519 cv priv (cv_base cv) = Some k" "cv_x25519 cv priv (rl_pub s) \<noteq> None"
    and "length n = 16" "unmap (fst a) = fst a"
    and "\<And>c. gm_get (rl_clients s) k = Some c \<Longrightarrow> rc_addr c = a \<Longrightarrow> \<not> client_fresh t c"
    and "length dk = 32" "dk \<noteq> k" "gm_get (rl_clients s) dk = Some c" "client_fresh t' c" "payload \<noteq> []"
    and "t \<le> t'" "t' < t + 40 * second"
  shows "parse_challenge (build_challenge (rl_pub s) n) = Some (rl_pub s, n) \<and>
    relay_run cv (join_by cv priv k (rl_pub s) t n a) s =
      (registered k a t s, [(build_challenge (rl_pub s) n, a), (build_ack, a)]) \<and>
    relay_handle cv t' rnd (build_forward dk payload) a (registered k a t s) =
      (registered k a t s, [(build_recv k payload, rc_addr c)])"
proof (intro conjI)
  have "length (rl_pub s) = 32" using assms(1,2) unfolding ecdh_def relay_keys_def by blast
  then show "parse_challenge (build_challenge (rl_pub s) n) = Some (rl_pub s, n)"
    using assms(5) parse_challenge_built by (simp add: build_challenge_def)
  show "relay_run cv (join_by cv priv k (rl_pub s) t n a) s =
      (registered k a t s, [(build_challenge (rl_pub s) n, a), (build_ack, a)])"
    using assms(1-7) by (rule handshake_run)
  have "client_fresh t' \<lparr>rc_addr = a, rc_last_seen = t\<rparr>"
    using assms(13,14) by (auto simp: client_fresh_def client_ttl_def time_sub_def duration_defs)
  then show "relay_handle cv t' rnd (build_forward dk payload) a (registered k a t s) =
      (registered k a t s, [(build_recv k payload, rc_addr c)])"
    using assms(8-12) by (intro forward_delivered) (simp_all add: registered_def gm_get_put)
qed

theorem relay_handshake_witness:
  "snd (relay_run xor_curve (join_by xor_curve (demo_priv 1) (demo_pub 1) (demo_pub 7) 100 demo_nonce (demo_addr 5))
      (registered (demo_pub 2) (demo_addr 6) 90 demo_relay)) =
     [(build_challenge (demo_pub 7) demo_nonce, demo_addr 5), (build_ack, demo_addr 5)] \<and>
   snd (relay_handle xor_curve 100 None (build_forward (demo_pub 2) [42]) (demo_addr 5)
      (registered (demo_pub 1) (demo_addr 5) 100 (registered (demo_pub 2) (demo_addr 6) 90 demo_relay))) =
     [(build_recv (demo_pub 1) [42], demo_addr 6)]"
proof -
  let ?s = "registered (demo_pub 2) (demo_addr 6) 90 demo_relay"
  have p: "rl_pub ?s = demo_pub 7" "rl_clients ?s = [(demo_pub 2, \<lparr>rc_addr = demo_addr 6, rc_last_seen = 90\<rparr>)]"
    by (simp_all add: registered_def demo_relay_def)
  have f: "client_fresh 100 \<lparr>rc_addr = demo_addr 6, rc_last_seen = 90\<rparr>"
    by (simp add: client_fresh_def client_ttl_def time_sub_def duration_defs)
  show ?thesis
    using relay_handshake [of xor_curve ?s "demo_priv 1" "demo_pub 1" demo_nonce "demo_addr 5" 100 "demo_pub 2"
        "\<lparr>rc_addr = demo_addr 6, rc_last_seen = 90\<rparr>" 100 "[42]" None]
      xor_curve_ecdh demo_relay_keys demo_pub_inj f p
    by (simp add: second_def)
qed

text \<open>A proof serves once. When a PROOF frame has changed the relay, the challenge it answered is gone:
  the same frame changes and sends nothing any more, neither from the same address nor from any other
  that was not itself sent the same nonce.\<close>

theorem relay_proof_once:
  assumes "is_frame pkt" "frame_type pkt = type_proof" "relay_handle cv now rnd pkt a s = (s', sent)" "s' \<noteq> s"
    and "parse_proof pkt = Some (k, n, m)" "b = a \<or> (\<forall>ch. gm_get (rl_pending s) b = Some ch \<longrightarrow> pc_nonce ch \<noteq> n)"
  shows "relay_handle cv now' rnd' pkt b s' = (s', [])"
proof -
  have eq: "relay_handle cv t r pkt x u = on_proof cv t pkt x u" for t r x u
    using assms(1,2) type_distinct(4) by (simp add: relay_handle_def)
  have "gm_get (rl_pending s') x = (if x = a then None else gm_get (rl_pending s) x)" for x
    using assms(3,4) unfolding eq
    by (cases rule: on_proof_cases [of cv now pkt a s]) (auto simp: gm_get_del)
  then have "\<not> challenge_valid now' n b s'"
    using assms(6) by (auto simp: challenge_valid_def split: option.split)
  then show ?thesis using assms(5) by (simp add: eq on_proof_def)
qed

lemma on_proof_spends:
  assumes "parse_proof pkt = Some (k, n, m)" "challenge_valid now n a s"
  shows "gm_get (rl_pending (fst (on_proof cv now pkt a s))) a = None"
  using assms by (cases "verify_proof cv (rl_priv s) k n m") (simp_all add: on_proof_def Let_def gm_get_del)

theorem relay_proof_once_witness:
  "\<exists>s'. relay_handle xor_curve 101 None (relay_magic @ type_proof # demo_pub 1 @ demo_nonce @ replicate 32 0) (demo_addr 5) s' =
     (s', [])"
proof -
  let ?pkt = "relay_magic @ type_proof # demo_pub 1 @ demo_nonce @ replicate 32 0"
  let ?s = "demo_relay\<lparr>rl_pending := [(demo_addr 5, \<lparr>pc_nonce = demo_nonce, pc_expires = 200\<rparr>)]\<rparr>"
  let ?r = "relay_handle xor_curve 100 None ?pkt (demo_addr 5) ?s"
  have p: "parse_proof ?pkt = Some (demo_pub 1, demo_nonce, replicate 32 0)" by (rule parse_proof_built) simp_all
  have "gm_get (rl_pending (fst ?r)) (demo_addr 5) = None"
    using on_proof_spends [OF p, of 100 "demo_addr 5" ?s] type_distinct(4)
    by (simp add: relay_handle_def challenge_valid_def)
  then have "fst ?r \<noteq> ?s" by (metis map_of_Cons_code(2) option.distinct(1) relay_server.select_convs(5) relay_server.surjective
      relay_server.update_convs(5))
  then show ?thesis
    using relay_proof_once [of ?pkt xor_curve 100 None "demo_addr 5" ?s "fst ?r" "snd ?r" "demo_pub 1" demo_nonce
        "replicate 32 0" "demo_addr 5" 101 None] p by auto
qed

text \<open>C40: two machines behind one address. The table by address keeps one key per address, and a move
  deletes the entry of the old address whoever it belongs to: when A and then B registered from \<open>a\<close>
  and A moves away, every packet B forwards is dropped, and B, whose registration the relay refreshes
  on its next REGISTER without a challenge, is told all is well.\<close>

theorem relay_shared_address:
  assumes "ecdh cv" "relay_keys cv s" "kA \<noteq> kB" "a \<noteq> a'" "unmap (fst a) = fst a" "unmap (fst a') = fst a'" "rl_clients s = []"
    and "cv_x25519 cv pA (cv_base cv) = Some kA" "cv_x25519 cv pB (cv_base cv) = Some kB"
    and "cv_x25519 cv pA (rl_pub s) \<noteq> None" "cv_x25519 cv pB (rl_pub s) \<noteq> None" "length n = 16"
    and "t \<le> t'" "t' < t + 40 * second"
  shows "\<exists>s1 s2. s1 = fst (relay_run cv (join_by cv pA kA (rl_pub s) t n a @ join_by cv pB kB (rl_pub s) t n a @
        join_by cv pA kA (rl_pub s) t n a') s) \<and>
    relay_handle cv t' rnd (build_register kB) a s1 = (s2, [(build_ack, a)]) \<and>
    (\<forall>dk payload t'' rnd'. relay_handle cv t'' rnd' (build_forward dk payload) a s2 = (s2, []))"
proof -
  let ?s1 = "registered kA a t s" and ?s2 = "registered kB a t (registered kA a t s)"
  let ?s3 = "registered kA a' t (registered kB a t (registered kA a t s))"
  let ?s4 = "?s3\<lparr>rl_clients := gm_put kB \<lparr>rc_addr = a, rc_last_seen = t'\<rparr> (rl_clients ?s3)\<rparr>"
  have k: "length kA = 32" "length kB = 32" using assms(1,8,9) unfolding ecdh_def by blast+
  have h1: "relay_run cv (join_by cv pA kA (rl_pub s) t n a) s = (?s1, [(build_challenge (rl_pub s) n, a), (build_ack, a)])"
    using handshake_run [of cv s pA kA n a t] assms(1,2,5,7,8,10,12) by simp
  have c1: "gm_get (rl_clients ?s1) kB = None" using assms(3,7) by (simp add: registered_def)
  have h2: "relay_run cv (join_by cv pB kB (rl_pub s) t n a) ?s1 = (?s2, [(build_challenge (rl_pub s) n, a), (build_ack, a)])"
    using handshake_run [of cv ?s1 pB kB n a t] assms(1,2,5,9,11,12) c1 by simp
  have c2: "gm_get (rl_clients ?s2) kA = Some \<lparr>rc_addr = a, rc_last_seen = t\<rparr>"
    using assms(3) by (simp add: registered_def gm_get_put)
  have h3: "relay_run cv (join_by cv pA kA (rl_pub s) t n a') ?s2 = (?s3, [(build_challenge (rl_pub s) n, a'), (build_ack, a')])"
    using handshake_run [of cv ?s2 pA kA n a' t] assms(1,2,4,6,8,10,12) c2 by simp
  have run: "fst (relay_run cv (join_by cv pA kA (rl_pub s) t n a @ join_by cv pB kB (rl_pub s) t n a @
        join_by cv pA kA (rl_pub s) t n a') s) = ?s3"
    unfolding relay_run_append h1 h2 h3 by (simp add: Let_def h1 h2 h3)
  have c: "gm_get (rl_clients ?s3) kB = Some \<lparr>rc_addr = a, rc_last_seen = t\<rparr>"
    using assms(3) by (simp add: registered_def gm_get_put)
  have f: "client_fresh t' \<lparr>rc_addr = a, rc_last_seen = t\<rparr>"
    using assms(13,14) by (auto simp: client_fresh_def client_ttl_def time_sub_def duration_defs)
  have "gm_get (rl_by_addr ?s3) a = None"
    using assms(3,4) by (simp add: registered_def moved_entries_def gm_get_put gm_get_del)
  then have drop: "\<forall>dk payload t'' rnd'. relay_handle cv t'' rnd' (build_forward dk payload) a ?s4 = (?s4, [])"
    by (auto simp: relay_handle_def build_forward_def on_forward_def split: option.split)
  have "is_frame (build_register kB)" "frame_type (build_register kB) = type_register"
    by (simp_all add: build_register_def)
  then have ack: "relay_handle cv t' rnd (build_register kB) a ?s3 = (?s4, [(build_ack, a)])"
    using register_built [OF k(2)] c f by (simp add: relay_handle_def on_register_def)
  show ?thesis by (rule exI [of _ ?s3], rule exI [of _ ?s4], intro conjI) (rule run [symmetric], rule ack, rule drop)
qed

theorem relay_shared_address_witness:
  "\<exists>s1 s2. s1 = fst (relay_run xor_curve (join_by xor_curve (demo_priv 1) (demo_pub 1) (demo_pub 7) 100 demo_nonce (demo_addr 5) @
        join_by xor_curve (demo_priv 2) (demo_pub 2) (demo_pub 7) 100 demo_nonce (demo_addr 5) @
        join_by xor_curve (demo_priv 1) (demo_pub 1) (demo_pub 7) 100 demo_nonce (demo_addr 6)) demo_relay) \<and>
    relay_handle xor_curve 120 None (build_register (demo_pub 2)) (demo_addr 5) s1 = (s2, [(build_ack, demo_addr 5)]) \<and>
    (\<forall>dk payload t'' rnd'. relay_handle xor_curve t'' rnd' (build_forward dk payload) (demo_addr 5) s2 = (s2, []))"
proof -
  have p: "rl_pub demo_relay = demo_pub 7" "rl_clients demo_relay = []" by (simp_all add: demo_relay_def)
  have a: "demo_addr 5 \<noteq> demo_addr 6" by (simp add: demo_addr_def)
  have t: "(100 :: int) \<le> 120" "(120 :: int) < 100 + 40 * second" by (simp_all add: second_def)
  have x: "cv_x25519 xor_curve (demo_priv b) (rl_pub demo_relay) \<noteq> None" for b by (simp add: p)
  show ?thesis
    using relay_shared_address [OF xor_curve_ecdh demo_relay_keys demo_pub_inj a demo_plain demo_plain p(2)
        demo_keys demo_keys x x demo_length(3) t] unfolding p .
qed

end
