(* ===== verification/Omnisock_Props.thy ===== *)
theory Omnisock_Props
  imports Omnisock Relay_Props
begin

text \<open>
  What the socket promises: the four protocols never mix, what it answers to whom, packets through
  the relay arrive with the key of their sender, endpoints are read back from their text.
\<close>

section \<open>Lemmas\<close>

lemma disco_first: "is_disco b \<Longrightarrow> b ! 0 = 0xC5"
  by (auto simp: is_disco_def disco_consts dest!: arg_cong [where f = "\<lambda>xs. xs ! 0"])

lemma disco_built: "length i = 12 \<Longrightarrow> is_disco (encode_disco t i) \<and> decode_disco (encode_disco t i) = (t, i)"
  by (simp add: is_disco_def encode_disco_def decode_disco_def disco_consts)

lemma length_disco_pong: "is_disco b \<Longrightarrow> decode_disco b = (t, i) \<Longrightarrow> length (encode_disco t' i) = length b"
  by (auto simp: is_disco_def encode_disco_def decode_disco_def disco_consts)

lemma disco_starts: "encode_disco t i \<noteq> [] \<and> hd (encode_disco t i) = 0xC5"
  by (simp add: encode_disco_def disco_magic_def)

interpretation disco_frame: tagged_codec "\<lambda>(t, i). encode_disco t i" "\<lambda>b. if is_disco b then Some (decode_disco b) else None"
  "\<lambda>(t, i). length i = 12" "0xC5"
proof unfold_locales
  fix b assume "(if is_disco b then Some (decode_disco b) else None) \<noteq> None"
  then have "is_disco b" by (simp split: if_splits)
  then show "b \<noteq> [] \<and> hd b = 0xC5"
    using disco_first [of b] by (cases b) (auto simp: is_disco_def disco_consts)
qed (auto simp: disco_built disco_starts)

lemma message_not_disco: "is_message b \<Longrightarrow> \<not> is_disco b"
  by (auto simp: is_message_def dest!: disco_first)

lemma message_not_frame: "is_message b \<Longrightarrow> \<not> is_frame b"
  by (auto simp: is_message_def is_frame_def)

lemma disco_not_frame: "is_disco b \<Longrightarrow> \<not> is_frame b"
  by (auto simp: is_frame_def dest!: disco_first)

lemma response_not_disco: "is_binding_response b \<Longrightarrow> \<not> is_disco b"
  by (simp add: is_binding_response_def message_not_disco)

lemma frame_only:
  assumes "is_frame b"
  shows "\<not> is_disco b" "\<not> is_binding_response b"
  using assms disco_not_frame message_not_frame by (auto simp: is_binding_response_def)

lemma frame_received: "is_frame b \<Longrightarrow> receive_packet cv now b src s = Done (handle_relay cv now b src s)"
  using frame_only [of b] by (simp add: receive_packet_def)

lemma write_sent: "sent_by (write_to p dst b) = (if bd_udp b = None then [] else [Sent p dst])"
  by (simp add: write_to_def sent_by_def)

lemma relay_endpoint_text:
  "length k = 32 \<Longrightarrow> parse_endpoint look (endpoint_string (key_to_b64 k)) = Some (ViaRelay k)"
  by (simp add: parse_endpoint_def endpoint_string_def has_prefix_def key_to_b64_def key_from_b64_def
      b64_decode_encode relay_key_len_def)

section \<open>Properties\<close>

text \<open>The protocols of the socket never mix: a WireGuard message (type 1 to 4, three zero bytes) is
  handed to the engine unchanged with its source, and no datagram belongs to two of STUN, disco and the
  relay.\<close>

theorem bind_demux:
  "(t \<in> {1, 2, 3, 4} \<longrightarrow> receive_packet cv now (t # 0 # 0 # 0 # r) src b = Done (b, [], Some (t # 0 # 0 # 0 # r, Direct src))) \<and>
   \<not> (is_message p \<and> is_disco p) \<and> \<not> (is_message p \<and> is_frame p) \<and> \<not> (is_disco p \<and> is_frame p)"
proof (intro conjI impI)
  assume t: "t \<in> {1, 2, 3, 4}"
  then have "\<not> is_disco (t # 0 # 0 # 0 # r)" "\<not> is_frame (t # 0 # 0 # 0 # r)"
    by (auto simp: is_frame_def dest!: disco_first)
  moreover have "\<not> is_binding_response (t # 0 # 0 # 0 # r)"
    using t by (auto simp: is_binding_response_def slice_def get_be_def type_binding_response_def)
  ultimately show "receive_packet cv now (t # 0 # 0 # 0 # r) src b = Done (b, [], Some (t # 0 # 0 # 0 # r, Direct src))"
    by (simp add: receive_packet_def)
qed (auto dest: message_not_disco message_not_frame disco_not_frame)

theorem bind_demux_witness:
  "receive_packet xor_curve 5 [4, 0, 0, 0, 7, 8] (demo_addr 5) new_bind =
     Done (new_bind, [], Some ([4, 0, 0, 0, 7, 8], Direct (demo_addr 5)))"
  using bind_demux [of 4 xor_curve 5 "[7, 8]" "demo_addr 5" new_bind] by simp



text \<open>C17: packets through the relay. What A sends to the endpoint \<open>relay:B\<close> is a datagram to the relay; the
  relay, when both are registered and fresh, turns it into one datagram to B; B's socket hands the
  engine exactly A's packet with the endpoint \<open>relay:A\<close>, and what B sends to that endpoint goes back the
  same way. The packet may have up to 2010 bytes.\<close>

theorem bind_relay_path:
  assumes "bd_udp bA \<noteq> None" "bd_relay_addr bA = Some ra" "bd_udp bB \<noteq> None" "bd_relay_addr bB = Some rb"
    and "payload \<noteq> []" "length payload \<le> 2010" "length kA = 32" "length kB = 32" "unmap (fst aA) = fst aA"
    and "gm_get (rl_by_addr s) aA = Some kA" "gm_get (rl_clients s) kA = Some cA" "rc_addr cA = aA" "client_fresh t cA"
    and "gm_get (rl_clients s) kB = Some cB" "client_fresh t cB"
  shows "\<exists>f g. bind_send [payload] (Some (ViaRelay kB)) bA = ([Sent f ra], None) \<and>
    relay_datagram cv \<lparr>dg_now = t, dg_rnd = rnd, dg_data = f, dg_src = aA\<rparr> s = (s, [(g, rc_addr cB)]) \<and>
    receive_packet cv' t' g rb bB = Done (bB, [], Some (payload, ViaRelay kA)) \<and>
    bind_send [reply] (Some (ViaRelay kA)) bB = ([Sent (build_forward kA reply) rb], None)"
proof (intro exI conjI)
  let ?f = "build_forward kB payload" and ?g = "build_recv kA payload"
  show "bind_send [payload] (Some (ViaRelay kB)) bA = ([Sent ?f ra], None)"
    "bind_send [reply] (Some (ViaRelay kA)) bB = ([Sent (build_forward kA reply) rb], None)"
    using assms(1-4) by (auto simp: bind_send_def write_to_def)
  have "length ?f \<le> 2048" using assms(6,8) by (simp add: build_forward_def)
  then show "relay_datagram cv \<lparr>dg_now = t, dg_rnd = rnd, dg_data = ?f, dg_src = aA\<rparr> s = (s, [(?g, rc_addr cB)])"
    using forward_delivered [OF assms(8,5,10-15), of cv rnd] assms(9)
    by (simp add: relay_datagram_def dg_from_def dg_pkt_def max_packet_def)
  have "handle_relay cv' t' ?g rb bB = (bB, [], Some (payload, ViaRelay kA))"
    using assms(5) parse_keyed_built [OF assms(7), of type_recv payload]
    by (simp add: handle_relay_def build_recv_def)
  then show "receive_packet cv' t' ?g rb bB = Done (bB, [], Some (payload, ViaRelay kA))"
    by (simp add: frame_received build_recv_def)
qed

theorem bind_relay_path_witness:
  "\<exists>f g. bind_send [[42]] (Some (ViaRelay (demo_pub 2))) (new_bind\<lparr>bd_udp := Some 7, bd_relay_addr := Some (demo_addr 9)\<rparr>) =
      ([Sent f (demo_addr 9)], None) \<and>
    receive_packet xor_curve 100 g (demo_addr 9) (new_bind\<lparr>bd_udp := Some 8, bd_relay_addr := Some (demo_addr 9)\<rparr>) =
      Done (new_bind\<lparr>bd_udp := Some 8, bd_relay_addr := Some (demo_addr 9)\<rparr>, [], Some ([42], ViaRelay (demo_pub 1)))"
proof -
  let ?s = "registered (demo_pub 2) (demo_addr 6) 100 (registered (demo_pub 1) (demo_addr 5) 100 demo_relay)"
  have a: "demo_addr 5 \<noteq> demo_addr 6" by (simp add: demo_addr_def)
  have f: "client_fresh 100 \<lparr>rc_addr = x, rc_last_seen = 100\<rparr>" for x
    by (simp add: client_fresh_def client_ttl_def time_sub_def duration_defs)
  have s: "gm_get (rl_by_addr ?s) (demo_addr 5) = Some (demo_pub 1)"
    "gm_get (rl_clients ?s) (demo_pub 1) = Some \<lparr>rc_addr = demo_addr 5, rc_last_seen = 100\<rparr>"
    "gm_get (rl_clients ?s) (demo_pub 2) = Some \<lparr>rc_addr = demo_addr 6, rc_last_seen = 100\<rparr>"
    using a demo_pub_inj by (simp_all add: registered_def moved_entries_def demo_relay_def)
  show ?thesis
    using bind_relay_path [of "new_bind\<lparr>bd_udp := Some 7, bd_relay_addr := Some (demo_addr 9)\<rparr>" "demo_addr 9"
        "new_bind\<lparr>bd_udp := Some 8, bd_relay_addr := Some (demo_addr 9)\<rparr>" "demo_addr 9" "[42]" "demo_pub 1" "demo_pub 2"
        "demo_addr 5" ?s "\<lparr>rc_addr = demo_addr 5, rc_last_seen = 100\<rparr>" 100 "\<lparr>rc_addr = demo_addr 6, rc_last_seen = 100\<rparr>"
        xor_curve None xor_curve 100 "[]"] s f by auto
qed

text \<open>Endpoints are read back from their text: those through the relay, and those with an IPv4 address.\<close>

theorem endpoint_text:
  "(length k = 32 \<longrightarrow> parse_endpoint look (dst_to_string (ViaRelay k)) = Some (ViaRelay k)) \<and>
   parse_endpoint look (dst_to_string (Direct (V4 w, p))) = Some (Direct (V4 w, p))"
proof (intro conjI impI)
  assume "length k = 32"
  then show "parse_endpoint look (dst_to_string (ViaRelay k)) = Some (ViaRelay k)"
    by (simp add: relay_endpoint_text)
next
  have "\<not> has_prefix endpoint_prefix (show_addrport (V4 w, p))"
  proof -
    have "is_digit (hd (show_v4 w))" "show_v4 w \<noteq> []"
      using show_nat_digits [of "unat w div 16777216"] by (simp_all add: show_v4_def Let_def)
    then have "hd (show_addrport (V4 w, p)) \<noteq> CHR ''r''" by (auto simp: show_addrport_def is_digit_def)
    then show ?thesis by (cases "show_addrport (V4 w, p)") (auto simp: has_prefix_def endpoint_prefix_def)
  qed
  then show "parse_endpoint look (dst_to_string (Direct (V4 w, p))) = Some (Direct (V4 w, p))"
    using parse_show_addrport_v4 [of w p] by (simp add: parse_endpoint_def resolve_udp_def)
qed

theorem endpoint_text_witness:
  "parse_endpoint (\<lambda>_. None) (dst_to_string (ViaRelay (demo_pub 1))) = Some (ViaRelay (demo_pub 1))"
  using endpoint_text [of "demo_pub 1" "\<lambda>_. None" 0 0] by simp

text \<open>C39: a packet of 25 bytes from anywhere stops the agent: it looks like a STUN answer, so it is parsed
  before its transaction is compared, and the parser panics.\<close>

theorem bind_stun_panic:
  "receive_packet cv now (put_be 2 type_binding_response @ put_be 2 5 @ put_be 4 magic_cookie @ replicate 12 0 @
     [0, 9, 0, 1, 0]) src b = Panic"
proof -
  let ?p = "put_be 2 type_binding_response @ put_be 2 5 @ put_be 4 magic_cookie @ replicate 12 0 @ [0, 9, 0, 1, 0]"
  have "is_binding_response ?p"
    using unpadded_attribute by (auto simp: parse_binding_response_def split: if_splits)
  then show ?thesis
    using unpadded_attribute response_not_disco by (simp add: receive_packet_def handle_stun_def)
qed

text \<open>An acknowledgement is believed from any source: one frame of six bytes from anywhere makes the
  agent hold its relay alive, although a challenge is answered only to the relay's own address.\<close>

theorem bind_forged_ack:
  assumes "bd_relay_addr b \<noteq> None"
  shows "\<exists>b'. receive_packet cv now build_ack src b = Done (b', [], None) \<and> relay_healthy now b'"
proof -
  have "receive_packet cv now build_ack src b = Done (b\<lparr>bd_relay_last_ack := now\<rparr>, [], None)"
    by (simp add: frame_received handle_relay_def build_ack_def)
  moreover have "relay_healthy now (b\<lparr>bd_relay_last_ack := now\<rparr>)"
    using assms by (simp add: relay_healthy_def time_sub_def duration_defs)
  ultimately show ?thesis by blast
qed

theorem bind_forged_ack_witness:
  "\<exists>b'. receive_packet xor_curve 7 build_ack (demo_addr 66) (new_bind\<lparr>bd_relay_addr := Some (demo_addr 9)\<rparr>) = Done (b', [], None) \<and>
     relay_healthy 7 b'"
  using bind_forged_ack [of "new_bind\<lparr>bd_relay_addr := Some (demo_addr 9)\<rparr>"] by simp

end
