(* ===== verification/Endpoints_Props.thy ===== *)
theory Endpoints_Props
  imports Endpoints Wgnet_Props Omnisock_Props
begin

text \<open>
  What the endpoint manager promises: when a peer moves to the relay and when it returns, and what holds
  in every state it can be in, whatever the order of maps, rounds and pongs.
\<close>

section \<open>The manager as a machine\<close>

datatype em_event =
    Observed "peer list"
  | RelayAvailable bool
  | Probed time "(string, time) gomap option" "string \<Rightarrow> string \<Rightarrow> bool" "disco_txid option list"
  | Ponged time "(string, time) gomap option" "string \<Rightarrow> string \<Rightarrow> bool" disco_txid addrport

fun em_step :: "em_event \<Rightarrow> endpoint_manager \<Rightarrow> endpoint_manager" where
  "em_step (Observed ps) m = observe ps m"
| "em_step (RelayAvailable ok) m = set_relay_available ok m"
| "em_step (Probed now hs set_ep ids) m = fst (probe now hs set_ep ids m)"
| "em_step (Ponged now hs set_ep i src) m = fst (on_pong now hs set_ep i src m)"

text \<open>Every peer on the relay has had three rounds without a handshake since it was last reached directly.\<close>

definition em_inv :: "endpoint_manager \<Rightarrow> bool" where
  "em_inv m \<longleftrightarrow> distinct (em_on_relay m) \<and> gm_ok (em_peers m) \<and> gm_ok (em_disconnected m) \<and>
     (\<forall>pub \<in> set (em_on_relay m). relay_after_rounds < rounds m pub)"

lemma rounds_put [simp]: "rounds (m\<lparr>em_disconnected := gm_put p n (em_disconnected m)\<rparr>) q = (if q = p then n else rounds m q)"
  by (simp add: rounds_def gm_get_put)

lemma rounds_other [simp]: "rounds (m\<lparr>em_on_relay := x\<rparr>) q = rounds m q" "rounds (m\<lparr>em_pending := y\<rparr>) q = rounds m q"
  by (simp_all add: rounds_def)

section \<open>One round\<close>

definition relayed :: "time \<Rightarrow> (string, time) gomap \<Rightarrow> endpoint_manager \<Rightarrow> string \<Rightarrow> bool" where
  "relayed now hs m pub \<longleftrightarrow> \<not> fresh_handshake now hs pub \<and> em_relay_ok m \<and> pub \<notin> set (em_on_relay m) \<and>
     relay_after_rounds < rounds m pub + 1"

definition new_rounds :: "time \<Rightarrow> (string, time) gomap \<Rightarrow> endpoint_manager \<Rightarrow> string \<Rightarrow> nat" where
  "new_rounds now hs m pub =
     (if \<not> fresh_handshake now hs pub then rounds m pub + 1
      else if pub \<in> set (em_on_relay m) then rounds m pub else 0)"

definition probed :: "time \<Rightarrow> (string, time) gomap \<Rightarrow> endpoint_manager \<Rightarrow> string \<Rightarrow> bool" where
  "probed now hs m pub \<longleftrightarrow> \<not> (fresh_handshake now hs pub \<and> pub \<notin> set (em_on_relay m))"

lemma probe_peer_result:
  assumes "probe_peer now hs pub cands m = (m', r, aps)"
  shows "r = relayed now hs m pub" "set (em_on_relay m') = set (em_on_relay m) \<union> (if r then {pub} else {})"
    "rounds m' q = (if q = pub then new_rounds now hs m pub else rounds m q)"
    "em_relay_ok m' = em_relay_ok m" "em_pending m' = em_pending m" "em_peers m' = em_peers m"
    "aps = (if probed now hs m pub then List.map_filter parse_addrport cands else [])"
    "distinct (em_on_relay m) \<Longrightarrow> distinct (em_on_relay m')" "gm_ok (em_disconnected m) \<Longrightarrow> gm_ok (em_disconnected m')"
  using assms
  by (auto simp: probe_peer_def relayed_def new_rounds_def probed_def Let_def gm_ok_put split: if_splits)

lemma relayed_cong:
  assumes "(q \<in> set (em_on_relay m')) = (q \<in> set (em_on_relay m))" "rounds m' q = rounds m q" "em_relay_ok m' = em_relay_ok m"
  shows "relayed now hs m' q = relayed now hs m q" "new_rounds now hs m' q = new_rounds now hs m q"
    "probed now hs m' q = probed now hs m q"
  using assms by (simp_all add: relayed_def new_rounds_def probed_def)

lemma probe_peers_result:
  assumes "probe_peers now hs ps m = (m', rs, qs)" "gm_ok ps"
  shows "set rs = {p \<in> fst ` set ps. relayed now hs m p} \<and> set (em_on_relay m') = set (em_on_relay m) \<union> set rs \<and>
    (\<forall>q. rounds m' q = (if q \<in> fst ` set ps then new_rounds now hs m q else rounds m q)) \<and>
    em_relay_ok m' = em_relay_ok m \<and> em_pending m' = em_pending m \<and> em_peers m' = em_peers m \<and>
    set qs = {(p, ap). \<exists>cands. (p, cands) \<in> set ps \<and> probed now hs m p \<and> ap \<in> set (List.map_filter parse_addrport cands)} \<and>
    (distinct (em_on_relay m) \<longrightarrow> distinct (em_on_relay m')) \<and> (gm_ok (em_disconnected m) \<longrightarrow> gm_ok (em_disconnected m'))"
  using assms
proof (induction ps arbitrary: m m' rs qs)
  case (Cons pc ps)
  obtain pub cands where pc: "pc = (pub, cands)" by (cases pc)
  obtain m1 r aps where 1: "probe_peer now hs pub cands m = (m1, r, aps)" by (metis prod_cases3)
  obtain rs2 qs2 where 2: "probe_peers now hs ps m1 = (m', rs2, qs2)" "rs = (if r then pub # rs2 else rs2)"
    "qs = map (Pair pub) aps @ qs2"
    using Cons.prems(1) 1 by (auto simp: pc split: prod.splits)
  note r = probe_peer_result [OF 1]
  have out: "pub \<notin> fst ` set ps" and ok: "gm_ok ps" using Cons.prems(2) by (simp_all add: pc)
  have cong: "relayed now hs m1 q = relayed now hs m q" "new_rounds now hs m1 q = new_rounds now hs m q"
    "probed now hs m1 q = probed now hs m q" if "q \<in> fst ` set ps" for q
  proof -
    have q: "q \<noteq> pub" using that out by blast
    have "(q \<in> set (em_on_relay m1)) = (q \<in> set (em_on_relay m))" "rounds m1 q = rounds m q"
      using q by (simp_all add: r(2,3))
    from relayed_cong [OF this r(4)] show "relayed now hs m1 q = relayed now hs m q"
      "new_rounds now hs m1 q = new_rounds now hs m q" "probed now hs m1 q = probed now hs m q" by simp_all
  qed
  from Cons.IH [OF 2(1) ok]
  have I1: "set rs2 = {p \<in> fst ` set ps. relayed now hs m1 p}" and I2: "set (em_on_relay m') = set (em_on_relay m1) \<union> set rs2"
    and I3: "\<forall>q. rounds m' q = (if q \<in> fst ` set ps then new_rounds now hs m1 q else rounds m1 q)"
    and I4: "em_relay_ok m' = em_relay_ok m1" "em_pending m' = em_pending m1" "em_peers m' = em_peers m1"
    and I5: "set qs2 = {(p, ap). \<exists>cands. (p, cands) \<in> set ps \<and> probed now hs m1 p \<and> ap \<in> set (List.map_filter parse_addrport cands)}"
    and I6: "distinct (em_on_relay m1) \<longrightarrow> distinct (em_on_relay m')" "gm_ok (em_disconnected m1) \<longrightarrow> gm_ok (em_disconnected m')"
    by blast+
  show ?case
  proof (intro conjI allI)
    have "{p \<in> fst ` set ps. relayed now hs m1 p} = {p \<in> fst ` set ps. relayed now hs m p}" using cong(1) by blast
    then show "set rs = {p \<in> fst ` set (pc # ps). relayed now hs m p}"
      using r(1) by (auto simp: 2(2) pc I1)
    show "set (em_on_relay m') = set (em_on_relay m) \<union> set rs" by (simp add: 2(2) I2 r(2))
    show "rounds m' q = (if q \<in> fst ` set (pc # ps) then new_rounds now hs m q else rounds m q)" for q
      using cong(2) [of q] out I3 r(3) [of q] by (auto simp: pc)
    show "em_relay_ok m' = em_relay_ok m" "em_pending m' = em_pending m" "em_peers m' = em_peers m"
      by (simp_all add: I4 r(4-6))
    have "set qs2 = {(p, ap). \<exists>cands. (p, cands) \<in> set ps \<and> probed now hs m p \<and> ap \<in> set (List.map_filter parse_addrport cands)}"
      unfolding I5 using cong(3) by (auto simp: image_iff) (metis fst_conv)+
    then show "set qs = {(p, ap). \<exists>cands. (p, cands) \<in> set (pc # ps) \<and> probed now hs m p \<and>
        ap \<in> set (List.map_filter parse_addrport cands)}"
      using r(7) by (auto simp: 2(3) pc split: if_splits)
    show "distinct (em_on_relay m) \<longrightarrow> distinct (em_on_relay m')" "gm_ok (em_disconnected m) \<longrightarrow> gm_ok (em_disconnected m')"
      using I6 r(8,9) by blast+
  qed
qed simp

lemma to_relay_all_result:
  "to_relay_all set_ep pubs m = (m', eps) \<Longrightarrow>
     eps = map (\<lambda>p. (p, endpoint_string p)) (filter (\<lambda>p. set_ep p (endpoint_string p)) pubs) \<and>
     set (em_on_relay m') = {p \<in> set (em_on_relay m). p \<notin> set pubs \<or> set_ep p (endpoint_string p)} \<and>
     (distinct (em_on_relay m) \<longrightarrow> distinct (em_on_relay m')) \<and> em_disconnected m' = em_disconnected m \<and>
     em_peers m' = em_peers m \<and> em_relay_ok m' = em_relay_ok m"
proof (induction pubs arbitrary: m m' eps)
  case (Cons p pubs)
  let ?ok = "set_ep p (endpoint_string p)"
  let ?m = "if ?ok then m else m\<lparr>em_on_relay := removeAll p (em_on_relay m)\<rparr>"
  obtain m2 es where 2: "to_relay_all set_ep pubs ?m = (m2, es)" by (cases "to_relay_all set_ep pubs ?m")
  then have "m' = m2" "eps = (if ?ok then (p, endpoint_string p) # es else es)"
    using Cons.prems by (simp_all add: Let_def)
  with Cons.IH [OF 2] show ?case by (cases ?ok) (auto simp: distinct_removeAll)
qed simp

lemma send_probes_other:
  "em_on_relay (send_probes now qs ids m) = em_on_relay m" "em_disconnected (send_probes now qs ids m) = em_disconnected m"
  "em_peers (send_probes now qs ids m) = em_peers m" "em_relay_ok (send_probes now qs ids m) = em_relay_ok m"
  by (induction now qs ids m rule: send_probes.induct) auto

lemma purge_other [simp]: "em_on_relay (purge_probes now m) = em_on_relay m" "rounds (purge_probes now m) q = rounds m q"
  "em_peers (purge_probes now m) = em_peers m" "em_relay_ok (purge_probes now m) = em_relay_ok m"
  "em_disconnected (purge_probes now m) = em_disconnected m"
  by (simp_all add: purge_probes_def rounds_def)

lemma purge_relayed [simp]: "relayed t hs (purge_probes now m) q = relayed t hs m q"
  "new_rounds t hs (purge_probes now m) q = new_rounds t hs m q" "probed t hs (purge_probes now m) q = probed t hs m q"
  by (simp_all add: relayed_def new_rounds_def probed_def)

lemma probe_result:
  assumes "probe now (Some hs) set_ep ids m = (m', eps, sends)" "gm_ok (em_peers m)"
  shows "set eps = {(p, endpoint_string p) | p. p \<in> fst ` set (em_peers m) \<and> relayed now hs m p \<and> set_ep p (endpoint_string p)}"
    and "set (em_on_relay m') = set (em_on_relay m) \<union>
      {p \<in> fst ` set (em_peers m). relayed now hs m p \<and> set_ep p (endpoint_string p)}"
    and "rounds m' q = (if q \<in> fst ` set (em_peers m) then new_rounds now hs m q else rounds m q)"
    and "set sends = {(p, ap). \<exists>cands. (p, cands) \<in> set (em_peers m) \<and> probed now hs m p \<and>
      ap \<in> set (List.map_filter parse_addrport cands)}"
    and "em_peers m' = em_peers m" "em_relay_ok m' = em_relay_ok m"
    and "distinct (em_on_relay m) \<Longrightarrow> distinct (em_on_relay m')" "gm_ok (em_disconnected m) \<Longrightarrow> gm_ok (em_disconnected m')"
proof -
  obtain m1 relays qs where 1: "probe_peers now hs (em_peers m) (purge_probes now m) = (m1, relays, qs)" by (metis prod_cases3)
  obtain m2 es where 2: "to_relay_all set_ep relays m1 = (m2, es)" by (cases "to_relay_all set_ep relays m1")
  have m': "m' = send_probes now qs ids m2" "eps = es" "sends = qs" using assms(1) 1 2 by (auto simp: probe_def Let_def)
  note p = probe_peers_result [OF 1 assms(2), simplified]
  note t = to_relay_all_result [OF 2]
  have new: "p \<in> set relays \<Longrightarrow> p \<notin> set (em_on_relay m)" for p using p by (auto simp: relayed_def)
  show "set eps = {(p, endpoint_string p) | p. p \<in> fst ` set (em_peers m) \<and> relayed now hs m p \<and> set_ep p (endpoint_string p)}"
    using p t by (auto simp: m')
  show "set (em_on_relay m') = set (em_on_relay m) \<union>
      {p \<in> fst ` set (em_peers m). relayed now hs m p \<and> set_ep p (endpoint_string p)}"
  proof -
    have "set (em_on_relay m') = {q \<in> set (em_on_relay m) \<union> set relays. q \<notin> set relays \<or> set_ep q (endpoint_string q)}"
      using p t by (simp add: m' send_probes_other)
    also have "\<dots> = set (em_on_relay m) \<union> {q \<in> set relays. set_ep q (endpoint_string q)}" using new by blast
    finally show ?thesis using p by auto
  qed
  have "rounds m' q = rounds m1 q" using t by (simp add: rounds_def m' send_probes_other)
  then show "rounds m' q = (if q \<in> fst ` set (em_peers m) then new_rounds now hs m q else rounds m q)" using p by simp
  show "set sends = {(p, ap). \<exists>cands. (p, cands) \<in> set (em_peers m) \<and> probed now hs m p \<and>
      ap \<in> set (List.map_filter parse_addrport cands)}" using p by (simp add: m')
  show "em_peers m' = em_peers m" "em_relay_ok m' = em_relay_ok m" using p t by (simp_all add: m' send_probes_other)
  show "distinct (em_on_relay m) \<Longrightarrow> distinct (em_on_relay m')" "gm_ok (em_disconnected m) \<Longrightarrow> gm_ok (em_disconnected m')"
    using p t by (simp_all add: m' send_probes_other)
qed

lemma gm_dom: "gm_get m k = Some v \<Longrightarrow> k \<in> fst ` set m"
  by (force dest: map_of_SomeD)

lemma gm_dom_iff: "gm_get m k \<noteq> None \<longleftrightarrow> k \<in> fst ` set m"
  by (simp add: map_of_eq_None_iff)

section \<open>The invariant\<close>

lemma em_inv_observe:
  assumes "em_inv m"
  shows "em_inv (observe ps m)"
proof -
  let ?peers = "fold (\<lambda>p. gm_put (pe_public_key p) (candidates_of p)) ps []"
  have "gm_ok (fold (\<lambda>p. gm_put (pe_public_key p) (candidates_of p)) ps M)" if "gm_ok M" for M
    using that by (induction ps arbitrary: M) (simp_all add: gm_ok_put)
  moreover have "rounds (observe ps m) pub = rounds m pub" if "gm_get ?peers pub \<noteq> None" for pub
  proof -
    have "gm_ok (em_disconnected m)" using assms by (simp add: em_inv_def)
    from gm_get_filter [OF this, of "\<lambda>(pub, n). gm_get ?peers pub \<noteq> None" pub] that
    have "gm_get (filter (\<lambda>(pub, n). gm_get ?peers pub \<noteq> None) (em_disconnected m)) pub = gm_get (em_disconnected m) pub"
      by (auto split: option.splits)
    then show ?thesis by (simp add: observe_def Let_def rounds_def)
  qed
  moreover have "pub \<in> set (em_on_relay (observe ps m)) \<longleftrightarrow> pub \<in> set (em_on_relay m) \<and> gm_get ?peers pub \<noteq> None"
    "distinct (em_on_relay m) \<longrightarrow> distinct (em_on_relay (observe ps m))" "em_peers (observe ps m) = ?peers"
    "gm_ok (em_disconnected m) \<longrightarrow> gm_ok (em_disconnected (observe ps m))" for pub
    by (auto simp: observe_def Let_def gm_ok_filter)
  ultimately show ?thesis using assms unfolding em_inv_def by simp
qed

lemma em_inv_probe:
  assumes "em_inv m"
  shows "em_inv (fst (probe now hs set_ep ids m))"
proof (cases hs)
  case (Some h)
  obtain m' eps sends where p: "probe now (Some h) set_ep ids m = (m', eps, sends)" by (metis prod_cases3)
  have ok: "gm_ok (em_peers m)" using assms by (simp add: em_inv_def)
  note r = probe_result [OF p ok]
  have "relay_after_rounds < rounds m' pub" if "pub \<in> set (em_on_relay m')" for pub
    using that assms by (auto simp: r(2,3) em_inv_def relayed_def new_rounds_def)
  then show ?thesis using assms r(5,7,8) by (simp add: Some p em_inv_def)
qed (use assms in \<open>simp add: probe_def\<close>)

lemma em_inv_pong:
  assumes "em_inv m"
  shows "em_inv (fst (on_pong now hs set_ep i src m))"
proof (cases "gm_get (em_pending m) i")
  case (Some pr)
  let ?pub = "pp_public_key pr"
  have "em_inv (m\<lparr>em_pending := p\<rparr>)" for p using assms by (simp add: em_inv_def)
  moreover have "em_inv (m\<lparr>em_pending := p, em_on_relay := removeAll ?pub (em_on_relay m),
      em_disconnected := gm_put ?pub 0 (em_disconnected m)\<rparr>)" for p
    using assms by (auto simp: em_inv_def rounds_def gm_get_put gm_ok_put distinct_removeAll)
  ultimately show ?thesis by (simp add: on_pong_def Some Let_def)
qed (use assms in \<open>simp add: on_pong_def\<close>)

lemma em_inv_relay: "em_inv m \<Longrightarrow> em_inv (set_relay_available ok m)"
  by (simp add: set_relay_available_def em_inv_def rounds_def)

lemma em_inv_step: "em_inv m \<Longrightarrow> em_inv (em_step ev m)"
  by (cases ev) (simp_all add: em_inv_observe em_inv_probe em_inv_pong em_inv_relay)

interpretation manager: invariant_machine "\<lambda>m. m = new_manager" em_step "\<lambda>_ _. True" em_inv
proof unfold_locales
  show "m = new_manager \<Longrightarrow> em_inv m" for m by (simp add: em_inv_def new_manager_def)
qed (rule em_inv_step)

section \<open>Properties\<close>

text \<open>In every state the manager can reach, by any order of network maps, relay outages, rounds and
  pongs, a peer marked as relayed has gone at least three rounds without a handshake since it was last
  reached directly, and it is marked once.\<close>

theorem manager_invariant:
  assumes "reach em_step (\<lambda>_ _. True) new_manager m" "pub \<in> set (em_on_relay m)"
  shows "3 \<le> rounds m pub \<and> distinct (em_on_relay m)"
proof -
  have "em_inv m" using manager.reach_inv [OF assms(1)] by simp
  then show ?thesis using assms(2) by (fastforce simp: em_inv_def relay_after_rounds_def)
qed

text \<open>A round. A peer with a fresh handshake on a direct path is left alone: no probe, no endpoint, its
  count back to 0. A peer without one is counted, every candidate that is an address is probed, and it
  is given its relay endpoint exactly when the relay answers, it is not there already, this is at least
  its third such round and the engine accepts.\<close>

theorem probe_round:
  assumes "probe now (Some hs) set_ep ids m = (m', eps, sends)" "gm_ok (em_peers m)" "gm_get (em_peers m) pub = Some cands"
  shows "(fresh_handshake now hs pub \<and> pub \<notin> set (em_on_relay m) \<longrightarrow>
      rounds m' pub = 0 \<and> pub \<notin> fst ` set eps \<and> pub \<notin> fst ` set sends \<and> pub \<notin> set (em_on_relay m')) \<and>
    (\<not> fresh_handshake now hs pub \<longrightarrow>
      rounds m' pub = rounds m pub + 1 \<and>
      (\<forall>c ap. c \<in> set cands \<and> parse_addrport c = Some ap \<longrightarrow> (pub, ap) \<in> set sends) \<and>
      ((pub, endpoint_string pub) \<in> set eps \<longleftrightarrow>
        em_relay_ok m \<and> pub \<notin> set (em_on_relay m) \<and> 2 \<le> rounds m pub \<and> set_ep pub (endpoint_string pub)))"
proof -
  note r = probe_result [OF assms(1,2)] and d = gm_dom [OF assms(3)]
  have in_peers: "(pub, cands) \<in> set (em_peers m)" using assms(3) by (rule map_of_SomeD)
  have "rounds m' pub = new_rounds now hs m pub" using d r(3) by simp
  moreover have "pub \<in> fst ` set sends \<Longrightarrow> probed now hs m pub" by (auto simp: r(4))
  moreover have "(pub, ap) \<in> set sends" if "c \<in> set cands" "parse_addrport c = Some ap" "\<not> fresh_handshake now hs pub" for c ap
    using that in_peers by (auto simp: r(4) probed_def List.map_filter_def intro!: exI [of _ cands] image_eqI [of _ _ c])
  moreover have "pub \<in> fst ` set eps \<longleftrightarrow> relayed now hs m pub \<and> set_ep pub (endpoint_string pub)"
    "(pub, endpoint_string pub) \<in> set eps \<longleftrightarrow> relayed now hs m pub \<and> set_ep pub (endpoint_string pub)"
    "pub \<in> set (em_on_relay m') \<longleftrightarrow> pub \<in> set (em_on_relay m) \<or> relayed now hs m pub \<and> set_ep pub (endpoint_string pub)"
    using d by (auto simp: r(1,2) image_iff)
  ultimately show ?thesis
    by (auto simp: new_rounds_def probed_def relayed_def relay_after_rounds_def)
qed

lemma third_round:
  assumes "probe t1 (Some h1) set_ep i1 m = (m1, e1, s1)" "probe t2 (Some h2) set_ep i2 m1 = (m2, e2, s2)"
    and "probe t3 (Some h3) set_ep i3 m2 = (m3, e3, s3)"
    and "gm_ok (em_peers m)" "gm_get (em_peers m) pub = Some cands" "em_relay_ok m" "pub \<notin> set (em_on_relay m)" "rounds m pub = 0"
    and "\<not> fresh_handshake t1 h1 pub" "\<not> fresh_handshake t2 h2 pub" "\<not> fresh_handshake t3 h3 pub"
    and "set_ep pub (endpoint_string pub)"
  shows "pub \<notin> set (em_on_relay m2) \<and> (pub, endpoint_string pub) \<in> set e3 \<and> pub \<in> set (em_on_relay m3)"
proof -
  note r1 = probe_result [OF assms(1,4)]
  have ok1: "gm_ok (em_peers m1)" using assms(4) r1(5) by simp
  note r2 = probe_result [OF assms(2) ok1]
  have ok2: "gm_ok (em_peers m2)" using ok1 r2(5) by simp
  note r3 = probe_result [OF assms(3) ok2]
  have d: "pub \<in> fst ` set (em_peers m)" using assms(5) by (rule gm_dom)
  have "\<not> relayed t1 h1 m pub" using assms(8) by (simp add: relayed_def relay_after_rounds_def)
  then have 1: "pub \<notin> set (em_on_relay m1)" "rounds m1 pub = 1"
    using assms(7,8,9) d by (simp_all add: r1(2,3) new_rounds_def)
  then have "\<not> relayed t2 h2 m1 pub" by (simp add: relayed_def relay_after_rounds_def)
  then have 2: "pub \<notin> set (em_on_relay m2)" "rounds m2 pub = 2"
    using 1 assms(10) d by (simp_all add: r2(2,3) r1(5) new_rounds_def)
  then have "relayed t3 h3 m2 pub" using assms(6,11) by (simp add: relayed_def relay_after_rounds_def r2(6) r1(6))
  then have "(pub, endpoint_string pub) \<in> set e3" "pub \<in> set (em_on_relay m3)"
    using d assms(12) by (simp_all add: r3(1,2) r2(5) r1(5))
  then show ?thesis using 2 by blast
qed


definition demo_manager :: endpoint_manager where
  "demo_manager = set_relay_available True (observe [demo_peer 1 []] new_manager)"

abbreviation demo_pub1 :: string where "demo_pub1 \<equiv> key_to_b64 (demo_wgkey 1)"

lemma demo_manager: "em_peers demo_manager = [(demo_pub1, [])]" "em_relay_ok demo_manager" "em_on_relay demo_manager = []"
  "rounds demo_manager pub = 0" "em_pending demo_manager = []"
  by (simp_all add: demo_manager_def set_relay_available_def observe_def new_manager_def demo_peer_def key_to_b64_def
      candidates_of_def add_candidate_def rounds_def)

definition demo_probe :: "endpoint_manager \<Rightarrow> endpoint_manager \<times> (string \<times> string) list \<times> (string \<times> addrport) list" where
  "demo_probe m = probe 0 (Some []) (\<lambda>_ _. True) [] m"

lemma demo_third:
  "demo_pub1 \<notin> set (em_on_relay (fst (demo_probe (fst (demo_probe demo_manager))))) \<and>
   (demo_pub1, endpoint_string demo_pub1) \<in> set (fst (snd (demo_probe (fst (demo_probe (fst (demo_probe demo_manager))))))) \<and>
   demo_pub1 \<in> set (em_on_relay (fst (demo_probe (fst (demo_probe (fst (demo_probe demo_manager)))))))"
proof -
  obtain m1 e1 s1 where 1: "probe 0 (Some []) (\<lambda>_ _. True) [] demo_manager = (m1, e1, s1)" by (metis prod_cases3)
  obtain m2 e2 s2 where 2: "probe 0 (Some []) (\<lambda>_ _. True) [] m1 = (m2, e2, s2)" by (metis prod_cases3)
  obtain m3 e3 s3 where 3: "probe 0 (Some []) (\<lambda>_ _. True) [] m2 = (m3, e3, s3)" by (metis prod_cases3)
  show ?thesis using third_round [OF 1 2 3, of demo_pub1 "[]"]
    by (simp add: demo_probe_def 1 2 3 demo_manager fresh_handshake_def)
qed


text \<open>Pongs. Only a pong to a probe in flight has an effect, and one only; the endpoint it sets is the
  address it came from, for the peer that was probed, who is then off the relay with its count at 0;
  a peer with a fresh handshake on a direct path is not disturbed.\<close>

theorem pong_effect:
  assumes "on_pong now hs set_ep i src m = (m', given)"
  shows "(given = Some (pub, ep) \<longrightarrow>
      (\<exists>pr. gm_get (em_pending m) i = Some pr \<and> pub = pp_public_key pr \<and> ep = show_addrport src \<and> set_ep pub ep \<and>
        pub \<notin> set (em_on_relay m') \<and> rounds m' pub = 0 \<and>
        (pub \<in> set (em_on_relay m) \<or> hs = None \<or> (\<exists>h. hs = Some h \<and> \<not> fresh_handshake now h pub)))) \<and>
    (gm_get (em_pending m) i = None \<longrightarrow> m' = m \<and> given = None) \<and>
    on_pong now' hs' set_ep' i src' m' = (m', None)"
proof (cases "gm_get (em_pending m) i")
  case None
  with assms show ?thesis by (auto simp: on_pong_def)
next
  case (Some pr)
  have "gm_get (em_pending m') i = None"
    using assms by (auto simp: on_pong_def Some Let_def gm_get_del split: if_splits)
  then have "on_pong now' hs' set_ep' i src' m' = (m', None)" by (simp add: on_pong_def)
  moreover have "given = Some (pub, ep) \<longrightarrow> pub = pp_public_key pr \<and> ep = show_addrport src \<and> set_ep pub ep \<and>
        pub \<notin> set (em_on_relay m') \<and> rounds m' pub = 0 \<and>
        (pub \<in> set (em_on_relay m) \<or> hs = None \<or> (\<exists>h. hs = Some h \<and> \<not> fresh_handshake now h pub))"
    using assms by (auto simp: on_pong_def Some Let_def rounds_def gm_get_put split: if_splits option.splits)
  ultimately show ?thesis using Some by auto
qed

text \<open>The witnesses of the properties above.\<close>

lemma demo_manager_start: "reach em_step (\<lambda>_ _. True) new_manager demo_manager"
proof -
  have "reach em_step (\<lambda>_ _. True) new_manager (em_step (RelayAvailable True) (em_step (Observed [demo_peer 1 []]) new_manager))"
    by (intro next_step reach.start TrueI)
  then show ?thesis by (simp add: demo_manager_def)
qed

lemma demo_manager_reach: "reach em_step (\<lambda>_ _. True) new_manager (fst (demo_probe (fst (demo_probe (fst (demo_probe demo_manager))))))"
proof -
  have p: "reach em_step (\<lambda>_ _. True) new_manager (fst (demo_probe m))" if "reach em_step (\<lambda>_ _. True) new_manager m" for m
    using next_step [OF that, of "Probed 0 (Some []) (\<lambda>_ _. True) []"] by (simp add: demo_probe_def)
  show ?thesis by (intro p demo_manager_start)
qed

theorem manager_invariant_witness:
  "3 \<le> rounds (fst (demo_probe (fst (demo_probe (fst (demo_probe demo_manager)))))) demo_pub1"
  using manager_invariant [OF demo_manager_reach] demo_third by blast

theorem probe_round_witness:
  "rounds (fst (demo_probe demo_manager)) demo_pub1 = 1"
proof -
  obtain m1 e1 s1 where 1: "probe 0 (Some []) (\<lambda>_ _. True) [] demo_manager = (m1, e1, s1)" by (metis prod_cases3)
  show ?thesis using probe_round [OF 1, of demo_pub1 "[]"] by (simp add: demo_probe_def 1 demo_manager fresh_handshake_def)
qed

theorem pong_effect_witness:
  "\<exists>m'. on_pong 5 None (\<lambda>_ _. True) (replicate 12 1) (demo_addr 5)
     (demo_manager\<lparr>em_pending := [(replicate 12 1, \<lparr>pp_public_key = demo_pub1, pp_candidate = demo_addr 4, pp_sent_at = 0\<rparr>)]\<rparr>) =
     (m', Some (demo_pub1, show_addrport (demo_addr 5))) \<and> rounds m' demo_pub1 = 0"
proof -
  let ?m = "demo_manager\<lparr>em_pending := [(replicate 12 1, \<lparr>pp_public_key = demo_pub1, pp_candidate = demo_addr 4, pp_sent_at = 0\<rparr>)]\<rparr>"
  obtain m' g where r: "on_pong 5 None (\<lambda>_ _. True) (replicate 12 1) (demo_addr 5) ?m = (m', g)" by (cases "on_pong 5 None (\<lambda>_ _. True) (replicate 12 1) (demo_addr 5) ?m")
  have "g = Some (demo_pub1, show_addrport (demo_addr 5))" using r by (auto simp: on_pong_def Let_def)
  with r pong_effect [OF r, of demo_pub1 "show_addrport (demo_addr 5)"] show ?thesis by blast
qed

end
