(* ===== verification/Agent_Props.thy ===== *)
theory Agent_Props
  imports Agent Endpoints_Props Api_Props
begin

text \<open>
  What the agent promises, alone and together with the server: routes, tokens, its state on disk, the
  cycle; and what a machine can do to the others through the server.
\<close>

section \<open>Lemmas on the routes\<close>

definition keeps_route :: "options \<Rightarrow> string list \<Rightarrow> bool \<Rightarrow> string \<Rightarrow> bool" where
  "keeps_route opts mine exit r \<longleftrightarrow> (if r = default_route then exit else ao_accept_routes opts \<and> r \<notin> set mine)"

lemma filter_peer_result:
  "filter_peer opts mine exit rs subnets found = (keep, s, f) \<Longrightarrow>
   keep = filter (keeps_route opts mine exit) rs \<and>
   set s = set subnets \<union> {r \<in> set rs. r \<noteq> default_route \<and> keeps_route opts mine exit r} \<and>
   (distinct subnets \<longrightarrow> distinct s) \<and> f = (found \<or> exit \<and> default_route \<in> set rs)"
proof (induction rs arbitrary: subnets found keep s f)
  case (Cons r rs)
  consider "r = default_route" exit | "r = default_route" "\<not> exit"
    | "r \<noteq> default_route" "\<not> keeps_route opts mine exit r" | "r \<noteq> default_route" "keeps_route opts mine exit r" by blast
  then show ?case
  proof cases
    case 1
    obtain k2 s2 f2 where 2: "filter_peer opts mine exit rs subnets True = (k2, s2, f2)" by (metis prod_cases3)
    from Cons.IH [OF 2] Cons.prems 1 2 show ?thesis by (auto simp: keeps_route_def)
  next
    case 2
    with Cons.prems have "filter_peer opts mine exit rs subnets found = (keep, s, f)" by simp
    from Cons.IH [OF this] 2 show ?thesis by (auto simp: keeps_route_def)
  next
    case 3
    with Cons.prems have "filter_peer opts mine exit rs subnets found = (keep, s, f)" by (auto simp: keeps_route_def)
    from Cons.IH [OF this] 3 show ?thesis by auto
  next
    case 4
    let ?sub = "if r \<in> set subnets then subnets else subnets @ [r]"
    obtain k2 s2 f2 where 2: "filter_peer opts mine exit rs ?sub found = (k2, s2, f2)" by (metis prod_cases3)
    with Cons.prems 4 have "keep = r # k2" "s = s2" "f = f2" by (auto simp: keeps_route_def)
    with Cons.IH [OF 2] 4 show ?thesis by auto
  qed
qed simp

lemma filter_routes_result:
  "filter_routes opts mine ps subnets found = (ps', s, f) \<Longrightarrow>
   ps' = map (\<lambda>p. p\<lparr>pe_routes := filter (keeps_route opts mine (is_exit opts p)) (pe_routes p)\<rparr>) ps \<and>
   set s = set subnets \<union> {r. \<exists>p \<in> set ps. r \<in> set (pe_routes p) \<and> r \<noteq> default_route \<and> keeps_route opts mine (is_exit opts p) r} \<and>
   (distinct subnets \<longrightarrow> distinct s) \<and> f = (found \<or> (\<exists>p \<in> set ps. is_exit opts p \<and> default_route \<in> set (pe_routes p)))"
proof (induction ps arbitrary: subnets found ps' s f)
  case (Cons p ps)
  obtain k s1 f1 where 1: "filter_peer opts mine (is_exit opts p) (pe_routes p) subnets found = (k, s1, f1)" by (metis prod_cases3)
  obtain q s2 f2 where 2: "filter_routes opts mine ps s1 f1 = (q, s2, f2)" by (metis prod_cases3)
  have r: "ps' = p\<lparr>pe_routes := k\<rparr> # q" "s = s2" "f = f2" using Cons.prems 1 2 by auto
  from filter_peer_result [OF 1] Cons.IH [OF 2] show ?case unfolding r by auto
qed simp

lemma advertise_loop_result:
  "advertise_loop rs acc = Inr out \<Longrightarrow>
   set out = set acc \<union> {c. \<exists>r \<in> set rs. \<exists>p. parse_prefix (trim_space r) = Some p \<and> c = show_prefix (masked p)} \<and>
   (distinct acc \<longrightarrow> distinct out) \<and> (\<forall>r \<in> set rs. parse_prefix (trim_space r) \<noteq> None)"
  by (induction rs arbitrary: acc) (fastforce simp: Let_def split: option.splits if_splits)+

lemma advertise_loop_error:
  "advertise_loop rs acc = Inl r \<Longrightarrow> r \<in> set rs \<and> parse_prefix (trim_space r) = None"
  by (induction rs arbitrary: acc) (auto simp: Let_def split: option.splits)

section \<open>Lemmas on a poll\<close>

text \<open>The network as the server answering at once, in the state and environment of one request.\<close>

definition server_transport :: "('t, 'i) deps \<Rightarrow> hctx \<Rightarrow> sso_server \<Rightarrow> transport" where
  "server_transport D c s call r = Some (snd (api_request D call c r s))"

lemma bearer_with_token: "cl_token cl \<noteq> [] \<Longrightarrow> bearer_token (with_token cl r) = cl_token cl"
  using trim_prefix_append [of "''Bearer ''" "cl_token cl"] by (simp add: bearer_token_def with_token_def has_prefix_iff)

definition touched :: "time \<Rightarrow> string \<Rightarrow> string list option \<Rightarrow> string list option \<Rightarrow> device \<Rightarrow> device" where
  "touched now ep eps rs d =
     (let d1 = d\<lparr>d_last_seen := now\<rparr>;
          d2 = (if ep \<noteq> [] then d1\<lparr>d_endpoint := ep\<rparr> else d1);
          d3 = (case eps of None \<Rightarrow> d2 | Some es \<Rightarrow> d2\<lparr>d_endpoints := es\<rparr>)
      in case rs of None \<Rightarrow> d3 | Some rs \<Rightarrow> d3\<lparr>d_advertised := valid_routes rs\<rparr>)"

lemma touch_get:
  "gm_get (st_devices st) pub = Some d \<Longrightarrow>
   gm_get (st_devices (fst (touch_device e pub ep eps rs st))) pub = Some (touched (e_now e) ep eps rs d)"
  by (simp add: touch_device_def Let_def set_device_def touched_def gm_get_put)

lemma touched_sel [simp]: "d_token (touched now ep eps rs d) = d_token d" "d_token_issued (touched now ep eps rs d) = d_token_issued d"
  "d_approved (touched now ep eps rs d) = d_approved d" "d_public_key (touched now ep eps rs d) = d_public_key d"
  "d_ip (touched now ep eps rs d) = d_ip d"
  "d_endpoints (touched now ep eps rs d) = (case eps of None \<Rightarrow> d_endpoints d | Some es \<Rightarrow> es)"
  "d_advertised (touched now ep eps rs d) = (case rs of None \<Rightarrow> d_advertised d | Some rs \<Rightarrow> valid_routes rs)"
  by (simp_all add: touched_def Let_def split: option.split)

lemma rotate_get:
  assumes "gm_get (st_devices st) pub = Some d" "snd (rotate_token_if_due e pub st) = Inr new"
  shows "\<exists>d'. gm_get (st_devices (fst (rotate_token_if_due e pub st))) pub = Some d' \<and>
    d_token d' = (if new \<noteq> [] then new else d_token d) \<and> d_endpoints d' = d_endpoints d \<and>
    d_advertised d' = d_advertised d \<and> d_approved d' = d_approved d \<and> d_public_key d' = d_public_key d \<and> d_ip d' = d_ip d"
proof (cases "e_now e - d_token_issued d < token_rotate_after")
  case True
  with rotate_not_due [OF assms(1)] assms show ?thesis by auto
next
  case False
  have "new = ''omtok-'' @ hex_encode (e_rnd_key e)"
    using assms False by (auto simp: rotate_token_if_due_def Let_def saved_result time_sub_less token_rotate_after_def
        duration_defs split: if_splits)
  with rotate_due [OF assms(1), of e] False show ?thesis by auto
qed

text \<open>A poll the server answers with a map: the machine as it was touched and rotated.\<close>

lemma poll_device:
  assumes "client_poll (server_transport D c s) cl port eps adv r = Inr nm" "store_ok D (sv_store s)"
    and "gm_get (st_devices (sv_store s)) pub = Some d" "d_token d = cl_token cl"
    and "s' = fst (api_request D (Poll (Some \<lparr>pr_listen_port = int port, pr_endpoints = omit_empty eps,
              pr_advertised = omit_empty adv\<rparr>)) c (with_token cl r) s)"
  shows "\<exists>d'. gm_get (st_devices (sv_store s')) pub = Some d' \<and>
    d_token d' = (if nm_new_token nm \<noteq> [] then nm_new_token nm else cl_token cl) \<and>
    d_endpoints d' = (if eps \<noteq> [] then eps else d_endpoints d) \<and>
    d_advertised d' = (if adv \<noteq> [] then valid_routes adv else d_advertised d) \<and>
    d_approved d' = d_approved d \<and> d_public_key d' = pub \<and> d_ip d' = d_ip d"
proof -
  let ?req = "\<lparr>pr_listen_port = int port, pr_endpoints = omit_empty eps, pr_advertised = omit_empty adv\<rparr>"
  let ?srv = "server.truncate s" and ?r = "with_token cl r"
  have good: "good_state (st_s (sv_store s))"
    using assms(2) store_reach_good by (auto simp: store_ok_def)
  have ok: "device_ok (sf_cidr (st_s (sv_store s))) pub d" using good_devs [OF good] assms(3) by (rule devs_okD)
  then have tok: "cl_token cl \<noteq> []" and pub: "d_public_key d = pub" using assms(4) by (auto simp: device_ok_def)
  have auth: "device_by_token (c_gate c) (bearer_token ?r) (sv_store s) = Some d"
    using device_by_token_iff [OF devs_okD(1,5) [OF good_devs [OF good]]] assms(3,4) tok
    by (auto simp: bearer_with_token token_matches_def)
  let ?ep = "observed_endpoint ?r ?req"
  define t where "t = touch_device (c_env1 c) pub ?ep (omit_empty eps) (omit_empty adv) (sv_store s)"
  define u where "u = rotate_token_if_due (c_env2 c) pub (fst t)"
  have h: "require_device (handle_poll (Some ?req)) c ?r ?srv = handle_poll (Some ?req) c d ?r ?srv"
    using auth by (simp add: require_device_def)
  have ans: "rs_status (snd (handle_poll (Some ?req) c d ?r ?srv)) = 200"
    "rs_body (snd (handle_poll (Some ?req) c d ?r ?srv)) = PNetMap nm"
    using assms(1) h
    by (auto simp: client_poll_def client_do_def server_transport_def split: if_splits payload.splits)
  obtain new where new: "snd t = Inr ()" "snd u = Inr new"
    using ans(1) pub by (cases t; cases "snd t"; cases u; cases "snd u")
      (auto simp: handle_poll_def t_def [symmetric] u_def write_error_def write_json_def)
  have res: "handle_poll (Some ?req) c d ?r ?srv = (put_store ?srv (fst u), write_json 200 (PNetMap
      (build_netmap d (c_now c) new (store_acl (fst u)) (devices (fst u)))))"
    using new pub by (cases t; cases u) (simp add: handle_poll_def t_def [symmetric] u_def)
  have "nm = build_netmap d (c_now c) new (store_acl (fst u)) (devices (fst u))"
    using ans(2) by (simp add: res write_json_def)
  then have nm: "nm_new_token nm = new" by (simp add: netmap_peers)
  have s': "sv_store s' = fst u" unfolding assms(5) by (simp add: h res)
  note tg = touch_get [OF assms(3), of "c_env1 c" ?ep "omit_empty eps" "omit_empty adv", folded t_def]
  from rotate_get [OF tg new(2) [unfolded u_def]] show ?thesis
    unfolding s' nm using assms(4) pub by (auto simp: u_def omit_empty_def)
qed

text \<open>A machine that holds its current token is answered, unless the server cannot write its file.\<close>

lemma rotate_answers: "gm_get (st_devices st) pub = Some d \<Longrightarrow> e_fault e = None \<Longrightarrow> \<exists>new. snd (rotate_token_if_due e pub st) = Inr new"
  by (simp add: rotate_token_if_due_def Let_def saved_result)

lemma touch_answers: "gm_get (st_devices st) pub = Some d \<Longrightarrow> e_fault e = None \<Longrightarrow> snd (touch_device e pub ep eps rs st) = Inr ()"
  by (simp add: touch_device_def Let_def saved_result)

lemma poll_run:
  assumes "store_ok D (sv_store s)" "gm_get (st_devices (sv_store s)) pub = Some d"
    and "device_by_token (c_gate c) (cl_token cl) (sv_store s) = Some d"
    and "e_fault (c_env1 c) = None" "e_fault (c_env2 c) = None"
  fixes port eps adv r
  defines "req \<equiv> \<lparr>pr_listen_port = int port, pr_endpoints = omit_empty eps, pr_advertised = omit_empty adv\<rparr>"
  defines "st1 \<equiv> fst (touch_device (c_env1 c) pub (observed_endpoint (with_token cl r) req) (omit_empty eps) (omit_empty adv) (sv_store s))"
  shows "\<exists>nm. client_poll (server_transport D c s) cl port eps adv r = Inr nm \<and>
    snd (rotate_token_if_due (c_env2 c) pub st1) = Inr (nm_new_token nm) \<and>
    sv_store (fst (api_request D (Poll (Some req)) c (with_token cl r) s)) = fst (rotate_token_if_due (c_env2 c) pub st1)"
proof -
  let ?srv = "server.truncate s" and ?r = "with_token cl r"
  have good: "good_state (st_s (sv_store s))"
    using assms(1) store_reach_good by (auto simp: store_ok_def)
  have pub: "d_public_key d = pub" using devs_okD(2) [OF good_devs [OF good] assms(2)] by (simp add: device_ok_def)
  have "cl_token cl \<noteq> []" using assms(3) by (auto simp: device_by_token_def)
  then have auth: "device_by_token (c_gate c) (bearer_token ?r) (sv_store s) = Some d"
    using assms(3) by (simp add: bearer_with_token)
  let ?ep = "observed_endpoint ?r req"
  have t: "touch_device (c_env1 c) pub ?ep (omit_empty eps) (omit_empty adv) (sv_store s) = (st1, Inr ())"
    using touch_answers [OF assms(2,4)] unfolding st1_def by (metis prod.collapse)
  have "gm_get (st_devices st1) pub = Some (touched (e_now (c_env1 c)) ?ep (omit_empty eps) (omit_empty adv) d)"
    unfolding st1_def by (rule touch_get [OF assms(2)])
  from rotate_answers [OF this assms(5)] obtain st2 new where u: "rotate_token_if_due (c_env2 c) pub st1 = (st2, Inr new)"
    by (metis prod.collapse)
  have sel: "pr_endpoints req = omit_empty eps" "pr_advertised req = omit_empty adv" by (simp_all add: req_def)
  have "snd (api_request D (Poll (Some req)) c ?r s) = write_json 200 (PNetMap
      (build_netmap d (c_now c) new (store_acl st2) (devices st2)))"
    "sv_store (fst (api_request D (Poll (Some req)) c ?r s)) = st2"
    using auth pub t u by (simp_all add: require_device_def handle_poll_def sel)
  then show ?thesis using u
    by (simp add: client_poll_def client_do_def server_transport_def write_json_def netmap_peers req_def del: api_request.simps)
qed

lemma poll_succeeds:
  assumes "store_ok D (sv_store s)" "gm_get (st_devices (sv_store s)) pub = Some d" "d_token d = cl_token cl"
    and "e_fault (c_env1 c) = None" "e_fault (c_env2 c) = None"
  obtains nm where "client_poll (server_transport D c s) cl port eps adv r = Inr nm"
proof -
  have good: "good_state (st_s (sv_store s))"
    using assms(1) store_reach_good by (auto simp: store_ok_def)
  have "cl_token cl \<noteq> []" using devs_okD(2) [OF good_devs [OF good] assms(2)] assms(3) by (auto simp: device_ok_def)
  then have "device_by_token (c_gate c) (cl_token cl) (sv_store s) = Some d"
    using device_by_token_iff [OF devs_okD(1,5) [OF good_devs [OF good]]] assms(2,3) by (auto simp: token_matches_def)
  from poll_run [OF assms(1,2) this assms(4,5)] that show thesis by blast
qed

text \<open>A token the server does not know is refused.\<close>

lemma poll_refused:
  assumes "device_by_token (c_gate c) (cl_token cl) (sv_store s) = None" "cl_token cl \<noteq> []"
  shows "\<exists>e. client_poll (server_transport D c s) cl port eps adv r = Inl (HttpStatus 401 e)"
  using assms
  by (simp add: client_poll_def client_do_def server_transport_def require_device_def bearer_with_token write_error_def write_json_def)

text \<open>The request of a cycle.\<close>

definition poll_of :: "cycle_env \<Rightarrow> agent \<Rightarrow> api_call" where
  "poll_of e a =
     Poll (Some \<lparr>pr_listen_port = int (as_listen_port (ag_state a)),
       pr_endpoints = omit_empty (ag_endpoints (refresh_endpoints e (refresh_relay e a))),
       pr_advertised = omit_empty (ag_advertised a)\<rparr>)"

section \<open>Properties\<close>

text \<open>C25: which routes a machine takes from the map. A peer keeps 0.0.0.0/0 only when it is the exit node the
  user chose, and any other route only when routes are accepted and the machine does not advertise it
  itself; nothing else of the map changes. The system routes are exactly the subnets so kept, each once,
  and never 0.0.0.0/0.\<close>

theorem route_filter:
  assumes "filter_routes opts mine ps [] False = (ps', subnets, found)"
  shows "ps' = map (\<lambda>p. p\<lparr>pe_routes := filter (\<lambda>r. if r = default_route then is_exit opts p
        else ao_accept_routes opts \<and> r \<notin> set mine) (pe_routes p)\<rparr>) ps \<and>
    set subnets = {r. ao_accept_routes opts \<and> r \<notin> set mine \<and> r \<noteq> default_route \<and> (\<exists>p \<in> set ps. r \<in> set (pe_routes p))} \<and>
    distinct subnets \<and> (found \<longleftrightarrow> (\<exists>p \<in> set ps. is_exit opts p \<and> default_route \<in> set (pe_routes p)))"
  using filter_routes_result [OF assms] unfolding keeps_route_def [abs_def] by auto

definition demo_options :: options where
  "demo_options = \<lparr>ao_server_url = ''http://s/'', ao_auth_key = ''omkey-02'', ao_hostname = ''h1'', ao_iface = ''omni0'',
     ao_listen_port = 51820, ao_mtu = 0, ao_state_path = ''omnid.json'', ao_stun_servers = [], ao_relay_server = ''off'',
     ao_dns = False, ao_dns_zone = ''omni'', ao_advertise_routes = [], ao_advertise_exit = False, ao_exit_node = [],
     ao_accept_routes = True\<rparr>"

theorem route_filter_witness:
  "\<exists>ps' subnets found. filter_routes demo_options [] [(demo_peer 1 [])\<lparr>pe_routes := [''10.1.0.0/16'', default_route]\<rparr>] [] False =
     (ps', subnets, found) \<and> set subnets = {''10.1.0.0/16''} \<and> \<not> found"
proof -
  obtain q s f where r: "filter_routes demo_options [] [(demo_peer 1 [])\<lparr>pe_routes := [''10.1.0.0/16'', default_route]\<rparr>] [] False =
      (q, s, f)" by (metis prod_cases3)
  from route_filter [OF r] have "set s = {''10.1.0.0/16''}" "\<not> f"
    by (auto simp: demo_options_def default_route_def is_exit_def)
  with r show ?thesis by blast
qed

text \<open>C7: the token of an agent is always the current one, as long as answers arrive: a cycle whose poll is
  answered with a map leaves agent and server with the same token for the machine, rotated or not, in
  the client and in the state to save.\<close>

theorem agent_token_current:
  assumes "cy_send e = server_transport D c s" "store_ok D (sv_store s)"
    and "gm_get (st_devices (sv_store s)) pub = Some d" "d_token d = cl_token (ag_client a)"
    and "as_device_token (ag_state a) = cl_token (ag_client a)"
    and "sync_cycle e a = (a', res)" "\<forall>err. res \<noteq> PollFailed err"
    and "s' = fst (api_request D (poll_of e a) c (with_token (ag_client a) (cy_request e)) s)"
  shows "\<exists>d'. gm_get (st_devices (sv_store s')) pub = Some d' \<and>
    cl_token (ag_client a') = d_token d' \<and> as_device_token (ag_state a') = d_token d'"
proof -
  let ?a1 = "refresh_endpoints e (refresh_relay e a)"
  note same = refreshed_sel [of e a]
  obtain nm where nm: "client_poll (server_transport D c s) (ag_client a) (as_listen_port (ag_state a)) (ag_endpoints ?a1)
      (ag_advertised a) (cy_request e) = Inr nm"
    using assms(1,6,7) by (auto simp: sync_cycle_def Let_def same split: sum.splits)
  then have a': "a' = fst (apply_map e nm (take_token e nm ?a1))"
    using assms(1,6) by (simp add: sync_cycle_def Let_def same)
  have "cl_token (ag_client a') = (if nm_new_token nm \<noteq> [] then nm_new_token nm else cl_token (ag_client a))"
    "as_device_token (ag_state a') = (if nm_new_token nm \<noteq> [] then nm_new_token nm else cl_token (ag_client a))"
    using assms(5) by (simp_all add: a' take_token_sel apply_map_sel same)
  with poll_device [OF nm assms(2-4) assms(8) [unfolded poll_of_def]] show ?thesis by metis
qed

text \<open>C27: routes cannot be withdrawn. The agent's request leaves out an empty list of routes and the server
  reads a missing list as no change: a machine restarted without its routes, polling as long as it
  likes, goes on being given to its peers as their router.\<close>

theorem routes_never_withdrawn:
  assumes "client_poll (server_transport D c s) cl port eps [] r = Inr nm" "store_ok D (sv_store s)"
    and "gm_get (st_devices (sv_store s)) pub = Some d" "d_token d = cl_token cl"
    and "s' = fst (api_request D (Poll (Some \<lparr>pr_listen_port = int port, pr_endpoints = omit_empty eps,
              pr_advertised = omit_empty []\<rparr>)) c (with_token cl r) s)"
  shows "\<exists>d'. gm_get (st_devices (sv_store s')) pub = Some d' \<and> d_advertised d' = d_advertised d \<and>
    active_routes d' = active_routes d \<and> (\<forall>now. pe_routes (peer_view d' now) = active_routes d)"
  using poll_device [OF assms] by (auto simp: active_routes_filter peer_view_def)

text \<open>C24: a machine writes into the configuration of the others. The server stores the endpoints a machine
  reports as they are and hands them to its peers; the agent takes the first as the endpoint of a new
  peer and writes it into the text it gives the WireGuard engine. With a line feed in it, whatever
  follows is a line of its own for the engine: a private key, an allowed address, anything.\<close>

theorem endpoint_injection:
  assumes "client_poll (server_transport D c s) cl port ((x @ newline # l) # eps) adv r = Inr nm" "store_ok D (sv_store s)"
    and "gm_get (st_devices (sv_store s)) pub = Some d" "d_token d = cl_token cl" "newline \<notin> set l"
    and "s' = fst (api_request D (Poll (Some \<lparr>pr_listen_port = int port, pr_endpoints = omit_empty ((x @ newline # l) # eps),
              pr_advertised = omit_empty adv\<rparr>)) c (with_token cl r) s)"
    and "wk_parse W pub \<noteq> None" "pub \<notin> set known" "net_parse_ip (d_ip d) \<noteq> None"
  shows "\<exists>d'. gm_get (st_devices (sv_store s')) pub = Some d' \<and>
    (\<forall>now rs peers. (peer_view d' now)\<lparr>pe_routes := rs\<rparr> \<in> set peers \<longrightarrow>
      l \<in> set (split_on newline (sync_text W initial_endpoint peers known)))"
proof -
  obtain d' where d': "gm_get (st_devices (sv_store s')) pub = Some d'" "d_endpoints d' = (x @ newline # l) # eps" "d_public_key d' = pub"
    "d_ip d' = d_ip d"
    using poll_device [OF assms(1-4,6)] by auto
  have first: "set (fold add_candidate es out) \<subseteq> set (fold add_candidate es out)" "out \<noteq> [] \<Longrightarrow> fold add_candidate es out \<noteq> [] \<and>
      hd (fold add_candidate es out) = hd out" for es out
    by (induction es arbitrary: out) (auto simp: add_candidate_def)
  have "l \<in> set (split_on newline (sync_text W initial_endpoint peers known))"
    if "(peer_view d' now)\<lparr>pe_routes := rs\<rparr> \<in> set peers" for now rs peers
  proof -
    let ?p = "(peer_view d' now)\<lparr>pe_routes := rs\<rparr>"
    have p: "pe_endpoints ?p = (x @ newline # l) # eps" "pe_public_key ?p = pub" "pe_ip ?p = d_ip d" using d' by (simp_all add: peer_view_def)
    have "initial_endpoint ?p = x @ newline # l"
      using first(2) [of "[x @ newline # l]" eps]
      by (cases "fold add_candidate eps [x @ newline # l]")
        (auto simp: initial_endpoint_def candidates_of_def p add_candidate_def)
    then have "(''endpoint='' @ x @ newline # l) \<in> set (sync_lines W initial_endpoint peers known)"
      using that assms(7-9) p by (intro peer_lines_synced [of ?p]) (auto simp: valid_peer_def peer_lines_def)
    then have "set (split_on newline (''endpoint='' @ x @ newline # l)) \<subseteq> set (split_on newline (sync_text W initial_endpoint peers known))"
      unfolding sync_text_def by (rule split_config_line)
    moreover have "l \<in> set (split_on newline ((''endpoint='' @ x) @ newline # l))"
      unfolding split_on_cut using assms(5) by (simp add: split_on_none)
    ultimately show ?thesis by auto
  qed
  then show ?thesis using d'(1) by blast
qed

text \<open>The first machine of the example polls.\<close>

definition demo_client :: client where
  "demo_client = \<lparr>cl_server_url = ''http://s'', cl_token = ''omtok-03''\<rparr>"

lemma demo_client_poll:
  obtains nm where "client_poll (server_transport demo_deps (demo_ctx 5) demo_server) demo_client port eps adv r = Inr nm"
proof (rule poll_succeeds [OF demo_store_ok_api, of "''pk1''" demo_dev1 demo_client "demo_ctx 5" port eps adv r])
  show "gm_get (st_devices (sv_store demo_server)) ''pk1'' = Some demo_dev1" by (simp add: demo_server_def demo3_devices)
  show "d_token demo_dev1 = cl_token demo_client" by (simp add: demo_dev1_def demo_client_def)
qed (auto simp: demo_ctx_def)

lemma demo_machine: "gm_get (st_devices (sv_store demo_server)) ''pk1'' = Some demo_dev1" "d_token demo_dev1 = cl_token demo_client"
  by (simp_all add: demo_server_def demo3_devices demo_dev1_def demo_client_def)

theorem routes_never_withdrawn_witness:
  "\<exists>d'. gm_get (st_devices (sv_store (fst (api_request demo_deps
      (Poll (Some \<lparr>pr_listen_port = 0, pr_endpoints = None, pr_advertised = None\<rparr>)) (demo_ctx 5) (with_token demo_client demo_request)
      demo_server)))) ''pk1'' = Some d' \<and> active_routes d' = active_routes demo_dev1"
proof -
  obtain nm where "client_poll (server_transport demo_deps (demo_ctx 5) demo_server) demo_client 0 [] [] demo_request = Inr nm"
    by (rule demo_client_poll)
  from routes_never_withdrawn [OF this demo_store_ok_api demo_machine refl] show ?thesis
    by (auto simp: omit_empty_def simp del: api_request.simps)
qed

theorem endpoint_injection_witness:
  "\<exists>d' W. ''private_key=0'' \<in> set (split_on newline (sync_text W initial_endpoint [peer_view d' 7] []))"
proof -
  let ?W = "\<lparr>wk_parse = (\<lambda>_. Some (demo_wgkey 1)), wk_string = b64_encode\<rparr>"
  let ?ep = "''1.2.3.4:5'' @ newline # ''private_key=0''"
  obtain nm where "client_poll (server_transport demo_deps (demo_ctx 5) demo_server) demo_client 0 [?ep] [] demo_request = Inr nm"
    by (rule demo_client_poll)
  moreover have "net_parse_ip (d_ip demo_dev1) \<noteq> None" by (simp add: demo_dev1_def compute)
  ultimately obtain d' where d: "\<forall>now rs peers. (peer_view d' now)\<lparr>pe_routes := rs\<rparr> \<in> set peers \<longrightarrow>
      ''private_key=0'' \<in> set (split_on newline (sync_text ?W initial_endpoint peers []))"
    using endpoint_injection [OF _ demo_store_ok_api demo_machine _ refl, of "demo_ctx 5" 0 "''1.2.3.4:5''" "''private_key=0''"
        "[]" "[]" demo_request nm ?W "[]"] by (auto simp: newline_def simp del: api_request.simps)
  have "(peer_view d' 7)\<lparr>pe_routes := pe_routes (peer_view d' 7)\<rparr> = peer_view d' 7" by simp
  with d show ?thesis by (metis list.set_intros(1))
qed

definition demo_agent :: agent where
  "demo_agent = \<lparr>ag_options = demo_options,
     ag_state = \<lparr>as_server_url = ''http://s'', as_private_key = ''k'', as_device_id = ''id'', as_device_token = ''omtok-03'',
       as_ip = ''10.0.0.1'', as_cidr = ''10.0.0.0/29'', as_iface = ''omni0'', as_listen_port = 51820\<rparr>,
     ag_disk = [], ag_client = demo_client, ag_advertised = [], ag_stun_servers = [], ag_relay_enabled = False, ag_bind = new_bind, ag_manager = new_manager,
     ag_known = [], ag_installed = [], ag_endpoints = [], ag_last_stun = 0, ag_dns = None, ag_exit_seen = True,
     ag_log = []\<rparr>"

definition demo_cycle :: "transport \<Rightarrow> cycle_env" where
  "demo_cycle send = \<lparr>cy_now = 5, cy_send = send, cy_request = demo_request, cy_stun = (\<lambda>_. None),
     cy_ifaces = None, cy_keys = b64_keys, cy_ipc_set = (\<lambda>_. True), cy_route_fails = (\<lambda>_. False), cy_handshakes = None,
     cy_set_ep = (\<lambda>_ _. True), cy_pings = [], cy_lower = (\<lambda>s. s), cy_tmp = ''t'', cy_fault = None\<rparr>"

definition demo_online :: cycle_env where
  "demo_online = demo_cycle (server_transport demo_deps (demo_ctx 5) demo_server)"

theorem agent_token_current_witness:
  "\<exists>d'. gm_get (st_devices (sv_store (fst (api_request demo_deps (poll_of demo_online demo_agent) (demo_ctx 5)
        (with_token (ag_client demo_agent) (cy_request demo_online)) demo_server)))) ''pk1'' = Some d' \<and>
     cl_token (ag_client (fst (sync_cycle demo_online demo_agent))) = d_token d'"
proof -
  obtain a' res where r: "sync_cycle demo_online demo_agent = (a', res)" by (cases "sync_cycle demo_online demo_agent")
  have "refresh_endpoints demo_online (refresh_relay demo_online demo_agent) = demo_agent"
    by (simp add: refresh_endpoints_def refresh_relay_def demo_agent_def demo_cycle_def demo_online_def stun_refresh_def
        time_sub_def duration_defs)
  moreover obtain nm where "client_poll (server_transport demo_deps (demo_ctx 5) demo_server) demo_client 51820 [] [] demo_request = Inr nm"
    by (rule demo_client_poll)
  ultimately have "(a', res) = apply_map demo_online nm (take_token demo_online nm demo_agent)"
    using r by (simp add: sync_cycle_def demo_agent_def demo_cycle_def demo_online_def)
  then have ok: "\<forall>err. res \<noteq> PollFailed err" by (auto simp: apply_map_def Let_def split: prod.splits if_splits)
  have sel: "cy_send demo_online = server_transport demo_deps (demo_ctx 5) demo_server"
    "d_token demo_dev1 = cl_token (ag_client demo_agent)" "as_device_token (ag_state demo_agent) = cl_token (ag_client demo_agent)"
    by (simp_all add: demo_online_def demo_cycle_def demo_agent_def demo_client_def demo_dev1_def)
  from agent_token_current [OF sel(1) demo_store_ok_api demo_machine(1) sel(2,3) r ok refl]
  show ?thesis unfolding r fst_conv by blast
qed



end
