(* ===== verification/Cli_Props.thy ===== *)
theory Cli_Props
  imports Cli Agent_Props Store_Props
begin

text \<open>
  What the commands promise, and what they break: the server they start, a revocation seen from the
  machine it cuts off, the routes an administrator approves, and the status commands, which use up
  the agent's tokens.
\<close>

section \<open>Lemmas\<close>

lemma store_ok_api: "store_ok D (sv_store s) \<Longrightarrow> fresh_ctx c (sv_store s) \<Longrightarrow> store_ok D (sv_store (fst (api_request D (Poll b) c r s)))"
  using store_ok_device [OF keeps_poll, of D "server.truncate s" c b r] by simp

lemma store_ok_state: "store_ok D st \<Longrightarrow> good_state (st_s st)"
  using store_reach_good by (auto simp: store_ok_def)

text \<open>An administration call with the right key reaches its handler.\<close>

lemma admin_call_answer:
  assumes "admin_call (server_transport D c s) key call r = Inr body"
  shows "key \<noteq> []" "rs_status (snd (api_request D call c (r\<lparr>rq_authorization := ''Bearer '' @ key\<rparr>) s)) = 200"
    "rs_body (snd (api_request D call c (r\<lparr>rq_authorization := ''Bearer '' @ key\<rparr>) s)) = body"
  using assms by (auto simp: admin_call_def server_transport_def split: if_splits)

lemma admin_passed:
  "rs_status (snd (require_admin h c r s)) = 200 \<Longrightarrow>
   require_admin h c r s = h c () r s \<and> bearer_token r = store_admin_key (sv_store s)"
  by (auto simp: require_admin_def write_error_def write_json_def split: if_splits)

text \<open>A poll with the current token when its rotation is due: what the answer and the server then hold.\<close>

lemma due_poll:
  assumes "store_ok D (sv_store s)" "fresh_ctx c (sv_store s)" "e_fault (c_env1 c) = None" "e_fault (c_env2 c) = None"
    and "gm_get (st_devices (sv_store s)) pub = Some d" "d_token d = cl_token cl"
    and "token_rotate_after \<le> e_now (c_env2 c) - d_token_issued d"
  fixes port eps adv r
  defines "req \<equiv> \<lparr>pr_listen_port = int port, pr_endpoints = omit_empty eps, pr_advertised = omit_empty adv\<rparr>"
  defines "s' \<equiv> fst (api_request D (Poll (Some req)) c (with_token cl r) s)"
  shows "\<exists>nm d'. client_poll (server_transport D c s) cl port eps adv r = Inr nm \<and>
    nm_new_token nm = ''omtok-'' @ hex_encode (e_rnd_key (c_env2 c)) \<and> nm_new_token nm \<noteq> cl_token cl \<and>
    gm_get (st_devices (sv_store s')) pub = Some d' \<and> d_token_issued d' = e_now (c_env2 c) \<and>
    (\<forall>now. device_by_token now (cl_token cl) (sv_store s') = (if now < e_now (c_env2 c) + token_grace then Some d' else None))"
proof -
  let ?t = "''omtok-'' @ hex_encode (e_rnd_key (c_env2 c))" and ?ep = "observed_endpoint (with_token cl r) req"
  define st1 where "st1 = fst (touch_device (c_env1 c) pub ?ep (omit_empty eps) (omit_empty adv) (sv_store s))"
  obtain st0 where st0: "first_boot st0" "store_reach (dp_lower D) (dp_hash D) st0 (sv_store s)"
    using assms(1) by (auto simp: store_ok_def)
  note ok = good_devs [OF store_ok_state [OF assms(1)]]
  have ne: "cl_token cl \<noteq> []" using devs_okD(2) [OF ok assms(5)] assms(6) by (auto simp: device_ok_def)
  have known: "device_by_token (c_gate c) (cl_token cl) (sv_store s) = Some d"
    using device_by_token_iff [OF devs_okD(1,5) [OF ok]] assms(5,6) ne by (auto simp: token_matches_def)
  let ?d1 = "touched (e_now (c_env1 c)) ?ep (omit_empty eps) (omit_empty adv) d"
  have g1: "gm_get (st_devices st1) pub = Some ?d1" unfolding st1_def by (rule touch_get [OF assms(5)])
  have f1: "fresh (c_env2 c) (st_s st1)"
    unfolding st1_def using assms(2) devs_okD(1) [OF ok] by (intro fresh_touch) (simp_all add: fresh_ctx_def)
  have r1: "store_reach (dp_lower D) (dp_hash D) st0 st1"
    unfolding st1_def using st0(2) assms(2) by (intro reach_ops) (simp_all add: fresh_ctx_def)
  have due: "token_rotate_after \<le> e_now (c_env2 c) - d_token_issued ?d1" using assms(7) by simp
  obtain nm where nm: "client_poll (server_transport D c s) cl port eps adv r = Inr nm"
      "snd (rotate_token_if_due (c_env2 c) pub st1) = Inr (nm_new_token nm)" "sv_store s' = fst (rotate_token_if_due (c_env2 c) pub st1)"
    using poll_run [OF assms(1,5) known assms(3,4), of port eps adv r] unfolding s'_def req_def st1_def by blast
  have "\<not> time_sub (e_now (c_env2 c)) (d_token_issued d) < token_rotate_after"
    using assms(7) time_sub_less [of token_rotate_after "e_now (c_env2 c)" "d_token_issued d"] by (simp add: token_rotate_after_def duration_defs)
  then have new: "nm_new_token nm = ?t"
    using nm(2) assms(4) g1 by (auto simp: rotate_token_if_due_def Let_def saved_result)
  have "?t \<noteq> cl_token cl"
    using map_of_SomeD [OF assms(5)] assms(2,6) ne by (auto simp: fresh_ctx_def fresh_def tokens_def)
  then show ?thesis
    using nm(1) new rotate_due [OF g1 due] rotated_old_token [OF r1 st0(1) f1 g1 due] assms(6)
    unfolding nm(3) by (intro exI [of _ nm] exI conjI allI) simp_all
qed

text \<open>A poll with any live token of a machine whose rotation is not due brings no token.\<close>

lemma early_poll:
  assumes "store_ok D (sv_store s)" "gm_get (st_devices (sv_store s)) pub = Some d"
    and "device_by_token (c_gate c) (cl_token cl) (sv_store s) = Some d" "e_fault (c_env1 c) = None" "e_fault (c_env2 c) = None"
    and "e_now (c_env2 c) - d_token_issued d < token_rotate_after"
  shows "\<exists>nm. client_poll (server_transport D c s) cl port eps adv r = Inr nm \<and> nm_new_token nm = []"
proof -
  let ?req = "\<lparr>pr_listen_port = int port, pr_endpoints = omit_empty eps, pr_advertised = omit_empty adv\<rparr>"
  have "gm_get (st_devices (fst (touch_device (c_env1 c) pub (observed_endpoint (with_token cl r) ?req) (omit_empty eps)
      (omit_empty adv) (sv_store s)))) pub =
    Some (touched (e_now (c_env1 c)) (observed_endpoint (with_token cl r) ?req) (omit_empty eps) (omit_empty adv) d)"
    by (rule touch_get [OF assms(2)])
  from rotate_not_due [OF this, of "c_env2 c"] poll_run [OF assms(1-5), of port eps adv r] assms(6)
  show ?thesis by auto
qed

section \<open>Properties\<close>

text \<open>C9: looking at the status cuts the machine off. \<open>omnid status\<close> and the tray icon poll the server with the
  agent's own token. When its rotation is due, that poll is the one that rotates it, and the new token
  goes to a program that keeps nothing of the answer. The agent goes on with the old token, is told
  nothing for an hour, and then is refused on every poll.\<close>

theorem status_locks_out:
  assumes "store_ok D (sv_store s)" "fresh_ctx c (sv_store s)" "e_fault (c_env1 c) = None" "e_fault (c_env2 c) = None"
    and "gm_get (st_devices (sv_store s)) pub = Some d" "d_token d = as_device_token st"
    and "token_rotate_after \<le> e_now (c_env2 c) - d_token_issued d"
    and "s' = fst (api_request D (status_call st) c (with_token (status_client st) r) s)"
  shows "(\<exists>nm. status_poll (server_transport D c s) r st = Inr nm \<and> nm_new_token nm \<noteq> [] \<and> nm_new_token nm \<noteq> as_device_token st) \<and>
    fst (tray_update W path readable fs uapi (server_transport D c s) r old) = fst (tray_update W path readable fs uapi (\<lambda>_ _. None) r old) \<and>
    (\<forall>cl c2 port eps adv q. cl_token cl = as_device_token st \<longrightarrow>
      (c_gate c2 < e_now (c_env2 c) + token_grace \<and> e_now (c_env2 c2) - e_now (c_env2 c) < token_rotate_after \<and>
         e_fault (c_env1 c2) = None \<and> e_fault (c_env2 c2) = None \<longrightarrow>
       (\<exists>nm. client_poll (server_transport D c2 s') cl port eps adv q = Inr nm \<and> nm_new_token nm = [])) \<and>
      (e_now (c_env2 c) + token_grace \<le> c_gate c2 \<longrightarrow>
       (\<exists>err. client_poll (server_transport D c2 s') cl port eps adv q = Inl (HttpStatus 401 err))))"
proof -
  have tok: "cl_token (status_client st) = as_device_token st" by (simp add: status_client_def new_client_def)
  then have cur: "d_token d = cl_token (status_client st)" using assms(6) by simp
  obtain nm d' where p: "status_poll (server_transport D c s) r st = Inr nm"
      "nm_new_token nm = ''omtok-'' @ hex_encode (e_rnd_key (c_env2 c))" "nm_new_token nm \<noteq> as_device_token st"
      "gm_get (st_devices (sv_store s')) pub = Some d'" "d_token_issued d' = e_now (c_env2 c)"
      "\<forall>now. device_by_token now (as_device_token st) (sv_store s') = (if now < e_now (c_env2 c) + token_grace then Some d' else None)"
    using due_poll [OF assms(1-5) cur assms(7), of "as_listen_port st" "[]" "[]" r]
    unfolding assms(8) status_call_def status_poll_def tok by blast
  have ne: "as_device_token st \<noteq> []"
    using devs_okD(2) [OF good_devs [OF store_ok_state [OF assms(1)]] assms(5)] assms(6) by (auto simp: device_ok_def)
  have ok': "store_ok D (sv_store s')" unfolding assms(8) status_call_def using assms(1,2) by (rule store_ok_api)
  have "\<exists>m. client_poll (server_transport D c2 s') cl port eps adv q = Inr m \<and> nm_new_token m = []"
    if "cl_token cl = as_device_token st" "c_gate c2 < e_now (c_env2 c) + token_grace"
      "e_now (c_env2 c2) - e_now (c_env2 c) < token_rotate_after" "e_fault (c_env1 c2) = None" "e_fault (c_env2 c2) = None"
    for cl c2 port eps adv q
    using that p(5,6) by (intro early_poll [OF ok' p(4)]) simp_all
  moreover have "\<exists>err. client_poll (server_transport D c2 s') cl port eps adv q = Inl (HttpStatus 401 err)"
    if "cl_token cl = as_device_token st" "e_now (c_env2 c) + token_grace \<le> c_gate c2" for cl c2 port eps adv q
    using that ne p(6) by (intro poll_refused) simp_all
  moreover have "fst (tray_update W path readable fs uapi (server_transport D c s) r old) = fst (tray_update W path readable fs uapi (\<lambda>_ _. None) r old)"
    by (simp add: tray_update_def Let_def split: sum.split option.split)
  moreover have "\<exists>nm. status_poll (server_transport D c s) r st = Inr nm \<and> nm_new_token nm \<noteq> [] \<and> nm_new_token nm \<noteq> as_device_token st"
    using p(1-3) by auto
  ultimately show ?thesis by blast
qed

theorem status_locks_out_witness:
  "\<exists>s' :: sso_server. \<forall>c2. 2 + 25 * hour \<le> c_gate c2 \<longrightarrow>
     (\<exists>err. client_poll (server_transport demo_deps c2 s') demo_client 51820 [] [] demo_request = Inl (HttpStatus 401 err))"
proof -
  have m: "d_token demo_dev1 = as_device_token (ag_state demo_agent)" "cl_token demo_client = as_device_token (ag_state demo_agent)"
    "e_fault (c_env1 (demo_ctx (2 + 24 * hour))) = None" "e_fault (c_env2 (demo_ctx (2 + 24 * hour))) = None"
    "token_rotate_after \<le> e_now (c_env2 (demo_ctx (2 + 24 * hour))) - d_token_issued demo_dev1"
    "e_now (c_env2 (demo_ctx (2 + 24 * hour))) + token_grace = 2 + 25 * hour"
    by (simp_all add: demo_dev1_def demo_agent_def demo_client_def demo_ctx_def token_rotate_after_def token_grace_def)
  have "fresh_ctx (demo_ctx (2 + 24 * hour)) (sv_store demo_server)"
    by (rule demo_ctx_fresh)
  from status_locks_out [OF demo_store_ok_api this m(3,4) demo_machine(1) m(1,5) refl] m(2)
  show ?thesis unfolding m(6) by blast
qed

section \<open>Revocation\<close>

lemma touch_domain: "gm_get (st_devices (fst (touch_device e pub ep eps rs st))) q = None \<longleftrightarrow> gm_get (st_devices st) q = None"
  by (auto simp: touch_device_def Let_def set_device_def gm_get_put split: option.splits)

lemma rotate_domain: "gm_get (st_devices (fst (rotate_token_if_due e pub st))) q = None \<longleftrightarrow> gm_get (st_devices st) q = None"
  by (auto simp: rotate_token_if_due_def Let_def set_device_def gm_get_put split: option.splits)

text \<open>A map names only machines of the store.\<close>

lemma poll_names:
  assumes "store_ok D (sv_store s)" "fresh_ctx c (sv_store s)"
    and "client_poll (server_transport D c s) cl port eps adv r = Inr nm" "p \<in> set (nm_peers nm)"
  shows "gm_get (st_devices (sv_store s)) (pe_public_key p) \<noteq> None"
proof -
  let ?req = "\<lparr>pr_listen_port = int port, pr_endpoints = omit_empty eps, pr_advertised = omit_empty adv\<rparr>"
  let ?srv = "server.truncate s" and ?r = "with_token cl r"
  obtain self where h: "require_device (handle_poll (Some ?req)) c ?r ?srv = handle_poll (Some ?req) c self ?r ?srv"
    using assms(3) by (cases "device_by_token (c_gate c) (bearer_token ?r) (sv_store s)")
      (auto simp: require_device_def client_poll_def client_do_def server_transport_def write_error_def write_json_def)
  define t where "t = touch_device (c_env1 c) (d_public_key self) (observed_endpoint ?r ?req) (omit_empty eps) (omit_empty adv) (sv_store s)"
  define u where "u = rotate_token_if_due (c_env2 c) (d_public_key self) (fst t)"
  let ?h = "handle_poll (Some ?req) c self ?r ?srv"
  have ans: "rs_status (snd ?h) = 200" "rs_body (snd ?h) = PNetMap nm"
    using assms(3) h by (auto simp: client_poll_def client_do_def server_transport_def split: if_splits payload.splits)
  obtain new where new: "snd t = Inr ()" "snd u = Inr new"
    using ans(1) by (cases t; cases "snd t"; cases u; cases "snd u")
      (auto simp: handle_poll_def t_def [symmetric] u_def write_error_def write_json_def)
  have res: "?h = (put_store ?srv (fst u), write_json 200 (PNetMap (build_netmap self (c_now c) new (store_acl (fst u)) (devices (fst u)))))"
    using new by (cases t; cases u) (simp add: handle_poll_def t_def [symmetric] u_def)
  have "store_ok D (sv_store (fst (api_request D (Poll (Some ?req)) c ?r s)))" using assms(1,2) by (rule store_ok_api)
  then have ok: "devs_ok (sf_cidr (st_s (fst u))) (st_devices (fst u))"
    using good_devs [OF store_ok_state] by (simp add: h res)
  have "nm_peers nm = map (\<lambda>d. peer_view d (c_now c)) (filter (\<lambda>d. d_public_key d \<noteq> d_public_key self \<and> acl_visible (store_acl (fst u)) self d) (devices (fst u)))"
    using ans(2) by (auto simp: res write_json_def netmap_peers)
  with assms(4) obtain x where x: "x \<in> set (devices (fst u))" "p = peer_view x (c_now c)" by auto
  then obtain q where "(q, x) \<in> set (st_devices (fst u))" by (auto simp: devices_def)
  then have q: "gm_get (st_devices (fst u)) q = Some x" using devs_okD(1) [OF ok] by (rule map_of_is_SomeI [rotated])
  then have "pe_public_key p = q" using devs_okD(2) [OF ok q] x(2) by (simp add: device_ok_def peer_view_def)
  with q have "gm_get (st_devices (fst u)) (pe_public_key p) \<noteq> None" by simp
  then show ?thesis by (simp add: u_def t_def rotate_domain touch_domain)
qed

text \<open>A successful \<open>revoke\<close> went through the administration gate and the store's \<open>remove_device\<close>.\<close>

lemma revoke_call:
  assumes "cmd_revoke (server_transport D c s) key [target] r = Inr (host, ip)"
    and "s' = fst (api_request D RevokeDevice c (r\<lparr>rq_path := target, rq_authorization := ''Bearer '' @ key\<rparr>) s)"
  obtains d where "remove_device (c_env1 c) target (sv_store s) = (sv_store s', Inr d)"
    and "host = d_hostname d" "ip = d_ip d" "key = store_admin_key (sv_store s)"
proof -
  let ?r = "r\<lparr>rq_path := target, rq_authorization := ''Bearer '' @ key\<rparr>" and ?srv = "server.truncate s"
  obtain p where call: "admin_call (server_transport D c s) key RevokeDevice (r\<lparr>rq_path := target\<rparr>) = Inr (PPeer p)"
      and out: "host = pe_hostname p" "ip = pe_ip p"
    using assms(1) by (auto simp: cmd_revoke_def split: sum.splits payload.splits)
  have api: "snd (api_request D RevokeDevice c ?r s) = snd (require_admin handle_revoke_device c ?r ?srv)"
    "sv_store s' = sv_store (fst (require_admin handle_revoke_device c ?r ?srv))" by (simp_all add: assms(2))
  note ans = admin_call_answer [OF call, unfolded api(1)]
  have pass: "require_admin handle_revoke_device c ?r ?srv = handle_revoke_device c () ?r ?srv"
    "bearer_token ?r = store_admin_key (sv_store s)"
    using admin_passed [OF ans(2)] by simp_all
  have key: "key = store_admin_key (sv_store s)"
    using pass(2) trim_prefix_append [of "''Bearer ''" key] by (simp add: bearer_token_def has_prefix_iff)
  obtain st' d where rm: "remove_device (c_env1 c) target (sv_store s) = (st', Inr d)" "p = peer_view d (c_now c)" "sv_store s' = st'"
    using ans(2,3) unfolding api(2) pass(1)
    by (auto simp: handle_revoke_device_def write_error_def write_json_def split: prod.splits sum.splits)
  from out rm show thesis by (intro that [of d]) (simp_all add: key peer_view_def)
qed

lemma remove_device_effect:
  assumes "remove_device e t st = (st', Inr d)"
  obtains pub where "find (\<lambda>(pub, d). is_target t d) (st_devices st) = Some (pub, d)"
    and "st_s st' = (st_s st)\<lparr>sf_devices := gm_del pub (st_devices st)\<rparr>"
  using assms by (auto simp: remove_device_def saved_def split_beta split: option.splits if_splits)

text \<open>C10: \<open>omni-server revoke\<close> cuts a machine off at once. When the command succeeds, the key was the
  administration key, the machine printed is the one its argument names, every later poll of that
  machine, with its current or its previous token, is refused, and no map given to anybody names it.\<close>

theorem revoke_cuts_off:
  assumes "store_ok D (sv_store s)" "fresh_ctx c (sv_store s)"
    and "cmd_revoke (server_transport D c s) key [target] r = Inr (host, ip)"
    and "s' = fst (api_request D RevokeDevice c (r\<lparr>rq_path := target, rq_authorization := ''Bearer '' @ key\<rparr>) s)"
  shows "key = store_admin_key (sv_store s) \<and>
    (\<exists>d. is_target target d \<and> gm_get (st_devices (sv_store s)) (d_public_key d) = Some d \<and> host = d_hostname d \<and> ip = d_ip d \<and>
      (\<forall>cl c2 port eps adv q. cl_token cl \<noteq> [] \<and> cl_token cl \<in> {d_token d, d_prev_token d} \<longrightarrow>
        (\<exists>err. client_poll (server_transport D c2 s') cl port eps adv q = Inl (HttpStatus 401 err))) \<and>
      (\<forall>cl c2 port eps adv q nm. fresh_ctx c2 (sv_store s') \<and> client_poll (server_transport D c2 s') cl port eps adv q = Inr nm \<longrightarrow>
        d_public_key d \<notin> pe_public_key ` set (nm_peers nm)))"
proof -
  obtain d where rm: "remove_device (c_env1 c) target (sv_store s) = (sv_store s', Inr d)"
      and shown: "host = d_hostname d" "ip = d_ip d" and key: "key = store_admin_key (sv_store s)"
    using assms(3,4) by (rule revoke_call)
  let ?r = "r\<lparr>rq_path := target, rq_authorization := ''Bearer '' @ key\<rparr>"
  obtain st0 where st0: "first_boot st0" "store_reach (dp_lower D) (dp_hash D) st0 (sv_store s)"
    using assms(1) by (auto simp: store_ok_def)
  note rev = revocation [OF st0(2,1) rm]
  have ok: "store_ok D (sv_store s')"
    unfolding assms(4) using store_ok_admin [OF keeps_calls(3), of D "server.truncate s" c ?r] assms(1,2) by simp
  obtain pub where f: "find (\<lambda>(pub, d). is_target target d) (st_devices (sv_store s)) = Some (pub, d)"
      and gone: "st_s (sv_store s') = (st_s (sv_store s))\<lparr>sf_devices := gm_del pub (st_devices (sv_store s))\<rparr>"
    using rm by (rule remove_device_effect)
  note devs = good_devs [OF store_ok_state [OF assms(1)]]
  have get: "gm_get (st_devices (sv_store s)) pub = Some d" using gm.find_sound [OF devs_okD(1) [OF devs] f] by simp
  then have pub: "pub = d_public_key d" using devs_okD(2) [OF devs] by (simp add: device_ok_def)
  have none: "gm_get (st_devices (sv_store s')) (d_public_key d) = None" by (simp add: gone gm_get_del pub)
  have refused: "\<exists>err. client_poll (server_transport D c2 s') cl port eps adv q = Inl (HttpStatus 401 err)"
    if "cl_token cl \<noteq> [] \<and> cl_token cl \<in> {d_token d, d_prev_token d}" for cl c2 port eps adv q
    using that rev by (intro poll_refused) auto
  have unnamed: "d_public_key d \<notin> pe_public_key ` set (nm_peers nm)"
    if "fresh_ctx c2 (sv_store s') \<and> client_poll (server_transport D c2 s') cl port eps adv q = Inr nm" for cl c2 port eps adv q nm
  proof
    assume "d_public_key d \<in> pe_public_key ` set (nm_peers nm)"
    then obtain x where x: "x \<in> set (nm_peers nm)" "pe_public_key x = d_public_key d" by auto
    from that have "fresh_ctx c2 (sv_store s')" "client_poll (server_transport D c2 s') cl port eps adv q = Inr nm" by simp_all
    from poll_names [OF ok this x(1)] none x(2) show False by simp
  qed
  have "is_target target d" using rev by simp
  with refused unnamed shown get pub show ?thesis
    by (intro conjI key exI [of _ d]) blast+
qed

theorem revoke_cuts_off_witness:
  "\<exists>s' :: sso_server. \<forall>c2 port eps adv q.
     \<exists>err. client_poll (server_transport demo_deps c2 s') demo_client port eps adv q = Inl (HttpStatus 401 err)"
proof -
  have f: "fresh_ctx (demo_ctx 7) (sv_store demo_server)"
    by (rule demo_ctx_fresh)
  have key: "store_admin_key (sv_store demo_server) = ''omadmin-01''" by (simp add: demo_server_def demo3_admin)
  have "snd (remove_device (demo_env 7 5) ''10.0.0.1'' demo3) = Inr demo_dev1"
    by (simp add: remove_device_def demo3_devices is_target_def demo_dev1_def saved_result)
  then obtain st' where rm: "remove_device (demo_env 7 5) ''10.0.0.1'' demo3 = (st', Inr demo_dev1)" by (metis prod.collapse)
  have "bearer_token (demo_request\<lparr>rq_path := ''10.0.0.1'', rq_authorization := ''Bearer omadmin-01''\<rparr>) = ''omadmin-01''"
    by (simp add: bearer_token_def compute)
  then have "snd (api_request demo_deps RevokeDevice (demo_ctx 7)
      (demo_request\<lparr>rq_path := ''10.0.0.1'', rq_authorization := ''Bearer omadmin-01''\<rparr>) demo_server) = write_json 200 (PPeer (peer_view demo_dev1 7))"
    using key rm by (simp add: require_admin_def handle_revoke_device_def demo_ctx_def demo_server_def)
  then have "cmd_revoke (server_transport demo_deps (demo_ctx 7) demo_server) ''omadmin-01'' [''10.0.0.1''] demo_request = Inr (''h1'', ''10.0.0.1'')"
    by (simp add: cmd_revoke_def admin_call_def server_transport_def write_json_def peer_view_def demo_dev1_def del: api_request.simps)
  from revoke_cuts_off [OF demo_store_ok_api f this refl] obtain d where
      d: "gm_get (st_devices (sv_store demo_server)) (d_public_key d) = Some d" "is_target ''10.0.0.1'' d" and
      cut: "\<forall>cl c2 port eps adv q. cl_token cl \<noteq> [] \<and> cl_token cl \<in> {d_token d, d_prev_token d} \<longrightarrow>
        (\<exists>err. client_poll (server_transport demo_deps c2 (fst (api_request demo_deps RevokeDevice (demo_ctx 7)
          (demo_request\<lparr>rq_path := ''10.0.0.1'', rq_authorization := ''Bearer '' @ ''omadmin-01''\<rparr>) demo_server))) cl port eps adv q =
          Inl (HttpStatus 401 err))" by blast
  have "d = demo_dev1" using d by (auto simp: demo_server_def demo3_devices is_target_def demo_dev2_def split: if_splits)
  then have "cl_token demo_client \<noteq> [] \<and> cl_token demo_client \<in> {d_token d, d_prev_token d}"
    by (simp add: demo_client_def demo_dev1_def)
  with cut show ?thesis by blast
qed

section \<open>The server that is started\<close>

lemma api_inv_reach: "reach (api_step D) api_en s0 s \<Longrightarrow> api_inv D s0 \<Longrightarrow> api_inv D s"
  by (induction rule: reach.induct) (auto simp: api_step_def api_en_def intro: api_inv_step split: prod.splits)

lemma cmd_serve_result:
  assumes "cmd_serve e readable listen discovered f fs = Inr sd"
  shows "\<exists>st. open_store_cidr e readable (fl_state f) (fl_cidr f) fs = Inr (st, sd_created sd) \<and> sv_store (sd_api sd) = st \<and>
    sv_open (sd_api sd) = (fl_registration f = ''open'') \<and>
    (case sv_oidc (sd_api sd) of None \<Rightarrow> fl_oidc_issuer f = [] | Some p \<Rightarrow> fl_oidc_issuer f \<noteq> [] \<and> op_sessions p = [])"
  using assms
  by (auto simp: cmd_serve_def new_server_def set_open_registration_def enable_oidc_def Let_def
      split: if_split_asm sum.split_asm prod.split_asm)

text \<open>C5: the server that \<open>omni-server serve\<close> starts is one the properties of the API hold for. On a first start
  it has the range of the command line, and every state it goes through keeps addresses and tokens
  unique and sessions consistent; a restart on the file that a running server has written goes on with
  exactly that server's store, whatever the range given, and keeps them as well. Registration is open
  only when asked for, and single sign-on is there exactly when an issuer is given.\<close>

theorem serve_ready:
  assumes "cmd_serve e readable listen discovered f fs = Inr sd"
  shows "(load_file (fl_state f) fs = None \<longrightarrow>
      sd_created sd \<and> store_cidr (sv_store (sd_api sd)) = fl_cidr f \<and>
      (\<forall>s. reach (api_step D) api_en (sd_api sd) s \<longrightarrow> api_inv D s)) \<and>
    (\<forall>st. store_ok D st \<and> fl_state f = st_path st \<and> fs = st_fs st \<and> load_file (st_path st) (st_fs st) = Some (file_of (st_s st)) \<longrightarrow>
      \<not> sd_created sd \<and> sv_store (sd_api sd) = st \<and> (\<forall>s. reach (api_step D) api_en (sd_api sd) s \<longrightarrow> api_inv D s)) \<and>
    (sv_open (sd_api sd) \<longleftrightarrow> fl_registration f = ''open'') \<and> (sv_oidc (sd_api sd) = None \<longleftrightarrow> fl_oidc_issuer f = [])"
proof -
  obtain st where o: "open_store_cidr e readable (fl_state f) (fl_cidr f) fs = Inr (st, sd_created sd)" "sv_store (sd_api sd) = st"
    and flags: "sv_open (sd_api sd) = (fl_registration f = ''open'')"
    and oidc: "case sv_oidc (sd_api sd) of None \<Rightarrow> fl_oidc_issuer f = [] | Some p \<Rightarrow> fl_oidc_issuer f \<noteq> [] \<and> op_sessions p = []"
    using cmd_serve_result [OF assms] by blast
  have sess: "sessions_ok (sv_oidc (sd_api sd))" using oidc by (auto simp: sessions_ok_def split: option.splits)
  have run: "api_inv D s" if "store_ok D st" "reach (api_step D) api_en (sd_api sd) s" for s
    using api_inv_reach [OF that(2)] that(1) o(2) sess by (simp add: api_inv_def)
  have first: "sd_created sd \<and> store_cidr st = fl_cidr f \<and> store_ok D st" if none: "load_file (fl_state f) fs = None"
  proof -
    obtain s0 where "save_locked e s0 = (st, True)" "sf_cidr (st_s s0) = fl_cidr f" and c: "sd_created sd"
      using o(1) none by (auto simp: open_store_cidr_def empty_state_def Let_def split: if_splits prod.splits)
    then have "store_cidr st = fl_cidr f" using save_locked_state [of e s0] by (simp add: store_cidr_def)
    note c = c this
    have "open_store_cidr e readable (fl_state f) (fl_cidr f) fs = Inr (st, True)" using c(1) o(1) by simp
    with none have "first_boot st" unfolding first_boot_def by blast
    then show ?thesis using c reach.start [of "store_step (dp_lower D) (dp_hash D)"] unfolding store_ok_def by blast
  qed
  have again: "\<not> sd_created sd \<and> st = st1"
    if "store_ok D st1" "fl_state f = st_path st1" "fs = st_fs st1" "load_file (st_path st1) (st_fs st1) = Some (file_of (st_s st1))" for st1
    using o(1) that store_ok_state [OF that(1)] by (auto simp: open_store_cidr_def good_state_def Let_def split: if_splits)
  show ?thesis using first again run flags oidc o(2) by (auto split: option.splits)
qed

definition demo_flags :: serve_flags where
  "demo_flags = \<lparr>fl_state = ''s'', fl_cidr = ''10.0.0.0/29'', fl_tls_cert = [], fl_tls_key = [], fl_stun_addr = '':3478'',
     fl_relay_addr = ''off'', fl_registration = ''invite'', fl_oidc_issuer = [], fl_oidc_client_id = [],
     fl_oidc_client_secret = [], fl_public_url = [], fl_oidc_domain = [], fl_oidc_emails = []\<rparr>"

theorem serve_ready_witness:
  "\<exists>sd. cmd_serve (demo_env 0 1) True (\<lambda>_. True) False demo_flags [] = Inr sd \<and> api_inv demo_deps (sd_api sd)"
proof -
  have "open_store_cidr (demo_env 0 1) True ''s'' ''10.0.0.0/29'' [] = Inr (demo0, True)"
    by (simp add: compute open_store_cidr_def load_file_def demo0_def demo_env_def Let_def empty_state_def
        save_locked_def save_file_def)
  then obtain sd where sd: "cmd_serve (demo_env 0 1) True (\<lambda>_. True) False demo_flags [] = Inr sd"
    by (simp add: cmd_serve_def demo_flags_def Let_def)
  have "load_file (fl_state demo_flags) ([] :: state_file fs) = None" by (simp add: load_file_def)
  with serve_ready [OF sd, of demo_deps] reach.start [of "api_step demo_deps" api_en "sd_api sd"] sd show ?thesis by blast
qed

end
