(* ===== verification/Api_Types.thy ===== *)
theory Api_Types
  imports Cli_Props
begin

text \<open>
  The types of the answers. The server writes and its clients read the same JSON only by convention;
  \<open>well_typed\<close> is that convention, one line per route. The server keeps it, and so no client of the
  repository meets an answer it cannot read.
\<close>

text \<open>The shape of a body, and the status and the shape of each route's success.\<close>

datatype shape =
    ErrorT | RegisterT | NetMapT | AuthKeyT | PeersT | PeerT | KeysT
  | InfoT | AclT | ModeT | EmailT | ProfileT | InviteT | InvitesT
  | EnrollStartT | WaitingT | RedirectT | EnrolledT | NotFoundT | EmptyT

fun shape_of :: "payload \<Rightarrow> shape" where
  "shape_of (PError e) = ErrorT"
| "shape_of (PRegister x) = RegisterT"
| "shape_of (PNetMap x) = NetMapT"
| "shape_of (PAuthKey x) = AuthKeyT"
| "shape_of (PPeers x) = PeersT"
| "shape_of (PPeer x) = PeerT"
| "shape_of (PKeys x) = KeysT"
| "shape_of (PInfo x) = InfoT"
| "shape_of (PAcl x) = AclT"
| "shape_of (PMode x) = ModeT"
| "shape_of (PEmail x) = EmailT"
| "shape_of (PProfile x) = ProfileT"
| "shape_of (PInvite x) = InviteT"
| "shape_of (PInvites x) = InvitesT"
| "shape_of (PEnrollStart x y) = EnrollStartT"
| "shape_of PWaiting = WaitingT"
| "shape_of (PRedirect x) = RedirectT"
| "shape_of (PEnrolled x y z) = EnrolledT"
| "shape_of PNotFound = NotFoundT"
| "shape_of PEmpty = EmptyT"

fun success_shape :: "api_call \<Rightarrow> shape" where
  "success_shape (Register b) = RegisterT"
| "success_shape (Poll b) = NetMapT"
| "success_shape CreateAuthKey = AuthKeyT"
| "success_shape ListAuthKeys = KeysT"
| "success_shape ListDevices = PeersT"
| "success_shape RevokeDevice = PeerT"
| "success_shape (SetRoutes b) = PeerT"
| "success_shape GetAcl = AclT"
| "success_shape (SetAcl b) = AclT"
| "success_shape GetInfo = InfoT"
| "success_shape (EnrollStart b) = EnrollStartT"
| "success_shape EnrollWait = RegisterT"
| "success_shape EnrollRedirect = RedirectT"
| "success_shape OidcCallback = EnrolledT"
| "success_shape Healthz = EmptyT"
| "success_shape UserConfig = ModeT"
| "success_shape (UserRegister b) = EmailT"
| "success_shape (UserLogin b) = EmailT"
| "success_shape UserLogout = EmptyT"
| "success_shape UserMe = ProfileT"
| "success_shape UserAuthKey = AuthKeyT"
| "success_shape UserRevoke = PeerT"
| "success_shape CreateInvite = InviteT"
| "success_shape ListInvites = InvitesT"

definition success_status :: "api_call \<Rightarrow> nat" where
  "success_status call = (if call = EnrollRedirect then 302 else if call = UserLogout then 204 else 200)"

text \<open>Besides: the wait of an enrolment that is still pending, and the two pages that are not there without single
  sign-on.\<close>

definition well_typed :: "api_call \<Rightarrow> response \<Rightarrow> bool" where
  "well_typed call a \<longleftrightarrow>
     (rs_status a, shape_of (rs_body a)) \<in>
       {(success_status call, success_shape call)} \<union> {400, 401, 403, 404, 409, 500, 501, 502} \<times> {ErrorT} \<union>
       (if call = EnrollWait then {(202, WaitingT)} else {}) \<union>
       (if call \<in> {EnrollRedirect, OidcCallback} then {(404, NotFoundT)} else {})"

lemma typed_error [simp]:
  "well_typed call (write_error status e) \<longleftrightarrow> status \<in> {400, 401, 403, 404, 409, 500, 501, 502}"
  by (cases call) (auto simp: well_typed_def write_error_def write_json_def success_status_def)

lemma typed_json [simp]:
  "well_typed call (write_json status body) \<longleftrightarrow> well_typed call \<lparr>rs_status = status, rs_cookie = None, rs_body = body\<rparr>"
  by (simp add: write_json_def)

lemma typed_success [simp]:
  "success_status call = status \<Longrightarrow> success_shape call = shape_of body \<Longrightarrow>
   well_typed call \<lparr>rs_status = status, rs_cookie = k, rs_body = body\<rparr>"
  by (simp add: well_typed_def)

lemma typed_others [simp]:
  "well_typed EnrollWait \<lparr>rs_status = 202, rs_cookie = None, rs_body = PWaiting\<rparr>"
  "well_typed EnrollRedirect \<lparr>rs_status = 404, rs_cookie = None, rs_body = PNotFound\<rparr>"
  "well_typed OidcCallback \<lparr>rs_status = 404, rs_cookie = None, rs_body = PNotFound\<rparr>"
  by (simp_all add: well_typed_def)

lemma typed_cookie [simp]: "well_typed call (a\<lparr>rs_cookie := k\<rparr>) \<longleftrightarrow> well_typed call a"
  by (simp add: well_typed_def)

section \<open>The gates and the handlers\<close>

lemma typed_admin: "(\<And>s. well_typed call (snd (h c () r s))) \<Longrightarrow> well_typed call (snd (require_admin h c r s))"
  by (simp add: require_admin_def)

lemma typed_device: "(\<And>d s. well_typed call (snd (h c d r s))) \<Longrightarrow> well_typed call (snd (require_device h c r s))"
  by (simp add: require_device_def split: option.split)

lemma typed_user: "(\<And>u s. well_typed call (snd (h c u r s))) \<Longrightarrow> well_typed call (snd (require_user h c r s))"
  by (simp add: require_user_def split: option.split)

lemmas typed_handler_defs =
  handle_register_def handle_poll_def handle_create_auth_key_def handle_list_auth_keys_def handle_list_devices_def
  handle_revoke_device_def handle_set_routes_def handle_get_acl_def handle_set_acl_def handle_info_def
  handle_user_config_def handle_user_logout_def handle_user_me_def handle_user_auth_key_def handle_user_revoke_def
  handle_create_invite_def handle_list_invites_def

lemma typed_handlers:
  "well_typed (Register b) (snd (handle_register ok b c r s))"
  "well_typed (Poll b2) (snd (handle_poll b2 c d r s))"
  "well_typed CreateAuthKey (snd (handle_create_auth_key dur c i r s))"
  "well_typed ListAuthKeys (snd (handle_list_auth_keys c i r s))"
  "well_typed ListDevices (snd (handle_list_devices c i r s))"
  "well_typed RevokeDevice (snd (handle_revoke_device c i r s))"
  "well_typed (SetRoutes b3) (snd (handle_set_routes b3 c i r s))"
  "well_typed GetAcl (snd (handle_get_acl c i r s))"
  "well_typed (SetAcl b4) (snd (handle_set_acl b4 c i r s))"
  "well_typed GetInfo (snd (handle_info c i r s))"
  "well_typed UserConfig (snd (handle_user_config c r s))"
  "well_typed UserLogout (snd (handle_user_logout c r s))"
  "well_typed UserMe (snd (handle_user_me c u r s))"
  "well_typed UserAuthKey (snd (handle_user_auth_key c u r s))"
  "well_typed UserRevoke (snd (handle_user_revoke c u r s))"
  "well_typed CreateInvite (snd (handle_create_invite dur c i r s))"
  "well_typed ListInvites (snd (handle_list_invites c i r s))"
  by (simp_all add: typed_handler_defs success_status_def Let_def split_beta split: option.split sum.split store_err.split)

lemma typed_session:
  "well_typed (UserRegister b) (snd (open_session c r u s))" "well_typed (UserLogin b2) (snd (open_session c r u s))"
  by (simp_all add: open_session_def success_status_def write_json_def split_beta split: sum.split)

lemma typed_accounts:
  "well_typed (UserRegister b) (snd (handle_user_register ul gen b c r s))"
  "well_typed (UserLogin b2) (snd (handle_user_login ul cmp b2 c r s))"
  by (simp_all add: handle_user_register_def handle_user_login_def typed_session split_beta split: option.split sum.split store_err.split)

lemma typed_identify: "identify ul idp cfg code = Inl (status, f) \<Longrightarrow> status = 502 \<or> status = 403"
  by (auto simp: identify_def split: option.splits if_splits prod.splits)

lemma typed_callback: "well_typed OidcCallback (snd (handle_oidc_callback ul idp c r s))"
  by (auto simp: success_status_def handle_oidc_callback_def callback_finish_def split_beta dest: typed_identify split: option.split sum.split)

lemma typed_enrolment:
  "well_typed (EnrollStart b) (snd (handle_enroll_start ok b c s))"
  "well_typed EnrollRedirect (handle_enroll_redirect idp c r s)"
  by (simp_all add: success_status_def handle_enroll_start_def handle_enroll_redirect_def Let_def split: option.split)

text \<open>An approved session has its answer: without the invariant the wait could answer with an empty body.\<close>

lemma typed_wait: "sessions_ok (sv_oidc s) \<Longrightarrow> well_typed EnrollWait (handle_enroll_wait c r s)"
  by (auto simp: success_status_def handle_enroll_wait_def sessions_ok_def session_ok_def split: option.splits)

lemma typed_request:
  assumes "api_inv D s"
  shows "well_typed call (snd (api_request D call c r s))"
proof (cases call)
  case EnrollWait
  then show ?thesis using assms typed_wait by (simp add: api_inv_def)
qed (simp_all add: success_status_def typed_admin typed_device typed_user typed_handlers typed_accounts typed_callback typed_enrolment)

section \<open>The clients\<close>

lemma typed_body:
  assumes "well_typed call a" "rs_status a = 200" "call \<noteq> EnrollRedirect" "call \<noteq> UserLogout"
  shows "shape_of (rs_body a) = success_shape call"
  using assms by (auto simp: well_typed_def success_status_def split: if_splits)

lemma shape_cases:
  "shape_of p = RegisterT \<longleftrightarrow> (\<exists>x. p = PRegister x)" "shape_of p = NetMapT \<longleftrightarrow> (\<exists>x. p = PNetMap x)"
  "shape_of p = AuthKeyT \<longleftrightarrow> (\<exists>x. p = PAuthKey x)" "shape_of p = PeersT \<longleftrightarrow> (\<exists>x. p = PPeers x)"
  "shape_of p = PeerT \<longleftrightarrow> (\<exists>x. p = PPeer x)" "shape_of p = AclT \<longleftrightarrow> (\<exists>x. p = PAcl x)"
  "shape_of p = InviteT \<longleftrightarrow> (\<exists>x. p = PInvite x)" "shape_of p = EnrollStartT \<longleftrightarrow> (\<exists>x y. p = PEnrollStart x y)"
  by (cases p; simp)+

text \<open>What a client reads out of an answer has the shape of its route.\<close>

lemma client_do_shape:
  assumes "api_inv D s" "client_do (server_transport D c s) cl call r = Inr p" "call \<noteq> EnrollRedirect" "call \<noteq> UserLogout"
  shows "shape_of p = success_shape call"
  using assms(2) typed_body [OF typed_request [OF assms(1)] _ assms(3,4)]
  by (auto simp: client_do_def server_transport_def split: if_splits)

lemma admin_call_shape:
  assumes "api_inv D s" "admin_call (server_transport D c s) key call r = Inr p" "call \<noteq> EnrollRedirect" "call \<noteq> UserLogout"
  shows "shape_of p = success_shape call"
  using assms(2) typed_body [OF typed_request [OF assms(1)] _ assms(3,4)]
  by (auto simp: admin_call_def server_transport_def split: if_splits)

lemma client_do_error: "client_do send cl call r \<noteq> Inl BadShape"
  by (auto simp: client_do_def split: option.splits)

lemma admin_call_error: "admin_call send key call r \<noteq> Inl (Refused BadShape)"
  by (auto simp: admin_call_def split: option.splits)

lemma agent_reads:
  assumes "api_inv D s"
  shows "client_register (server_transport D c s) cl k h p r \<noteq> Inl BadShape"
    and "client_poll (server_transport D c s) cl port eps adv r \<noteq> Inl BadShape"
    and "client_enroll_start (server_transport D c s) cl h p r \<noteq> Inl BadShape"
    and "client_enroll_wait (server_transport D c s) session r \<noteq> Inl BadShape"
proof -
  note shape = client_do_shape [OF assms, of c cl] and err = client_do_error [of "server_transport D c s" cl]
  show "client_register (server_transport D c s) cl k h p r \<noteq> Inl BadShape"
    unfolding client_register_def using err by (auto dest!: shape simp: shape_cases split: sum.split)
  show "client_poll (server_transport D c s) cl port eps adv r \<noteq> Inl BadShape"
    unfolding client_poll_def using err by (auto dest!: shape simp: shape_cases split: sum.split)
  show "client_enroll_start (server_transport D c s) cl h p r \<noteq> Inl BadShape"
    unfolding client_enroll_start_def using err by (auto dest!: shape simp: shape_cases split: sum.split)
  show "client_enroll_wait (server_transport D c s) session r \<noteq> Inl BadShape"
    unfolding client_enroll_wait_def server_transport_def
    by (auto dest!: typed_body [OF typed_request [OF assms]] simp: shape_cases simp del: api_request.simps)
qed

lemma commands_read:
  assumes "api_inv D s"
  shows "cmd_genkey (server_transport D c s) key dur reusable ttl r \<noteq> Inl (Refused BadShape)"
    and "cmd_invite (server_transport D c s) key dur ttl r \<noteq> Inl (Refused BadShape)"
    and "cmd_devices (server_transport D c s) key r \<noteq> Inl (Refused BadShape)"
    and "cmd_routes (server_transport D c s) key args r \<noteq> Inl (Refused BadShape)"
    and "cmd_revoke (server_transport D c s) key args r \<noteq> Inl (Refused BadShape)"
    and "cmd_acl (server_transport D c s) key rd f r \<noteq> Inl (Refused BadShape)"
proof -
  note shape = admin_call_shape [OF assms, of c key] and err = admin_call_error [of "server_transport D c s" key]
  show "cmd_genkey (server_transport D c s) key dur reusable ttl r \<noteq> Inl (Refused BadShape)"
    unfolding cmd_genkey_def using err by (auto dest!: shape simp: shape_cases split: sum.split)
  show "cmd_invite (server_transport D c s) key dur ttl r \<noteq> Inl (Refused BadShape)"
    unfolding cmd_invite_def using err by (auto dest!: shape simp: shape_cases split: sum.split)
  show "cmd_devices (server_transport D c s) key r \<noteq> Inl (Refused BadShape)"
    unfolding cmd_devices_def using err by (auto dest!: shape simp: shape_cases split: sum.split)
  show "cmd_routes (server_transport D c s) key args r \<noteq> Inl (Refused BadShape)"
    unfolding cmd_routes_def Let_def using err by (auto dest!: shape simp: shape_cases split: sum.split list.split)
  show "cmd_revoke (server_transport D c s) key args r \<noteq> Inl (Refused BadShape)"
    unfolding cmd_revoke_def using err by (auto dest!: shape simp: shape_cases split: sum.split list.split)
  show "cmd_acl (server_transport D c s) key rd f r \<noteq> Inl (Refused BadShape)"
    unfolding cmd_acl_def using err by (auto dest!: shape simp: shape_cases split: sum.split option.split)
qed



end
