(* ===== verification/Endpoints_Spec.thy ===== *)
theory Endpoints_Spec
  imports Endpoints_Props
begin

text \<open>
  The endpoint manager of \<open>internal/agent/endpoints.go\<close> as what it is for each peer by itself: a path, direct or
  through the relay, with the number of rounds since it last worked. The manager's maps, lists and
  loops refine this machine, and no peer's path depends on another's.
\<close>

section \<open>The path of one peer\<close>

datatype peer_path = OnDirect nat | OnRelay nat

text \<open>A round: \<open>fresh\<close> is a recent handshake, \<open>relay\<close> an answering relay, \<open>accepts\<close> the engine's answer.\<close>

fun path_round :: "bool \<Rightarrow> bool \<Rightarrow> bool \<Rightarrow> peer_path \<Rightarrow> peer_path" where
  "path_round True relay accepts (OnDirect n) = OnDirect 0"
| "path_round True relay accepts (OnRelay n) = OnRelay n"
| "path_round False relay accepts (OnRelay n) = OnRelay (Suc n)"
| "path_round False relay accepts (OnDirect n) =
     (if relay \<and> accepts \<and> relay_after_rounds \<le> n then OnRelay (Suc n) else OnDirect (Suc n))"

text \<open>A pong to a probe of this peer.\<close>

fun path_pong :: "bool \<Rightarrow> bool \<Rightarrow> peer_path \<Rightarrow> peer_path" where
  "path_pong fresh accepts (OnDirect n) = (if accepts \<and> \<not> fresh then OnDirect 0 else OnDirect n)"
| "path_pong fresh accepts (OnRelay n) = (if accepts then OnDirect 0 else OnRelay n)"

section \<open>The abstraction\<close>

definition path_of :: "endpoint_manager \<Rightarrow> string \<Rightarrow> peer_path" where
  "path_of m pub = (if pub \<in> set (em_on_relay m) then OnRelay (rounds m pub) else OnDirect (rounds m pub))"

lemma observed_peers: "gm_get (fold (\<lambda>p. gm_put (pe_public_key p) (candidates_of p)) ps M) pub \<noteq> None \<longleftrightarrow>
    pub \<in> pe_public_key ` set ps \<or> gm_get M pub \<noteq> None"
  by (induction ps arbitrary: M) (auto simp: gm_get_put)

lemma path_of_observe:
  assumes "em_inv m"
  shows "path_of (observe ps m) pub = (if pub \<in> pe_public_key ` set ps then path_of m pub else OnDirect 0)"
proof -
  let ?peers = "fold (\<lambda>p. gm_put (pe_public_key p) (candidates_of p)) ps []"
  have in_map: "gm_get ?peers q \<noteq> None \<longleftrightarrow> q \<in> pe_public_key ` set ps" for q using observed_peers [of ps "[]" q] by simp
  have "gm_ok (em_disconnected m)" using assms by (simp add: em_inv_def)
  from gm_get_filter [OF this, of "\<lambda>(pub, n). gm_get ?peers pub \<noteq> None" pub]
  have "rounds (observe ps m) pub = (if pub \<in> pe_public_key ` set ps then rounds m pub else 0)"
    using in_map [of pub] by (auto simp: observe_def Let_def rounds_def split: option.splits)
  then show ?thesis using in_map [of pub] by (auto simp: path_of_def observe_def Let_def)
qed

lemma path_of_probe:
  assumes "em_inv m"
  shows "path_of (fst (probe now (Some hs) set_ep ids m)) pub =
    (if pub \<in> fst ` set (em_peers m)
     then path_round (fresh_handshake now hs pub) (em_relay_ok m) (set_ep pub (endpoint_string pub)) (path_of m pub)
     else path_of m pub)"
proof -
  obtain m' eps sends where p: "probe now (Some hs) set_ep ids m = (m', eps, sends)" by (metis prod_cases3)
  have ok: "gm_ok (em_peers m)" using assms by (simp add: em_inv_def)
  note r = probe_result [OF p ok]
  show ?thesis
    by (cases "fresh_handshake now hs pub") (auto simp: p path_of_def r(2,3) relayed_def new_rounds_def)
qed

lemma path_of_pong:
  "path_of (fst (on_pong now hs set_ep i src m)) pub =
    (case gm_get (em_pending m) i of
       None \<Rightarrow> path_of m pub
     | Some pr \<Rightarrow>
         if pp_public_key pr = pub
         then path_pong (case hs of None \<Rightarrow> False | Some h \<Rightarrow> fresh_handshake now h pub) (set_ep pub (show_addrport src)) (path_of m pub)
         else path_of m pub)"
  by (auto simp: on_pong_def path_of_def Let_def rounds_def gm_get_put split: option.splits)

section \<open>The refinement\<close>

text \<open>C15: the manager refines one path per peer. In every state it can reach, the path of a peer is moved by a
  network map, a round or a pong as the machine of that peer alone says: forgotten when the peer leaves
  the map, one round on when it is in the map, direct again with a pong to one of its own probes, and
  untouched by everything else, whatever happens to the other peers in the same call.\<close>

theorem manager_refines:
  assumes "reach em_step (\<lambda>_ _. True) new_manager m"
  shows "path_of new_manager pub = OnDirect 0 \<and>
    path_of (set_relay_available ok m) pub = path_of m pub \<and>
    path_of (observe ps m) pub = (if pub \<in> pe_public_key ` set ps then path_of m pub else OnDirect 0) \<and>
    path_of (fst (probe now None set_ep ids m)) pub = path_of m pub \<and>
    path_of (fst (probe now (Some hs) set_ep ids m)) pub =
      (if pub \<in> fst ` set (em_peers m)
       then path_round (fresh_handshake now hs pub) (em_relay_ok m) (set_ep pub (endpoint_string pub)) (path_of m pub)
       else path_of m pub) \<and>
    path_of (fst (on_pong now hs' set_ep i src m)) pub =
      (case gm_get (em_pending m) i of
         None \<Rightarrow> path_of m pub
       | Some pr \<Rightarrow>
           if pp_public_key pr = pub
           then path_pong (case hs' of None \<Rightarrow> False | Some h \<Rightarrow> fresh_handshake now h pub) (set_ep pub (show_addrport src)) (path_of m pub)
           else path_of m pub)"
proof -
  have inv: "em_inv m" using manager.reach_inv [OF assms] by simp
  have "path_of new_manager pub = OnDirect 0" "path_of (set_relay_available ok m) pub = path_of m pub"
    "path_of (fst (probe now None set_ep ids m)) pub = path_of m pub"
    by (simp_all add: path_of_def new_manager_def set_relay_available_def rounds_def probe_def)
  with path_of_observe [OF inv] path_of_probe [OF inv] path_of_pong show ?thesis by blast
qed

theorem manager_refines_witness:
  "path_of (fst (probe 7 (Some []) (\<lambda>_ _. True) [] demo_manager)) demo_pub1 = OnDirect 1"
proof -
  have "path_of (fst (probe 7 (Some []) (\<lambda>_ _. True) [] demo_manager)) demo_pub1 =
      (if demo_pub1 \<in> fst ` set (em_peers demo_manager)
       then path_round (fresh_handshake 7 [] demo_pub1) (em_relay_ok demo_manager) True (path_of demo_manager demo_pub1)
       else path_of demo_manager demo_pub1)"
    using manager_refines [OF demo_manager_start, of demo_pub1 True "[]" 7 "\<lambda>_ _. True" "[]" "[]" None "[]" undefined] by blast
  moreover have "path_of demo_manager demo_pub1 = OnDirect 0"
    by (simp add: path_of_def demo_manager rounds_def) (simp add: demo_manager_def set_relay_available_def observe_def new_manager_def Let_def)
  ultimately show ?thesis by (simp add: demo_manager fresh_handshake_def relay_after_rounds_def)
qed

end
