(* ===== verification/Agent_Life.thy ===== *)
theory Agent_Life
  imports Agent_Props
begin

text \<open>
  The agent over its whole life, \<open>Up\<close> of \<open>internal/agent/agent.go\<close>: from the start, through any cycles and
  datagrams in between, to the next start; its enrolment with the server; and the end of an enrolment
  through the browser.
\<close>

section \<open>The identity\<close>

text \<open>What a machine is, apart from its token and the name of its interface.\<close>

definition identity :: "agent_state \<Rightarrow> string \<times> string \<times> string \<times> string \<times> string \<times> nat" where
  "identity st = (as_server_url st, as_private_key st, as_device_id st, as_ip st, as_cidr st, as_listen_port st)"

lemma identity_update [simp]: "identity (st\<lparr>as_device_token := t\<rparr>) = identity st" "identity (st\<lparr>as_iface := i\<rparr>) = identity st"
  by (simp_all add: identity_def)

definition holds :: "string \<Rightarrow> agent_state fs \<Rightarrow> agent_state \<Rightarrow> bool" where
  "holds path fs st0 \<longleftrightarrow>
     (\<exists>st. load_file path fs = Some \<lparr>f_content = Some st, f_mode = private_mode\<rparr> \<and> identity st = identity st0)"

lemma holds_cong: "identity st = identity st' \<Longrightarrow> holds path fs st \<longleftrightarrow> holds path fs st'"
  by (simp add: holds_def)

lemma holds_save:
  assumes "holds path fs st0" "identity st = identity st0"
  shows "holds path (fst (state_save path tmp st flt fs)) st0"
proof -
  have "load_file path (fst (save_file path tmp st flt fs)) \<in> {load_file path fs, Some \<lparr>f_content = Some st, f_mode = private_mode\<rparr>}"
    by (rule saver.save_old_or_new)
  with assms show ?thesis by (auto simp: holds_def state_save_def)
qed

lemma holds_load: "holds path fs st0 \<Longrightarrow> \<exists>st. load_state path True fs = Inr (Some st) \<and> identity st = identity st0"
  by (auto simp: holds_def load_state_def)

text \<open>Nobody else reads the file: what the start assumes of one it finds.\<close>

definition private_file :: "string \<Rightarrow> 'c fs \<Rightarrow> bool" where
  "private_file path fs \<longleftrightarrow> (case load_file path fs of None \<Rightarrow> True | Some f \<Rightarrow> f_mode f = private_mode)"

section \<open>The start\<close>

lemma first_contact_result:
  assumes "first_contact u opts fs = (fs1, Inr st)"
  obtains priv reg where "ao_server_url opts \<noteq> []" "up_new_key u = Some priv"
    "st = enrolled_state opts (new_client (ao_server_url opts) []) (wk_string (up_keys u) priv) reg"
    "load_file (ao_state_path opts) fs1 = Some \<lparr>f_content = Some st, f_mode = private_mode\<rparr>"
    "ao_auth_key opts \<noteq> [] \<Longrightarrow> client_register (up_send u) (new_client (ao_server_url opts) []) (ao_auth_key opts)
       (ao_hostname opts) (wk_string (up_keys u) (up_public u priv)) (up_request u) = Inr reg"
  using assms
  by (fastforce simp: first_contact_def state_save_def Let_def split: if_splits option.splits sum.splits prod.splits
      dest: load_save_ok)

lemma load_or_enroll_holds:
  assumes "load_or_enroll u opts fs = (fs1, Inr st)" "private_file (ao_state_path opts) fs"
  shows "load_file (ao_state_path opts) fs1 = Some \<lparr>f_content = Some st, f_mode = private_mode\<rparr>"
proof (cases "load_state (ao_state_path opts) (up_readable u) fs")
  case (Inr r)
  show ?thesis
  proof (cases r)
    case None
    with Inr assms(1) have "first_contact u opts fs = (fs1, Inr st)" by (simp add: load_or_enroll_def)
    then show ?thesis by (rule first_contact_result)
  next
    case (Some st')
    with Inr assms show ?thesis
      by (auto simp: load_or_enroll_def load_state_def private_file_def split: option.splits if_splits)
  qed
qed (use assms in \<open>simp add: load_or_enroll_def\<close>)

lemma start_agent_renamed:
  assumes "start_agent u opts fs st = (fs1, Inr a)"
  shows "\<exists>real. rename_iface u opts real st fs = (ag_state a, fs1) \<and> ag_disk a = fs1 \<and> ag_options a = opts \<and>
    cl_token (ag_client a) = as_device_token (ag_state a) \<and> ag_installed a = []"
  using assms
  by (auto simp: start_agent_def new_client_def Let_def split: option.split_asm prod.split_asm if_split_asm sum.split_asm)

lemma rename_iface_sel:
  "rename_iface u opts real st fs = (st1, fs1) \<Longrightarrow> identity st1 = identity st \<and> as_device_token st1 = as_device_token st"
  by (auto simp: rename_iface_def Let_def split: if_splits)

lemma holds_rename: "holds (ao_state_path opts) fs st \<Longrightarrow> rename_iface u opts real st fs = (st1, fs1) \<Longrightarrow> holds (ao_state_path opts) fs1 st"
  by (auto simp: rename_iface_def Let_def holds_save split: if_splits)

lemma up_start_result:
  assumes "up_start u opts fs = (fs1, Inr a)" "private_file (ao_state_path opts) fs"
  shows "ag_options a = opts" "cl_token (ag_client a) = as_device_token (ag_state a)" "ag_installed a = []"
    "holds (ao_state_path opts) (ag_disk a) (ag_state a)"
proof -
  obtain fs0 st where l: "load_or_enroll u opts fs = (fs0, Inr st)" "start_agent u opts fs0 st = (fs1, Inr a)"
    using assms(1) by (auto simp: up_start_def split: prod.splits sum.splits)
  obtain real where r: "rename_iface u opts real st fs0 = (ag_state a, fs1)" "ag_disk a = fs1"
    "ag_options a = opts \<and> cl_token (ag_client a) = as_device_token (ag_state a) \<and> ag_installed a = []"
    using start_agent_renamed [OF l(2)] by blast
  have "holds (ao_state_path opts) fs0 st" using load_or_enroll_holds [OF l(1) assms(2)] by (simp add: holds_def)
  then show "holds (ao_state_path opts) (ag_disk a) (ag_state a)"
    using holds_rename [OF _ r(1)] rename_iface_sel [OF r(1)] holds_cong r(2) by metis
  show "ag_options a = opts" "cl_token (ag_client a) = as_device_token (ag_state a)" "ag_installed a = []" using r(3) by simp_all
qed

section \<open>The machine\<close>

definition agent_inv :: "options \<Rightarrow> agent_state \<Rightarrow> agent \<Rightarrow> bool" where
  "agent_inv opts st0 a \<longleftrightarrow>
     ag_options a = opts \<and> cl_token (ag_client a) = as_device_token (ag_state a) \<and> identity (ag_state a) = identity st0 \<and>
     holds (ao_state_path opts) (ag_disk a) st0 \<and> (ao_accept_routes opts \<or> ag_installed a = [])"

lemma take_token_inv: "agent_inv opts st0 a \<Longrightarrow> agent_inv opts st0 (take_token e nm a)"
  unfolding agent_inv_def take_token_def by (simp add: Let_def holds_save)

lemma apply_map_installed: "\<not> ao_accept_routes (ag_options a) \<Longrightarrow> ag_installed (fst (apply_map e nm a)) = ag_installed a"
  by (simp add: apply_map_def Let_def split: prod.split)

lemma apply_map_inv: "agent_inv opts st0 a \<Longrightarrow> agent_inv opts st0 (fst (apply_map e nm a))"
  unfolding agent_inv_def apply_map_sel using apply_map_installed [of a e nm] by metis

lemma agent_inv_step:
  assumes "agent_inv opts st0 a"
  shows "agent_inv opts st0 (agent_step ev a)"
proof (cases ev)
  case (Cycle e)
  let ?a1 = "refresh_endpoints e (refresh_relay e a)"
  have 1: "agent_inv opts st0 ?a1" using assms unfolding agent_inv_def refreshed_sel by auto
  show ?thesis
  proof (cases rule: sync_cycle_cases [of e a])
    case (failed err)
    with 1 Cycle show ?thesis by simp
  next
    case (polled nm)
    with apply_map_inv [OF take_token_inv [OF 1]] Cycle show ?thesis by simp
  qed
next
  case (Packet cv hs set_ep d)
  show ?thesis
  proof (cases "agent_packet cv hs set_ep d a")
    case (Done a')
    with assms Packet show ?thesis unfolding agent_inv_def using packet_sel [OF Done] by simp
  qed (use assms Packet in simp_all)
qed

interpretation agent_machine: invariant_machine
  "\<lambda>a. \<exists>u fs fs1. up_start u opts fs = (fs1, Inr a) \<and> private_file (ao_state_path opts) fs \<and> identity (ag_state a) = identity st0"
  agent_step agent_en "agent_inv opts st0" for opts st0
proof unfold_locales
  fix a
  assume "\<exists>u fs fs1. up_start u opts fs = (fs1, Inr a) \<and> private_file (ao_state_path opts) fs \<and> identity (ag_state a) = identity st0"
  then show "agent_inv opts st0 a"
    using up_start_result holds_cong unfolding agent_inv_def by (metis (no_types))
qed (rule agent_inv_step)

section \<open>Properties\<close>

text \<open>C8: the identity survives. After a start that succeeds, through any cycles and datagrams and whatever
  fails in them, the client uses the token of the state in memory, the identity (server, private key,
  address) is that of the start, and the file, readable only by its owner, holds the same identity
  with some token: so the next start reads it and never asks the server to enrol again. No system
  route is installed unless routes are accepted.\<close>

theorem agent_identity:
  assumes "up_start u opts fs = (fs1, Inr a0)" "private_file (ao_state_path opts) fs" "reach agent_step agent_en a0 a"
  shows "cl_token (ag_client a) = as_device_token (ag_state a) \<and> identity (ag_state a) = identity (ag_state a0) \<and>
    (\<exists>st. load_file (ao_state_path opts) (ag_disk a) = Some \<lparr>f_content = Some st, f_mode = private_mode\<rparr> \<and>
      identity st = identity (ag_state a) \<and>
      (\<forall>u2 opts2. up_readable u2 \<and> ao_state_path opts2 = ao_state_path opts \<longrightarrow>
        load_or_enroll u2 opts2 (ag_disk a) = (ag_disk a, Inr st))) \<and>
    (\<not> ao_accept_routes opts \<longrightarrow> ag_installed a = [])"
proof -
  have inv: "agent_inv opts (ag_state a0) a" using assms(1,2) by (intro agent_machine.reach_inv [OF assms(3)]) blast
  then obtain st where st: "load_file (ao_state_path opts) (ag_disk a) = Some \<lparr>f_content = Some st, f_mode = private_mode\<rparr>"
      "identity st = identity (ag_state a)"
    by (auto simp: agent_inv_def holds_def)
  then have "load_or_enroll u2 opts2 (ag_disk a) = (ag_disk a, Inr st)"
    if "up_readable u2 \<and> ao_state_path opts2 = ao_state_path opts" for u2 opts2
    using that by (simp add: load_or_enroll_def load_state_def)
  with inv st show ?thesis unfolding agent_inv_def by blast
qed

lemma register_present:
  assumes "register_device e key host pub st = (st', Inr d)"
  shows "gm_get (st_devices st') pub = Some d"
proof (cases "gm_get (st_devices st) pub")
  case (Some x)
  with assms show ?thesis
    by (auto simp: register_device_def Let_def saved_def split_beta set_device_def gm_get_put split: if_splits)
next
  case None
  from assms None obtain k where k: "find (key_usable (e_now e) key) (sf_auth_keys (st_s st)) = Some k"
    by (auto simp: register_device_def split: option.splits)
  with assms None obtain st1 d1 where c: "create_device e host pub (k_owner k) st = Inr (st1, d1)"
    by (auto simp: register_device_def split: sum.splits)
  let ?st2 = "upd (sf_auth_keys_update (update_first (key_usable (e_now e) key) (k_used_update (\<lambda>_. True)))) st1"
  have "(st', Inr d) = saved e ?st2 d1" using assms None k c by (simp add: register_device_def)
  then have "st_devices st' = st_devices st1" "d = d1" by (auto simp: saved_def split_beta split: if_splits)
  with create_device_form(1) [OF c(1)] show ?thesis by (auto simp: set_device_def gm_get_put)
qed

text \<open>C6: an enrolment, agent and server together. When a machine without a file starts with an enrolment key
  and gets through, the server knows the public half of the key it has just made, under the token and
  the address that the agent has written to its file with the private half; and every request with
  that token is recognised as this machine's.\<close>

theorem agent_enrolled:
  assumes "store_ok D (sv_store s)" "fresh_ctx c (sv_store s)" "up_send u = server_transport D c s"
    and "load_state (ao_state_path opts) (up_readable u) fs = Inr None" "ao_auth_key opts \<noteq> []"
    and "load_or_enroll u opts fs = (fs1, Inr st)" "up_new_key u = Some priv"
    and "pub = wk_string (up_keys u) (up_public u priv)"
    and "s' = fst (api_request D (Register (Some \<lparr>rr_auth_key = ao_auth_key opts, rr_hostname = ao_hostname opts,
        rr_public_key = pub\<rparr>)) c (with_token (new_client (ao_server_url opts) []) (up_request u)) s)"
  shows "as_private_key st = wk_string (up_keys u) priv \<and>
    load_file (ao_state_path opts) fs1 = Some \<lparr>f_content = Some st, f_mode = private_mode\<rparr> \<and>
    (\<exists>d. gm_get (st_devices (sv_store s')) pub = Some d \<and> d_token d = as_device_token st \<and> d_ip d = as_ip st \<and>
      (\<forall>now. device_by_token now (as_device_token st) (sv_store s') = Some d))"
proof -
  let ?req = "\<lparr>rr_auth_key = ao_auth_key opts, rr_hostname = ao_hostname opts, rr_public_key = pub\<rparr>"
  let ?c = "new_client (ao_server_url opts) []" and ?srv = "server.truncate s"
  let ?r = "with_token ?c (up_request u)"
  have "first_contact u opts fs = (fs1, Inr st)" using assms(4,6) by (simp add: load_or_enroll_def)
  then obtain reg where st: "st = enrolled_state opts ?c (wk_string (up_keys u) priv) reg"
      "load_file (ao_state_path opts) fs1 = Some \<lparr>f_content = Some st, f_mode = private_mode\<rparr>"
      "client_register (up_send u) ?c (ao_auth_key opts) (ao_hostname opts) pub (up_request u) = Inr reg"
    using assms(5,7,8) by (elim first_contact_result) auto
  let ?h = "handle_register (dp_key_ok D) (Some ?req) c ?r ?srv"
  have ans: "rs_status (snd ?h) = 200" "rs_body (snd ?h) = PRegister reg"
    using st(3) by (auto simp: client_register_def client_do_def assms(3) server_transport_def split: if_splits payload.splits)
  obtain st2 res where rd: "register_device (c_env1 c) (ao_auth_key opts)
      (if ao_hostname opts = [] then default_hostname else ao_hostname opts) pub (sv_store s) = (st2, res)" by fastforce
  from ans rd obtain d where d: "res = Inr d" "ra_device_token reg = d_token d" "ra_ip reg = d_ip d" "sv_store (fst ?h) = st2"
    by (cases res; cases "projl res") (auto simp: handle_register_def Let_def write_error_def write_json_def split: if_splits)
  have s': "sv_store s' = st2" unfolding assms(9) using d(4) by simp
  have get: "gm_get (st_devices st2) pub = Some d" using register_present rd d(1) by blast
  have "store_ok D (sv_store (fst ?h))" by (rule store_ok_public) (simp_all add: assms(1,2))
  then have good: "good_state (st_s st2)" unfolding d(4) using store_reach_good by (auto simp: store_ok_def)
  have "device_ok (sf_cidr (st_s st2)) pub d" using good_devs [OF good] get by (rule devs_okD)
  then have "device_by_token now (d_token d) st2 = Some d" for now
    using device_by_token_iff [OF devs_okD(1,5) [OF good_devs [OF good]]] get by (auto simp: token_matches_def device_ok_def)
  with get s' st d show ?thesis by (simp add: enrolled_state_def)
qed

section \<open>The witnesses\<close>

definition demo_up :: "transport \<Rightarrow> up_env" where
  "demo_up send = \<lparr>up_readable = True, up_new_key = Some [1], up_public = (\<lambda>k. [2]),
     up_keys = \<lparr>wk_parse = (\<lambda>s. if s = ''sk1'' then Some [1] else None), wk_string = (\<lambda>k. if k = [1] then ''sk1'' else ''pk1'')\<rparr>,
     up_send = send, up_request = demo_request, up_ticks = [], up_tmp = ''t'', up_fault = None, up_fault2 = None,
     up_tun = (\<lambda>n m. Some None), up_ipc = (\<lambda>_. True), up_listen = Some 51820, up_addr_ok = (\<lambda>_ _. True),
     up_url_host = (\<lambda>_. None), up_resolve = (\<lambda>_. None), up_curve = xor_curve, up_exit_ok = False, up_lower = (\<lambda>s. s)\<rparr>"

definition demo_identity :: agent_state where
  "demo_identity = \<lparr>as_server_url = ''http://s'', as_private_key = ''sk1'', as_device_id = ''03'', as_device_token = ''omtok-03'',
     as_ip = ''10.0.0.1'', as_cidr = ''10.0.0.0/29'', as_iface = ''omni0'', as_listen_port = 51820\<rparr>"

definition demo_disk :: "agent_state fs" where
  "demo_disk = [(Target ''omnid.json'', \<lparr>f_content = Some demo_identity, f_mode = private_mode\<rparr>)]"

lemma demo_started:
  obtains a where "up_start (demo_up send) demo_options demo_disk = (demo_disk, Inr a)" "identity (ag_state a) = identity demo_identity"
proof -
  have "load_or_enroll (demo_up send) demo_options demo_disk = (demo_disk, Inr demo_identity)"
    by (simp add: load_or_enroll_def load_state_def demo_disk_def demo_options_def demo_up_def load_file_def)
  moreover have "set_address ''10.0.0.1'' ''10.0.0.0/29'' \<noteq> None" by (simp add: set_address_def compute)
  ultimately have "\<exists>a. up_start (demo_up send) demo_options demo_disk = (demo_disk, Inr a) \<and> ag_state a = demo_identity"
    by (auto simp: up_start_def start_agent_def demo_up_def demo_identity_def start_device_def open_bind_def new_bind_def
        rename_iface_def use_relay_def demo_options_def advertised_routes_def split: option.splits prod.splits)
  then show thesis using that by auto
qed

theorem agent_identity_witness:
  "\<exists>(a :: agent) st. load_file ''omnid.json'' (ag_disk a) = Some \<lparr>f_content = Some st, f_mode = private_mode\<rparr> \<and>
     identity st = identity demo_identity"
proof -
  obtain a where a: "up_start (demo_up (\<lambda>_ _. None)) demo_options demo_disk = (demo_disk, Inr a)" "identity (ag_state a) = identity demo_identity"
    by (rule demo_started)
  have pf: "private_file (ao_state_path demo_options) demo_disk"
    by (simp add: private_file_def demo_disk_def demo_options_def load_file_def)
  have en: "agent_en (Cycle (demo_cycle (\<lambda>_ _. None))) a" by simp
  let ?b = "agent_step (Cycle (demo_cycle (\<lambda>_ _. None))) a"
  obtain st where st: "load_file (ao_state_path demo_options) (ag_disk ?b) = Some \<lparr>f_content = Some st, f_mode = private_mode\<rparr>"
      "identity st = identity (ag_state ?b)" and i: "identity (ag_state ?b) = identity (ag_state a)"
    using agent_identity [OF a(1) pf next_step [where en = agent_en, OF start en]] by (elim conjE exE)
  have "ao_state_path demo_options = ''omnid.json''" by (simp add: demo_options_def)
  with st i a(2) have "load_file ''omnid.json'' (ag_disk ?b) = Some \<lparr>f_content = Some st, f_mode = private_mode\<rparr> \<and>
      identity st = identity demo_identity" by metis
  then show ?thesis by (intro exI)
qed

definition demo_new_server :: sso_server where
  "demo_new_server = \<lparr>sv_store = demo1, sv_open = False, sv_oidc = None\<rparr>"

definition demo_ctx1 :: hctx where
  "demo_ctx1 = \<lparr>c_gate = 2, c_env1 = demo_env 2 3, c_env2 = demo_env 2 4, c_now = 2\<rparr>"

theorem agent_enrolled_witness:
  "\<exists>fs1 st (s' :: sso_server) d. load_or_enroll (demo_up (server_transport demo_deps demo_ctx1 demo_new_server)) demo_options [] = (fs1, Inr st) \<and>
     gm_get (st_devices (sv_store s')) ''pk1'' = Some d \<and> d_token d = as_device_token st"
proof -
  let ?u = "demo_up (server_transport demo_deps demo_ctx1 demo_new_server)"
  have ok: "store_ok demo_deps (sv_store demo_new_server)" "fresh_ctx demo_ctx1 (sv_store demo_new_server)"
    using demo_reach(1) demo0_boot unfolding store_ok_def
    by (auto simp: demo_new_server_def fresh_ctx_def demo_ctx1_def fresh_def demo1_state empty_state_def)
  have "snd (api_request demo_deps (Register (Some \<lparr>rr_auth_key = ''omkey-02'', rr_hostname = ''h1'', rr_public_key = ''pk1''\<rparr>))
      demo_ctx1 r demo_new_server) = write_json 200 (PRegister \<lparr>ra_device_id = ''03'', ra_device_token = ''omtok-03'', ra_ip = ''10.0.0.1'',
        ra_cidr = store_cidr demo2\<rparr>)" for r
    by (simp add: handle_register_def demo_ctx1_def demo_new_server_def demo_deps_def demo2_run demo_dev1_def)
  then have "client_register (up_send ?u) (new_client ''http://s/'' []) ''omkey-02'' ''h1'' ''pk1'' demo_request =
      Inr \<lparr>ra_device_id = ''03'', ra_device_token = ''omtok-03'', ra_ip = ''10.0.0.1'', ra_cidr = store_cidr demo2\<rparr>"
    by (simp add: client_register_def client_do_def demo_up_def server_transport_def write_json_def del: api_request.simps)
  then obtain fs1 st where l: "load_or_enroll ?u demo_options [] = (fs1, Inr st)"
    by (auto simp: load_or_enroll_def load_state_def load_file_def first_contact_def demo_options_def demo_up_def Let_def
        state_save_def save_file_def)
  have e: "load_state (ao_state_path demo_options) (up_readable ?u) [] = Inr None" "ao_auth_key demo_options \<noteq> []"
    "up_send ?u = server_transport demo_deps demo_ctx1 demo_new_server" "up_new_key ?u = Some [1]"
    "wk_string (up_keys ?u) (up_public ?u [1]) = ''pk1''"
    by (simp_all add: load_state_def load_file_def demo_options_def demo_up_def)
  obtain d where d: "gm_get (st_devices (sv_store (fst (api_request demo_deps (Register (Some
      \<lparr>rr_auth_key = ao_auth_key demo_options, rr_hostname = ao_hostname demo_options, rr_public_key = ''pk1''\<rparr>)) demo_ctx1
      (with_token (new_client (ao_server_url demo_options) []) (up_request ?u)) demo_new_server)))) ''pk1'' = Some d"
      "d_token d = as_device_token st"
    using agent_enrolled [OF ok e(3,1,2) l e(4) e(5) [symmetric] refl] by (elim conjE exE)
  show ?thesis by (rule exI [of _ fs1], rule exI [of _ st], rule exI, rule exI [of _ d], rule conjI, rule l, rule conjI, rule d(1), rule d(2))
qed

end
