(* ===== verification/Agent_Enrol.thy ===== *)
theory Agent_Enrol
  imports Agent_Life
begin

text \<open>
  Enrolment through the browser, \<open>enrollSSO\<close> of \<open>internal/agent/agent.go\<close> against \<open>handleEnrollWait\<close> of
  \<open>internal/control/oidc.go\<close>: when the agent's loop ends, and with what.
\<close>

section \<open>One probe\<close>

text \<open>What the server answers to a probe of a session, as the client reads it.\<close>

definition enroll_answer :: "time \<Rightarrow> enroll_session option \<Rightarrow> client_error + register_response option" where
  "enroll_answer now out =
     (case out of
        None \<Rightarrow> Inl (HttpStatus 404 (rs_body (write_error 404 EnrollUnknown)))
      | Some e \<Rightarrow>
          if \<not> enroll_live now e then Inl (HttpStatus 404 (rs_body (write_error 404 EnrollUnknown)))
          else case en_failure e of
            Some f \<Rightarrow> Inl (HttpStatus 403 (rs_body (write_error 403 (EnrollFailed f))))
          | None \<Rightarrow>
              if \<not> en_approved e then Inr None
              else case en_result e of None \<Rightarrow> Inl BadShape | Some reg \<Rightarrow> Inr (Some reg))"

lemma enroll_wait_answer:
  assumes "sv_oidc s = Some p"
  shows "client_enroll_wait (server_transport D c s) session r = enroll_answer (c_now c) (gm_get (op_sessions p) session)"
  using assms
  by (simp add: client_enroll_wait_def server_transport_def handle_enroll_wait_def enroll_answer_def write_error_def
      write_json_def split: option.split)

lemma enroll_loop_pending:
  "(\<And>send r. (send, r) \<in> set ts \<Longrightarrow> client_enroll_wait send session r = Inr None) \<Longrightarrow>
   enroll_loop session (ts @ us) = enroll_loop session us"
  by (induction ts) auto

lemma enroll_loop_ends: "enroll_loop session us \<noteq> None \<Longrightarrow> enroll_loop session (ts @ us) \<noteq> None"
  by (induction ts) (auto split: sum.split option.split)

text \<open>C28: an enrolment through the browser ends. The agent probes as long as the session is open and
  undecided, and its first other answer is the result: the machine's registration when the user was
  accepted, the refusal when he was not. And it cannot wait for ever: the first probe that reaches the
  server more than 15 minutes after the session was opened ends it, whatever came before.\<close>

theorem enroll_terminates:
  assumes "sv_oidc s = Some p" "gm_get (op_sessions p) session = Some e"
  shows "((\<forall>t \<in> set before. case t of (send, q) \<Rightarrow> client_enroll_wait send session q = Inr None) \<longrightarrow>
      enroll_loop session (before @ (server_transport D c s, r) # after) =
        (if c_now c - en_created e > 15 * minute then Some (Inl (HttpStatus 404 (rs_body (write_error 404 EnrollUnknown))))
         else case en_failure e of
           Some f \<Rightarrow> Some (Inl (HttpStatus 403 (rs_body (write_error 403 (EnrollFailed f)))))
         | None \<Rightarrow>
             if \<not> en_approved e then enroll_loop session after
             else case en_result e of None \<Rightarrow> Some (Inl BadShape) | Some reg \<Rightarrow> Some (Inr reg))) \<and>
    (c_now c - en_created e > 15 * minute \<longrightarrow>
      enroll_loop session (before @ (server_transport D c s, r) # after) \<noteq> None)"
proof -
  have live: "enroll_live (c_now c) e \<longleftrightarrow> c_now c - en_created e \<le> 15 * minute"
    by (auto simp: enroll_live_def enroll_ttl_def time_sub_def duration_defs)
  have w: "client_enroll_wait (server_transport D c s) session r = enroll_answer (c_now c) (Some e)"
    by (simp add: enroll_wait_answer [OF assms(1)] assms(2))
  have one: "enroll_loop session ((server_transport D c s, r) # after) =
        (if c_now c - en_created e > 15 * minute then Some (Inl (HttpStatus 404 (rs_body (write_error 404 EnrollUnknown))))
         else case en_failure e of
           Some f \<Rightarrow> Some (Inl (HttpStatus 403 (rs_body (write_error 403 (EnrollFailed f)))))
         | None \<Rightarrow>
             if \<not> en_approved e then enroll_loop session after
             else case en_result e of None \<Rightarrow> Some (Inl BadShape) | Some reg \<Rightarrow> Some (Inr reg))"
    by (simp add: w enroll_answer_def live split: option.split)
  show ?thesis
  proof (intro conjI impI)
    assume "\<forall>t \<in> set before. case t of (send, q) \<Rightarrow> client_enroll_wait send session q = Inr None"
    then have "enroll_loop session (before @ (server_transport D c s, r) # after) =
        enroll_loop session ((server_transport D c s, r) # after)"
      by (intro enroll_loop_pending) auto
    then show "enroll_loop session (before @ (server_transport D c s, r) # after) =
        (if c_now c - en_created e > 15 * minute then Some (Inl (HttpStatus 404 (rs_body (write_error 404 EnrollUnknown))))
         else case en_failure e of
           Some f \<Rightarrow> Some (Inl (HttpStatus 403 (rs_body (write_error 403 (EnrollFailed f)))))
         | None \<Rightarrow>
             if \<not> en_approved e then enroll_loop session after
             else case en_result e of None \<Rightarrow> Some (Inl BadShape) | Some reg \<Rightarrow> Some (Inr reg))"
      using one by (rule trans)
  next
    assume "c_now c - en_created e > 15 * minute"
    then show "enroll_loop session (before @ (server_transport D c s, r) # after) \<noteq> None"
      using one by (intro enroll_loop_ends) simp
  qed
qed

theorem enroll_terminates_witness:
  "enroll_loop ''s1'' [(server_transport demo_deps (demo_ctx 5) demo_server, demo_request),
     (server_transport demo_deps (demo_ctx (16 * minute)) demo_server, demo_request)] =
   Some (Inl (HttpStatus 404 (rs_body (write_error 404 EnrollUnknown))))"
proof -
  have p: "sv_oidc demo_server = Some demo_provider" "gm_get (op_sessions demo_provider) ''s1'' = Some demo_session"
    by (simp_all add: demo_server_def demo_provider_def)
  have "client_enroll_wait (server_transport demo_deps (demo_ctx 5) demo_server) ''s1'' demo_request = Inr None"
    by (simp add: enroll_wait_answer [OF p(1)] p(2) enroll_answer_def enroll_live_def demo_session_def demo_ctx_def
        enroll_ttl_def time_sub_def duration_defs)
  with enroll_terminates [OF p, of "[(server_transport demo_deps (demo_ctx 5) demo_server, demo_request)]" demo_deps
      "demo_ctx (16 * minute)" demo_request "[]"]
  show ?thesis by (simp add: demo_session_def demo_ctx_def duration_defs del: enroll_loop.simps)
qed

end
