(* ===== verification/Sysnet.thy ===== *)
theory Sysnet
  imports Agent
begin

text \<open>
  What the agent asks of the operating system's network: the interface's address, the routes, the rules
  of an exit node and the forwarding of a router (\<open>addr_*.go\<close>, \<open>routes_*.go\<close>, \<open>exitnode_*.go\<close> of
  \<open>internal/wgnet\<close> and \<open>forward_*.go\<close> of \<open>internal/agent\<close>). The system is a parameter: a function that
  answers a call and changes a state of its own.
\<close>

section \<open>Calls\<close>

text \<open>A policy rule; \<open>None\<close> where the code leaves the field as \<open>netlink.NewRule\<close> gives it.\<close>

record ip_rule =
  ru_priority :: nat
  ru_table :: nat
  ru_mark :: "nat option"
  ru_invert :: bool
  ru_suppress :: "nat option"

datatype call =
    Engine string
  | AddrReplace nat string
  | LinkUp nat
  | RouteReplace nat prefix "nat option"
  | RouteDelete nat prefix
  | RuleAdd ip_rule
  | RuleDel ip_rule
  | WriteText string string
  | Exec "string list"

datatype answer = Done | Exists | Refused

record 's system =
  sy_call :: "call \<Rightarrow> 's \<Rightarrow> 's \<times> answer"
  sy_link :: "string \<Rightarrow> 's \<Rightarrow> nat option"

datatype sys_error = CallFailed call | NoLink string | BadCidr string | OnlyLinux

type_synonym 's command = "'s \<Rightarrow> 's \<times> (sys_error + unit)"

definition ask :: "'s system \<Rightarrow> call \<Rightarrow> 's command" where
  "ask Y c s = (let (s1, a) = sy_call Y c s in (s1, if a = Done then Inr () else Inl (CallFailed c)))"

text \<open>\<open>isExist\<close> forgives a rule that is already there.\<close>

definition ask_rule :: "'s system \<Rightarrow> ip_rule \<Rightarrow> 's command" where
  "ask_rule Y r s =
     (let (s1, a) = sy_call Y (RuleAdd r) s in (s1, if a \<noteq> Refused then Inr () else Inl (CallFailed (RuleAdd r))))"

definition and_then :: "'s command \<Rightarrow> 's command \<Rightarrow> 's command" where
  "and_then f g s = (case f s of (s1, Inl e) \<Rightarrow> (s1, Inl e) | (s1, Inr _) \<Rightarrow> g s1)"

definition with_link :: "'s system \<Rightarrow> string \<Rightarrow> (nat \<Rightarrow> 's command) \<Rightarrow> 's command" where
  "with_link Y name f s = (case sy_link Y name s of None \<Rightarrow> (s, Inl (NoLink name)) | Some i \<Rightarrow> f i s)"

section \<open>Address\<close>

fun mask_string :: "prefix \<Rightarrow> string" where
  "mask_string (Prefix (V4 w) n) = show_v4 (keep_bits n (- 1))"
| "mask_string (Prefix (V6 w z) n) = show_v6 (keep_bits n (- 1))"

definition linux_address :: "'s system \<Rightarrow> string \<Rightarrow> string \<Rightarrow> prefix \<Rightarrow> 's command" where
  "linux_address Y name ip net =
     with_link Y name (\<lambda>i. and_then (ask Y (AddrReplace i (ip @ ''/'' @ show_nat (p_bits net)))) (ask Y (LinkUp i)))"

definition darwin_address :: "'s system \<Rightarrow> string \<Rightarrow> string \<Rightarrow> prefix \<Rightarrow> 's command" where
  "darwin_address Y name ip net =
     and_then (ask Y (Exec [''ifconfig'', name, ''inet'', ip, ip, ''netmask'', mask_string net, ''up'']))
       (ask Y (Exec [''route'', ''-q'', ''-n'', ''add'', ''-inet'', ipnet_string net, ''-interface'', name]))"

definition windows_address :: "'s system \<Rightarrow> string \<Rightarrow> string \<Rightarrow> prefix \<Rightarrow> 's command" where
  "windows_address Y name ip net =
     ask Y (Exec [''netsh'', ''interface'', ''ip'', ''set'', ''address'', ''name='' @ name, ''static'', ip, mask_string net])"

fun platform_address :: "os \<Rightarrow> 's system \<Rightarrow> string \<Rightarrow> string \<Rightarrow> prefix \<Rightarrow> 's command" where
  "platform_address OtherOS = linux_address"
| "platform_address Darwin = darwin_address"
| "platform_address Windows = windows_address"

text \<open>\<open>Device.SetAddress\<close>.\<close>

definition give_address :: "os \<Rightarrow> 's system \<Rightarrow> string \<Rightarrow> string \<Rightarrow> string \<Rightarrow> 's command" where
  "give_address os Y name ip cidr s =
     (case set_address ip cidr of
        None \<Rightarrow> (s, Inl (BadCidr cidr))
      | Some (ip, net) \<Rightarrow> platform_address os Y name ip net s)"

section \<open>Routes\<close>

definition with_cidr :: "string \<Rightarrow> (prefix \<Rightarrow> 's command) \<Rightarrow> 's command" where
  "with_cidr cidr f s = (case parse_cidr cidr of None \<Rightarrow> (s, Inl (BadCidr cidr)) | Some p \<Rightarrow> f (masked p) s)"

definition linux_route_add :: "'s system \<Rightarrow> string \<Rightarrow> string \<Rightarrow> 's command" where
  "linux_route_add Y name cidr =
     with_link Y name (\<lambda>i. with_cidr cidr (\<lambda>p. ask Y (RouteReplace i p None)))"

text \<open>Without the interface there is nothing to remove.\<close>

definition linux_route_del :: "'s system \<Rightarrow> string \<Rightarrow> string \<Rightarrow> 's command" where
  "linux_route_del Y name cidr s =
     (case sy_link Y name s of
        None \<Rightarrow> (s, Inr ())
      | Some i \<Rightarrow> with_cidr cidr (\<lambda>p. ask Y (RouteDelete i p)) s)"

definition darwin_route_add :: "'s system \<Rightarrow> string \<Rightarrow> string \<Rightarrow> 's command" where
  "darwin_route_add Y name cidr = ask Y (Exec [''route'', ''-q'', ''-n'', ''add'', ''-inet'', cidr, ''-interface'', name])"

definition darwin_route_del :: "'s system \<Rightarrow> string \<Rightarrow> string \<Rightarrow> 's command" where
  "darwin_route_del Y name cidr = ask Y (Exec [''route'', ''-q'', ''-n'', ''delete'', ''-inet'', cidr])"

definition windows_route_add :: "'s system \<Rightarrow> string \<Rightarrow> string \<Rightarrow> 's command" where
  "windows_route_add Y name cidr = ask Y (Exec [''netsh'', ''interface'', ''ipv4'', ''add'', ''route'', cidr, name])"

definition windows_route_del :: "'s system \<Rightarrow> string \<Rightarrow> string \<Rightarrow> 's command" where
  "windows_route_del Y name cidr = ask Y (Exec [''netsh'', ''interface'', ''ipv4'', ''delete'', ''route'', cidr, name])"

fun platform_route :: "os \<Rightarrow> 's system \<Rightarrow> string \<Rightarrow> route_op \<Rightarrow> 's command" where
  "platform_route OtherOS Y name (RouteAdd c) = linux_route_add Y name c"
| "platform_route OtherOS Y name (RouteDel c) = linux_route_del Y name c"
| "platform_route Darwin Y name (RouteAdd c) = darwin_route_add Y name c"
| "platform_route Darwin Y name (RouteDel c) = darwin_route_del Y name c"
| "platform_route Windows Y name (RouteAdd c) = windows_route_add Y name c"
| "platform_route Windows Y name (RouteDel c) = windows_route_del Y name c"

section \<open>Exit node\<close>

definition fwmark :: nat where "fwmark = 0x6f6d6e69"
definition exit_table :: nat where "exit_table = 7766"
definition main_table :: nat where "main_table = 254"

definition suppress_rule :: ip_rule where
  "suppress_rule = \<lparr>ru_priority = 5000, ru_table = main_table, ru_mark = None, ru_invert = False, ru_suppress = Some 0\<rparr>"

definition unmarked_rule :: ip_rule where
  "unmarked_rule = \<lparr>ru_priority = 5001, ru_table = exit_table, ru_mark = Some fwmark, ru_invert = True, ru_suppress = None\<rparr>"

definition linux_enable_exit :: "'s system \<Rightarrow> string \<Rightarrow> 's command" where
  "linux_enable_exit Y name =
     and_then (ask Y (Engine (''fwmark='' @ show_nat fwmark @ [newline])))
       (with_link Y name (\<lambda>i.
          and_then (ask Y (RouteReplace i (Prefix (V4 0) 0) (Some exit_table)))
            (and_then (ask_rule Y suppress_rule) (ask_rule Y unmarked_rule))))"

definition enable_exit :: "os \<Rightarrow> 's system \<Rightarrow> string \<Rightarrow> 's command" where
  "enable_exit os Y name s = (if os = OtherOS then linux_enable_exit Y name s else (s, Inl OnlyLinux))"

definition linux_disable_exit :: "'s system \<Rightarrow> 's \<Rightarrow> 's" where
  "linux_disable_exit Y s = fst (sy_call Y (RuleDel suppress_rule) (fst (sy_call Y (RuleDel unmarked_rule) s)))"

definition disable_exit :: "os \<Rightarrow> 's system \<Rightarrow> 's \<Rightarrow> 's" where
  "disable_exit os Y s = (if os = OtherOS then linux_disable_exit Y s else s)"

section \<open>Forwarding\<close>

definition masquerade :: "string \<Rightarrow> string \<Rightarrow> string list" where
  "masquerade iface cidr = [''-t'', ''nat'', ''-s'', cidr, ''!'', ''-o'', iface, ''-j'', ''MASQUERADE'']"

definition linux_forwarding :: "'s system \<Rightarrow> string \<Rightarrow> string \<Rightarrow> 's command" where
  "linux_forwarding Y iface cidr =
     and_then (ask Y (WriteText ''/proc/sys/net/ipv4/ip_forward'' ''1''))
       (\<lambda>s. let rule = masquerade iface cidr;
                (s1, there) = sy_call Y (Exec ([''iptables'', ''-C'', ''POSTROUTING''] @ drop 2 rule)) s
            in if there = Done then (s1, Inr ())
               else ask Y (Exec ([''iptables'', ''-t'', ''nat'', ''-A'', ''POSTROUTING''] @ drop 2 rule)) s1)"

definition enable_forwarding :: "os \<Rightarrow> 's system \<Rightarrow> string \<Rightarrow> string \<Rightarrow> 's command" where
  "enable_forwarding os Y iface cidr s = (if os = OtherOS then linux_forwarding Y iface cidr s else (s, Inl OnlyLinux))"

section \<open>The system's part of a run\<close>

text \<open>What \<open>Up\<close> asks of the system between the start of the engine and its first cycle, and what it undoes
  when it returns after a start that went well.\<close>

datatype net_error = AddressRefused sys_error | RouteRefused string | ExitRefused sys_error

definition net_up :: "os \<Rightarrow> 's system \<Rightarrow> options \<Rightarrow> string \<Rightarrow> agent_state \<Rightarrow> 's \<Rightarrow> 's \<times> (net_error + string list)" where
  "net_up os Y opts name st s =
     (case give_address os Y name (as_ip st) (as_cidr st) s of
        (s1, Inl e) \<Rightarrow> (s1, Inl (AddressRefused e))
      | (s1, Inr _) \<Rightarrow>
          (case advertised_routes opts of
             Inl r \<Rightarrow> (s1, Inl (RouteRefused r))
           | Inr advertised \<Rightarrow>
               let s2 = (if advertised \<noteq> [] then fst (enable_forwarding os Y name (as_cidr st) s1) else s1)
               in if ao_exit_node opts \<noteq> []
                  then (case enable_exit os Y name s2 of
                     (s3, Inl e) \<Rightarrow> (s3, Inl (ExitRefused e))
                   | (s3, Inr _) \<Rightarrow> (s3, Inr advertised))
                  else (s2, Inr advertised)))"

definition net_down :: "os \<Rightarrow> 's system \<Rightarrow> options \<Rightarrow> 's \<Rightarrow> 's" where
  "net_down os Y opts s = (if ao_exit_node opts \<noteq> [] then disable_exit os Y s else s)"

end
