(* ===== verification/Sysnet_Props.thy ===== *)
theory Sysnet_Props
  imports Sysnet
begin

text \<open>
  What the calls of \<open>Sysnet\<close> leave in a system that keeps its documented promises: the policy rules of
  an exit node and the address translation of a router. The promises are hypotheses about the
  parameter; \<open>demo_system\<close> is a system that keeps them.
\<close>

section \<open>What a failure in the middle leaves\<close>

lemma and_then_ok: "snd (and_then f g s) = Inr u \<longleftrightarrow> snd (f s) = Inr () \<and> snd (g (fst (f s))) = Inr u"
  by (auto simp: and_then_def split: prod.splits sum.splits)

lemma and_then_state: "fst (and_then f g s) = (if snd (f s) = Inr () then fst (g (fst (f s))) else fst (f s))"
  by (auto simp: and_then_def split: prod.splits sum.splits)

lemma and_then_error: "snd (and_then f g s) = Inl e \<longleftrightarrow> snd (f s) = Inl e \<or> snd (f s) = Inr () \<and> snd (g (fst (f s))) = Inl e"
  by (auto simp: and_then_def split: prod.splits sum.splits)

lemmas and_then_simps = and_then_ok and_then_state and_then_error

lemma ask_state [simp]: "fst (ask Y c s) = fst (sy_call Y c s)"
  by (simp add: ask_def split_beta)

lemma ask_ok [simp]: "snd (ask Y c s) = Inr u \<longleftrightarrow> snd (sy_call Y c s) = Done"
  by (simp add: ask_def split_beta)

lemma ask_error [simp]: "snd (ask Y c s) = Inl e \<longleftrightarrow> snd (sy_call Y c s) \<noteq> Done \<and> e = CallFailed c"
  by (auto simp: ask_def split_beta)

lemma ask_rule_state [simp]: "fst (ask_rule Y r s) = fst (sy_call Y (RuleAdd r) s)"
  by (simp add: ask_rule_def split_beta)

lemma ask_rule_ok [simp]: "snd (ask_rule Y r s) = Inr u \<longleftrightarrow> snd (sy_call Y (RuleAdd r) s) \<noteq> Refused"
  by (simp add: ask_rule_def split_beta)

lemma ask_rule_error [simp]:
  "snd (ask_rule Y r s) = Inl e \<longleftrightarrow> snd (sy_call Y (RuleAdd r) s) = Refused \<and> e = CallFailed (RuleAdd r)"
  by (auto simp: ask_rule_def split_beta)

lemma with_link_cases:
  "with_link Y name f s = (case sy_link Y name s of None \<Rightarrow> (s, Inl (NoLink name)) | Some i \<Rightarrow> f i s)"
  by (simp add: with_link_def)

section \<open>The rules of an exit node\<close>

text \<open>Netlink's promises: a rule added is there, an \<open>EEXIST\<close> means it was there, a rule deleted is gone, no
  other call changes the rules.\<close>

fun rules_after :: "call \<Rightarrow> answer \<Rightarrow> ip_rule set \<Rightarrow> ip_rule set" where
  "rules_after (RuleAdd r) Done R = insert r R"
| "rules_after (RuleDel r) Done R = R - {r}"
| "rules_after c a R = R"

definition rule_laws :: "'s system \<Rightarrow> ('s \<Rightarrow> ip_rule set) \<Rightarrow> bool" where
  "rule_laws Y R \<longleftrightarrow>
     (\<forall>c s. R (fst (sy_call Y c s)) = rules_after c (snd (sy_call Y c s)) (R s)) \<and>
     (\<forall>r s. snd (sy_call Y (RuleAdd r) s) = Exists \<longrightarrow> r \<in> R s)"

lemma rules_added:
  assumes "rule_laws Y R"
  shows "R (fst (sy_call Y (RuleAdd r) s)) = (if snd (sy_call Y (RuleAdd r) s) = Refused then R s else insert r (R s))"
  using assms by (cases "snd (sy_call Y (RuleAdd r) s)") (auto simp: rule_laws_def)

lemma rules_kept:
  assumes "rule_laws Y R" "\<And>r. c \<noteq> RuleAdd r" "\<And>r. c \<noteq> RuleDel r"
  shows "R (fst (sy_call Y c s)) = R s"
  using assms by (cases c) (auto simp: rule_laws_def)

lemma rules_deleted:
  assumes "rule_laws Y R" "snd (sy_call Y (RuleDel r) s) = Done"
  shows "R (fst (sy_call Y (RuleDel r) s)) = R s - {r}"
  using assms by (simp add: rule_laws_def)

lemma address_rules:
  assumes "rule_laws Y R"
  shows "R (fst (give_address os Y name ip cidr s)) = R s"
  using assms by (cases os)
    (auto simp: give_address_def linux_address_def darwin_address_def windows_address_def with_link_cases
      and_then_state rules_kept split: option.split)

lemma forwarding_rules:
  assumes "rule_laws Y R"
  shows "R (fst (enable_forwarding os Y iface cidr s)) = R s"
  using assms by (auto simp: enable_forwarding_def linux_forwarding_def and_then_state Let_def split_beta rules_kept)

lemma exit_enabled:
  assumes "rule_laws Y R" "snd (enable_exit os Y name s) = Inr ()"
  shows "R (fst (enable_exit os Y name s)) = R s \<union> {suppress_rule, unmarked_rule} \<and> os = OtherOS"
  using assms by (auto simp: enable_exit_def linux_enable_exit_def and_then_simps with_link_cases rules_kept rules_added
      split: option.splits if_splits)

lemma exit_refused:
  assumes "rule_laws Y R" "snd (enable_exit os Y name s) = Inl e"
  shows "R (fst (enable_exit os Y name s)) =
    (if e = CallFailed (RuleAdd unmarked_rule) then insert suppress_rule (R s) else R s)"
  using assms by (auto simp: enable_exit_def linux_enable_exit_def and_then_simps with_link_cases rules_kept rules_added
      suppress_rule_def unmarked_rule_def split: option.splits if_splits)


section \<open>The start of the agent on a system\<close>

text \<open>\<open>start_agent\<close> takes the system's answers as given; when they are those of a system, it ends as the system's
  part of the start does.\<close>

theorem start_net:
  assumes "wk_parse (up_keys u) (as_private_key st) = Some priv"
    and "start_device u (as_iface st) (if ao_mtu opts = 0 then default_mtu else ao_mtu opts) priv (as_listen_port st) new_bind = Some (real, b)"
    and "net_up os Y opts real st s = (s1, res)"
    and "\<forall>ip net. up_addr_ok u ip net \<longleftrightarrow> snd (platform_address os Y real ip net s) = Inr ()"
    and "up_exit_ok u \<longleftrightarrow> (\<forall>e. res \<noteq> Inl (ExitRefused e))"
  shows "case res of
      Inl (AddressRefused e) \<Rightarrow> snd (start_agent u opts fs st) = Inl BadAddress
    | Inl (RouteRefused r) \<Rightarrow> snd (start_agent u opts fs st) = Inl (BadRoute r)
    | Inl (ExitRefused e) \<Rightarrow> snd (start_agent u opts fs st) = Inl ExitNodeRefused
    | Inr adv \<Rightarrow> \<exists>a. snd (start_agent u opts fs st) = Inr a \<and> ag_advertised a = adv"
proof -
  obtain s0 x where g: "give_address os Y real (as_ip st) (as_cidr st) s = (s0, x)" by fastforce
  have addr: "(case set_address (as_ip st) (as_cidr st) of None \<Rightarrow> True | Some (ip, net) \<Rightarrow> \<not> up_addr_ok u ip net) \<longleftrightarrow> x \<noteq> Inr ()"
    using g assms(4) by (auto simp: give_address_def split: option.splits)
  obtain st1 fs1 b1 en where r: "rename_iface u opts real st fs = (st1, fs1)" "use_relay u opts (as_server_url st1) priv b = (b1, en)"
    by (metis prod.exhaust)
  note start = start_agent_def [of u opts fs st, simplified assms(1,2) option.case prod.case addr]
  show ?thesis
  proof (cases x)
    case (Inl e)
    then show ?thesis using g assms(3) by (auto simp: start net_up_def)
  next
    case (Inr y)
    show ?thesis
    proof (cases "advertised_routes opts")
      case (Inl e)
      then show ?thesis using g assms(3) Inr r by (auto simp: start net_up_def)
    next
      case ok: (Inr adv)
      then show ?thesis using g assms(3,5) Inr r
        by (auto simp: start net_up_def Let_def split: if_splits sum.splits prod.splits)
    qed
  qed
qed

section \<open>A system that keeps its promises\<close>

text \<open>It refuses to add the rules of \<open>no\<close> and accepts everything else.\<close>

fun demo_call :: "ip_rule set \<Rightarrow> call \<Rightarrow> ip_rule set \<times> string list list \<Rightarrow> (ip_rule set \<times> string list list) \<times> answer" where
  "demo_call no (RuleAdd r) (R, N) =
     (if r \<in> no then ((R, N), Refused) else if r \<in> R then ((R, N), Exists) else ((insert r R, N), Done))"
| "demo_call no (RuleDel r) (R, N) = ((R - {r}, N), Done)"
| "demo_call no (Exec args) (R, N) =
     (if take 3 args = [''iptables'', ''-C'', ''POSTROUTING''] then ((R, N), Refused)
      else if take 5 args = [''iptables'', ''-t'', ''nat'', ''-A'', ''POSTROUTING''] then ((R, N @ [drop 5 args]), Done)
      else ((R, N), Done))"
| "demo_call no c (R, N) = ((R, N), Done)"

definition demo_system :: "ip_rule set \<Rightarrow> (ip_rule set \<times> string list list) system" where
  "demo_system no = \<lparr>sy_call = demo_call no, sy_link = (\<lambda>name s. Some 7)\<rparr>"

lemma demo_rules: "rule_laws (demo_system no) fst"
proof -
  have "fst (fst (demo_call no c s)) = rules_after c (snd (demo_call no c s)) (fst s)" for c s
    by (cases c; cases s) auto
  moreover have "r \<in> fst s" if "snd (demo_call no (RuleAdd r) s) = Exists" for r s
    using that by (cases s) (auto split: if_splits)
  ultimately show ?thesis by (simp add: rule_laws_def demo_system_def)
qed

definition demo_router :: options where
  "demo_router = \<lparr>ao_server_url = ''http://vpn'', ao_auth_key = [], ao_hostname = ''h1'', ao_iface = ''omni0'', ao_listen_port = 51820,
     ao_mtu = 0, ao_state_path = ''state'', ao_stun_servers = [], ao_relay_server = [], ao_dns = False, ao_dns_zone = [],
     ao_advertise_routes = [''10.1.0.0/16''], ao_advertise_exit = False, ao_exit_node = ''h2'', ao_accept_routes = False\<rparr>"

definition demo_identity :: agent_state where
  "demo_identity = \<lparr>as_server_url = ''http://vpn'', as_private_key = ''sk'', as_device_id = ''01'', as_device_token = ''omtok-01'',
     as_ip = ''10.0.0.1'', as_cidr = ''10.0.0.0/29'', as_iface = ''omni0'', as_listen_port = 51820\<rparr>"

lemma demo_advertised: "advertised_routes demo_router = Inr [''10.1.0.0/16'']"
proof -
  have t: "trim_space ''10.1.0.0/16'' = ''10.1.0.0/16''" by (rule trim_space_plain) (simp add: is_plain_def)
  have "show_prefix (masked (the (parse_prefix ''10.1.0.0/16''))) = ''10.1.0.0/16'' \<and> parse_prefix ''10.1.0.0/16'' \<noteq> None"
    by (simp add: compute)
  then show ?thesis using t by (auto simp: advertised_routes_def demo_router_def)
qed

lemma demo_address: "give_address OtherOS (demo_system no) ''omni0'' ''10.0.0.1'' ''10.0.0.0/29'' s = (s, Inr ())"
  by (cases s) (simp add: give_address_def set_address_def linux_address_def with_link_def and_then_def ask_def demo_system_def compute)


section \<open>The address translation of a router\<close>

text \<open>What iptables documents: a command that names no table works on the table \<open>filter\<close>, which has no chain
  \<open>POSTROUTING\<close>; \<open>-A\<close> adds at the end of the chain. \<open>N\<close> reads that chain of the table \<open>nat\<close>.\<close>

definition names_table :: "string \<Rightarrow> bool" where
  "names_table w \<longleftrightarrow> has_prefix w ''-t'' \<or> has_prefix w ''--t''"

definition nat_laws :: "'s system \<Rightarrow> ('s \<Rightarrow> string list list) \<Rightarrow> bool" where
  "nat_laws Y N \<longleftrightarrow>
     (\<forall>rule s. list_all (\<lambda>w. \<not> names_table w) rule \<longrightarrow>
        snd (sy_call Y (Exec ([''iptables'', ''-C'', ''POSTROUTING''] @ rule)) s) = Refused \<and>
        N (fst (sy_call Y (Exec ([''iptables'', ''-C'', ''POSTROUTING''] @ rule)) s)) = N s) \<and>
     (\<forall>rule s. N (fst (sy_call Y (Exec ([''iptables'', ''-t'', ''nat'', ''-A'', ''POSTROUTING''] @ rule)) s)) =
        (if snd (sy_call Y (Exec ([''iptables'', ''-t'', ''nat'', ''-A'', ''POSTROUTING''] @ rule)) s) = Done then N s @ [rule] else N s)) \<and>
     (\<forall>c s. (\<forall>args. c \<noteq> Exec args) \<longrightarrow> N (fst (sy_call Y c s)) = N s)"

lemma forwarding_adds:
  assumes "nat_laws Y N" "\<not> names_table iface" "\<not> names_table cidr"
    and "snd (linux_forwarding Y iface cidr s) = Inr ()"
  shows "N (fst (linux_forwarding Y iface cidr s)) = N s @ [drop 2 (masquerade iface cidr)]"
proof -
  have "list_all (\<lambda>w. \<not> names_table w) (drop 2 (masquerade iface cidr))"
    using assms(2,3) by (simp add: masquerade_def names_table_def has_prefix_def)
  then show ?thesis using assms(1,4)
    by (auto simp: linux_forwarding_def and_then_simps Let_def split_beta nat_laws_def split: if_splits)
qed

text \<open>C21: the address translation of a router is added again at every start. The program means to look for
  the rule before it adds it, but the check names no table, so it never finds it: however many times
  the rule is there already, a start that succeeds adds it once more, and after \<open>n\<close> starts there are \<open>n\<close>
  more of it.\<close>

theorem forwarding_repeats:
  assumes "nat_laws Y N" "\<not> names_table iface" "\<not> names_table cidr"
    and "\<forall>s. snd (enable_forwarding OtherOS Y iface cidr s) = Inr ()"
  shows "N (((\<lambda>s. fst (enable_forwarding OtherOS Y iface cidr s)) ^^ n) s) = N s @ replicate n (drop 2 (masquerade iface cidr))"
proof (induction n)
  case (Suc n)
  then show ?case using forwarding_adds [OF assms(1-3)] assms(4)
    by (simp add: enable_forwarding_def replicate_append_same)
qed simp

lemma demo_nat: "nat_laws (demo_system no) snd"
proof -
  have "snd (fst (demo_call no c s)) = snd s" if "\<forall>args. c \<noteq> Exec args" for c s
    using that by (cases c; cases s) auto
  then show ?thesis by (auto simp: nat_laws_def demo_system_def)
qed

theorem forwarding_repeats_witness:
  "snd (((\<lambda>s. fst (enable_forwarding OtherOS (demo_system {}) ''omni0'' ''10.0.0.0/29'' s)) ^^ 2) ({}, [])) =
     [[''-s'', ''10.0.0.0/29'', ''!'', ''-o'', ''omni0'', ''-j'', ''MASQUERADE''],
      [''-s'', ''10.0.0.0/29'', ''!'', ''-o'', ''omni0'', ''-j'', ''MASQUERADE'']]"
proof -
  have "\<forall>s. snd (enable_forwarding OtherOS (demo_system {}) ''omni0'' ''10.0.0.0/29'' s) = Inr ()"
    by (simp add: enable_forwarding_def linux_forwarding_def and_then_def ask_def demo_system_def masquerade_def)
  moreover have "\<not> names_table ''omni0''" "\<not> names_table ''10.0.0.0/29''" by (simp_all add: names_table_def has_prefix_def)
  ultimately show ?thesis
    using forwarding_repeats [OF demo_nat, of "''omni0''" "''10.0.0.0/29''" "{}" 2 "({}, [])"]
    by (simp add: masquerade_def eval_nat_numeral)
qed

end
