(* ===== verification/Daemon.thy ===== *)
theory Daemon
  imports Cli
begin

text \<open>
  The daemon as a process: the file with its process number, which \<open>omnid down\<close> reads
  (\<open>internal/agent/agent.go\<close>), and the Windows service (\<open>cmd/omnid/service_windows.go\<close>): its
  installation, its removal and its life under the service manager. The service manager and the
  system's clock are parameters.
\<close>

section \<open>The process file\<close>

text \<open>\<open>filepath.Clean\<close>, \<open>Dir\<close> and \<open>Join\<close> with the separator \<open>/\<close>. The stack holds the kept names, the last one first.\<close>

fun clean_parts :: "bool \<Rightarrow> string list \<Rightarrow> string list \<Rightarrow> string list" where
  "clean_parts rooted [] acc = rev acc"
| "clean_parts rooted (p # ps) acc =
     (if p = [] \<or> p = ''.'' then clean_parts rooted ps acc
      else if p = ''..'' then
        (if acc = [] then clean_parts rooted ps (if rooted then [] else [''..''])
         else if hd acc = ''..'' then clean_parts rooted ps (''..'' # acc)
         else clean_parts rooted ps (tl acc))
      else clean_parts rooted ps (p # acc))"

definition path_clean :: "string \<Rightarrow> string" where
  "path_clean s =
     (if s = [] then ''.''
      else let rooted = (hd s = CHR ''/''); out = join ''/'' (clean_parts rooted (split_on CHR ''/'' s) [])
           in if rooted then CHR ''/'' # out else if out = [] then ''.'' else out)"

definition path_dir :: "string \<Rightarrow> string" where
  "path_dir s = path_clean (case cut_last CHR ''/'' s of None \<Rightarrow> [] | Some (a, b) \<Rightarrow> a @ ''/'')"

definition path_join :: "string \<Rightarrow> string \<Rightarrow> string" where
  "path_join a b = (if a = [] \<and> b = [] then [] else path_clean (if a = [] then b else if b = [] then a else a @ ''/'' @ b))"

definition pid_file_path :: "string \<Rightarrow> string" where
  "pid_file_path state_path = path_join (path_dir state_path) ''omnid.pid''"

type_synonym texts = "(string, string) gomap"

text \<open>\<open>ok\<close> says whether the system carries the operation out; its failure is ignored.\<close>

definition write_pid_file :: "bool \<Rightarrow> string \<Rightarrow> nat \<Rightarrow> texts \<Rightarrow> texts" where
  "write_pid_file ok state_path pid F = (if ok then gm_put (pid_file_path state_path) (show_nat pid) F else F)"

definition remove_pid_file :: "bool \<Rightarrow> string \<Rightarrow> texts \<Rightarrow> texts" where
  "remove_pid_file ok state_path F = (if ok then gm_del (pid_file_path state_path) F else F)"

text \<open>\<open>omnid down\<close> with the state file of its command line.\<close>

definition down_at :: "string \<Rightarrow> texts \<Rightarrow> (int \<Rightarrow> bool) \<Rightarrow> down_error + int" where
  "down_at state_path F stop = cmd_down (gm_get F (pid_file_path state_path)) stop"

section \<open>The service\<close>

datatype service_error =
    ServiceUsage | UnknownService string | NoExecutable | NoManager | AlreadyInstalled
  | CreateRefused | StartRefused | NoSuchService | DeleteRefused

datatype service_command = Install "string list" | Uninstall | RunService "string list"

definition cmd_service :: "string list \<Rightarrow> service_error + service_command" where
  "cmd_service args =
     (case args of
        [] \<Rightarrow> Inl ServiceUsage
      | a # as \<Rightarrow>
          if a = ''install'' then Inr (Install as)
          else if a = ''uninstall'' then Inr Uninstall
          else if a = ''run'' then Inr (RunService as)
          else Inl (UnknownService a))"

text \<open>What an installation meets, and the service it leaves: its arguments, and whether it has been started.\<close>

record install_env =
  in_exe :: bool
  in_manager :: bool
  in_create :: bool
  in_start :: bool

record service =
  sc_args :: "string list"
  sc_started :: bool

definition service_install :: "install_env \<Rightarrow> string list \<Rightarrow> service option \<Rightarrow> service option \<times> (service_error + unit)" where
  "service_install v args sc =
     (if \<not> in_exe v then (sc, Inl NoExecutable)
      else if \<not> in_manager v then (sc, Inl NoManager)
      else if sc \<noteq> None then (sc, Inl AlreadyInstalled)
      else if \<not> in_create v then (sc, Inl CreateRefused)
      else
        let new = \<lparr>sc_args = [''service'', ''run''] @ args, sc_started = False\<rparr>
        in if \<not> in_start v then (Some new, Inl StartRefused)
           else (Some (new\<lparr>sc_started := True\<rparr>), Inr ()))"

datatype svc_state = StartPending | Running | StopPending | Stopped | OtherState

text \<open>The wait for the service to stop: at each turn the clock and what the query after the pause answers;
  \<open>None\<close> when the list of turns is too short. The result is the number of queries.\<close>

fun wait_stopped :: "time \<Rightarrow> svc_state \<Rightarrow> (time \<times> svc_state option) list \<Rightarrow> nat option" where
  "wait_stopped deadline st [] = (if st = Stopped then Some 0 else None)"
| "wait_stopped deadline st ((now, q) # ts) =
     (if st = Stopped \<or> \<not> now < deadline then Some 0
      else case q of
        None \<Rightarrow> Some 1
      | Some st' \<Rightarrow> map_option Suc (wait_stopped deadline st' ts))"

definition stop_wait :: duration where "stop_wait = 10 * second"
definition stop_pause :: duration where "stop_pause = 300 * (second div 1000)"

text \<open>\<open>un_stop\<close> is the answer to the stop request and \<open>un_time\<close> the instant after it; a removal whose turns
  run out is \<open>None\<close>.\<close>

record uninstall_env =
  un_manager :: bool
  un_stop :: "svc_state option"
  un_time :: time
  un_turns :: "(time \<times> svc_state option) list"
  un_delete :: bool

definition service_uninstall :: "uninstall_env \<Rightarrow> service option \<Rightarrow> (service option \<times> (service_error + unit)) option" where
  "service_uninstall v sc =
     (if \<not> un_manager v then Some (sc, Inl NoManager)
      else if sc = None then Some (sc, Inl NoSuchService)
      else case (case un_stop v of None \<Rightarrow> Some 0 | Some st \<Rightarrow> wait_stopped (un_time v + stop_wait) st (un_turns v)) of
        None \<Rightarrow> None
      | Some n \<Rightarrow> Some (if un_delete v then (None, Inr ()) else (sc, Inl DeleteRefused)))"

section \<open>The service's life\<close>

text \<open>\<open>Execute\<close>: a status is the program's own or the one the manager handed over with its question.\<close>

datatype status_sent = Own svc_state bool | Echo svc_state

datatype svc_command = Interrogate svc_state | StopService | Shutdown | OtherCommand

datatype svc_event = AgentEnded bool | Request svc_command

datatype svc_phase = Serving | Stopping | Returned nat

record svc_run =
  sr_phase :: svc_phase
  sr_cancelled :: bool
  sr_sent :: "status_sent list"

text \<open>The agent is started between the first two statuses; only the second accepts stop and shutdown.\<close>

definition execute_start :: svc_run where
  "execute_start = \<lparr>sr_phase = Serving, sr_cancelled = False, sr_sent = [Own StartPending False, Own Running True]\<rparr>"

text \<open>\<open>AgentEnded failed\<close>: the agent has returned. While it waits for the agent after a stop, the program reads no
  request. The deferred cancellation runs at every return.\<close>

fun execute_step :: "svc_event \<Rightarrow> svc_run \<Rightarrow> svc_run" where
  "execute_step (AgentEnded failed) x =
     (case sr_phase x of
        Serving \<Rightarrow> x\<lparr>sr_phase := Returned (if failed then 1 else 0), sr_cancelled := True, sr_sent := sr_sent x @ [Own Stopped False]\<rparr>
      | Stopping \<Rightarrow> x\<lparr>sr_phase := Returned 0, sr_sent := sr_sent x @ [Own Stopped False]\<rparr>
      | Returned n \<Rightarrow> x)"
| "execute_step (Request c) x =
     (if sr_phase x \<noteq> Serving then x
      else case c of
        Interrogate st \<Rightarrow> x\<lparr>sr_sent := sr_sent x @ [Echo st]\<rparr>
      | StopService \<Rightarrow> x\<lparr>sr_phase := Stopping, sr_cancelled := True, sr_sent := sr_sent x @ [Own StopPending False]\<rparr>
      | Shutdown \<Rightarrow> x\<lparr>sr_phase := Stopping, sr_cancelled := True, sr_sent := sr_sent x @ [Own StopPending False]\<rparr>
      | OtherCommand \<Rightarrow> x)"

definition execute :: "svc_event list \<Rightarrow> svc_run" where
  "execute es = fold execute_step es execute_start"

end
