(* ===== verification/Daemon_Props.thy ===== *)
theory Daemon_Props
  imports Daemon
begin

text \<open>
  The process file is one per directory; the service's life under the manager; the end of its removal.
\<close>

section \<open>Cleaned paths\<close>

text \<open>The stack of a cleaned path: no empty name, no dot, no separator, and double dots only at the front of a
  path that is not rooted.\<close>

fun stack_ok :: "bool \<Rightarrow> string list \<Rightarrow> bool" where
  "stack_ok r [] \<longleftrightarrow> True"
| "stack_ok r (p # ps) \<longleftrightarrow> p \<noteq> [] \<and> p \<noteq> ''.'' \<and> CHR ''/'' \<notin> set p \<and>
     (p = ''..'' \<longrightarrow> \<not> r \<and> set ps \<subseteq> {''..''}) \<and> stack_ok r ps"

lemma stack_ok_suffix: "stack_ok r (ps @ qs) \<Longrightarrow> stack_ok r qs"
  by (induction ps) auto

lemma stack_ok_names: "stack_ok r ps \<Longrightarrow> p \<in> set ps \<Longrightarrow> p \<noteq> [] \<and> CHR ''/'' \<notin> set p \<and> p \<noteq> ''.''"
  by (induction ps) auto

lemma stack_ok_dots: "stack_ok r ps \<Longrightarrow> ps \<noteq> [] \<Longrightarrow> hd ps = ''..'' \<Longrightarrow> \<not> r \<and> set ps \<subseteq> {''..''}"
  by (cases ps) auto

lemma clean_parts_ok:
  "stack_ok r acc \<Longrightarrow> \<forall>p \<in> set ps. CHR ''/'' \<notin> set p \<Longrightarrow> stack_ok r (rev (clean_parts r ps acc))"
proof (induction r ps acc rule: clean_parts.induct)
  case (2 r p ps acc)
  consider "p = [] \<or> p = ''.''" | "p = ''..''" "acc = []" | "p = ''..''" "acc \<noteq> []" "hd acc = ''..''"
    | "p = ''..''" "acc \<noteq> []" "hd acc \<noteq> ''..''" | "p \<noteq> []" "p \<noteq> ''.''" "p \<noteq> ''..''"
    by blast
  then show ?case
  proof cases
    case 3
    moreover have "stack_ok r (''..'' # acc)" using stack_ok_dots [OF "2.prems"(1) 3(2,3)] "2.prems"(1) by simp
    ultimately show ?thesis using "2.IH"(3) "2.prems"(2) by (cases r) simp_all
  next
    case 4
    moreover have "stack_ok r (tl acc)" using "2.prems"(1) stack_ok_suffix [of r "[hd acc]" "tl acc"] 4(2) by simp
    ultimately show ?thesis using "2.IH"(4) "2.prems"(2) by simp
  next
    case 2
    then show ?thesis using "2.IH"(2) "2.prems"(2) by (cases r) simp_all
  next
    case 1
    then show ?thesis using "2.IH"(1) "2.prems" by auto
  next
    case 5
    then show ?thesis using "2.IH"(5) "2.prems" by simp
  qed
qed simp

lemma clean_parts_id: "stack_ok r (rev ps @ acc) \<Longrightarrow> clean_parts r ps acc = rev acc @ ps"
proof (induction ps arbitrary: acc)
  case (Cons p ps)
  then have ok: "stack_ok r (p # acc)" using stack_ok_suffix [of r "rev ps" "p # acc"] by simp
  from Cons have "clean_parts r ps (p # acc) = rev (p # acc) @ ps" by simp
  with ok show ?case by (cases acc) auto
qed simp

lemma clean_parts_empty: "clean_parts r ([] # ps) acc = clean_parts r ps acc"
  by simp

text \<open>A cleaned path is one of these texts, and the text determines the names.\<close>

definition render :: "bool \<Rightarrow> string list \<Rightarrow> string" where
  "render r qs = (if r then CHR ''/'' # join ''/'' qs else if qs = [] then ''.'' else join ''/'' qs)"

lemma split_names: "\<forall>p \<in> set (split_on c s). c \<notin> set p"
  by (induction s) (auto split: list.splits)

lemma split_join:
  "qs \<noteq> [] \<Longrightarrow> \<forall>p \<in> set qs. CHR ''/'' \<notin> set p \<Longrightarrow> split_on CHR ''/'' (join ''/'' qs) = qs"
  by (induction "''/''" qs rule: join.induct) (auto simp: split_on_none split_on_append)

lemma join_nonempty: "qs \<noteq> [] \<Longrightarrow> \<forall>p \<in> set qs. p \<noteq> [] \<and> CHR ''/'' \<notin> set p \<Longrightarrow>
    join ''/'' qs \<noteq> [] \<and> hd (join ''/'' qs) \<noteq> CHR ''/''"
  by (cases qs; cases "tl qs") (auto simp: hd_append neq_Nil_conv)

lemma join_snoc: "qs \<noteq> [] \<Longrightarrow> join ''/'' (qs @ [q]) = join ''/'' qs @ ''/'' @ q"
  by (induction "''/''" qs rule: join.induct) auto

lemma path_clean_render:
  obtains r qs where "path_clean s = render r qs" "stack_ok r (rev qs)"
proof (cases "s = []")
  case True
  then show thesis using that [of False "[]"] by (simp add: path_clean_def render_def)
next
  case False
  define r where "r = (hd s = CHR ''/'')"
  define qs where "qs = clean_parts r (split_on CHR ''/'' s) []"
  have ok: "stack_ok r (rev qs)" unfolding qs_def using split_names by (intro clean_parts_ok) auto
  then have "\<forall>p \<in> set qs. p \<noteq> [] \<and> CHR ''/'' \<notin> set p" using stack_ok_names by auto
  then have "join ''/'' qs = [] \<longleftrightarrow> qs = []" using join_nonempty by (cases "qs = []") auto
  then have "path_clean s = render r qs"
    unfolding path_clean_def render_def Let_def r_def [symmetric] qs_def [symmetric] using False by simp
  with ok show thesis using that by blast
qed

lemma render_inj:
  assumes "stack_ok r (rev qs)" "stack_ok r' (rev qs')" "render r qs = render r' qs'"
  shows "r = r' \<and> qs = qs'"
proof -
  have n: "\<forall>p \<in> set qs. p \<noteq> [] \<and> CHR ''/'' \<notin> set p" "\<forall>p \<in> set qs'. p \<noteq> [] \<and> CHR ''/'' \<notin> set p"
    "''.'' \<notin> set qs" "''.'' \<notin> set qs'"
    using stack_ok_names [OF assms(1)] stack_ok_names [OF assms(2)] by auto
  have dot: "join ''/'' ps \<noteq> ''.''" if "\<forall>p \<in> set ps. p \<noteq> [] \<and> CHR ''/'' \<notin> set p" "''.'' \<notin> set ps" "ps \<noteq> []" for ps
  proof
    assume "join ''/'' ps = ''.''"
    then have "split_on CHR ''/'' ''.'' = ps" using that split_join [of ps] by simp
    with that(2) show False by auto
  qed
  have hds: "(hd (render r ps) = CHR ''/'') = r" if "\<forall>p \<in> set ps. p \<noteq> [] \<and> CHR ''/'' \<notin> set p" for r ps
    using that join_nonempty [of ps] by (auto simp: render_def)
  have rr: "r = r'" using assms(3) hds [OF n(1)] hds [OF n(2)] by metis
  have e: "(join ''/'' ps = [] \<or> join ''/'' ps = ''.'') = (ps = [])"
    if "\<forall>p \<in> set ps. p \<noteq> [] \<and> CHR ''/'' \<notin> set p" "''.'' \<notin> set ps" for ps
    using dot [OF that] join_nonempty [OF _ that(1)] by (cases "ps = []") auto
  have "join ''/'' qs = join ''/'' qs' \<and> (qs = [] \<longleftrightarrow> qs' = [])"
    using assms(3) rr e [OF n(1,3)] e [OF n(2,4)] by (cases r; cases "qs = []"; cases "qs' = []") (simp_all add: render_def)
  moreover have "split_on CHR ''/'' (join ''/'' qs) = qs" if "qs \<noteq> []" using n(1) that by (intro split_join) auto
  moreover have "split_on CHR ''/'' (join ''/'' qs') = qs'" if "qs' \<noteq> []" using n(2) that by (intro split_join) auto
  ultimately have "qs = qs'" by (metis (no_types))
  with rr show ?thesis by simp
qed

section \<open>The process file\<close>

lemma path_clean_file:
  assumes "stack_ok r (rev qs)" "f \<noteq> []" "f \<noteq> ''.''" "f \<noteq> ''..''" "CHR ''/'' \<notin> set f"
  shows "path_clean (render r qs @ ''/'' @ f) = render r (qs @ [f])"
proof -
  have n: "\<forall>p \<in> set qs. p \<noteq> [] \<and> CHR ''/'' \<notin> set p" using stack_ok_names [OF assms(1)] by auto
  have f: "split_on CHR ''/'' f = [f]" using assms(5) by (rule split_on_none)
  have ids: "clean_parts r (qs @ [f]) [] = qs @ [f]" using assms by (intro clean_parts_id [of r "qs @ [f]" "[]", simplified]) auto
  have hd_join: "hd (join ''/'' qs @ ''/'' @ f) \<noteq> CHR ''/''" "join ''/'' qs \<noteq> []" if "qs \<noteq> []"
    using join_nonempty [OF that n] by (simp_all add: hd_append)
  have sp: "split_on CHR ''/'' (join ''/'' qs @ ''/'' @ f) = qs @ [f]" if "qs \<noteq> []"
    using split_on_cut [of "CHR ''/''" "join ''/'' qs" f] split_join [OF that] n f by simp
  have out: "join ''/'' (qs @ [f]) \<noteq> []" using join_nonempty [of "qs @ [f]"] n assms(2,5) by auto
  show ?thesis
  proof (cases "qs = []")
    case True
    then show ?thesis using assms(2-5) f ids by (cases r) (simp_all add: path_clean_def render_def Let_def)
  next
    case False
    with hd_join sp ids out show ?thesis by (cases r) (simp_all add: path_clean_def render_def Let_def)
  qed
qed

lemma pid_file_path_render:
  obtains r qs where "path_dir sp = render r qs" "stack_ok r (rev qs)" "pid_file_path sp = render r (qs @ [''omnid.pid''])"
    "stack_ok r (rev (qs @ [''omnid.pid'']))"
proof -
  obtain r qs where d: "path_dir sp = render r qs" "stack_ok r (rev qs)" unfolding path_dir_def using path_clean_render by blast
  have n: "\<forall>p \<in> set qs. p \<noteq> [] \<and> CHR ''/'' \<notin> set p" using stack_ok_names [OF d(2)] by auto
  have "render r qs \<noteq> []" using join_nonempty [OF _ n] by (auto simp: render_def)
  then have "pid_file_path sp = path_clean (render r qs @ ''/'' @ ''omnid.pid'')" by (simp add: pid_file_path_def path_join_def d(1))
  also have "\<dots> = render r (qs @ [''omnid.pid''])" using d(2) by (rule path_clean_file) simp_all
  finally show thesis using that d by simp
qed

text \<open>The process file is one per directory.\<close>

lemma pid_file_shared: "pid_file_path sp1 = pid_file_path sp2 \<longleftrightarrow> path_dir sp1 = path_dir sp2"
proof -
  obtain r qs where a: "path_dir sp1 = render r qs" "stack_ok r (rev qs)" "pid_file_path sp1 = render r (qs @ [''omnid.pid''])"
    "stack_ok r (rev (qs @ [''omnid.pid'']))" by (rule pid_file_path_render)
  obtain r' qs' where b: "path_dir sp2 = render r' qs'" "stack_ok r' (rev qs')" "pid_file_path sp2 = render r' (qs' @ [''omnid.pid''])"
    "stack_ok r' (rev (qs' @ [''omnid.pid'']))" by (rule pid_file_path_render)
  show ?thesis using render_inj [OF a(4) b(4)] render_inj [OF a(2) b(2)] by (auto simp: a(1,3) b(1,3))
qed

lemma atoi_show_nat:
  assumes "int n \<le> int64_max"
  shows "atoi (trim_space (show_nat n)) = Some (int n)"
proof -
  have d: "\<forall>c \<in> set (show_nat n). is_digit c" by (rule show_nat_digits)
  have "trim_space (show_nat n) = show_nat n"
    using d is_digit_plain show_nat_nonempty [of n] by (intro trim_space_plain) (simp add: hd_in_set last_in_set)
  moreover have "hd (show_nat n) \<notin> {CHR ''-'', CHR ''+''}"
    using bspec [OF d hd_in_set [OF show_nat_nonempty [of n]]] by (auto simp: is_digit_def)
  moreover have "list_all is_digit (show_nat n)" using d by (simp add: list_all_iff)
  ultimately show ?thesis using assms by (auto simp: atoi_def int64_max_def)
qed

lemma down_at_text:
  assumes "gm_get F (pid_file_path sp) = Some (show_nat n)" "int n \<le> int64_max"
  shows "down_at sp F stop = (if stop (int n) then Inr (int n) else Inl StopFailed)"
  using assms by (simp add: down_at_def cmd_down_def atoi_show_nat)

lemma down_at_none: "gm_get F (pid_file_path sp) = None \<Longrightarrow> down_at sp F stop = Inl NoDaemon"
  by (simp add: down_at_def cmd_down_def)

text \<open>C22: \<open>omnid down\<close> and the process file. While a daemon runs, \<open>down\<close> with its state file stops exactly its
  process, and once it has ended there is nothing to stop. A second daemon whose state file is in another
  directory changes nothing of this; one whose state file is in the same directory takes the process file
  over: \<open>down\<close> with the first daemon's state file stops the second one, and once that has ended the first
  one cannot be stopped any more.\<close>

theorem down_stops:
  assumes "int pid \<le> int64_max" "int pid2 \<le> int64_max"
    and "F1 = write_pid_file True sp1 pid F" "F2 = write_pid_file True sp2 pid2 F1"
  shows "down_at sp1 F1 stop = (if stop (int pid) then Inr (int pid) else Inl StopFailed) \<and>
    down_at sp1 (remove_pid_file True sp1 F1) stop = Inl NoDaemon \<and>
    (path_dir sp2 \<noteq> path_dir sp1 \<longrightarrow> down_at sp1 F2 stop = down_at sp1 F1 stop \<and>
      down_at sp1 (remove_pid_file True sp2 F2) stop = down_at sp1 F1 stop) \<and>
    (path_dir sp2 = path_dir sp1 \<longrightarrow>
      down_at sp1 F2 stop = (if stop (int pid2) then Inr (int pid2) else Inl StopFailed) \<and>
      down_at sp1 (remove_pid_file True sp2 F2) stop = Inl NoDaemon)"
proof -
  have get: "gm_get F1 (pid_file_path sp1) = Some (show_nat pid)" "gm_get F2 (pid_file_path sp2) = Some (show_nat pid2)"
    by (simp_all add: assms(3,4) write_pid_file_def gm_get_put)
  have other: "gm_get F2 (pid_file_path sp1) = Some (show_nat pid)"
      "gm_get (remove_pid_file True sp2 F2) (pid_file_path sp1) = Some (show_nat pid)" if "path_dir sp2 \<noteq> path_dir sp1"
    using that pid_file_shared [of sp1 sp2] get by (auto simp: assms(4) write_pid_file_def remove_pid_file_def gm_get_put gm_get_del)
  have gone: "gm_get (remove_pid_file True sp F) (pid_file_path sp) = None" for sp F
    by (simp add: remove_pid_file_def gm_get_del)
  have same: "pid_file_path sp1 = pid_file_path sp2" if "path_dir sp2 = path_dir sp1" using that pid_file_shared by metis
  note run = down_at_text [OF get(1) assms(1)]
  have "down_at sp1 F2 stop = down_at sp1 F1 stop \<and> down_at sp1 (remove_pid_file True sp2 F2) stop = down_at sp1 F1 stop"
    if "path_dir sp2 \<noteq> path_dir sp1"
    using down_at_text [OF other(1) assms(1)] down_at_text [OF other(2) assms(1)] that by (simp add: run)
  moreover have "down_at sp1 F2 stop = (if stop (int pid2) then Inr (int pid2) else Inl StopFailed) \<and>
      down_at sp1 (remove_pid_file True sp2 F2) stop = Inl NoDaemon" if "path_dir sp2 = path_dir sp1"
    using same [OF that] get(2) gone [of sp2] assms(2) by (simp add: down_at_text down_at_none)
  ultimately show ?thesis using run down_at_none [OF gone] by blast
qed

theorem down_stops_witness:
  "\<exists>F2. down_at ''/var/lib/omniup/home.json'' F2 (\<lambda>n. True) = Inr 4242 \<and>
     gm_get F2 (pid_file_path ''/var/lib/omniup/home.json'') = Some ''4242''"
proof -
  have "path_dir ''/var/lib/omniup/work.json'' = path_dir ''/var/lib/omniup/home.json''"
    by (simp add: path_dir_def path_clean_def compute)
  moreover have b: "int 17 \<le> int64_max" "int 4242 \<le> int64_max" by (simp_all add: int64_max_def)
  moreover have "show_nat 4242 = ''4242''" by (simp add: compute)
  ultimately show ?thesis
    using down_stops [of 17 4242 _ "''/var/lib/omniup/home.json''" "[]" _ "''/var/lib/omniup/work.json''" "\<lambda>n. True",
        OF b refl refl]
      pid_file_shared [of "''/var/lib/omniup/home.json''" "''/var/lib/omniup/work.json''"]
    by (intro exI [of _ "write_pid_file True ''/var/lib/omniup/work.json'' 4242 (write_pid_file True ''/var/lib/omniup/home.json'' 17 [])"])
      (simp add: write_pid_file_def gm_get_put)
qed

section \<open>The service's life\<close>

fun decisive :: "svc_event \<Rightarrow> bool" where
  "decisive (AgentEnded failed) \<longleftrightarrow> True"
| "decisive (Request c) \<longleftrightarrow> c = StopService \<or> c = Shutdown"

fun is_end :: "svc_event \<Rightarrow> bool" where
  "is_end (AgentEnded failed) \<longleftrightarrow> True"
| "is_end (Request c) \<longleftrightarrow> False"

text \<open>The contract: what the events that count leave, and the statuses reported on the way.\<close>

fun phase_of :: "svc_event list \<Rightarrow> svc_phase" where
  "phase_of [] = Serving"
| "phase_of (AgentEnded failed # es) = Returned (if failed then 1 else 0)"
| "phase_of (Request c # es) = (if list_ex is_end es then Returned 0 else Stopping)"

fun own_statuses :: "status_sent list \<Rightarrow> (svc_state \<times> bool) list" where
  "own_statuses [] = []"
| "own_statuses (Own st accepts # ss) = (st, accepts) # own_statuses ss"
| "own_statuses (Echo st # ss) = own_statuses ss"

lemma own_statuses_append [simp]: "own_statuses (xs @ ys) = own_statuses xs @ own_statuses ys"
  by (induction xs rule: own_statuses.induct) auto

fun reported :: "svc_event list \<Rightarrow> svc_phase \<Rightarrow> (svc_state \<times> bool) list" where
  "reported es Serving = []"
| "reported es Stopping = [(StopPending, False)]"
| "reported es (Returned n) = (if is_end (hd es) then [] else [(StopPending, False)]) @ [(Stopped, False)]"

lemma phase_of_snoc: "decisive e \<Longrightarrow> phase_of (es @ [e]) =
    (case phase_of es of
       Serving \<Rightarrow> (case e of AgentEnded failed \<Rightarrow> Returned (if failed then 1 else 0) | Request c \<Rightarrow> Stopping)
     | Stopping \<Rightarrow> (if is_end e then Returned 0 else Stopping)
     | Returned n \<Rightarrow> Returned n)"
  by (cases es rule: phase_of.cases; cases e) auto

lemma phase_serving: "phase_of es = Serving \<longleftrightarrow> es = []"
  by (cases es rule: phase_of.cases) auto

lemma execute_snoc: "execute (es @ [e]) = execute_step e (execute es)"
  by (simp add: execute_def)


section \<open>The end of a removal\<close>

lemma wait_stopped_bound:
  "i < length ts \<Longrightarrow> deadline \<le> fst (ts ! i) \<Longrightarrow> \<exists>n \<le> i. wait_stopped deadline st ts = Some n"
proof (induction deadline st ts arbitrary: i rule: wait_stopped.induct)
  case (2 deadline st now q ts)
  show ?case
  proof (cases "(st = Stopped \<or> \<not> now < deadline) \<or> q = None")
    case True
    then show ?thesis using "2.prems" by (cases i) auto
  next
    case False
    then obtain st' where q: "q = Some st'" "\<not> (st = Stopped \<or> \<not> now < deadline)" by auto
    then obtain j where j: "i = Suc j" using "2.prems" by (cases i) auto
    then have "\<exists>n \<le> j. wait_stopped deadline st' ts = Some n" using "2.prems" "2.IH" [OF q(2,1), of j] by simp
    then obtain n where "n \<le> j" "wait_stopped deadline st' ts = Some n" by blast
    then show ?thesis using j q by (intro exI [of _ "Suc n"]) simp
  qed
qed simp

text \<open>The removal of the service ends. Whatever the service answers, when every pause lasts at least its 300
  milliseconds the program asks at most 34 times before it goes on to the deletion, and the outcome is
  that of the deletion alone: a service that never stops, or whose state cannot be read, is deleted too.\<close>

theorem uninstall_returns:
  assumes "35 \<le> length (un_turns v)" "\<forall>i < length (un_turns v). un_time v + int i * stop_pause \<le> fst (un_turns v ! i)"
  shows "(\<forall>st. \<exists>n \<le> 34. wait_stopped (un_time v + stop_wait) st (un_turns v) = Some n) \<and>
    service_uninstall v sc = Some (
      if un_manager v \<and> sc \<noteq> None \<and> un_delete v then (None, Inr ())
      else (sc, Inl (if \<not> un_manager v then NoManager else if sc = None then NoSuchService else DeleteRefused)))"
proof -
  have "un_time v + 34 * stop_pause \<le> fst (un_turns v ! 34)" using assms(2) [rule_format, of 34] assms(1) by simp
  then have "un_time v + stop_wait \<le> fst (un_turns v ! 34)" by (simp add: stop_wait_def stop_pause_def second_def)
  then have w: "\<exists>n \<le> 34. wait_stopped (un_time v + stop_wait) st (un_turns v) = Some n" for st
    using assms(1) by (intro wait_stopped_bound) simp_all
  then obtain n where "(case un_stop v of None \<Rightarrow> Some 0 | Some st \<Rightarrow> wait_stopped (un_time v + stop_wait) st (un_turns v)) = Some n"
    by (cases "un_stop v") auto
  with w show ?thesis by (auto simp: service_uninstall_def)
qed

theorem uninstall_returns_witness:
  "service_uninstall \<lparr>un_manager = True, un_stop = Some StopPending, un_time = 0,
       un_turns = map (\<lambda>i. (int i * stop_pause, Some StopPending)) [0..<35], un_delete = True\<rparr>
     (Some \<lparr>sc_args = [''service'', ''run''], sc_started = True\<rparr>) = Some (None, Inr ())"
  by (subst uninstall_returns [THEN conjunct2]) (simp_all del: upt_Suc)

end
