(* ===== verification/Tray.thy ===== *)
theory Tray
  imports Cli_Props
begin

text \<open>
  The tray icon as a running program (\<open>cmd/omnid-gui/main.go\<close>): the menu it allocates once, its loop of
  timer ticks and clicks, and what a rendering leaves in the menu. \<open>Cli\<close> has the view that an update
  computes; the menu library is the menu's entries, and the browser is the command that starts it.
\<close>

section \<open>The menu\<close>

record tray =
  tr_connected :: bool
  tr_tooltip :: string
  tr_self :: string
  tr_items :: "(string \<times> bool) list"
  tr_state :: "agent_state option"
  tr_commands :: "string list list"
  tr_quit :: bool

text \<open>\<open>onReady\<close>: the entries of the peers exist from the start, hidden.\<close>

definition tray_ready :: tray where
  "tray_ready = \<lparr>tr_connected = False, tr_tooltip = ''OmniUp VPN'', tr_self = ''Chargement'' @ utf8 [0xE2, 0x80, 0xA6],
     tr_items = replicate max_peer_items ([], False), tr_state = None, tr_commands = [], tr_quit = False\<rparr>"

text \<open>An entry without a peer is hidden and keeps its title.\<close>

fun fill_items :: "string list \<Rightarrow> (string \<times> bool) list \<Rightarrow> (string \<times> bool) list" where
  "fill_items vs [] = []"
| "fill_items [] ((t, shown) # is) = (t, False) # fill_items [] is"
| "fill_items (v # vs) ((t, shown) # is) = (v, True) # fill_items vs is"

definition tray_render :: "tray_view \<Rightarrow> tray \<Rightarrow> tray" where
  "tray_render v x = x\<lparr>tr_connected := tv_connected v, tr_tooltip := tv_title v, tr_self := tv_self v,
     tr_items := fill_items (tv_peers v) (tr_items x)\<rparr>"

definition open_browser :: "os \<Rightarrow> string \<Rightarrow> string list" where
  "open_browser os url =
     (case os of
        Darwin \<Rightarrow> [''open'', url]
      | Windows \<Rightarrow> [''rundll32'', ''url.dll,FileProtocolHandler'', url]
      | OtherOS \<Rightarrow> [''xdg-open'', url])"

section \<open>The loop\<close>

text \<open>What an update meets.\<close>

record tray_env =
  te_keys :: wgkeys
  te_path :: string
  te_readable :: bool
  te_files :: "agent_state fs"
  te_uapi :: "string \<Rightarrow> string option"
  te_send :: transport
  te_request :: http_request

definition env_update :: "tray_env \<Rightarrow> agent_state option \<Rightarrow> agent_state option \<times> tray_view" where
  "env_update e = tray_update (te_keys e) (te_path e) (te_readable e) (te_files e) (te_uapi e) (te_send e) (te_request e)"

definition tray_refresh :: "tray_env \<Rightarrow> tray \<Rightarrow> tray" where
  "tray_refresh e x = (let (st, v) = env_update e (tr_state x) in tray_render v (x\<lparr>tr_state := st\<rparr>))"

datatype tray_event = TimerTick tray_env | RefreshClicked tray_env | PortalClicked | QuitClicked

definition tray_portal :: "os \<Rightarrow> tray \<Rightarrow> tray" where
  "tray_portal os x =
     (case tr_state x of
        None \<Rightarrow> x
      | Some st \<Rightarrow>
          if as_server_url st = [] then x
          else x\<lparr>tr_commands := tr_commands x @ [open_browser os (as_server_url st @ ''/portal'')]\<rparr>)"

fun tray_step :: "os \<Rightarrow> tray_event \<Rightarrow> tray \<Rightarrow> tray" where
  "tray_step os (TimerTick e) x = (if tr_quit x then x else tray_refresh e x)"
| "tray_step os (RefreshClicked e) x = (if tr_quit x then x else tray_refresh e x)"
| "tray_step os PortalClicked x = (if tr_quit x then x else tray_portal os x)"
| "tray_step os QuitClicked x = x\<lparr>tr_quit := True\<rparr>"

definition tray_start :: "tray_env \<Rightarrow> tray" where
  "tray_start e = tray_refresh e tray_ready"

section \<open>What the menu shows\<close>

lemma fill_length [simp]: "length (fill_items vs is) = length is"
  by (induction vs "is" rule: fill_items.induct) auto

lemma fill_hidden: "filter snd (fill_items [] is) = []"
  by (induction "is") auto

lemma fill_shown: "map fst (filter snd (fill_items vs is)) = take (length is) vs"
  by (induction vs "is" rule: fill_items.induct) (auto simp: fill_hidden)

definition tray_inv :: "tray \<Rightarrow> bool" where
  "tray_inv x \<longleftrightarrow> length (tr_items x) = max_peer_items \<and>
     (\<exists>v. tr_connected x = tv_connected v \<and> tr_tooltip x = tv_title v \<and> tr_self x = tv_self v \<and>
       map fst (filter snd (tr_items x)) = render_items v)"

lemma refresh_shows:
  assumes "length (tr_items x) = max_peer_items" "env_update e (tr_state x) = (st, v)"
  shows "tr_connected (tray_refresh e x) = tv_connected v" "tr_tooltip (tray_refresh e x) = tv_title v"
    "tr_self (tray_refresh e x) = tv_self v" "tr_state (tray_refresh e x) = st"
    "map fst (filter snd (tr_items (tray_refresh e x))) = render_items v"
    "length (tr_items (tray_refresh e x)) = max_peer_items" "tr_quit (tray_refresh e x) = tr_quit x"
  using assms by (simp_all add: tray_refresh_def tray_render_def render_items_def fill_shown)

lemma refresh_inv: "length (tr_items x) = max_peer_items \<Longrightarrow> tray_inv (tray_refresh e x)"
  using refresh_shows [of x e] by (cases "env_update e (tr_state x)") (auto simp: tray_inv_def)

lemma portal_same: "tr_items (tray_portal os x) = tr_items x" "tr_connected (tray_portal os x) = tr_connected x"
  "tr_tooltip (tray_portal os x) = tr_tooltip x" "tr_self (tray_portal os x) = tr_self x"
  by (simp_all add: tray_portal_def split: option.split)

interpretation tray_machine: invariant_machine "\<lambda>x. \<exists>e. x = tray_start e" "tray_step os" "\<lambda>_ _. True" tray_inv for os
proof unfold_locales
  show "tray_inv x" if "\<exists>e. x = tray_start e" for x
    using that refresh_inv by (auto simp: tray_start_def tray_ready_def)
  show "tray_inv (tray_step os ev x)" if "tray_inv x" for ev x
    using that refresh_inv by (cases ev) (auto simp: tray_inv_def portal_same)
qed

text \<open>The menu in every state of the program: it always shows a view that some update computed, in 64 entries.
  After an update with a map, the tooltip counts all the peers of the map, and the menu lists the first
  64 of them in the order of their addresses, however many there are; the icon is the connected one even
  when no peer is there.\<close>

theorem tray_menu:
  assumes "reach (tray_step os) (\<lambda>_ _. True) (tray_start e0) x" "\<not> tr_quit x"
    and "load_state (te_path e) (te_readable e) (te_files e) = Inr (Some st)"
    and "query_status (te_keys e) (te_uapi e (as_iface st)) \<noteq> None"
    and "status_poll (te_send e) (te_request e) st = Inr nm"
    and "y = tray_step os (TimerTick e) x"
  shows "tray_inv x \<and> tr_connected y \<and> tr_state y = Some st \<and>
    tr_tooltip y = brand @ ''connect'' @ e_acute @ '' '' @ utf8 [0xC2, 0xB7] @ '' '' @
      show_nat (length (filter pe_online (nm_peers nm))) @ ''/'' @ show_nat (length (nm_peers nm)) @ '' pair(s) en ligne'' \<and>
    map fst (filter snd (tr_items y)) =
      (if nm_peers nm = [] then [''Aucun autre pair sur le r'' @ e_acute @ ''seau'']
       else map peer_line (take 64 (sort_key pe_ip (nm_peers nm))))"
proof -
  have inv: "tray_inv x" using tray_machine.reach_inv [OF assms(1)] by blast
  then have len: "length (tr_items x) = max_peer_items" by (simp add: tray_inv_def)
  have up: "env_update e (tr_state x) = (Some st, build_view (pe_hostname (nm_self nm)) (as_ip st) True (Some nm))"
    using assms(3-5) by (simp add: env_update_def tray_update_def)
  have y: "y = tray_refresh e x" using assms(2,6) by simp
  have on: "length (filter pe_online (sort_key pe_ip (nm_peers nm))) = length (filter pe_online (nm_peers nm))"
    by (simp add: filter_sort)
  have "sort_key pe_ip (nm_peers nm) = [] \<longleftrightarrow> nm_peers nm = []" by (metis length_0_conv length_sort)
  then show ?thesis using inv refresh_shows [OF len up] on
    by (simp add: y build_view_def Let_def render_items_def max_peer_items_def take_map)
qed

end
