(* ===== verification/Spec2Isabelle.thy ===== *)
theory Spec2Isabelle
  imports Store_Props Api_Props Api_Types Stun Dnssrv Relay_Props Omnisock_Props Wgnet_Props Endpoints_Spec Agent_Enrol
    Sysnet_Props Daemon_Props Tray
begin

text \<open>
  OmniUp VPN: a mesh VPN over WireGuard. A coordination server (\<open>cmd/omni-server\<close>, \<open>internal/control\<close>)
  keeps the machines of a network, gives them addresses and tokens and tells each one its peers; an
  agent on every machine (\<open>cmd/omnid\<close>, \<open>internal/agent\<close>) polls it every ten seconds, configures a
  userspace WireGuard engine (\<open>internal/wgnet\<close>) and carries its packets over one UDP socket
  (\<open>internal/omnisock\<close>) that also finds its public address (\<open>internal/stun\<close>), probes the paths to its
  peers and falls back to an authenticated relay (\<open>internal/relay\<close>); it answers names of the network
  (\<open>internal/dnssrv\<close>). The development models these parts in Isabelle and proves what makes each of
  them, and their composition, correct.

  \<^bold>\<open>How the code is read.\<close> A Go map is an association list without duplicate keys (\<open>gomap\<close> of \<open>Prelude\<close>),
  an instant is its nanoseconds since Go's zero time, a difference of instants saturates as
  \<open>Time.Sub\<close> does (\<open>time_sub\<close>), a string is the list of its bytes, an error return is \<open>Inl\<close>. The mutexes
  make each handler, each cycle of the agent, each round of probes and each datagram one piece of time:
  it is a function from the state before to the state after, and an interleaving is a list of them
  (\<open>reach\<close> of \<open>Prelude\<close>). The callback of the single sign-on, which talks to the provider between two
  critical sections, is split there. What the environment decides at a step (clock, random bytes, the
  call of a save that fails) is an argument of the step.

  \<^bold>\<open>Parameters.\<close> Code outside the repository is an argument of the definitions that use it: bcrypt, the
  Unicode case tables, X25519 (\<open>curve\<close>), WireGuard's key text (\<open>wgkeys\<close>), the OAuth and OpenID
  libraries (\<open>idp\<close>), the WireGuard engine (which texts it accepts, its status), the resolver, the
  operating system's network (\<open>system\<close> of \<open>Sysnet\<close>) and service manager. What a property needs of them
  is a hypothesis of it, and its witness instantiates them. SHA-256, HMAC, Base64, hexadecimal, IP
  addresses and prefixes, and the parts of the standard library that are used are computed.
\<close>

text \<open>
  \<^bold>\<open>Theories, in the order of the code.\<close>

  \<^item> \<open>Prelude\<close>, \<open>Go_Strings\<close>, \<open>Netip\<close>, \<open>Bytes\<close>: maps, instants, machines, the standard library's strings
    and addresses; \<open>Filesys\<close>: the atomic save (temporary file, write, rename) with the states a crash
    can leave.
  \<^item> \<open>Store_Types\<close>, \<open>Acl\<close>, \<open>Store\<close>, \<open>Users\<close> (\<open>control/store.go\<close>, \<open>acl.go\<close>, \<open>users.go\<close>): the state file, one
    definition per operation. \<open>Store_Facts\<close> and \<open>Store_Machine\<close> prove the invariant of the state and that
    every operation keeps it; \<open>Store_Demo\<close> is a concrete store for the witnesses; \<open>Store_Props\<close> has the
    properties: addresses and tokens are unique, a key is consumed once, revocation, rotation, routes and
    policy, crash atomicity and durability of what was acknowledged.
  \<^item> \<open>Wire\<close>, \<open>Gate\<close>, \<open>Server\<close>, \<open>Users_Http\<close>, \<open>Oidc\<close>, \<open>Api\<close> (\<open>internal/types\<close>, \<open>control/server.go\<close>,
    \<open>users_http.go\<close>, \<open>oidc.go\<close>): the messages, the three gates, a definition per handler and the routing
    (\<open>api_request\<close>). \<open>Api_Props\<close>: authorisation, the invariant of the server, the network map, the
    portal, the single sign-on. \<open>Api_Types\<close>: every route answers in its own shape.
  \<^item> \<open>Stun\<close> and \<open>Dnssrv\<close>: the codec, the server loop and the round trip; the table of names and its answers.
  \<^item> \<open>Sha256\<close>, \<open>Base64\<close>, \<open>Relay\<close>, \<open>Relay_Props\<close> (\<open>relay/relay.go\<close>, \<open>server.go\<close>): frames, proofs of
    possession, the server's tables; packets are delivered only from and to keys whose owner proved
    them, and an honest handshake succeeds.
  \<^item> \<open>Omnisock\<close>, \<open>Omnisock_Props\<close> (\<open>omnisock/disco.go\<close>, \<open>bind.go\<close>): the socket shared by the engine, STUN,
    the probes and the relay; what it answers is bounded, and a packet through the relay arrives.
  \<^item> \<open>Wgnet\<close>, \<open>Wgnet_Props\<close> (\<open>wgnet/wgnet.go\<close>, \<open>uapi_client.go\<close>): the engine's configuration text, the
    routes of the system, the status text.
  \<^item> \<open>Sysnet\<close>, \<open>Sysnet_Props\<close> (\<open>wgnet/addr_*\<close>, \<open>routes_*\<close>, \<open>exitnode_*\<close>, \<open>agent/forward_*\<close>): the calls of each
    operating system, what a start that fails in the middle leaves behind, and what repeated starts add.
  \<^item> \<open>Endpoints\<close>, \<open>Endpoints_Props\<close>, \<open>Endpoints_Spec\<close> (\<open>agent/endpoints.go\<close>): the manager of the paths;
    it refines one small machine per peer.
  \<^item> \<open>Agent\<close>, \<open>Agent_Props\<close>, \<open>Agent_Life\<close>, \<open>Agent_Enrol\<close> (\<open>agent/agent.go\<close>, \<open>client.go\<close>, \<open>state.go\<close>): the
    client, the start, the cycle and the saved identity, against the server of \<open>Api\<close> as its network:
    the token stays current, the identity survives every event and restart, enrolment ends.
    \<open>ag_log\<close> is a history the code does not have; nothing reads it.
  \<^item> \<open>Cli\<close>, \<open>Cli_Props\<close> (\<open>cmd/omni-server\<close>, \<open>cmd/omnid\<close>, \<open>cmd/omnid-gui\<close>): each command on flags already
    read, composed with the server; \<open>Daemon\<close>, \<open>Daemon_Props\<close>: the process file and the Windows service;
    \<open>Tray\<close>: the menu of the tray icon, always showing a view that an update computed.
\<close>

text \<open>
  \<^bold>\<open>Interfaces.\<close> \<open>finite_map\<close> of \<open>Prelude\<close> is the contract of Go maps, interpreted by the association lists;
  \<open>invariant_machine\<close> is the rule an invariant of a running component goes through, interpreted by the store,
  the server, the endpoint manager, the agent and the tray icon; \<open>atomic_file\<close> is what the callers of a save rely on,
  interpreted by the save of \<open>Filesys\<close>; \<open>auth_gate\<close> is what a guarded handler relies on, interpreted by the
  three gates; \<open>codec\<close> and \<open>tagged_codec\<close> are the round trips of the wire formats, interpreted by the
  frames of STUN, of the probes and of the relay.

  \<^bold>\<open>Bounds.\<close> The relay reads 2048 bytes of a datagram (\<open>max_packet\<close>), labels of names are cut at 63 bytes,
  allocation and the other loops of the code are total functions with a measure. The only lists that can be
  too short are the ticks of an enrolment in a browser (the model then says that the user gave up; with
  one tick fifteen minutes after the session was opened the loop has returned) and the turns of the
  service's removal (35 turns of 300 milliseconds are enough for its ten seconds).

  \<^bold>\<open>Not modelled.\<close> The two embedded web pages (\<open>webui.go\<close>: static files). Socket marks and the path of the
  control socket (\<open>mark_*\<close>, \<open>markdial_*\<close>, \<open>uapi_unix.go\<close>, \<open>uapi_windows.go\<close>): one system call each, without a
  decision. Parsing of flags, usage texts, the layout of printed tables, log lines and HTTP headers other
  than the session cookie. The goroutine that serves the control socket and the images of the
  tray icon: calls of libraries. JSON is the identity on the records of \<open>Wire\<close>, with \<open>omitempty\<close> written
  out where the server can tell the difference.
\<close>

end
